(* ===== verification/Prelude.thy ===== *)
theory Prelude
  imports Main "HOL-Library.AList" "HOL-Library.List_Lexorder" "HOL-Library.Char_ord"
begin

section \<open>Shared automation, Go maps and Go results\<close>

text \<open>
  What every component shares: the collections of simplification rules the component
  proofs draw on, Go's built-in \<^verbatim>\<open>map\<close> type as an association list (a lookup is
  \<^const>\<open>map_of\<close>, assignment and \<^verbatim>\<open>delete\<close> are \<^const>\<open>AList.update\<close> and
  \<^const>\<open>AList.delete\<close>, \<^verbatim>\<open>range\<close> visits the list), and the shape of a Go
  call that returns \<^verbatim>\<open>(value, error)\<close>.
\<close>

named_theorems path_simps \<open>rewrite rules for component lists and cleaned paths\<close>
named_theorems store_simps \<open>unfolding rules of the metadata store model\<close>
named_theorems engine_defs \<open>definitions of the engine operations\<close>
named_theorems handler_defs \<open>definitions of the HTTP handlers\<close>

subsection \<open>Types\<close>

text \<open>
  Byte strings are HOL strings (a \<^typ>\<open>char\<close> is one byte). \<^verbatim>\<open>time.Time\<close> and
  \<^verbatim>\<open>time.Duration\<close> are nanosecond counts; \<^verbatim>\<open>0\<close> is Go's zero time.
\<close>

type_synonym gotime = int
type_synonym duration = int
type_synonym bytes = string
type_synonym ('k, 'v) gomap = "('k \<times> 'v) list"

abbreviation second :: duration where
  "second \<equiv> 1000000000"

abbreviation minute :: duration where
  "minute \<equiv> 60 * second"

text \<open>\<^verbatim>\<open>time.Time.After\<close>, \<^verbatim>\<open>Before\<close> and \<^verbatim>\<open>IsZero\<close>.\<close>

definition After :: "gotime \<Rightarrow> gotime \<Rightarrow> bool" where
  "After t u = (u < t)"

definition Before :: "gotime \<Rightarrow> gotime \<Rightarrow> bool" where
  "Before t u = (t < u)"

definition IsZero :: "gotime \<Rightarrow> bool" where
  "IsZero t = (t = 0)"

lemmas time_simps = After_def Before_def IsZero_def

subsection \<open>Association lists as Go maps\<close>

text \<open>Every key occurs once: the invariant of a Go map.\<close>

definition gomap_ok :: "('k, 'v) gomap \<Rightarrow> bool" where
  "gomap_ok m = distinct (map fst m)"

lemma gomap_ok_Nil [simp, intro]: "gomap_ok []"
  by (simp add: gomap_ok_def)

lemma gomap_ok_update [simp, intro]: "gomap_ok m \<Longrightarrow> gomap_ok (AList.update k v m)"
  by (simp add: gomap_ok_def distinct_update)

lemma gomap_ok_delete [simp, intro]: "gomap_ok m \<Longrightarrow> gomap_ok (AList.delete k m)"
  by (simp add: gomap_ok_def distinct_delete)

lemma gomap_ok_filter [simp, intro]: "gomap_ok m \<Longrightarrow> gomap_ok (filter P m)"
  by (auto simp: gomap_ok_def distinct_map intro: inj_on_subset)

lemma map_of_update_gomap [simp]: "map_of (AList.update k v m) = (map_of m)(k \<mapsto> v)"
  by (rule update_conv')

lemma map_of_delete_gomap [simp]: "map_of (AList.delete k m) = (map_of m)(k := None)"
  by (rule delete_conv')

lemma map_of_in_set: "gomap_ok m \<Longrightarrow> map_of m k = Some v \<longleftrightarrow> (k, v) \<in> set m"
  by (simp add: gomap_ok_def)

lemma map_of_filter:
  assumes "gomap_ok m"
  shows "map_of (filter P m) k =
    (case map_of m k of None \<Rightarrow> None | Some v \<Rightarrow> if P (k, v) then Some v else None)"
  using assms
proof (induction m)
  case Nil
  then show ?case by simp
next
  case (Cons kv m)
  obtain k' v' where kv: "kv = (k', v')" by (cases kv)
  from Cons.prems have ok: "gomap_ok m" and fresh: "k' \<notin> fst ` set m"
    by (auto simp: gomap_ok_def kv)
  then have none: "map_of m k' = None" by (simp add: map_of_eq_None_iff)
  show ?case
    using Cons.IH [OF ok] none by (auto simp: kv split: option.splits)
qed

lemma length_filter_split:
  "length (filter P xs) + length (filter (\<lambda>x. \<not> P x) xs) = length xs"
  by (induction xs) auto

lemma length_update_le: "length (AList.update k v m) \<le> Suc (length m)"
  by (induction m) auto

lemma length_update_mem: "k \<in> fst ` set m \<Longrightarrow> length (AList.update k v m) = length m"
  by (induction m) auto

lemma length_delete_mem: "k \<in> fst ` set m \<Longrightarrow> length (AList.delete k m) < length m"
  by (force simp: AList.delete_eq intro: length_filter_less)

lemma length_delete_le: "length (AList.delete k m) \<le> length m"
  by (simp add: AList.delete_eq)

subsection \<open>Results of Go calls\<close>

text \<open>\<^verbatim>\<open>err == nil\<close> on a result.\<close>

definition is_ok :: "'e + 'a \<Rightarrow> bool" where
  "is_ok r = (case r of Inl _ \<Rightarrow> False | Inr _ \<Rightarrow> True)"

lemma is_ok_simps [simp]: "is_ok (Inr x)" "\<not> is_ok (Inl e)"
  by (simp_all add: is_ok_def)

lemma is_ok_iff: "is_ok r \<longleftrightarrow> (\<exists>x. r = Inr x)"
  by (cases r) auto

end
