(* ===== verification/GoStrings.thy ===== *)
theory GoStrings
  imports Prelude
begin

section \<open>The parts of Go's standard library on strings\<close>

text \<open>
  The functions of the packages \<^verbatim>\<open>strings\<close>, \<^verbatim>\<open>strconv\<close> and
  \<^verbatim>\<open>unicode/utf8\<close> that the program calls, on byte strings. \<^verbatim>\<open>ToLower\<close>
  is modelled on ASCII letters. A negative result of \<open>LastIndex\<close> is Go's \<^verbatim>\<open>-1\<close>.
\<close>

subsection \<open>Prefixes, suffixes, searching\<close>

definition HasPrefix :: "string \<Rightarrow> string \<Rightarrow> bool" where
  "HasPrefix s p = (take (length p) s = p)"

definition TrimPrefix :: "string \<Rightarrow> string \<Rightarrow> string" where
  "TrimPrefix s p = (if HasPrefix s p then drop (length p) s else s)"

definition HasSuffix :: "string \<Rightarrow> string \<Rightarrow> bool" where
  "HasSuffix s p = HasPrefix (rev s) (rev p)"

definition TrimSuffix :: "string \<Rightarrow> string \<Rightarrow> string" where
  "TrimSuffix s p = (if HasSuffix s p then take (length s - length p) s else s)"

fun Contains :: "string \<Rightarrow> string \<Rightarrow> bool" where
  "Contains [] p = (p = [])"
| "Contains (c # s) p = (HasPrefix (c # s) p \<or> Contains s p)"

text \<open>\<^verbatim>\<open>strings.Index\<close> and \<^verbatim>\<open>LastIndex\<close> for a one-byte needle.\<close>

definition IndexByte :: "string \<Rightarrow> char \<Rightarrow> int" where
  "IndexByte s c = (if c \<in> set s then int (length (takeWhile (\<lambda>x. x \<noteq> c) s)) else -1)"

definition LastIndex :: "string \<Rightarrow> char \<Rightarrow> int" where
  "LastIndex s c =
     (if c \<in> set s then int (length s) - 1 - int (length (takeWhile (\<lambda>x. x \<noteq> c) (rev s))) else -1)"

definition TrimRight :: "string \<Rightarrow> char \<Rightarrow> string" where
  "TrimRight s c = rev (dropWhile (\<lambda>x. x = c) (rev s))"

definition TrimLeft :: "string \<Rightarrow> char \<Rightarrow> string" where
  "TrimLeft s c = dropWhile (\<lambda>x. x = c) s"

fun SplitOn :: "char \<Rightarrow> string \<Rightarrow> string list" where
  "SplitOn c [] = [[]]"
| "SplitOn c (x # xs) =
     (if x = c then [] # SplitOn c xs
      else (case SplitOn c xs of [] \<Rightarrow> [[x]] | y # ys \<Rightarrow> (x # y) # ys))"

fun JoinWith :: "char \<Rightarrow> string list \<Rightarrow> string" where
  "JoinWith c [] = []"
| "JoinWith c [x] = x"
| "JoinWith c (x # y # zs) = x @ c # JoinWith c (y # zs)"

lemma HasPrefix_append [simp]: "HasPrefix (p @ s) p"
  by (simp add: HasPrefix_def)

lemma HasPrefix_iff: "HasPrefix s p \<longleftrightarrow> (\<exists>r. s = p @ r)"
  unfolding HasPrefix_def by (metis append_eq_conv_conj append_take_drop_id)

lemma HasPrefix_Nil [simp]: "HasPrefix s []"
  by (simp add: HasPrefix_def)

lemma HasPrefix_Cons [simp]: "HasPrefix (x # s) (y # p) \<longleftrightarrow> x = y \<and> HasPrefix s p"
  by (auto simp: HasPrefix_def)

lemma HasPrefix_empty [simp]: "HasPrefix [] p \<longleftrightarrow> p = []"
  by (auto simp: HasPrefix_def)

lemma TrimPrefix_append [simp]: "TrimPrefix (p @ s) p = s"
  by (simp add: TrimPrefix_def)

lemma TrimPrefix_Cons1 [simp]: "TrimPrefix (x # s) [y] = (if x = y then s else x # s)"
  by (simp add: TrimPrefix_def)

lemma TrimPrefix_Nil [simp]: "TrimPrefix [] p = []"
  by (simp add: TrimPrefix_def)

lemma HasSuffix_append [simp]: "HasSuffix (s @ p) p"
  by (simp add: HasSuffix_def HasPrefix_def)

lemma HasSuffix_iff: "HasSuffix s p \<longleftrightarrow> (\<exists>r. s = r @ p)"
  unfolding HasSuffix_def HasPrefix_iff by (metis rev_append rev_rev_ident)

lemma TrimSuffix_append [simp]: "TrimSuffix (s @ p) p = s"
  by (simp add: TrimSuffix_def)

lemma TrimSuffix_no: "\<not> HasSuffix s p \<Longrightarrow> TrimSuffix s p = s"
  by (simp add: TrimSuffix_def)

lemma Contains_iff: "Contains s p \<longleftrightarrow> (\<exists>u v. s = u @ p @ v)"
proof (induction s)
  case Nil
  then show ?case by auto
next
  case (Cons c s)
  note IH = Cons.IH
  show ?case
  proof
    assume "Contains (c # s) p"
    then consider "HasPrefix (c # s) p" | "Contains s p" by auto
    then show "\<exists>u v. c # s = u @ p @ v"
    proof cases
      case 1
      then show ?thesis by (metis HasPrefix_iff append_Nil)
    next
      case 2
      then show ?thesis using Cons.IH by (metis append_Cons)
    qed
  next
    assume "\<exists>u v. c # s = u @ p @ v"
    then obtain u v where uv: "c # s = u @ p @ v" by blast
    show "Contains (c # s) p"
    proof (cases u)
      case Nil
      with uv have "HasPrefix (c # s) p" by (auto simp: HasPrefix_iff)
      then show ?thesis by simp
    next
      case (Cons d u')
      with uv have "s = u' @ p @ v" by simp
      then show ?thesis using IH by auto
    qed
  qed
qed

lemma Contains_single [simp]: "Contains s [c] \<longleftrightarrow> c \<in> set s"
  unfolding Contains_iff by (metis in_set_conv_decomp append_Cons append_Nil)

lemma SplitOn_not_Nil [simp]: "SplitOn c s \<noteq> []"
  by (cases s) (auto split: list.splits)

lemma JoinWith_Cons: "xs \<noteq> [] \<Longrightarrow> JoinWith c (x # xs) = x @ c # JoinWith c xs"
  by (cases xs) auto

lemma JoinWith_cons_head: "JoinWith c ((x # y) # ys) = x # JoinWith c (y # ys)"
  by (cases ys) auto

lemma JoinWith_SplitOn: "JoinWith c (SplitOn c s) = s"
proof (induction s)
  case (Cons x s)
  then show ?case
    by (cases "SplitOn c s") (auto simp: JoinWith_Cons JoinWith_cons_head)
qed simp

lemma SplitOn_no_sep: "y \<in> set (SplitOn c s) \<Longrightarrow> c \<notin> set y"
proof (induction s arbitrary: y)
  case (Cons x s)
  obtain z zs where zs: "SplitOn c s = z # zs"
    by (meson SplitOn_not_Nil neq_Nil_conv)
  have z: "c \<notin> set z" and rest: "\<forall>y \<in> set zs. c \<notin> set y"
    using Cons.IH zs by auto
  show ?case
    using Cons.prems z rest by (cases "x = c") (auto simp: zs)
qed simp

lemma SplitOn_plain: "c \<notin> set s \<Longrightarrow> SplitOn c s = [s]"
  by (induction s) auto

lemma SplitOn_append:
  "c \<notin> set x \<Longrightarrow> SplitOn c (x @ c # s) = x # SplitOn c s"
  by (induction x) auto

lemma SplitOn_JoinWith:
  "xs \<noteq> [] \<Longrightarrow> \<forall>x \<in> set xs. c \<notin> set x \<Longrightarrow> SplitOn c (JoinWith c xs) = xs"
  by (induction c xs rule: JoinWith.induct) (auto simp: SplitOn_plain SplitOn_append)

lemma SplitOn_append_sep: "SplitOn c (s @ c # t) = SplitOn c s @ SplitOn c t"
proof (induction s)
  case (Cons x s)
  then show ?case by (cases "SplitOn c s") auto
qed simp

lemma LastIndex_absent: "c \<notin> set s \<Longrightarrow> LastIndex s c = -1"
  by (simp add: LastIndex_def)

lemma LastIndex_append:
  assumes "c \<notin> set v"
  shows "LastIndex (u @ c # v) c = int (length u)"
proof -
  have "takeWhile (\<lambda>x. x \<noteq> c) (rev (u @ c # v)) = rev v"
    using assms by (simp add: takeWhile_append)
  then show ?thesis by (simp add: LastIndex_def)
qed

lemma last_sep_decomp:
  assumes "c \<in> set s"
  obtains u v where "s = u @ c # v" "c \<notin> set v"
  using assms by (meson split_list_last)

lemma LastIndex_nonneg: "0 \<le> LastIndex s c \<longleftrightarrow> c \<in> set s"
proof (cases "c \<in> set s")
  case True
  then obtain u v where "s = u @ c # v" "c \<notin> set v" by (rule last_sep_decomp)
  then show ?thesis by (simp add: LastIndex_append)
next
  case False
  then show ?thesis by (simp add: LastIndex_absent)
qed

subsection \<open>Trimming white space, lower case\<close>

text \<open>
  \<^verbatim>\<open>strings.TrimSpace\<close> removes leading and trailing runes with the Unicode White
  Space property. \<open>space_width\<close> is the number of bytes of such a rune at the head of
  the string, \<open>0\<close> when there is none; \<open>space_width_rev\<close> is the same for the reversed
  string.
\<close>

definition ascii_space :: "char \<Rightarrow> bool" where
  "ascii_space c = (c = CHR 0x20 \<or> c = CHR 0x09 \<or> c = CHR 0x0A \<or> c = CHR 0x0B \<or> c = CHR 0x0C \<or> c = CHR 0x0D)"

definition wide_spaces :: "string list" where
  "wide_spaces =
     [[CHR 0xC2, CHR 0x85], [CHR 0xC2, CHR 0xA0], [CHR 0xE1, CHR 0x9A, CHR 0x80],
      [CHR 0xE2, CHR 0x80, CHR 0x80], [CHR 0xE2, CHR 0x80, CHR 0x81], [CHR 0xE2, CHR 0x80, CHR 0x82],
      [CHR 0xE2, CHR 0x80, CHR 0x83], [CHR 0xE2, CHR 0x80, CHR 0x84], [CHR 0xE2, CHR 0x80, CHR 0x85],
      [CHR 0xE2, CHR 0x80, CHR 0x86], [CHR 0xE2, CHR 0x80, CHR 0x87], [CHR 0xE2, CHR 0x80, CHR 0x88],
      [CHR 0xE2, CHR 0x80, CHR 0x89], [CHR 0xE2, CHR 0x80, CHR 0x8A], [CHR 0xE2, CHR 0x80, CHR 0xA8],
      [CHR 0xE2, CHR 0x80, CHR 0xA9], [CHR 0xE2, CHR 0x80, CHR 0xAF], [CHR 0xE2, CHR 0x81, CHR 0x9F],
      [CHR 0xE3, CHR 0x80, CHR 0x80]]"

definition space_width :: "string list \<Rightarrow> string \<Rightarrow> nat" where
  "space_width wide s =
     (case s of [] \<Rightarrow> 0
      | c # _ \<Rightarrow> if ascii_space c then 1
                 else (case filter (HasPrefix s) wide of [] \<Rightarrow> 0 | w # _ \<Rightarrow> length w))"

function trim_head :: "string list \<Rightarrow> string \<Rightarrow> string" where
  "trim_head wide s =
     (if space_width wide s = 0 then s else trim_head wide (drop (space_width wide s) s))"
  by pat_completeness auto
termination
  by (relation "measure (\<lambda>(w, s). length s)")
     (auto simp: space_width_def split: list.splits if_splits)

declare trim_head.simps [simp del]

definition TrimSpace :: "string \<Rightarrow> string" where
  "TrimSpace s = rev (trim_head (map rev wide_spaces) (rev (trim_head wide_spaces s)))"

definition ToLower :: "string \<Rightarrow> string" where
  "ToLower s = map (\<lambda>c. if (65::nat) \<le> of_char c \<and> of_char c \<le> (90::nat)
                        then char_of (of_char c + 32 :: nat) else c) s"

text \<open>Strings of plain printable bytes are unchanged by \<open>TrimSpace\<close>.\<close>

definition plain_char :: "char \<Rightarrow> bool" where
  "plain_char c = (32 < (of_char c :: nat) \<and> (of_char c :: nat) < 128)"

lemma space_width_plain:
  assumes "plain_char c" "\<forall>w \<in> set wide. w \<noteq> [] \<and> \<not> plain_char (hd w)"
  shows "space_width wide (c # s) = 0"
proof -
  have "\<not> ascii_space c"
    using assms(1) by (auto simp: plain_char_def ascii_space_def)
  moreover have "\<forall>w \<in> set wide. \<not> HasPrefix (c # s) w"
    using assms by (auto simp: neq_Nil_conv)
  then have "filter (HasPrefix (c # s)) wide = []"
    by (simp add: filter_empty_conv)
  ultimately show ?thesis by (simp add: space_width_def)
qed

lemma wide_heads:
  "\<forall>w \<in> set wide_spaces. w \<noteq> [] \<and> \<not> plain_char (hd w)"
  "\<forall>w \<in> set (map rev wide_spaces). w \<noteq> [] \<and> \<not> plain_char (hd w)"
  by (simp_all add: wide_spaces_def plain_char_def)

lemma TrimSpace_plain:
  assumes "s = [] \<or> (plain_char (hd s) \<and> plain_char (last s))"
  shows "TrimSpace s = s"
proof (cases "s = []")
  case True
  then show ?thesis by (simp add: TrimSpace_def trim_head.simps space_width_def)
next
  case False
  with assms have hd: "plain_char (hd s)" and lst: "plain_char (hd (rev s))"
    by (simp_all add: hd_rev)
  obtain c t where s: "s = c # t" using False by (cases s) auto
  obtain d u where r: "rev s = d # u" using False by (cases "rev s") auto
  have "space_width wide_spaces s = 0"
    using hd space_width_plain [OF _ wide_heads(1)] by (simp add: s)
  then have 1: "trim_head wide_spaces s = s" by (simp add: trim_head.simps)
  have "space_width (map rev wide_spaces) (rev s) = 0"
    using lst space_width_plain [OF _ wide_heads(2)] by (simp add: r)
  then have "trim_head (map rev wide_spaces) (rev s) = rev s" by (simp add: trim_head.simps)
  with 1 show ?thesis by (simp add: TrimSpace_def)
qed

lemma TrimSpace_space: "ascii_space c \<Longrightarrow> TrimSpace (c # s) = TrimSpace s"
  by (simp add: TrimSpace_def trim_head.simps [of _ "c # s"] space_width_def)

lemma trim_head_width: "space_width wide (trim_head wide s) = 0"
  by (induction wide s rule: trim_head.induct) (subst trim_head.simps, simp)

lemma trim_head_drop: "\<exists>n. trim_head wide s = drop n s"
proof (induction wide s rule: trim_head.induct)
  case (1 wide s)
  show ?case
  proof (cases "space_width wide s = 0")
    case True
    then have "trim_head wide s = drop 0 s" by (simp add: trim_head.simps [of wide s])
    then show ?thesis by blast
  next
    case False
    then obtain n where "trim_head wide s = drop n (drop (space_width wide s) s)" using 1 by (auto simp: trim_head.simps [of wide s])
    then show ?thesis unfolding drop_drop by blast
  qed
qed

lemma width_prefix:
  assumes "space_width wide (p @ q) = 0" "[] \<notin> set wide"
  shows "space_width wide p = 0"
proof (cases p)
  case (Cons c r)
  have "\<not> HasPrefix p w" if "w \<in> set wide" for w
  proof
    assume "HasPrefix p w"
    then have w: "w \<in> set (filter (HasPrefix (p @ q)) wide)" using that by (auto simp: HasPrefix_iff)
    then obtain v vs where v: "filter (HasPrefix (p @ q)) wide = v # vs" by (cases "filter (HasPrefix (p @ q)) wide") simp_all
    then have "v \<in> set wide" using filter_is_subset [of "HasPrefix (p @ q)" wide] by auto
    then have "v \<noteq> []" using assms(2) by metis
    then show False using assms(1) v Cons by (simp add: space_width_def split: if_splits)
  qed
  then have "filter (HasPrefix p) wide = []" by (simp add: filter_empty_conv)
  then show ?thesis using assms(1) Cons by (auto simp: space_width_def split: if_splits)
qed (simp add: space_width_def)

lemma TrimSpace_idem [simp]: "TrimSpace (TrimSpace s) = TrimSpace s"
proof -
  define t where "t = trim_head wide_spaces s"
  define u where "u = trim_head (map rev wide_spaces) (rev t)"
  have "\<exists>q. t = rev u @ q" using trim_head_drop [of "map rev wide_spaces" "rev t"] by (auto simp: u_def rev_drop) (metis append_take_drop_id)
  moreover have "[] \<notin> set wide_spaces" by (simp add: wide_spaces_def)
  ultimately have "space_width wide_spaces (rev u) = 0"
    using width_prefix trim_head_width [of wide_spaces s] unfolding t_def by metis
  then have "trim_head wide_spaces (rev u) = rev u" by (simp add: trim_head.simps)
  moreover have "trim_head (map rev wide_spaces) u = u" using trim_head_width [of "map rev wide_spaces" "rev t"] by (simp add: u_def trim_head.simps)
  ultimately show ?thesis by (simp add: TrimSpace_def t_def [symmetric] u_def [symmetric])
qed

subsection \<open>Numbers\<close>

text \<open>
  \<^verbatim>\<open>fmt.Sprintf("%d", n)\<close>, \<^verbatim>\<open>strconv.Atoi\<close> (64-bit) and
  \<^verbatim>\<open>strconv.ParseUint(s, 8, 32)\<close>. \<^const>\<open>None\<close> is a parse or range error.
\<close>

definition digit_char :: "nat \<Rightarrow> char" where
  "digit_char d = char_of (48 + d)"

definition digit_val :: "char \<Rightarrow> nat option" where
  "digit_val c = (if 48 \<le> (of_char c :: nat) \<and> (of_char c :: nat) \<le> 57 then Some (of_char c - 48) else None)"

fun nat_string :: "nat \<Rightarrow> string" where
  "nat_string n = (if n < 10 then [digit_char n] else nat_string (n div 10) @ [digit_char (n mod 10)])"

declare nat_string.simps [simp del]

definition Itoa :: "int \<Rightarrow> string" where
  "Itoa i = (if i < 0 then CHR ''-'' # nat_string (nat (- i)) else nat_string (nat i))"

fun parse_digits :: "nat \<Rightarrow> nat \<Rightarrow> string \<Rightarrow> nat option" where
  "parse_digits base acc [] = Some acc"
| "parse_digits base acc (c # s) =
     (case digit_val c of None \<Rightarrow> None
      | Some d \<Rightarrow> if d < base then parse_digits base (acc * base + d) s else None)"

definition Atoi :: "string \<Rightarrow> int option" where
  "Atoi s =
     (let neg = HasPrefix s ''-'';
          ds = (if HasPrefix s ''-'' \<or> HasPrefix s ''+'' then tl s else s)
      in if ds = [] then None
         else (case parse_digits 10 0 ds of None \<Rightarrow> None
               | Some n \<Rightarrow>
                   let i = (if neg then - int n else int n)
                   in if - (2 ^ 63) \<le> i \<and> i < 2 ^ 63 then Some i else None))"

definition ParseUint8_32 :: "string \<Rightarrow> nat option" where
  "ParseUint8_32 s =
     (if s = [] then None
      else (case parse_digits 8 0 s of None \<Rightarrow> None
            | Some n \<Rightarrow> if n < 2 ^ 32 then Some n else None))"

lemma of_char_digit: "d < 10 \<Longrightarrow> of_char (digit_char d) = 48 + d"
  by (simp add: digit_char_def)

lemma digit_val_char [simp]: "d < 10 \<Longrightarrow> digit_val (digit_char d) = Some d"
  by (simp add: digit_val_def of_char_digit)

lemma nat_string_not_Nil [simp]: "nat_string n \<noteq> []"
  by (subst nat_string.simps) simp

lemma parse_digits_snoc:
  "parse_digits b acc (s @ [c]) =
     (case parse_digits b acc s of None \<Rightarrow> None
      | Some n \<Rightarrow> (case digit_val c of None \<Rightarrow> None
                   | Some d \<Rightarrow> if d < b then Some (n * b + d) else None))"
  by (induction b acc s rule: parse_digits.induct) (auto split: option.splits)

lemma parse_nat_string: "parse_digits 10 0 (nat_string n) = Some n"
proof (induction n rule: nat_string.induct)
  case (1 n)
  show ?case
  proof (cases "n < 10")
    case True
    then show ?thesis by (simp add: nat_string.simps [of n])
  next
    case False
    with 1 show ?thesis by (simp add: nat_string.simps [of n] parse_digits_snoc)
  qed
qed

lemma nat_string_digits: "c \<in> set (nat_string n) \<Longrightarrow> 48 \<le> (of_char c :: nat) \<and> (of_char c :: nat) \<le> 57"
proof (induction n rule: nat_string.induct)
  case (1 n)
  show ?case
  proof (cases "n < 10")
    case True
    with "1.prems" show ?thesis by (auto simp: nat_string.simps [of n] of_char_digit)
  next
    case False
    with "1.prems" consider "c \<in> set (nat_string (n div 10))" | "c = digit_char (n mod 10)"
      by (auto simp: nat_string.simps [of n])
    then show ?thesis
      using "1.IH" [OF False] by cases (auto simp: of_char_digit)
  qed
qed

lemma nat_string_plain: "c \<in> set (nat_string n) \<Longrightarrow> c \<noteq> CHR ''-'' \<and> c \<noteq> CHR ''+'' \<and> c \<noteq> CHR ''/'' \<and> c \<noteq> CHR ''.''"
  using nat_string_digits [of c n] by auto

theorem Atoi_Itoa:
  assumes "0 \<le> i" "i < 2 ^ 63"
  shows "Atoi (Itoa i) = Some i"
proof -
  have "\<not> HasPrefix (nat_string (nat i)) ''-''" "\<not> HasPrefix (nat_string (nat i)) ''+''"
    using nat_string_plain [of "hd (nat_string (nat i))" "nat i"]
    by (cases "nat_string (nat i)"; simp)+
  with assms show ?thesis
    by (simp add: Atoi_def Itoa_def parse_nat_string Let_def)
qed

subsection \<open>UTF-8\<close>

text \<open>
  \<^verbatim>\<open>for _, r := range s\<close> decodes UTF-8; a byte that starts no valid sequence gives
  U+FFFD and is skipped alone.
\<close>

definition cont :: "nat \<Rightarrow> nat \<Rightarrow> char \<Rightarrow> bool" where
  "cont lo hi c = (lo \<le> of_char c \<and> of_char c \<le> hi)"

definition low6 :: "char \<Rightarrow> nat" where
  "low6 c = of_char c mod 64"

definition DecodeRune :: "string \<Rightarrow> nat \<times> nat" where
  "DecodeRune s =
     (case s of [] \<Rightarrow> (0xFFFD, 0)
      | c0 # r \<Rightarrow>
        let b0 = of_char c0 :: nat in
        if b0 < 0x80 then (b0, 1)
        else if 0xC2 \<le> b0 \<and> b0 \<le> 0xDF then
          (case r of c1 # _ \<Rightarrow> if cont 0x80 0xBF c1 then ((b0 mod 32) * 64 + low6 c1, 2) else (0xFFFD, 1)
           | _ \<Rightarrow> (0xFFFD, 1))
        else if 0xE0 \<le> b0 \<and> b0 \<le> 0xEF then
          (case r of c1 # c2 # _ \<Rightarrow>
             if cont (if b0 = 0xE0 then 0xA0 else 0x80) (if b0 = 0xED then 0x9F else 0xBF) c1 \<and> cont 0x80 0xBF c2
             then ((b0 mod 16) * 4096 + low6 c1 * 64 + low6 c2, 3) else (0xFFFD, 1)
           | _ \<Rightarrow> (0xFFFD, 1))
        else if 0xF0 \<le> b0 \<and> b0 \<le> 0xF4 then
          (case r of c1 # c2 # c3 # _ \<Rightarrow>
             if cont (if b0 = 0xF0 then 0x90 else 0x80) (if b0 = 0xF4 then 0x8F else 0xBF) c1 \<and>
                cont 0x80 0xBF c2 \<and> cont 0x80 0xBF c3
             then ((b0 mod 8) * 262144 + low6 c1 * 4096 + low6 c2 * 64 + low6 c3, 4) else (0xFFFD, 1)
           | _ \<Rightarrow> (0xFFFD, 1))
        else (0xFFFD, 1))"

lemma DecodeRune_width: "s \<noteq> [] \<Longrightarrow> 0 < snd (DecodeRune s)"
  by (auto simp: DecodeRune_def Let_def neq_Nil_conv split: list.splits)

function runes :: "string \<Rightarrow> nat list" where
  "runes s = (if s = [] then [] else fst (DecodeRune s) # runes (drop (snd (DecodeRune s)) s))"
  by pat_completeness auto
termination
  by (relation "measure length") (auto intro: diff_less DecodeRune_width)

declare runes.simps [simp del]

lemma runes_Nil [simp]: "runes [] = []"
  by (simp add: runes.simps)

lemma runes_ascii: "of_char c < (0x80 :: nat) \<Longrightarrow> runes (c # s) = of_char c # runes s"
  by (subst runes.simps) (simp add: DecodeRune_def Let_def)

lemma runes_ascii_string: "\<forall>c \<in> set s. of_char c < (0x80 :: nat) \<Longrightarrow> runes s = map of_char s"
  by (induction s) (auto simp: runes_ascii)

lemma Itoa_eval: "Itoa 0 = ''0''" "Itoa 1 = ''1''" "Itoa 2 = ''2''" "Itoa 3 = ''3''"
  by code_simp+

end
