(* ===== verification/GoPath.thy ===== *)
theory GoPath
  imports GoStrings
begin

section \<open>Go's path/filepath on Unix\<close>

text \<open>
  \<^verbatim>\<open>filepath.Clean\<close>, \<^verbatim>\<open>Dir\<close>, \<^verbatim>\<open>Base\<close>, \<^verbatim>\<open>Join\<close>,
  \<^verbatim>\<open>IsAbs\<close> and \<^verbatim>\<open>Rel\<close> as their documentation defines them for the
  separator \<^verbatim>\<open>/\<close>. Cleaning walks the components with a stack: an empty component
  and \<^verbatim>\<open>.\<close> are dropped, \<^verbatim>\<open>..\<close> removes the component before it, or is kept
  at the front of a relative path and dropped at the root of an absolute one.
\<close>

abbreviation slash :: char where
  "slash \<equiv> CHR ''/''"

definition IsAbs :: "string \<Rightarrow> bool" where
  "IsAbs p = HasPrefix p ''/''"

fun clean_stack :: "bool \<Rightarrow> string list \<Rightarrow> string list \<Rightarrow> string list" where
  "clean_stack rooted out [] = out"
| "clean_stack rooted out (c # cs) =
     clean_stack rooted
       (if c = '''' \<or> c = ''.'' then out
        else if c = ''..'' then
          (case out of [] \<Rightarrow> if rooted then [] else [''..'']
           | o1 # os \<Rightarrow> if o1 = ''..'' then ''..'' # out else os)
        else c # out) cs"

definition filepath_Clean :: "string \<Rightarrow> string" where
  "filepath_Clean p =
     (if p = '''' then ''.''
      else let rooted = IsAbs p;
               out = rev (clean_stack rooted [] (SplitOn slash p))
           in if rooted then slash # JoinWith slash out
              else if out = [] then ''.'' else JoinWith slash out)"

definition filepath_Dir :: "string \<Rightarrow> string" where
  "filepath_Dir p = filepath_Clean (take (nat (LastIndex p slash + 1)) p)"

definition filepath_Base :: "string \<Rightarrow> string" where
  "filepath_Base p =
     (if p = '''' then ''.''
      else let q = TrimRight p slash;
               b = drop (nat (LastIndex q slash + 1)) q
           in if b = '''' then ''/'' else b)"

definition filepath_Join :: "string \<Rightarrow> string \<Rightarrow> string" where
  "filepath_Join a b =
     (if a \<noteq> '''' then filepath_Clean (a @ slash # b)
      else if b \<noteq> '''' then filepath_Clean b else '''')"

text \<open>The components of a cleaned path.\<close>

definition path_comps :: "string \<Rightarrow> string list" where
  "path_comps p = filter (\<lambda>c. c \<noteq> '''') (SplitOn slash p)"

fun strip_common :: "string list \<Rightarrow> string list \<Rightarrow> string list \<times> string list" where
  "strip_common (x # xs) (y # ys) = (if x = y then strip_common xs ys else (x # xs, y # ys))"
| "strip_common xs ys = (xs, ys)"

definition filepath_Rel :: "string \<Rightarrow> string \<Rightarrow> string option" where
  "filepath_Rel base targ =
     (let b = filepath_Clean base; t = filepath_Clean targ in
      if b = t then Some ''.''
      else let b' = (if b = ''.'' then '''' else b) in
           if IsAbs b' \<noteq> IsAbs t then None
           else (case strip_common (path_comps b') (path_comps t) of
                   (bs, ts) \<Rightarrow>
                     if bs \<noteq> [] \<and> hd bs = ''..'' then None
                     else Some (JoinWith slash (replicate (length bs) ''..'' @ ts))))"

subsection \<open>Normal component lists\<close>

text \<open>A component of a cleaned absolute path: no separator, not empty, not a dot name.\<close>

definition plain_comp :: "string \<Rightarrow> bool" where
  "plain_comp c = (c \<noteq> '''' \<and> c \<noteq> ''.'' \<and> c \<noteq> ''..'' \<and> slash \<notin> set c)"

definition plain_comps :: "string list \<Rightarrow> bool" where
  "plain_comps cs = (\<forall>c \<in> set cs. plain_comp c)"

lemma plain_comps_simps [simp]:
  "plain_comps []"
  "plain_comps (c # cs) \<longleftrightarrow> plain_comp c \<and> plain_comps cs"
  "plain_comps (xs @ ys) \<longleftrightarrow> plain_comps xs \<and> plain_comps ys"
  "plain_comps (rev cs) \<longleftrightarrow> plain_comps cs"
  by (auto simp: plain_comps_def)

lemma clean_stack_append:
  "clean_stack r out (xs @ ys) = clean_stack r (clean_stack r out xs) ys"
  by (induction r out xs rule: clean_stack.induct) auto

lemma clean_stack_plain:
  "plain_comps cs \<Longrightarrow> clean_stack r out cs = rev cs @ out"
  by (induction cs arbitrary: out) (auto simp: plain_comp_def)

lemma clean_stack_rooted_plain:
  "\<forall>c \<in> set cs. slash \<notin> set c \<Longrightarrow> plain_comps out \<Longrightarrow> plain_comps (clean_stack True out cs)"
proof (induction cs arbitrary: out)
  case (Cons c cs)
  have "plain_comps (if c = '''' \<or> c = ''.'' then out
        else if c = ''..'' then (case out of [] \<Rightarrow> if True then [] else [''..'']
           | o1 # os \<Rightarrow> if o1 = ''..'' then ''..'' # out else os)
        else c # out)"
    using Cons.prems by (auto simp: plain_comp_def split: list.splits)
  then show ?case using Cons.IH Cons.prems(1) by simp
qed simp

lemma clean_stack_drops_empty:
  "clean_stack r out ('''' # cs) = clean_stack r out cs"
  by simp

lemma clean_stack_path_comps:
  "clean_stack r out (filter (\<lambda>c. c \<noteq> '''') cs) = clean_stack r out cs"
  by (induction cs arbitrary: out) auto

text \<open>The absolute path with given components.\<close>

definition abs_path :: "string list \<Rightarrow> string" where
  "abs_path cs = slash # JoinWith slash cs"

lemma abs_path_Nil [simp]: "abs_path [] = ''/''"
  by (simp add: abs_path_def)

lemma IsAbs_abs_path [simp]: "IsAbs (abs_path cs)"
  by (simp add: IsAbs_def abs_path_def)

lemma SplitOn_abs_path:
  "plain_comps cs \<Longrightarrow> SplitOn slash (abs_path cs) = '''' # (if cs = [] then [''''] else cs)"
  by (auto simp: abs_path_def plain_comps_def plain_comp_def SplitOn_JoinWith)

lemma path_comps_abs_path [simp]: "plain_comps cs \<Longrightarrow> path_comps (abs_path cs) = cs"
  by (auto simp: path_comps_def SplitOn_abs_path plain_comps_def plain_comp_def filter_id_conv)

lemma abs_path_inj: "plain_comps xs \<Longrightarrow> plain_comps ys \<Longrightarrow> abs_path xs = abs_path ys \<longleftrightarrow> xs = ys"
  by (metis path_comps_abs_path)

lemma SplitOn_slash_plain: "c \<in> set (SplitOn slash p) \<Longrightarrow> slash \<notin> set c"
  by (rule SplitOn_no_sep)

text \<open>Cleaning an absolute path gives the absolute path of plain components.\<close>

lemma Clean_rooted:
  assumes "IsAbs p"
  shows "filepath_Clean p = abs_path (rev (clean_stack True [] (SplitOn slash p)))"
proof -
  from assms have "p \<noteq> ''''" by (auto simp: IsAbs_def)
  with assms show ?thesis by (simp add: filepath_Clean_def abs_path_def Let_def)
qed

lemma Clean_rooted_comps:
  assumes "IsAbs p"
  obtains cs where "filepath_Clean p = abs_path cs" "plain_comps cs"
    "cs = rev (clean_stack True [] (SplitOn slash p))"
  using Clean_rooted [OF assms] clean_stack_rooted_plain [of "SplitOn slash p" "[]"]
  by (auto simp: SplitOn_slash_plain)

lemma Clean_abs_path [simp]:
  assumes "plain_comps cs"
  shows "filepath_Clean (abs_path cs) = abs_path cs"
proof -
  have "clean_stack True [] (SplitOn slash (abs_path cs)) = rev cs"
    using assms by (cases "cs = []") (auto simp: SplitOn_abs_path clean_stack_plain)
  then show ?thesis by (simp add: Clean_rooted)
qed

lemma Clean_idem_rooted: "IsAbs p \<Longrightarrow> filepath_Clean (filepath_Clean p) = filepath_Clean p"
  by (metis Clean_abs_path Clean_rooted_comps)

lemma JoinWith_append:
  "xs \<noteq> [] \<Longrightarrow> ys \<noteq> [] \<Longrightarrow> JoinWith c (xs @ ys) = JoinWith c xs @ c # JoinWith c ys"
  by (induction c xs rule: JoinWith.induct) (auto simp: JoinWith_Cons)

lemma abs_path_snoc:
  "abs_path (cs @ [c]) = (if cs = [] then slash # c else abs_path cs @ slash # c)"
  by (simp add: abs_path_def JoinWith_append)

lemma Dir_abs_path_snoc [simp]:
  assumes "plain_comps (cs @ [c])"
  shows "filepath_Dir (abs_path (cs @ [c])) = abs_path cs"
proof -
  have c: "slash \<notin> set c" using assms by (auto simp: plain_comp_def)
  show ?thesis
  proof (cases "cs = []")
    case True
    have "LastIndex (slash # c) slash = 0"
      using LastIndex_append [OF c, of "[]"] by simp
    moreover have "filepath_Clean ''/'' = ''/''"
      using Clean_abs_path [of "[]"] by simp
    ultimately show ?thesis
      using True by (simp add: filepath_Dir_def abs_path_def)
  next
    case False
    have "LastIndex (abs_path cs @ slash # c) slash = int (length (abs_path cs))"
      using c by (rule LastIndex_append)
    moreover have "nat (int (length (abs_path cs)) + 1) = Suc (length (abs_path cs))" by simp
    ultimately have "filepath_Dir (abs_path (cs @ [c])) = filepath_Clean (abs_path cs @ [slash])"
      using False by (simp add: filepath_Dir_def abs_path_snoc)
    also have "\<dots> = abs_path cs"
    proof -
      have abs: "IsAbs (abs_path cs @ [slash])" by (simp add: abs_path_def IsAbs_def)
      have "SplitOn slash (abs_path cs @ slash # []) = SplitOn slash (abs_path cs) @ [[]]"
        using SplitOn_append_sep [of slash "abs_path cs" "[]"] by simp
      then show ?thesis
        using assms False
        by (simp add: Clean_rooted [OF abs] SplitOn_abs_path clean_stack_append clean_stack_plain)
    qed
    finally show ?thesis .
  qed
qed

lemma Base_abs_path_snoc [simp]:
  assumes "plain_comps (cs @ [c])"
  shows "filepath_Base (abs_path (cs @ [c])) = c"
proof -
  have c: "slash \<notin> set c" "c \<noteq> ''''" using assms by (auto simp: plain_comp_def)
  obtain u where u: "abs_path (cs @ [c]) = u @ slash # c"
    by (metis abs_path_snoc append_Nil)
  have "rev c \<noteq> []" "hd (rev c) \<noteq> slash"
    using c by (auto simp: hd_rev) (metis last_in_set)
  then have "TrimRight (u @ slash # c) slash = u @ slash # c"
    by (cases "rev c") (auto simp: TrimRight_def)
  then show ?thesis
    using c LastIndex_append [OF c(1), of u]
    by (simp add: filepath_Base_def u Let_def nat_add_distrib)
qed

lemma Dir_root [simp]: "filepath_Dir ''/'' = ''/''"
  by (simp add: filepath_Dir_def LastIndex_def filepath_Clean_def IsAbs_def Let_def)

text \<open>Going to the parent makes a path shorter, until \<^verbatim>\<open>/\<close> or \<^verbatim>\<open>.\<close> is reached.\<close>

definition comps_size :: "string list \<Rightarrow> nat" where
  "comps_size cs = sum_list (map (\<lambda>c. Suc (length c)) cs)"

lemma comps_size_simps [simp]:
  "comps_size [] = 0" "comps_size (c # cs) = Suc (length c + comps_size cs)"
  "comps_size (xs @ ys) = comps_size xs + comps_size ys"
  by (simp_all add: comps_size_def)

lemma comps_size_rev [simp]: "comps_size (rev cs) = comps_size cs"
  by (induction cs) auto

lemma clean_stack_size: "comps_size (clean_stack r out cs) \<le> comps_size out + comps_size cs"
proof (induction cs arbitrary: out)
  case (Cons c cs)
  let ?out = "if c = '''' \<or> c = ''.'' then out
        else if c = ''..'' then
          (case out of [] \<Rightarrow> if r then [] else [''..''] | o1 # os \<Rightarrow> if o1 = ''..'' then ''..'' # out else os)
        else c # out"
  have "comps_size ?out \<le> comps_size out + Suc (length c)" by (auto split: list.splits)
  then show ?case using Cons.IH [of ?out] by simp
qed simp

lemma length_JoinWith: "xs \<noteq> [] \<Longrightarrow> Suc (length (JoinWith c xs)) = comps_size xs"
  by (induction c xs rule: JoinWith.induct) (auto simp: JoinWith_Cons)

lemma comps_size_SplitOn: "comps_size (SplitOn c s) = Suc (length s)"
  using length_JoinWith [of "SplitOn c s" c] by (simp add: JoinWith_SplitOn)

lemma Dir_shorter:
  assumes "filepath_Dir p \<noteq> ''/''" "filepath_Dir p \<noteq> ''.''"
  shows "length (filepath_Dir p) < length p"
proof (cases "slash \<in> set p")
  case False
  then have "filepath_Dir p = ''.''" by (simp add: filepath_Dir_def LastIndex_absent filepath_Clean_def)
  with assms(2) show ?thesis by simp
next
  case True
  then obtain u v where p: "p = u @ slash # v" "slash \<notin> set v" by (rule last_sep_decomp)
  have dir: "filepath_Dir p = filepath_Clean (u @ [slash])"
    by (simp add: filepath_Dir_def p LastIndex_append nat_add_distrib)
  have split: "SplitOn slash (u @ [slash]) = SplitOn slash u @ [[]]"
    using SplitOn_append_sep [of slash u "[]"] by simp
  let ?r = "IsAbs (u @ [slash])"
  let ?out = "rev (clean_stack ?r [] (SplitOn slash u))"
  have cl: "filepath_Dir p = (if ?r then slash # JoinWith slash ?out else if ?out = [] then ''.'' else JoinWith slash ?out)"
    by (simp add: dir filepath_Clean_def Let_def split clean_stack_append)
  then have ne: "?out \<noteq> []" using assms by (auto split: if_splits)
  have le: "length (filepath_Dir p) \<le> length u"
  proof (cases ?r)
    case True
    have "u \<noteq> []" using ne True by auto
    with True obtain u' where u: "u = slash # u'" by (cases u) (auto simp: IsAbs_def)
    have "comps_size ?out \<le> comps_size (SplitOn slash u')"
      using clean_stack_size [of ?r "[]" "SplitOn slash u'"] by (simp add: u)
    then show ?thesis
      using cl True length_JoinWith [OF ne, of slash] by (simp add: u comps_size_SplitOn)
  next
    case False
    have "comps_size ?out \<le> comps_size (SplitOn slash u)"
      using clean_stack_size [of ?r "[]" "SplitOn slash u"] by simp
    then show ?thesis
      using cl ne False length_JoinWith [OF ne, of slash] by (simp add: comps_size_SplitOn)
  qed
  then show ?thesis by (simp add: p)
qed

subsection \<open>Rel and containment\<close>

text \<open>\<open>under root p\<close>: the components of \<open>p\<close> extend those of \<open>root\<close>.\<close>

definition under :: "string list \<Rightarrow> string \<Rightarrow> bool" where
  "under rs p = (\<exists>cs. plain_comps cs \<and> p = abs_path (rs @ cs))"

lemma strip_common_props:
  "strip_common xs ys = (bs, ts) \<Longrightarrow> \<exists>common. xs = common @ bs \<and> ys = common @ ts"
  by (induction xs ys rule: strip_common.induct) (auto split: if_splits)

lemma strip_common_prefix: "strip_common xs (xs @ ys) = ([], ys)"
  by (induction xs) (cases ys, auto)

lemma Rel_abs_path:
  assumes "plain_comps bs" "plain_comps ts"
  shows "filepath_Rel (abs_path bs) (abs_path ts) =
    (if bs = ts then Some ''.''
     else (case strip_common bs ts of (b, t) \<Rightarrow> Some (JoinWith slash (replicate (length b) ''..'' @ t))))"
proof -
  have ne: "abs_path bs \<noteq> ''.''" by (simp add: abs_path_def)
  have dd: "b \<noteq> [] \<Longrightarrow> hd b \<noteq> ''..''" if "strip_common bs ts = (b, t)" for b t
    using strip_common_props [OF that] assms(1) by (auto simp: plain_comp_def neq_Nil_conv)
  show ?thesis
    using assms ne dd
    by (auto simp: filepath_Rel_def Let_def abs_path_inj split: prod.splits)
qed

lemma Rel_no_dotdot_under:
  assumes "plain_comps bs" "plain_comps ts"
    and "filepath_Rel (abs_path bs) (abs_path ts) = Some r" "\<not> HasPrefix r ''..''"
  shows "under bs (abs_path ts)"
proof (cases "bs = ts")
  case True
  then show ?thesis using assms by (auto simp: under_def intro: exI [of _ "[]"])
next
  case False
  obtain b t where st: "strip_common bs ts = (b, t)" by fastforce
  with assms False have r: "r = JoinWith slash (replicate (length b) ''..'' @ t)"
    by (simp add: Rel_abs_path)
  have "b = []"
  proof (rule ccontr)
    assume "b \<noteq> []"
    then obtain n where "length b = Suc n" by (cases b) auto
    then have "HasPrefix r ''..''"
      by (cases "replicate n ''..'' @ t") (auto simp: r JoinWith_Cons)
    with assms(4) show False by simp
  qed
  moreover obtain common where "bs = common @ b" "ts = common @ t"
    using strip_common_props [OF st] by blast
  ultimately show ?thesis
    using assms(2) by (auto simp: under_def)
qed

end
