(* ===== verification/Metadata.thy ===== *)
theory Metadata
  imports GoPath
begin

section \<open>The metadata model and the store interface (metadata/store.go)\<close>

text \<open>
  The records of \<^verbatim>\<open>metadata/store.go\<close>, the errors the packages of the program
  compare against, and the two interfaces \<^verbatim>\<open>Store\<close> and \<^verbatim>\<open>ErasureMetadataStore\<close>
  as records of operations over a world type. A pointer field that may be
  \<^verbatim>\<open>nil\<close> is an option. \<open>Errorf m\<close> is an error made by \<^verbatim>\<open>errors.New\<close> or by
  \<^verbatim>\<open>fmt.Errorf\<close> without \<^verbatim>\<open>%w\<close>; \<open>Wrapf m e\<close> wraps \<open>e\<close> with \<^verbatim>\<open>%w\<close>, so that
  \<^verbatim>\<open>==\<close> no longer sees \<open>e\<close> and \<^verbatim>\<open>errors.Is\<close> still does.
\<close>

subsection \<open>Errors\<close>

datatype goerr =
    ErrNotFound | ErrAlreadyExists | ErrForbidden
  | ErrAuthenticationFailed | ErrPermissionDenied | ErrInvalidToken
  | ErrLinkInvalid | ErrLinkExpired | ErrLinkNotFound
  | ErrInsufficientShards | ErrShardCorrupted | ErrInsufficientNodes
  | ErrFileTooSmall | ErrInvalidProfile | ErrShardNotFound
  | Errorf string
  | Wrapf string goerr

fun errors_Is :: "goerr \<Rightarrow> goerr \<Rightarrow> bool" where
  "errors_Is (Wrapf m e) t = (Wrapf m e = t \<or> errors_Is e t)"
| "errors_Is e t = (e = t)"

fun Error :: "goerr \<Rightarrow> string" where
  "Error ErrNotFound = ''metadata not found''"
| "Error ErrAlreadyExists = ''metadata already exists''"
| "Error ErrForbidden = ''access forbidden''"
| "Error ErrAuthenticationFailed = ''authentication failed''"
| "Error ErrPermissionDenied = ''permission denied''"
| "Error ErrInvalidToken = ''invalid token''"
| "Error ErrLinkInvalid = ''link is invalid or has been used''"
| "Error ErrLinkExpired = ''link has expired''"
| "Error ErrLinkNotFound = ''link not found''"
| "Error ErrInsufficientShards = ''erasure: insufficient shards for reconstruction (code 3050)''"
| "Error ErrShardCorrupted = ''erasure: shard checksum mismatch (code 3051)''"
| "Error ErrInsufficientNodes = ''erasure: not enough nodes for shard placement (code 3052)''"
| "Error ErrFileTooSmall = ''erasure: file below minimum size for erasure coding (code 3053)''"
| "Error ErrInvalidProfile = ''erasure: invalid erasure profile parameters (code 3054)''"
| "Error ErrShardNotFound = ''erasure: shard not found on this node (code 3055)''"
| "Error (Errorf m) = m"
| "Error (Wrapf m e) = m @ '': '' @ Error e"

type_synonym 'a result = "goerr + 'a"

text \<open>
  A request to a remote service can fail before it has an effect, or have its effect and lose the answer.
\<close>

datatype fault = Works | Fails goerr | LosesAnswer goerr

text \<open>
  A \<^verbatim>\<open>context.Context\<close>: the error of \<^verbatim>\<open>ctx.Err()\<close> when it is done, and the target
  instance that \<^verbatim>\<open>internalproxy.WithInstanceID\<close> stores in it.
\<close>

record goctx =
  ctx_Err :: "goerr option"
  ctx_instance_id :: "string option"

definition Background :: goctx where
  "Background = \<lparr>ctx_Err = None, ctx_instance_id = None\<rparr>"

subsection \<open>Records\<close>

record Metadata =
  md_ID :: int
  md_ParentID :: "int option"
  md_Name :: string
  md_Path :: string
  md_Type :: string
  md_Size :: int
  md_Mode :: string
  md_UID :: int
  md_GID :: int
  md_ATime :: gotime
  md_MTime :: gotime
  md_CTime :: gotime
  md_BackendType :: string
  md_ErasureCoded :: bool
  md_CallFSInstanceID :: "string option"
  md_SymlinkTarget :: "string option"
  md_CreatedAt :: gotime
  md_UpdatedAt :: gotime

text \<open>The zero value of the struct, from which composite literals start.\<close>

definition zero_Metadata :: Metadata where
  "zero_Metadata = \<lparr>md_ID = 0, md_ParentID = None, md_Name = '''', md_Path = '''', md_Type = '''',
     md_Size = 0, md_Mode = '''', md_UID = 0, md_GID = 0, md_ATime = 0, md_MTime = 0, md_CTime = 0,
     md_BackendType = '''', md_ErasureCoded = False, md_CallFSInstanceID = None,
     md_SymlinkTarget = None, md_CreatedAt = 0, md_UpdatedAt = 0\<rparr>"

record SingleUseLink =
  lk_ID :: int
  lk_Token :: string
  lk_FilePath :: string
  lk_Status :: string
  lk_ExpiresAt :: gotime
  lk_UsedAt :: "gotime option"
  lk_UsedByIP :: "string option"
  lk_HMACSignature :: string
  lk_CreatedAt :: gotime
  lk_UpdatedAt :: gotime

record ErasureShardInfo =
  sh_Index :: int
  sh_InstanceID :: string
  sh_BackendType :: string
  sh_Path :: string
  sh_Size :: int
  sh_Checksum :: string

record ErasureFileInfo =
  ei_FilePath :: string
  ei_OriginalSize :: int
  ei_DataShards :: int
  ei_ParityShards :: int
  ei_ShardSize :: int
  ei_Shards :: "ErasureShardInfo list"

subsection \<open>The Store interface\<close>

text \<open>
  One field per method. \<^verbatim>\<open>Create\<close> and \<^verbatim>\<open>Update\<close> take a pointer whose fields an
  implementation may set; the new value of the struct is returned. The first argument of an
  operation that reads the clock is the current time.
\<close>

record 'w store_ops =
  st_Get :: "string \<Rightarrow> 'w \<Rightarrow> Metadata result"
  st_Create :: "gotime \<Rightarrow> Metadata \<Rightarrow> 'w \<Rightarrow> Metadata result \<times> 'w"
  st_Update :: "gotime \<Rightarrow> Metadata \<Rightarrow> 'w \<Rightarrow> Metadata result \<times> 'w"
  st_Delete :: "string \<Rightarrow> 'w \<Rightarrow> unit result \<times> 'w"
  st_ListChildren :: "string \<Rightarrow> 'w \<Rightarrow> Metadata list result"
  st_GetSingleUseLink :: "string \<Rightarrow> 'w \<Rightarrow> SingleUseLink result"
  st_CreateSingleUseLink :: "gotime \<Rightarrow> SingleUseLink \<Rightarrow> 'w \<Rightarrow> unit result \<times> 'w"
  st_UpdateSingleUseLink ::
    "gotime \<Rightarrow> string \<Rightarrow> string \<Rightarrow> gotime option \<Rightarrow> string option \<Rightarrow> 'w \<Rightarrow> unit result \<times> 'w"
  st_CleanupExpiredLinks :: "gotime \<Rightarrow> 'w \<Rightarrow> nat result \<times> 'w"
  st_CleanupUsedLinks :: "gotime \<Rightarrow> 'w \<Rightarrow> nat result \<times> 'w"

record 'w erasure_store_ops =
  es_CreateErasureInfo :: "string \<Rightarrow> ErasureFileInfo \<Rightarrow> 'w \<Rightarrow> unit result \<times> 'w"
  es_GetErasureInfo :: "string \<Rightarrow> 'w \<Rightarrow> ErasureFileInfo result"
  es_DeleteErasureInfo :: "string \<Rightarrow> 'w \<Rightarrow> unit result \<times> 'w"

end
