(* ===== verification/Http.thy ===== *)
theory Http
  imports Metadata
begin

section \<open>Responses of the handlers (server/handlers/error\_response.go)\<close>

text \<open>
  A handler answers with a status, headers and a body of its own type, or with the standard error
  body of \<^verbatim>\<open>SendErrorResponse\<close>. That function compares the error with \<^verbatim>\<open>switch err\<close>, that is by
  identity: an error wrapped with \<^verbatim>\<open>%w\<close> takes the caller's default status and is reported as
  \<^verbatim>\<open>INTERNAL_ERROR\<close>.
\<close>

record ErrorResponse =
  er_Code :: string
  er_Message :: string

datatype 'b reply =
    Reply int "(string \<times> string) list" 'b
  | ErrorReply int ErrorResponse

fun status :: "'b reply \<Rightarrow> int" where
  "status (Reply st hs b) = st"
| "status (ErrorReply st er) = st"

lemma status_map [simp]: "status (map_reply f rep) = status rep"
  by (cases rep) simp_all

definition error_class :: "goerr \<Rightarrow> int \<Rightarrow> int \<times> string" where
  "error_class err defaultStatusCode =
     (if err = ErrNotFound then (404, ''FILE_NOT_FOUND'')
      else if err = ErrAlreadyExists then (409, ''FILE_ALREADY_EXISTS'')
      else if err = ErrAuthenticationFailed then (401, ''AUTHENTICATION_FAILED'')
      else if err = ErrPermissionDenied then (403, ''PERMISSION_DENIED'')
      else (defaultStatusCode, ''INTERNAL_ERROR''))"

definition SendErrorResponse :: "goerr \<Rightarrow> int \<Rightarrow> 'b reply" where
  "SendErrorResponse err defaultStatusCode =
     (case error_class err defaultStatusCode of
        (statusCode, errorCode) \<Rightarrow>
          ErrorReply statusCode \<lparr>er_Code = errorCode,
            er_Message = (if errorCode = ''INTERNAL_ERROR'' then ''an internal error occurred'' else Error err)\<rparr>)"

text \<open>\<^verbatim>\<open>http.Error\<close> of the standard library: a plain text body that ends in a newline.\<close>

definition http_Error :: "string \<Rightarrow> int \<Rightarrow> bytes reply" where
  "http_Error msg code =
     Reply code [(''Content-Type'', ''text/plain; charset=utf-8''), (''X-Content-Type-Options'', ''nosniff'')] (msg @ [CHR 10])"

lemma SendErrorResponse_status: "status (SendErrorResponse err st) = fst (error_class err st)"
  by (simp add: SendErrorResponse_def split: prod.splits)

lemma error_class_Errorf [simp]: "error_class (Errorf m) st = (st, ''INTERNAL_ERROR'')"
  by (simp add: error_class_def)

lemma error_class_Wrapf [simp]: "error_class (Wrapf m e) st = (st, ''INTERNAL_ERROR'')"
  by (simp add: error_class_def)

end
