(* ===== verification/PathUtil.thy ===== *)
theory PathUtil
  imports Metadata
begin

section \<open>Path sanitising (internal/pathutil, server/handlers/path\_utils.go)\<close>

text \<open>
  \<^verbatim>\<open>Clean\<close>, \<^verbatim>\<open>SafeJoin\<close> and \<^verbatim>\<open>ValidatePath\<close> of
  \<^verbatim>\<open>internal/pathutil/sanitize.go\<close> and \<^verbatim>\<open>ParseFilePath\<close> of the handlers.
  \<^verbatim>\<open>filepath.EvalSymlinks\<close> depends on the file system, so it is a parameter of
  \<open>SafeJoin\<close> (\<^const>\<open>None\<close> for an error). The lemmas show what an accepted path looks
  like, that acceptance is decided by the depth of every prefix, and that a joined path
  stays under the root whatever the symbolic links are.
\<close>

subsection \<open>Clean\<close>

text \<open>The loop that simulates the path resolution; \<^const>\<open>False\<close> is the early return.\<close>

fun depth_loop :: "int \<Rightarrow> string list \<Rightarrow> bool" where
  "depth_loop depth [] = True"
| "depth_loop depth (part # parts) =
     (if part = '''' \<or> part = ''.'' then depth_loop depth parts
      else if part = ''..'' then (if depth - 1 < 0 then False else depth_loop (depth - 1) parts)
      else depth_loop (depth + 1) parts)"

definition pathutil_Clean :: "string \<Rightarrow> string result" where
  "pathutil_Clean path =
     (if path = '''' then Inr ''/''
      else if IsAbs path \<and> path \<noteq> ''/'' then Inl ErrForbidden
      else let pathToClean = ''/'' @ TrimPrefix path ''/'';
               cleaned = filepath_Clean pathToClean
           in if \<not> HasPrefix cleaned ''/'' then Inl ErrForbidden
              else if cleaned = ''/'' then Inr cleaned
              else if depth_loop 0 (SplitOn slash (TrimPrefix path ''/'')) then Inr cleaned
              else Inl ErrForbidden)"

subsection \<open>ValidatePath\<close>

definition bad_rune :: "nat \<Rightarrow> bool" where
  "bad_rune char = ((char < 32 \<and> char \<noteq> 9) \<or> (0x202A \<le> char \<and> char \<le> 0x202E) \<or> (0x2066 \<le> char \<and> char \<le> 0x2069))"

definition ValidatePath :: "string \<Rightarrow> unit result" where
  "ValidatePath path =
     (if path = '''' then Inl (Errorf ''path cannot be empty'')
      else if Contains path [CHR 0x00] then Inl ErrForbidden
      else if \<exists>char \<in> set (runes path). bad_rune char then Inl ErrForbidden
      else (case pathutil_Clean path of Inl err \<Rightarrow> Inl err | Inr _ \<Rightarrow> Inr ()))"

subsection \<open>SafeJoin\<close>

definition rel_escapes :: "string option \<Rightarrow> bool" where
  "rel_escapes rel = (case rel of None \<Rightarrow> True | Some r \<Rightarrow> HasPrefix r ''..'')"

definition SafeJoin :: "(string \<Rightarrow> string option) \<Rightarrow> string \<Rightarrow> string \<Rightarrow> string result" where
  "SafeJoin EvalSymlinks root rel =
     (let cleanRoot = filepath_Clean root in
      case pathutil_Clean rel of Inl err \<Rightarrow> Inl err
      | Inr cleanRel \<Rightarrow>
        let joined = filepath_Join cleanRoot (TrimPrefix cleanRel ''/'') in
        (case EvalSymlinks joined of
           None \<Rightarrow>
             let dir = filepath_Dir joined;
                 structural = (if rel_escapes (filepath_Rel cleanRoot joined) then Inl ErrForbidden
                               else Inr joined)
             in if dir \<noteq> cleanRoot then
                  (case EvalSymlinks dir of
                     Some resolvedDir \<Rightarrow>
                       if rel_escapes (filepath_Rel cleanRoot resolvedDir) then Inl ErrForbidden
                       else Inr (filepath_Join resolvedDir (filepath_Base joined))
                   | None \<Rightarrow> structural)
                else structural
         | Some resolved \<Rightarrow>
             if rel_escapes (filepath_Rel cleanRoot resolved) then Inl ErrForbidden
             else Inr resolved))"

subsection \<open>ParseFilePath\<close>

record PathInfo =
  pi_FullPath :: string
  pi_ParentPath :: string
  pi_Name :: string
  pi_IsDirectory :: bool
  pi_IsInvalid :: bool

definition invalid_PathInfo :: PathInfo where
  "invalid_PathInfo = \<lparr>pi_FullPath = ''/'', pi_ParentPath = ''/'', pi_Name = '''',
     pi_IsDirectory = True, pi_IsInvalid = True\<rparr>"

definition ParseFilePath :: "string \<Rightarrow> PathInfo" where
  "ParseFilePath urlPath0 =
     (let urlPath = TrimPrefix urlPath0 ''/'';
          isDirectory = HasSuffix urlPath ''/'';
          cleanPath = TrimSuffix urlPath ''/''
      in if cleanPath = '''' \<or> cleanPath = ''.'' then
           \<lparr>pi_FullPath = ''/'', pi_ParentPath = ''/'', pi_Name = '''',
            pi_IsDirectory = True, pi_IsInvalid = False\<rparr>
         else if Contains cleanPath [CHR 92] then invalid_PathInfo
         else if \<not> is_ok (ValidatePath cleanPath) then invalid_PathInfo
         else
           let fullPath = ''/'' @ cleanPath @ (if isDirectory then ''/'' else '''');
               lastSlash = LastIndex cleanPath slash;
               parentPath = (if 0 \<le> lastSlash
                             then (if lastSlash = 0 then ''/'' else ''/'' @ take (nat lastSlash) cleanPath)
                             else ''/'');
               name = (if 0 \<le> lastSlash then drop (nat (lastSlash + 1)) cleanPath else cleanPath)
           in \<lparr>pi_FullPath = fullPath, pi_ParentPath = parentPath, pi_Name = name,
               pi_IsDirectory = isDirectory, pi_IsInvalid = False\<rparr>)"

text \<open>The path every handler derives for its engine calls.\<close>

definition engine_path :: "PathInfo \<Rightarrow> string" where
  "engine_path pathInfo =
     (if pi_IsDirectory pathInfo \<and> pi_FullPath pathInfo \<noteq> ''/''
      then TrimSuffix (pi_FullPath pathInfo) ''/'' else pi_FullPath pathInfo)"

subsection \<open>What Clean accepts\<close>

text \<open>Net depth of a component list: names count up, \<^verbatim>\<open>..\<close> counts down.\<close>

fun depth :: "string list \<Rightarrow> int" where
  "depth [] = 0"
| "depth (c # cs) = (if c = '''' \<or> c = ''.'' then 0 else if c = ''..'' then -1 else 1) + depth cs"

lemma all_le_Suc_split: "(\<forall>k \<le> Suc n. P k) \<longleftrightarrow> P 0 \<and> (\<forall>k \<le> n. P (Suc k))"
  by (metis Suc_le_mono le0 nat.exhaust)

lemma depth_loop_iff:
  "0 \<le> d \<Longrightarrow> depth_loop d cs \<longleftrightarrow> (\<forall>k \<le> length cs. 0 \<le> d + depth (take k cs))"
proof (induction d cs rule: depth_loop.induct)
  case (1 d)
  then show ?case by simp
next
  case (2 d c cs)
  consider "c = '''' \<or> c = ''.''" | "c = ''..''" "d = 0" | "c = ''..''" "0 < d"
    | "c \<noteq> ''''" "c \<noteq> ''.''" "c \<noteq> ''..''"
    using "2.prems" by fastforce
  then show ?case
  proof cases
    case 1
    then show ?thesis using 2 by (simp add: all_le_Suc_split)
  next
    case 2
    then show ?thesis by (auto simp: all_le_Suc_split intro!: exI [of _ 0])
  next
    case 3
    then show ?thesis using 2 by (simp add: all_le_Suc_split algebra_simps)
  next
    case 4
    then show ?thesis using 2 by (simp add: all_le_Suc_split add.assoc)
  qed
qed

text \<open>
  Where the loop does not fail, resolving the path at the root and resolving it as a
  relative path agree: no \<^verbatim>\<open>..\<close> was dropped.
\<close>

lemma depth_loop_no_clamp:
  "depth_loop (int (length out)) cs \<Longrightarrow> ''..'' \<notin> set out \<Longrightarrow>
     clean_stack True out cs = clean_stack False out cs \<and> ''..'' \<notin> set (clean_stack False out cs)"
proof (induction cs arbitrary: out)
  case (Cons c cs)
  show ?case
  proof (cases out)
    case Nil
    with Cons show ?thesis by (auto split: if_splits)
  next
    case (Cons o1 os)
    with Cons.prems Cons.IH [of out] Cons.IH [of os] Cons.IH [of "c # out"]
    show ?thesis by (auto simp: algebra_simps split: if_splits)
  qed
qed auto

lemma pathutil_Clean_rel:
  assumes "p \<noteq> ''''" "\<not> IsAbs p"
  shows "pathutil_Clean p =
    (let cs = rev (clean_stack True [] (SplitOn slash p)) in
     if cs = [] then Inr ''/'' else if depth_loop 0 (SplitOn slash p) then Inr (abs_path cs)
     else Inl ErrForbidden)"
proof -
  have trim: "TrimPrefix p ''/'' = p"
    using assms(2) by (simp add: TrimPrefix_def IsAbs_def)
  have abs: "IsAbs (slash # p)" by (simp add: IsAbs_def)
  have clean: "filepath_Clean (slash # p) = abs_path (rev (clean_stack True [] (SplitOn slash p)))"
    by (simp add: Clean_rooted [OF abs])
  have root: "abs_path (rev xs) = ''/'' \<longleftrightarrow> xs = []" if "plain_comps xs" for xs
    using that abs_path_inj [of "rev xs" "[]"] by simp
  have pl: "plain_comps (clean_stack True [] (SplitOn slash p))"
    by (rule clean_stack_rooted_plain) (auto simp: SplitOn_slash_plain)
  show ?thesis
    using assms trim clean root [OF pl]
    by (auto simp: pathutil_Clean_def Let_def IsAbs_def abs_path_def)
qed

lemma depth_loop_plain: "plain_comps cs \<Longrightarrow> depth_loop d cs"
  by (induction cs arbitrary: d) (auto simp: plain_comp_def)

lemma pathutil_Clean_plain:
  assumes "plain_comps cs" "cs \<noteq> []"
  shows "pathutil_Clean (JoinWith slash cs) = Inr (abs_path cs)"
proof -
  obtain c cs' where cs: "cs = c # cs'" using assms(2) by (cases cs) auto
  have "c \<noteq> ''''" "slash \<notin> set c" using assms(1) by (auto simp: cs plain_comp_def)
  then have "JoinWith slash cs \<noteq> ''''" "\<not> IsAbs (JoinWith slash cs)"
    by (cases c; cases cs'; auto simp: cs IsAbs_def JoinWith_Cons)+
  moreover have "SplitOn slash (JoinWith slash cs) = cs"
    using assms by (intro SplitOn_JoinWith) (auto simp: plain_comps_def plain_comp_def)
  ultimately show ?thesis
    using assms by (simp add: pathutil_Clean_rel clean_stack_plain depth_loop_plain)
qed

lemma ValidatePath_plain:
  assumes "plain_comps cs" "cs \<noteq> []" "\<forall>c \<in> set (JoinWith slash cs). 32 \<le> (of_char c :: nat) \<and> (of_char c :: nat) < 128"
  shows "ValidatePath (JoinWith slash cs) = Inr ()"
proof -
  have "runes (JoinWith slash cs) = map of_char (JoinWith slash cs)"
    using assms(3) by (intro runes_ascii_string) auto
  then have "\<not> (\<exists>r \<in> set (runes (JoinWith slash cs)). bad_rune r)"
    using assms(3) by (fastforce simp: bad_rune_def)
  moreover have "CHR 0x00 \<notin> set (JoinWith slash cs)" using assms(3) by fastforce
  moreover have "JoinWith slash cs \<noteq> ''''"
    using assms(1,2) by (cases cs; cases "tl cs") (auto simp: plain_comp_def JoinWith_Cons)
  ultimately show ?thesis
    by (simp add: ValidatePath_def pathutil_Clean_plain [OF assms(1,2)])
qed

lemma pathutil_Clean_shape:
  assumes "pathutil_Clean p = Inr r"
  obtains cs where "plain_comps cs" "r = abs_path cs"
proof (cases "p = '''' \<or> p = ''/''")
  case True
  then have "r = ''/''"
    using assms Clean_abs_path [of "[]"] by (auto simp: pathutil_Clean_def Let_def IsAbs_def)
  then show ?thesis using that [of "[]"] by simp
next
  case False
  with assms have "\<not> IsAbs p" by (auto simp: pathutil_Clean_def split: if_splits)
  with False assms show ?thesis
    using that [of "[]"] that [of "rev (clean_stack True [] (SplitOn slash p))"]
      clean_stack_rooted_plain [of "SplitOn slash p" "[]"]
    by (auto simp: pathutil_Clean_rel Let_def SplitOn_slash_plain split: if_splits)
qed

lemma pathutil_Clean_abs: "IsAbs p \<Longrightarrow> p \<noteq> ''/'' \<Longrightarrow> pathutil_Clean p = Inl ErrForbidden"
  by (auto simp: pathutil_Clean_def IsAbs_def)

lemma ValidatePath_abs: "IsAbs p \<Longrightarrow> p \<noteq> ''/'' \<Longrightarrow> ValidatePath p = Inl ErrForbidden"
  by (auto simp: ValidatePath_def pathutil_Clean_abs IsAbs_def)

lemma ValidatePath_ok:
  assumes "is_ok (ValidatePath p)"
  shows "p \<noteq> ''''" "CHR 0x00 \<notin> set p" "\<forall>r \<in> set (runes p). \<not> bad_rune r" "is_ok (pathutil_Clean p)"
  using assms by (auto simp: ValidatePath_def split: if_splits sum.splits)

subsection \<open>Properties of Clean and ValidatePath\<close>

text \<open>
  A relative path that does not resolve to the root is accepted by
  \<^verbatim>\<open>Clean\<close> exactly when every prefix of its components has non-negative depth, that
  is, when it never steps above its start. The result is then a slash and the path cleaned
  as a relative one, so no \<^verbatim>\<open>..\<close> was silently dropped, and its components are plain
  names.
\<close>

lemma Clean_accepts_exactly_inside:
  assumes "p \<noteq> ''''" "\<not> IsAbs p" "clean_stack True [] (SplitOn slash p) \<noteq> []"
  shows "if \<forall>k \<le> length (SplitOn slash p). 0 \<le> depth (take k (SplitOn slash p))
         then pathutil_Clean p = Inr (''/'' @ filepath_Clean p) \<and> plain_comps (path_comps (filepath_Clean p))
         else pathutil_Clean p = Inl ErrForbidden"
proof (cases "depth_loop 0 (SplitOn slash p)")
  case True
  let ?out = "clean_stack True [] (SplitOn slash p)"
  have eq: "clean_stack False [] (SplitOn slash p) = ?out"
    using depth_loop_no_clamp [of "[]" "SplitOn slash p"] True by simp
  have pl: "plain_comps ?out"
    by (rule clean_stack_rooted_plain) (auto simp: SplitOn_slash_plain)
  have clean: "filepath_Clean p = JoinWith slash (rev ?out)"
    using assms eq by (simp add: filepath_Clean_def Let_def)
  have "path_comps (filepath_Clean p) = rev ?out"
    using pl assms(3) path_comps_abs_path [of "rev ?out"]
    by (simp add: clean path_comps_def abs_path_def)
  with True clean pl assms show ?thesis
    by (simp add: pathutil_Clean_rel Let_def abs_path_def depth_loop_iff)
next
  case False
  with assms show ?thesis by (auto simp: pathutil_Clean_rel Let_def depth_loop_iff)
qed


text \<open>
  A path above its start that resolves to the root is not refused, where the
  comment on the check says that such a path is rejected: \<^verbatim>\<open>Clean\<close> returns the root
  although the depth simulation would fail.
\<close>

lemma Clean_escape_to_root_accepted:
  "pathutil_Clean (JoinWith slash (replicate (Suc n) ''..'')) = Inr ''/'' \<and>
   \<not> depth_loop 0 (SplitOn slash (JoinWith slash (replicate (Suc n) ''..'')))"
proof -
  let ?p = "JoinWith slash (replicate (Suc n) ''..'')"
  have sp: "SplitOn slash ?p = replicate (Suc n) ''..''"
    by (rule SplitOn_JoinWith) auto
  have hd: "HasPrefix ?p ''..''"
    by (cases n) auto
  then have p: "?p \<noteq> ''''" "\<not> IsAbs ?p"
    by (auto simp: IsAbs_def HasPrefix_iff)
  have "clean_stack True [] (replicate m ''..'') = []" for m
    by (induction m) auto
  then show ?thesis
    using pathutil_Clean_rel [OF p] sp by (simp add: Let_def)
qed

subsection \<open>SafeJoin stays under the root\<close>

lemma Join_abs_path:
  assumes "plain_comps rs" "plain_comps cs"
  shows "filepath_Join (abs_path rs) (JoinWith slash cs) = abs_path (rs @ cs)"
proof -
  have abs: "IsAbs (abs_path rs @ slash # JoinWith slash cs)"
    by (simp add: IsAbs_def abs_path_def)
  have cs: "SplitOn slash (JoinWith slash cs) = (if cs = [] then [''''] else cs)"
    using assms(2) by (auto simp: SplitOn_JoinWith plain_comps_def plain_comp_def)
  have ne: "abs_path rs \<noteq> ''''" by (simp add: abs_path_def)
  show ?thesis
    using assms ne
    by (simp add: filepath_Join_def Clean_rooted [OF abs] SplitOn_append_sep SplitOn_abs_path
        cs clean_stack_append clean_stack_plain)
qed

lemma Join_abs_path_single:
  assumes "plain_comps rs" "plain_comp c"
  shows "filepath_Join (abs_path rs) c = abs_path (rs @ [c])"
  using Join_abs_path [of rs "[c]"] assms by simp

lemma clean_abs_comps:
  assumes "IsAbs r" "filepath_Clean r = r"
  obtains cs where "plain_comps cs" "r = abs_path cs"
  using assms by (metis Clean_rooted_comps)

lemma SafeJoin_joined:
  assumes "plain_comps rs" "pathutil_Clean rel = Inr cleanRel"
  obtains cs where "plain_comps cs"
    "filepath_Join (abs_path rs) (TrimPrefix cleanRel ''/'') = abs_path (rs @ cs)"
proof -
  obtain cs where cs: "plain_comps cs" "cleanRel = abs_path cs"
    using assms(2) by (rule pathutil_Clean_shape)
  then have "TrimPrefix cleanRel ''/'' = JoinWith slash cs"
    by (simp add: abs_path_def)
  then show ?thesis using that cs Join_abs_path [OF assms(1)] by simp
qed

lemma Rel_inside:
  assumes "plain_comps rs" "\<not> rel_escapes (filepath_Rel (abs_path rs) q)" "IsAbs q" "filepath_Clean q = q"
  shows "under rs q"
  using assms
  by (auto simp: rel_escapes_def split: option.splits elim!: clean_abs_comps intro: Rel_no_dotdot_under)

text \<open>
  C13: (safety) Whatever the symbolic links resolve to, a path that \<^verbatim>\<open>SafeJoin\<close> returns
  lies under the root: its components extend those of the cleaned root.
  \<^verbatim>\<open>EvalSymlinks\<close> is any function that returns cleaned absolute paths, as documented, on
  an absolute root.
\<close>

theorem SafeJoin_confined:
  assumes "IsAbs root"
    and sym: "\<forall>q r. EvalSymlinks q = Some r \<longrightarrow> IsAbs r \<and> filepath_Clean r = r"
    and ok: "SafeJoin EvalSymlinks root rel = Inr p"
  shows "under (path_comps (filepath_Clean root)) p"
proof -
  obtain rs where rs: "filepath_Clean root = abs_path rs" "plain_comps rs"
    using assms(1) by (rule Clean_rooted_comps)
  obtain cleanRel where cr: "pathutil_Clean rel = Inr cleanRel"
    using ok by (auto simp: SafeJoin_def Let_def split: sum.splits)
  obtain cs where cs: "plain_comps cs"
    and joined: "filepath_Join (abs_path rs) (TrimPrefix cleanRel ''/'') = abs_path (rs @ cs)"
    using rs(2) cr by (rule SafeJoin_joined)
  consider (structural) "p = abs_path (rs @ cs)"
    | (parent) d where "EvalSymlinks (filepath_Dir (abs_path (rs @ cs))) = Some d"
        "filepath_Dir (abs_path (rs @ cs)) \<noteq> abs_path rs"
        "\<not> rel_escapes (filepath_Rel (abs_path rs) d)"
        "p = filepath_Join d (filepath_Base (abs_path (rs @ cs)))"
    | (resolved) "EvalSymlinks (abs_path (rs @ cs)) = Some p"
        "\<not> rel_escapes (filepath_Rel (abs_path rs) p)"
    using ok by (auto simp: SafeJoin_def Let_def rs cr joined split: option.splits if_splits)
  then have "under rs p"
  proof cases
    case structural
    then show ?thesis using cs by (auto simp: under_def)
  next
    case parent
    have "rs @ cs \<noteq> []" using parent(2) by auto
    then obtain ys y where y: "rs @ cs = ys @ [y]" by (metis rev_exhaust)
    have pl: "plain_comps (ys @ [y])" using rs(2) cs by (simp flip: y)
    obtain es where "plain_comps es" "d = abs_path (rs @ es)"
      using Rel_inside [OF rs(2) parent(3)] sym parent(1) by (auto simp: under_def)
    then have "p = abs_path (rs @ (es @ [y]))" "plain_comps (es @ [y])"
      using parent(4) Base_abs_path_snoc [OF pl] pl rs(2) y by (simp_all add: Join_abs_path_single)
    then show ?thesis unfolding under_def by blast
  next
    case resolved
    then show ?thesis using Rel_inside [OF rs(2)] sym by blast
  qed
  then show ?thesis using rs by simp
qed

definition link_example :: "string \<Rightarrow> string option" where
  "link_example q = (if q = ''/data/a'' then Some ''/data/x'' else None)"

theorem SafeJoin_confined_witness:
  "SafeJoin link_example ''/data/'' ''a/b'' = Inr ''/data/x/b'' \<and>
   under (path_comps (filepath_Clean ''/data/'')) ''/data/x/b''"
proof -
  have root: "filepath_Clean ''/data/'' = ''/data''"
    by (simp add: filepath_Clean_def IsAbs_def Let_def)
  have sym: "\<forall>q r. link_example q = Some r \<longrightarrow> IsAbs r \<and> filepath_Clean r = r"
    by (simp add: link_example_def filepath_Clean_def IsAbs_def Let_def)
  have ev: "SafeJoin link_example ''/data/'' ''a/b'' = Inr ''/data/x/b''"
    by code_simp
  show ?thesis
    using ev SafeJoin_confined [OF _ sym ev] by (simp add: IsAbs_def)
qed

subsection \<open>ParseFilePath\<close>

lemma ParseFilePath_cases:
  assumes "\<not> pi_IsInvalid (ParseFilePath u)" "pi_FullPath (ParseFilePath u) \<noteq> ''/''"
  obtains c where "is_ok (ValidatePath c)" "CHR 92 \<notin> set c"
    "pi_FullPath (ParseFilePath u) = ''/'' @ c @ (if pi_IsDirectory (ParseFilePath u) then ''/'' else '''')"
    "pi_ParentPath (ParseFilePath u) =
       (if slash \<in> set c then (if LastIndex c slash = 0 then ''/'' else ''/'' @ take (nat (LastIndex c slash)) c) else ''/'')"
    "pi_Name (ParseFilePath u) = (if slash \<in> set c then drop (nat (LastIndex c slash + 1)) c else c)"
    "c = TrimSuffix (TrimPrefix u ''/'') ''/''"
proof -
  let ?c = "TrimSuffix (TrimPrefix u ''/'') ''/''"
  from assms show ?thesis
    by (intro that [of ?c])
       (auto simp: ParseFilePath_def invalid_PathInfo_def Let_def LastIndex_nonneg split: if_splits)
qed

lemma engine_path_directory:
  assumes "pi_FullPath i = ''/'' @ c @ (if pi_IsDirectory i then ''/'' else '''')" "c \<noteq> ''''"
  shows "engine_path i = ''/'' @ c"
  using assms TrimSuffix_append [of "slash # c" "''/''"] by (auto simp: engine_path_def)

text \<open>
  A path the handlers accept splits into parent, name and the directory mark,
  the name has no separator, and the relative path that the engine later hands to a backend
  is one that \<^verbatim>\<open>ValidatePath\<close> accepted, free of back slashes. (The URL path
  \<^verbatim>\<open>///\<close> is the exception: its separator survives as the whole path.)
\<close>

lemma ParseFilePath_sound:
  assumes "\<not> pi_IsInvalid (ParseFilePath u)" "pi_FullPath (ParseFilePath u) \<noteq> ''/''" "u \<noteq> ''///''"
  shows "slash \<notin> set (pi_Name (ParseFilePath u)) \<and>
    pi_FullPath (ParseFilePath u) =
      (if pi_ParentPath (ParseFilePath u) = ''/'' then ''/'' else pi_ParentPath (ParseFilePath u) @ ''/'')
      @ pi_Name (ParseFilePath u) @ (if pi_IsDirectory (ParseFilePath u) then ''/'' else '''') \<and>
    is_ok (ValidatePath (TrimPrefix (engine_path (ParseFilePath u)) ''/'')) \<and>
    CHR 92 \<notin> set (engine_path (ParseFilePath u))"
proof -
  obtain c where c: "is_ok (ValidatePath c)" "CHR 92 \<notin> set c"
    "pi_FullPath (ParseFilePath u) = ''/'' @ c @ (if pi_IsDirectory (ParseFilePath u) then ''/'' else '''')"
    "pi_ParentPath (ParseFilePath u) =
       (if slash \<in> set c then (if LastIndex c slash = 0 then ''/'' else ''/'' @ take (nat (LastIndex c slash)) c) else ''/'')"
    "pi_Name (ParseFilePath u) = (if slash \<in> set c then drop (nat (LastIndex c slash + 1)) c else c)"
    "c = TrimSuffix (TrimPrefix u ''/'') ''/''"
    using assms(1,2) by (rule ParseFilePath_cases)
  have ne: "c \<noteq> ''''" using ValidatePath_ok(1) [OF c(1)] .
  have ep: "engine_path (ParseFilePath u) = ''/'' @ c"
    using c(3) ne by (rule engine_path_directory)
  show ?thesis
  proof (cases "slash \<in> set c")
    case True
    then obtain x y where xy: "c = x @ slash # y" "slash \<notin> set y"
      by (rule last_sep_decomp)
    have "\<not> IsAbs c \<or> c = ''/''" using c(1) ValidatePath_abs by (metis is_ok_simps(2))
    moreover have "c \<noteq> ''/''"
      using c(6) assms(3) by (auto simp: TrimSuffix_def TrimPrefix_def HasSuffix_iff HasPrefix_iff split: if_splits)
    ultimately have x: "x \<noteq> ''''" using xy by (auto simp: IsAbs_def)
    have li: "LastIndex c slash = int (length x)"
      unfolding xy(1) using xy(2) by (rule LastIndex_append)
    have name: "pi_Name (ParseFilePath u) = y"
      using c(5) True li by (simp add: xy(1) nat_add_distrib)
    have parent: "pi_ParentPath (ParseFilePath u) = (if x = '''' then ''/'' else ''/'' @ x)"
      using c(4) True li by (simp add: xy(1))
    show ?thesis
      using c(1-3) xy name parent ep x by auto
  next
    case False
    then have "pi_Name (ParseFilePath u) = c" "pi_ParentPath (ParseFilePath u) = ''/''"
      using c(4,5) by simp_all
    with c(1-3) ep False show ?thesis by simp
  qed
qed

lemmas path_eval = ParseFilePath_def ValidatePath_def pathutil_Clean_def filepath_Clean_def engine_path_def
  invalid_PathInfo_def TrimSuffix_def HasSuffix_def IsAbs_def LastIndex_def Let_def runes_ascii_string bad_rune_def


text \<open>
  The cleaned path is computed for the check and then thrown away, so two
  spellings of one backend location stay two different metadata paths: they are both
  accepted, their engine paths differ, and a backend joins them to the same file under any
  root.
\<close>

lemma ParseFilePath_aliases:
  "\<not> pi_IsInvalid (ParseFilePath ''a/./b'') \<and> \<not> pi_IsInvalid (ParseFilePath ''a/b'') \<and>
   engine_path (ParseFilePath ''a/./b'') \<noteq> engine_path (ParseFilePath ''a/b'') \<and>
   SafeJoin E root (TrimPrefix (engine_path (ParseFilePath ''a/./b'')) ''/'') =
   SafeJoin E root (TrimPrefix (engine_path (ParseFilePath ''a/b'')) ''/'')"
proof -
  have v: "\<not> pi_IsInvalid (ParseFilePath ''a/./b'')" "\<not> pi_IsInvalid (ParseFilePath ''a/b'')"
    by (simp_all add: path_eval)
  have e: "engine_path (ParseFilePath ''a/./b'') = ''/a/./b''" "engine_path (ParseFilePath ''a/b'') = ''/a/b''"
    by (simp_all add: path_eval)
  have "pathutil_Clean ''a/./b'' = pathutil_Clean ''a/b''" by (simp add: path_eval)
  then show ?thesis using v e by (simp add: SafeJoin_def)
qed

end
