(* ===== verification/Backends.thy ===== *)
theory Backends
  imports PathUtil "HOL-Library.Sublist"
begin

section \<open>Storage backends (backends)\<close>

text \<open>
  The interface \<^verbatim>\<open>backends.Storage\<close> as a record of operations over a world, the disabled
  backend \<^verbatim>\<open>noop\<close>, and the local file system adapter \<^verbatim>\<open>localfs\<close> over a model of the disk: a
  map from cleaned absolute paths to inodes, with the calls of package \<^verbatim>\<open>os\<close> that the adapter
  makes. The disk has no symbolic links (\<^const>\<open>SafeJoin\<close> is proved for arbitrary ones); a
  call of the operating system that fails for a reason outside this model (space, permissions,
  media) is a fault that the environment may inject into every call. The locale \<open>file_backend\<close>
  is what the engine relies on.
\<close>

subsection \<open>storage.go\<close>

text \<open>An \<^verbatim>\<open>io.Reader\<close>: the bytes it delivers and the error it ends with, if not \<^verbatim>\<open>EOF\<close>.\<close>

record reader =
  rd_data :: bytes
  rd_err :: "goerr option"

definition NewReader :: "bytes \<Rightarrow> reader" where
  "NewReader b = \<lparr>rd_data = b, rd_err = None\<rparr>"

record 'w storage_ops =
  so_Open :: "goctx \<Rightarrow> string \<Rightarrow> 'w \<Rightarrow> reader result"
  so_Create :: "goctx \<Rightarrow> string \<Rightarrow> reader \<Rightarrow> int \<Rightarrow> 'w \<Rightarrow> unit result \<times> 'w"
  so_Update :: "goctx \<Rightarrow> string \<Rightarrow> reader \<Rightarrow> int \<Rightarrow> 'w \<Rightarrow> unit result \<times> 'w"
  so_Delete :: "goctx \<Rightarrow> string \<Rightarrow> 'w \<Rightarrow> unit result \<times> 'w"
  so_Stat :: "goctx \<Rightarrow> string \<Rightarrow> 'w \<Rightarrow> Metadata result"
  so_ListDirectory :: "goctx \<Rightarrow> string \<Rightarrow> 'w \<Rightarrow> Metadata list result option"
  so_CreateDirectory :: "goctx \<Rightarrow> string \<Rightarrow> 'w \<Rightarrow> unit result \<times> 'w"

subsection \<open>noop/adapter.go\<close>

definition noop_ops :: "'w storage_ops" where
  "noop_ops = \<lparr>
     so_Open = (\<lambda>ctx path w. Inl (Errorf (''backend not enabled: cannot open file '' @ path))),
     so_Create = (\<lambda>ctx path reader size w. (Inl (Errorf (''backend not enabled: cannot create file '' @ path)), w)),
     so_Update = (\<lambda>ctx path reader size w. (Inl (Errorf (''backend not enabled: cannot update file '' @ path)), w)),
     so_Delete = (\<lambda>ctx path w. (Inl (Errorf (''backend not enabled: cannot delete file '' @ path)), w)),
     so_Stat = (\<lambda>ctx path w. Inl (Errorf (''backend not enabled: cannot stat file '' @ path))),
     so_ListDirectory = (\<lambda>ctx path w. Some (Inl (Errorf (''backend not enabled: cannot list directory '' @ path)))),
     so_CreateDirectory = (\<lambda>ctx path w. (Inl (Errorf (''backend not enabled: cannot create directory '' @ path)), w))\<rparr>"

subsection \<open>The disk and package os\<close>

record inode =
  in_IsDir :: bool
  in_Data :: bytes
  in_Mode :: nat
  in_Uid :: int
  in_Gid :: int
  in_ModTime :: gotime
  in_ATime :: gotime
  in_CTime :: gotime

type_synonym disk = "(string, inode) gomap"

text \<open>
  The environment of a process: injected faults by call, the random suffixes of temporary
  names, the owner of new files and the size reported for a directory.
\<close>

record osenv =
  os_fault :: "string \<Rightarrow> string \<Rightarrow> goerr option"
  os_rand :: "string list"
  os_uid :: int
  os_gid :: int
  os_dirsize :: int
  os_now :: gotime

abbreviation ENOTDIR :: goerr where "ENOTDIR \<equiv> Errorf ''not a directory''"
abbreviation ENOENT :: goerr where "ENOENT \<equiv> Errorf ''no such file or directory''"
abbreviation ENOTEMPTY :: goerr where "ENOTEMPTY \<equiv> Errorf ''directory not empty''"
abbreviation EISDIR :: goerr where "EISDIR \<equiv> Errorf ''is a directory''"

text \<open>Modes are decimal here: 493 is octal 0755, 420 is 0644 and 384 is 0600.\<close>

definition new_inode :: "osenv \<Rightarrow> bool \<Rightarrow> nat \<Rightarrow> inode" where
  "new_inode env dir mode = \<lparr>in_IsDir = dir, in_Data = '''', in_Mode = mode, in_Uid = os_uid env, in_Gid = os_gid env,
     in_ModTime = os_now env, in_ATime = os_now env, in_CTime = os_now env\<rparr>"

text \<open>The proper ancestors of an absolute path, from the root down.\<close>

definition ancestors :: "string \<Rightarrow> string list" where
  "ancestors p = map (\<lambda>n. abs_path (take n (path_comps p))) [0..<length (path_comps p)]"

definition is_file :: "disk \<Rightarrow> string \<Rightarrow> bool" where
  "is_file d p = (case map_of d p of Some i \<Rightarrow> \<not> in_IsDir i | None \<Rightarrow> False)"

definition is_dir :: "disk \<Rightarrow> string \<Rightarrow> bool" where
  "is_dir d p = (case map_of d p of Some i \<Rightarrow> in_IsDir i | None \<Rightarrow> False)"

text \<open>\<^verbatim>\<open>os.Stat\<close> and \<^verbatim>\<open>os.Lstat\<close>; \<open>ENOENT\<close> is the error \<^verbatim>\<open>os.IsNotExist\<close> recognises.\<close>

definition os_Stat :: "osenv \<Rightarrow> string \<Rightarrow> disk \<Rightarrow> inode result" where
  "os_Stat env p d =
     (case os_fault env ''stat'' p of
        Some e \<Rightarrow> Inl e
      | None \<Rightarrow>
          if list_ex (is_file d) (ancestors p) then Inl ENOTDIR
          else (case map_of d p of None \<Rightarrow> Inl ENOENT | Some i \<Rightarrow> Inr i))"

definition os_Open :: "osenv \<Rightarrow> string \<Rightarrow> disk \<Rightarrow> reader result" where
  "os_Open env p d =
     (case os_fault env ''open'' p of
        Some e \<Rightarrow> Inl e
      | None \<Rightarrow>
          if list_ex (is_file d) (ancestors p) then Inl ENOTDIR
          else (case map_of d p of
                  None \<Rightarrow> Inl ENOENT
                | Some i \<Rightarrow> Inr \<lparr>rd_data = in_Data i, rd_err = (if in_IsDir i then Some EISDIR else None)\<rparr>))"

fun mkdirs :: "osenv \<Rightarrow> string list \<Rightarrow> disk \<Rightarrow> unit result \<times> disk" where
  "mkdirs env [] d = (Inr (), d)"
| "mkdirs env (p # ps) d =
     (case map_of d p of
        Some i \<Rightarrow> if in_IsDir i then mkdirs env ps d else (Inl ENOTDIR, d)
      | None \<Rightarrow> mkdirs env ps (AList.update p (new_inode env True 493) d))"

definition os_MkdirAll :: "osenv \<Rightarrow> string \<Rightarrow> disk \<Rightarrow> unit result \<times> disk" where
  "os_MkdirAll env p d =
     (case os_fault env ''mkdir'' p of Some e \<Rightarrow> (Inl e, d) | None \<Rightarrow> mkdirs env (ancestors p @ [p]) d)"

fun fresh_name :: "string \<Rightarrow> string list \<Rightarrow> disk \<Rightarrow> string option" where
  "fresh_name dir [] d = None"
| "fresh_name dir (r # rs) d =
     (let p = filepath_Join dir (''.callfs-tmp-'' @ r)
      in if map_of d p = None then Some p else fresh_name dir rs d)"

definition os_CreateTemp :: "osenv \<Rightarrow> string \<Rightarrow> disk \<Rightarrow> string result \<times> disk" where
  "os_CreateTemp env dir d =
     (case os_fault env ''createtemp'' dir of
        Some e \<Rightarrow> (Inl e, d)
      | None \<Rightarrow>
          (case fresh_name dir (os_rand env) d of
             None \<Rightarrow> (Inl (Errorf ''file exists''), d)
           | Some p \<Rightarrow> (Inr p, AList.update p (new_inode env False 384) d)))"

text \<open>\<^verbatim>\<open>io.Copy\<close> into an open file: the bytes the reader delivers, then its error or a write fault.\<close>

definition io_Copy :: "osenv \<Rightarrow> string \<Rightarrow> reader \<Rightarrow> disk \<Rightarrow> unit result \<times> disk" where
  "io_Copy env p r d =
     (case os_fault env ''write'' p of
        Some e \<Rightarrow> (Inl e, d)
      | None \<Rightarrow>
          let d' = (case map_of d p of None \<Rightarrow> d | Some i \<Rightarrow> AList.update p (i\<lparr>in_Data := rd_data r, in_ModTime := os_now env\<rparr>) d)
          in (case rd_err r of Some e \<Rightarrow> (Inl e, d') | None \<Rightarrow> (Inr (), d')))"

definition os_Sync :: "osenv \<Rightarrow> string \<Rightarrow> unit result" where
  "os_Sync env p = (case os_fault env ''fsync'' p of Some e \<Rightarrow> Inl e | None \<Rightarrow> Inr ())"

definition os_Chmod :: "osenv \<Rightarrow> string \<Rightarrow> nat \<Rightarrow> disk \<Rightarrow> unit result \<times> disk" where
  "os_Chmod env p mode d =
     (case os_fault env ''chmod'' p of
        Some e \<Rightarrow> (Inl e, d)
      | None \<Rightarrow> (case map_of d p of None \<Rightarrow> (Inl ENOENT, d)
                 | Some i \<Rightarrow> (Inr (), AList.update p (i\<lparr>in_Mode := mode\<rparr>) d)))"

definition has_children :: "disk \<Rightarrow> string \<Rightarrow> bool" where
  "has_children d p = list_ex (\<lambda>q. q \<noteq> p \<and> p \<in> set (ancestors q)) (map fst d)"

definition os_Remove :: "osenv \<Rightarrow> string \<Rightarrow> disk \<Rightarrow> unit result \<times> disk" where
  "os_Remove env p d =
     (case os_fault env ''remove'' p of
        Some e \<Rightarrow> (Inl e, d)
      | None \<Rightarrow>
          if list_ex (is_file d) (ancestors p) then (Inl ENOTDIR, d)
          else (case map_of d p of
                  None \<Rightarrow> (Inl ENOENT, d)
                | Some i \<Rightarrow> if in_IsDir i \<and> has_children d p then (Inl ENOTEMPTY, d)
                            else (Inr (), AList.delete p d)))"

text \<open>\<^verbatim>\<open>os.Rename\<close> of a regular file: it replaces a file, never a directory.\<close>

definition os_Rename :: "osenv \<Rightarrow> string \<Rightarrow> string \<Rightarrow> disk \<Rightarrow> unit result \<times> disk" where
  "os_Rename env p q d =
     (case os_fault env ''rename'' q of
        Some e \<Rightarrow> (Inl e, d)
      | None \<Rightarrow>
          (case map_of d p of
             None \<Rightarrow> (Inl ENOENT, d)
           | Some i \<Rightarrow> if is_dir d q then (Inl (Errorf ''file exists''), d)
                       else (Inr (), AList.update q i (AList.delete p d))))"

definition os_ReadDir :: "osenv \<Rightarrow> string \<Rightarrow> disk \<Rightarrow> string list result" where
  "os_ReadDir env p d =
     (case os_fault env ''readdir'' p of
        Some e \<Rightarrow> Inl e
      | None \<Rightarrow>
          if list_ex (is_file d) (ancestors p) then Inl ENOTDIR
          else (case map_of d p of
                  None \<Rightarrow> Inl ENOENT
                | Some i \<Rightarrow>
                    if \<not> in_IsDir i then Inl ENOTDIR
                    else Inr (sort (map filepath_Base (filter (\<lambda>q. q \<noteq> p \<and> filepath_Dir q = p) (map fst d))))))"

text \<open>\<^verbatim>\<open>filepath.EvalSymlinks\<close> on a disk without links fails exactly for a path that is not there.\<close>

definition EvalSymlinks :: "disk \<Rightarrow> string \<Rightarrow> string option" where
  "EvalSymlinks d p =
     (if list_ex (is_file d) (ancestors p) \<or> map_of d (filepath_Clean p) = None then None else Some (filepath_Clean p))"

subsection \<open>localfs/adapter.go\<close>

record LocalFSAdapter =
  lf_rootPath :: string

definition NewLocalFSAdapter :: "osenv \<Rightarrow> string \<Rightarrow> disk \<Rightarrow> LocalFSAdapter result \<times> disk" where
  "NewLocalFSAdapter env rootPath d =
     (case os_MkdirAll env rootPath d of
        (Inl err, d') \<Rightarrow> (Inl (Wrapf (''failed to create root path '' @ rootPath) err), d')
      | (Inr _, d') \<Rightarrow>
          (case os_Stat env rootPath d' of
             Inl err \<Rightarrow> (Inl (Wrapf (''root path '' @ rootPath @ '' is not accessible'') err), d')
           | Inr _ \<Rightarrow> (Inr \<lparr>lf_rootPath = rootPath\<rparr>, d')))"

definition localfs_Open :: "osenv \<Rightarrow> LocalFSAdapter \<Rightarrow> string \<Rightarrow> disk \<Rightarrow> reader result" where
  "localfs_Open env a path d =
     (case SafeJoin (EvalSymlinks d) (lf_rootPath a) path of
        Inl _ \<Rightarrow> Inl ErrForbidden
      | Inr fullPath \<Rightarrow>
          (case os_Open env fullPath d of
             Inl err \<Rightarrow> if err = ENOENT then Inl ErrNotFound else Inl (Wrapf (''failed to open file '' @ path) err)
           | Inr file \<Rightarrow> Inr file))"

text \<open>
  The common part of \<^verbatim>\<open>Create\<close> and \<^verbatim>\<open>Update\<close>: parent directories, a temporary file in the target's
  directory, the content copied, synced and made readable. On an error the temporary file is
  removed (the result of \<^verbatim>\<open>os.Remove\<close> is not looked at).
\<close>

definition write_temp :: "osenv \<Rightarrow> string \<Rightarrow> string \<Rightarrow> reader \<Rightarrow> disk \<Rightarrow> string result \<times> disk" where
  "write_temp env tempMsg fullPath reader d =
     (case os_MkdirAll env (filepath_Dir fullPath) d of
        (Inl err, d1) \<Rightarrow> (Inl (Wrapf ''failed to create parent directory'' err), d1)
      | (Inr _, d1) \<Rightarrow>
          (case os_CreateTemp env (filepath_Dir fullPath) d1 of
             (Inl err, d2) \<Rightarrow> (Inl (Wrapf tempMsg err), d2)
           | (Inr tmpPath, d2) \<Rightarrow>
               (case io_Copy env tmpPath reader d2 of
                  (Inl copyErr, d3) \<Rightarrow>
                    (Inl (Wrapf ''failed to write file content'' copyErr), snd (os_Remove env tmpPath d3))
                | (Inr _, d3) \<Rightarrow>
                    (case os_Sync env tmpPath of
                       Inl err \<Rightarrow> (Inl (Wrapf ''failed to fsync file'' err), snd (os_Remove env tmpPath d3))
                     | Inr _ \<Rightarrow>
                         (case os_Chmod env tmpPath 420 d3 of
                            (Inl err, d4) \<Rightarrow>
                              (Inl (Wrapf ''failed to set file permissions'' err), snd (os_Remove env tmpPath d4))
                          | (Inr _, d4) \<Rightarrow> (Inr tmpPath, d4))))))"

definition localfs_Create :: "osenv \<Rightarrow> LocalFSAdapter \<Rightarrow> string \<Rightarrow> reader \<Rightarrow> int \<Rightarrow> disk \<Rightarrow> unit result \<times> disk" where
  "localfs_Create env a path reader sz d =
     (case SafeJoin (EvalSymlinks d) (lf_rootPath a) path of
        Inl _ \<Rightarrow> (Inl ErrForbidden, d)
      | Inr fullPath \<Rightarrow>
          (case write_temp env ''failed to create temp file'' fullPath reader d of
             (Inl err, d1) \<Rightarrow> (Inl err, d1)
           | (Inr tmpPath, d1) \<Rightarrow>
               (case os_Stat env fullPath d1 of
                  Inr _ \<Rightarrow> (Inl ErrAlreadyExists, snd (os_Remove env tmpPath d1))
                | Inl _ \<Rightarrow>
                    (case os_Rename env tmpPath fullPath d1 of
                       (Inl err, d2) \<Rightarrow>
                         (Inl (Wrapf ''failed to rename temp file'' err), snd (os_Remove env tmpPath d2))
                     | (Inr _, d2) \<Rightarrow> (Inr (), d2)))))"

definition localfs_Update :: "osenv \<Rightarrow> LocalFSAdapter \<Rightarrow> string \<Rightarrow> reader \<Rightarrow> int \<Rightarrow> disk \<Rightarrow> unit result \<times> disk" where
  "localfs_Update env a path reader sz d =
     (case SafeJoin (EvalSymlinks d) (lf_rootPath a) path of
        Inl _ \<Rightarrow> (Inl ErrForbidden, d)
      | Inr fullPath \<Rightarrow>
          (case write_temp env ''failed to create temp file for update'' fullPath reader d of
             (Inl err, d1) \<Rightarrow> (Inl err, d1)
           | (Inr tmpPath, d1) \<Rightarrow>
               (case os_Rename env tmpPath fullPath d1 of
                  (Inl err, d2) \<Rightarrow>
                    (Inl (Wrapf ''failed to rename temp file'' err), snd (os_Remove env tmpPath d2))
                | (Inr _, d2) \<Rightarrow> (Inr (), d2))))"

definition localfs_Delete :: "osenv \<Rightarrow> LocalFSAdapter \<Rightarrow> string \<Rightarrow> disk \<Rightarrow> unit result \<times> disk" where
  "localfs_Delete env a path d =
     (case SafeJoin (EvalSymlinks d) (lf_rootPath a) path of
        Inl _ \<Rightarrow> (Inl ErrForbidden, d)
      | Inr fullPath \<Rightarrow>
          (case os_Remove env fullPath d of
             (Inl err, d1) \<Rightarrow>
               (if err = ENOENT then Inl ErrNotFound else Inl (Wrapf (''failed to delete '' @ path) err), d1)
           | (Inr _, d1) \<Rightarrow> (Inr (), d1)))"

fun oct_string :: "nat \<Rightarrow> string" where
  "oct_string n = (if n < 8 then [digit_char n] else oct_string (n div 8) @ [digit_char (n mod 8)])"

text \<open>\<open>extractUnixMetadata\<close> on a system with \<^verbatim>\<open>syscall.Stat_t\<close>: mode, owner and the two times.\<close>

definition extractUnixMetadata :: "inode \<Rightarrow> string \<times> int \<times> int \<times> gotime \<times> gotime" where
  "extractUnixMetadata info =
     (CHR ''0'' # oct_string (in_Mode info mod 512), in_Uid info, in_Gid info, in_ATime info, in_CTime info)"

definition localfs_Stat :: "osenv \<Rightarrow> LocalFSAdapter \<Rightarrow> string \<Rightarrow> disk \<Rightarrow> Metadata result" where
  "localfs_Stat env a path d =
     (case SafeJoin (EvalSymlinks d) (lf_rootPath a) path of
        Inl _ \<Rightarrow> Inl ErrForbidden
      | Inr fullPath \<Rightarrow>
          (case os_Stat env fullPath d of
             Inl err \<Rightarrow> if err = ENOENT then Inl ErrNotFound else Inl (Wrapf (''failed to stat '' @ path) err)
           | Inr info \<Rightarrow>
               (case extractUnixMetadata info of
                  (mode, uid, gid, atime, ctime) \<Rightarrow>
                    Inr (zero_Metadata\<lparr>md_Name := filepath_Base fullPath, md_Path := path,
                      md_Size := (if in_IsDir info then os_dirsize env else int (length (in_Data info))),
                      md_MTime := in_ModTime info, md_BackendType := ''localfs'',
                      md_Type := (if in_IsDir info then ''directory'' else ''file''),
                      md_Mode := mode, md_UID := uid, md_GID := gid, md_ATime := atime, md_CTime := ctime\<rparr>))))"

fun ok_results :: "'a result list \<Rightarrow> 'a list" where
  "ok_results [] = []"
| "ok_results (Inr x # rs) = x # ok_results rs"
| "ok_results (Inl _ # rs) = ok_results rs"

definition localfs_ListDirectory :: "osenv \<Rightarrow> LocalFSAdapter \<Rightarrow> string \<Rightarrow> disk \<Rightarrow> Metadata list result" where
  "localfs_ListDirectory env a path d =
     (case SafeJoin (EvalSymlinks d) (lf_rootPath a) path of
        Inl _ \<Rightarrow> Inl ErrForbidden
      | Inr fullPath \<Rightarrow>
          (case os_ReadDir env fullPath d of
             Inl err \<Rightarrow> if err = ENOENT then Inl ErrNotFound else Inl (Wrapf (''failed to read directory '' @ path) err)
           | Inr entries \<Rightarrow> Inr (ok_results (map (\<lambda>name. localfs_Stat env a (filepath_Join path name) d) entries))))"

definition localfs_CreateDirectory :: "osenv \<Rightarrow> LocalFSAdapter \<Rightarrow> string \<Rightarrow> disk \<Rightarrow> unit result \<times> disk" where
  "localfs_CreateDirectory env a path d =
     (case SafeJoin (EvalSymlinks d) (lf_rootPath a) path of
        Inl _ \<Rightarrow> (Inl ErrForbidden, d)
      | Inr fullPath \<Rightarrow>
          (case os_Stat env fullPath d of
             Inr info \<Rightarrow> (if \<not> in_IsDir info then Inl (Errorf ''path exists as file, not directory'') else Inr (), d)
           | Inl _ \<Rightarrow>
               (case os_MkdirAll env fullPath d of
                  (Inl err, d1) \<Rightarrow> (Inl (Wrapf (''failed to create directory '' @ path) err), d1)
                | (Inr _, d1) \<Rightarrow> (Inr (), d1))))"

declare oct_string.simps [simp del]

subsection \<open>Where a relative path lands\<close>

text \<open>
  On a disk without links \<^verbatim>\<open>SafeJoin\<close> does not depend on what the disk holds: a relative path
  with at least one component lands under the root, or is refused.
\<close>

definition localfs_loc :: "string \<Rightarrow> string \<Rightarrow> string option" where
  "localfs_loc root rel =
     (case pathutil_Clean rel of
        Inl _ \<Rightarrow> None
      | Inr cleanRel \<Rightarrow>
          if cleanRel = ''/'' \<or> HasPrefix cleanRel ''/..'' then None
          else Some (filepath_Clean (filepath_Clean root @ cleanRel)))"

lemma EvalSymlinks_abs:
  "plain_comps cs \<Longrightarrow> EvalSymlinks d (abs_path cs) = None \<or> EvalSymlinks d (abs_path cs) = Some (abs_path cs)"
  by (simp add: EvalSymlinks_def)

lemma rel_escapes_under:
  assumes "plain_comps rs" "plain_comps cs" "cs \<noteq> []"
  shows "rel_escapes (filepath_Rel (abs_path rs) (abs_path (rs @ cs))) = HasPrefix (hd cs) ''..''"
proof -
  obtain c cs' where cs: "cs = c # cs'" using assms(3) by (cases cs) auto
  have ndd: "c \<noteq> ''..''" using assms(2) cs by (simp add: plain_comp_def)
  have "filepath_Rel (abs_path rs) (abs_path (rs @ cs)) = Some (JoinWith slash cs)"
    using assms by (simp add: Rel_abs_path strip_common_prefix)
  moreover have "HasPrefix (JoinWith slash cs) ''..'' = HasPrefix c ''..''"
  proof (cases cs')
    case (Cons a list)
    have "HasPrefix (c @ slash # t) ''..'' = HasPrefix c ''..''" for t
      using ndd by (cases c; cases "tl c") (auto simp: HasPrefix_def)
    then show ?thesis by (simp add: cs Cons)
  qed (simp add: cs)
  ultimately show ?thesis by (simp add: rel_escapes_def cs)
qed

lemma Clean_result_comps:
  assumes "pathutil_Clean rel = Inr cleanRel" "cleanRel \<noteq> ''/''"
  obtains c cs where "plain_comps (c # cs)" "cleanRel = abs_path (c # cs)" "TrimPrefix cleanRel ''/'' = JoinWith slash (c # cs)"
proof -
  obtain cs where "plain_comps cs" "cleanRel = abs_path cs"
    using assms(1) by (rule pathutil_Clean_shape)
  with assms(2) show ?thesis
    using that [of "hd cs" "tl cs"] by (cases cs) (auto simp: abs_path_def TrimPrefix_def)
qed

lemma Clean_concat:
  assumes "plain_comps rs" "plain_comps cs" "cs \<noteq> []"
  shows "filepath_Clean (abs_path rs @ abs_path cs) = abs_path (rs @ cs)"
proof -
  have "filepath_Clean (abs_path rs @ abs_path cs) = filepath_Join (abs_path rs) (JoinWith slash cs)"
    by (simp add: filepath_Join_def abs_path_def)
  then show ?thesis using assms by (simp add: Join_abs_path)
qed

lemma dotdot_head:
  "plain_comps (c # cs) \<Longrightarrow> HasPrefix (abs_path (c # cs)) ''/..'' = HasPrefix c ''..''"
  by (cases cs; cases c; cases "tl c") (auto simp: HasPrefix_def abs_path_def plain_comp_def)

text \<open>The accepted locations, with their components.\<close>

lemma localfs_loc_cases:
  assumes "IsAbs root" "localfs_loc root rel = Some p"
  obtains rs c cs where "plain_comps rs" "filepath_Clean root = abs_path rs" "plain_comps (c # cs)"
    "pathutil_Clean rel = Inr (abs_path (c # cs))" "\<not> HasPrefix c ''..''" "p = abs_path (rs @ c # cs)"
proof -
  obtain rs where rs: "filepath_Clean root = abs_path rs" "plain_comps rs"
    using assms(1) by (rule Clean_rooted_comps)
  obtain cr where cr: "pathutil_Clean rel = Inr cr" "cr \<noteq> ''/''" "\<not> HasPrefix cr ''/..''"
      "p = filepath_Clean (filepath_Clean root @ cr)"
    using assms(2) by (auto simp: localfs_loc_def split: sum.splits if_splits)
  obtain c cs where c: "plain_comps (c # cs)" "cr = abs_path (c # cs)"
    using Clean_result_comps [OF cr(1,2)] by metis
  show ?thesis
    using that [OF rs(2,1) c(1)] cr c rs dotdot_head [OF c(1)] by (simp add: Clean_concat)
qed

lemma SafeJoin_linkfree:
  assumes "IsAbs root" "localfs_loc root rel = Some p"
  shows "SafeJoin (EvalSymlinks d) root rel = Inr p"
  using assms
proof (rule localfs_loc_cases)
  fix rs c cs
  assume rs: "plain_comps rs" "filepath_Clean root = abs_path rs" and c: "plain_comps (c # cs)"
    "pathutil_Clean rel = Inr (abs_path (c # cs))" "\<not> HasPrefix c ''..''" and p: "p = abs_path (rs @ c # cs)"
  have joined: "filepath_Join (abs_path rs) (TrimPrefix (abs_path (c # cs)) ''/'') = p"
    using rs(1) c(1) Join_abs_path [of rs "c # cs"] by (simp add: p TrimPrefix_def abs_path_def)
  have inside: "\<not> rel_escapes (filepath_Rel (abs_path rs) (abs_path (rs @ xs)))" if "xs \<noteq> []" "prefix xs (c # cs)" for xs
    using that rs(1) c(1,3) rel_escapes_under [OF rs(1), of xs]
    by (cases xs) (auto simp: prefix_def)
  let ?butl = "butlast (c # cs)" and ?l = "last (c # cs)"
  have split: "rs @ c # cs = (rs @ ?butl) @ [?l]" by simp
  have pl: "plain_comps (rs @ ?butl)" "plain_comp ?l"
    using rs(1) c(1) unfolding plain_comps_def by (auto dest: in_set_butlastD split: if_splits)
  have plall: "plain_comps ((rs @ ?butl) @ [?l])" using pl by simp
  have dir: "filepath_Dir p = abs_path (rs @ ?butl)" "filepath_Base p = ?l"
    unfolding p split using Dir_abs_path_snoc [OF plall] Base_abs_path_snoc [OF plall] by blast+
  have re: "filepath_Join (abs_path (rs @ ?butl)) ?l = p"
    unfolding p split by (rule Join_abs_path_single [OF pl])
  have "plain_comps (rs @ c # cs)" using rs(1) c(1) by simp
  then have ev: "EvalSymlinks d p = None \<or> EvalSymlinks d p = Some p" unfolding p by (rule EvalSymlinks_abs)
  have evd: "EvalSymlinks d (abs_path (rs @ ?butl)) = None \<or> EvalSymlinks d (abs_path (rs @ ?butl)) = Some (abs_path (rs @ ?butl))"
    using pl(1) by (rule EvalSymlinks_abs)
  have top: "\<not> rel_escapes (filepath_Rel (abs_path rs) p)" using inside [of "c # cs"] by (simp add: p)
  have low: "\<not> rel_escapes (filepath_Rel (abs_path rs) (abs_path (rs @ ?butl)))"
    if "abs_path (rs @ ?butl) \<noteq> abs_path rs"
    using that inside [of ?butl] by (auto simp: prefixeq_butlast)
  show ?thesis
    using ev evd top low
    by (auto simp: SafeJoin_def Let_def rs(2) c(2) joined dir re simp del: butlast.simps last.simps)
qed

subsection \<open>Trees\<close>

definition tree_ok :: "disk \<Rightarrow> bool" where
  "tree_ok d \<longleftrightarrow> gomap_ok d \<and>
     (\<forall>p i. map_of d p = Some i \<longrightarrow> (\<exists>cs. plain_comps cs \<and> p = abs_path cs) \<and> (\<forall>q \<in> set (ancestors p). is_dir d q))"

text \<open>The regular files of a disk.\<close>

definition contents :: "disk \<Rightarrow> string \<Rightarrow> bytes option" where
  "contents d p = (case map_of d p of None \<Rightarrow> None | Some i \<Rightarrow> if in_IsDir i then None else Some (in_Data i))"

definition adds_dirs :: "disk \<Rightarrow> disk \<Rightarrow> bool" where
  "adds_dirs d d' \<longleftrightarrow> map_of d \<subseteq>\<^sub>m map_of d' \<and>
     (\<forall>q i. map_of d q = None \<longrightarrow> map_of d' q = Some i \<longrightarrow> in_IsDir i)"

lemma adds_dirs_refl [simp]: "adds_dirs d d"
  by (simp add: adds_dirs_def)

lemma adds_dirs_keeps: "adds_dirs d d' \<Longrightarrow> map_of d q = Some i \<Longrightarrow> map_of d' q = Some i"
  unfolding adds_dirs_def map_le_def by (metis domI)

lemma adds_dirs_trans: "adds_dirs d1 d2 \<Longrightarrow> adds_dirs d2 d3 \<Longrightarrow> adds_dirs d1 d3"
  unfolding adds_dirs_def by (metis (no_types, opaque_lifting) map_le_trans map_le_def domI not_Some_eq)

lemma adds_dirs_contents: "adds_dirs d d' \<Longrightarrow> contents d' = contents d"
  by (auto simp: fun_eq_iff contents_def adds_dirs_keeps split: option.splits) (auto simp: adds_dirs_def)

lemma adds_dirs_is_dir: "adds_dirs d d' \<Longrightarrow> is_dir d p \<Longrightarrow> is_dir d' p"
  by (auto simp: is_dir_def adds_dirs_keeps split: option.splits)

lemma ancestors_snoc:
  assumes "plain_comps (cs @ [c])"
  shows "ancestors (abs_path (cs @ [c])) = ancestors (abs_path cs) @ [abs_path cs]"
  using assms by (simp add: ancestors_def)

lemma ancestors_root [simp]: "ancestors ''/'' = []"
  by (simp add: ancestors_def path_comps_def)

lemma ancestors_proper:
  assumes "plain_comps cs" "q \<in> set (ancestors (abs_path cs))"
  shows "q \<noteq> abs_path cs"
proof -
  obtain n where n: "n < length cs" "q = abs_path (take n cs)"
    using assms by (auto simp: ancestors_def)
  moreover have "plain_comps (take n cs)"
    using assms(1) by (auto simp: plain_comps_def dest: in_set_takeD)
  moreover have "take n cs \<noteq> cs" using n(1) by (metis length_take less_irrefl min.absorb4)
  ultimately show ?thesis using abs_path_inj [OF _ assms(1), of "take n cs"] by simp
qed

lemma is_dir_not_file: "is_dir d q \<Longrightarrow> \<not> is_file d q"
  by (auto simp: is_dir_def is_file_def split: option.splits)

lemma tree_ok_no_file_above:
  "tree_ok d \<Longrightarrow> map_of d p = Some i \<Longrightarrow> \<not> list_ex (is_file d) (ancestors p)"
  by (auto simp: tree_ok_def list_ex_iff is_dir_not_file)

lemma tree_ok_comps: "tree_ok d \<Longrightarrow> map_of d p = Some i \<Longrightarrow> \<exists>cs. plain_comps cs \<and> p = abs_path cs"
  by (auto simp: tree_ok_def)

text \<open>Adding or replacing an entry below existing directories keeps a tree.\<close>

lemma tree_ok_update:
  assumes "tree_ok d" "plain_comps cs" "p = abs_path cs" "\<forall>q \<in> set (ancestors p). is_dir d q"
    and "is_dir d p \<longrightarrow> in_IsDir i"
  shows "tree_ok (AList.update p i d)"
proof -
  have dir: "is_dir (AList.update p i d) q" if "is_dir d q" for q
    using that assms(5) by (auto simp: is_dir_def)
  show ?thesis
    using assms(1-4) dir unfolding tree_ok_def by (auto split: if_splits)
qed

lemma mkdirs_append:
  "mkdirs env (ps @ qs) d = (case mkdirs env ps d of (Inl e, d') \<Rightarrow> (Inl e, d') | (Inr _, d') \<Rightarrow> mkdirs env qs d')"
  by (induction env ps d rule: mkdirs.induct) (auto split: option.splits)

lemma mkdirs_one:
  assumes "tree_ok d" "plain_comps cs" "\<forall>q \<in> set (ancestors (abs_path cs)). is_dir d q"
    "mkdirs env [abs_path cs] d = (r, d')"
  shows "tree_ok d' \<and> adds_dirs d d' \<and> (r = Inr () \<longrightarrow> is_dir d' (abs_path cs))"
proof (cases "map_of d (abs_path cs)")
  case None
  then have d': "d' = AList.update (abs_path cs) (new_inode env True 493) d" using assms(4) by simp
  have "tree_ok d'"
    unfolding d' using assms None by (intro tree_ok_update) (auto simp: new_inode_def)
  moreover have "adds_dirs d d'"
    unfolding d' adds_dirs_def map_le_def using None by (auto simp: new_inode_def)
  moreover have "is_dir d' (abs_path cs)" by (simp add: d' is_dir_def new_inode_def)
  ultimately show ?thesis by simp
next
  case (Some i)
  then show ?thesis using assms by (auto simp: is_dir_def split: if_splits)
qed

lemma mkdirs_tree:
  assumes "tree_ok d" "plain_comps cs" "mkdirs env (ancestors (abs_path cs) @ [abs_path cs]) d = (r, d')"
  shows "tree_ok d' \<and> adds_dirs d d' \<and> (r = Inr () \<longrightarrow> is_dir d' (abs_path cs))"
  using assms(2,3)
proof (induction cs arbitrary: r d' rule: rev_induct)
  case Nil
  then show ?case using mkdirs_one [OF assms(1), of "[]"] by simp
next
  case (snoc c cs)
  obtain r1 d1 where m1: "mkdirs env (ancestors (abs_path cs) @ [abs_path cs]) d = (r1, d1)" by fastforce
  then have ih: "tree_ok d1" "adds_dirs d d1" "r1 = Inr () \<Longrightarrow> is_dir d1 (abs_path cs)"
    using snoc.IH [OF _ m1] snoc.prems(1) by auto
  have m2: "mkdirs env (ancestors (abs_path (cs @ [c])) @ [abs_path (cs @ [c])]) d =
      (case r1 of Inl e \<Rightarrow> (Inl e, d1) | Inr _ \<Rightarrow> mkdirs env [abs_path (cs @ [c])] d1)"
    using snoc.prems(1) m1 mkdirs_append [of env "ancestors (abs_path cs) @ [abs_path cs]" "[abs_path (cs @ [c])]" d]
    by (simp add: ancestors_snoc split: sum.splits)
  show ?case
  proof (cases r1)
    case (Inr u)
    have up: "\<forall>q \<in> set (ancestors (abs_path (cs @ [c]))). is_dir d1 q"
      using ih snoc.prems(1) Inr unfolding tree_ok_def
      by (auto simp: ancestors_snoc is_dir_def split: option.splits)
    have "mkdirs env [abs_path (cs @ [c])] d1 = (r, d')"
      using m2 snoc.prems(2) Inr by simp
    from mkdirs_one [OF ih(1) snoc.prems(1) up this] show ?thesis
      using ih(2) adds_dirs_trans by blast
  qed (use m2 snoc.prems ih in auto)
qed

lemma os_MkdirAll_tree:
  assumes "tree_ok d" "plain_comps cs" "os_MkdirAll env (abs_path cs) d = (r, d')"
  shows "tree_ok d' \<and> adds_dirs d d' \<and> (r = Inr () \<longrightarrow> is_dir d' (abs_path cs))"
  using assms mkdirs_tree [OF assms(1,2), of env r d'] by (auto simp: os_MkdirAll_def split: option.splits)

subsection \<open>The temporary file\<close>

definition env_ok :: "osenv \<Rightarrow> bool" where
  "env_ok env = list_all (\<lambda>r. slash \<notin> set r) (os_rand env)"

text \<open>\<open>temp_state d tmp i d'\<close>: \<open>d'\<close> is the tree \<open>d\<close> with one new regular file.\<close>

definition temp_state :: "disk \<Rightarrow> string \<Rightarrow> inode \<Rightarrow> disk \<Rightarrow> bool" where
  "temp_state d tmp i d' \<longleftrightarrow> tree_ok d \<and> tree_ok d' \<and> map_of d tmp = None \<and>
     map_of d' = (map_of d)(tmp \<mapsto> i) \<and> \<not> in_IsDir i"

lemma tree_ok_delete_file:
  assumes "tree_ok d" "map_of d p = Some i" "\<not> in_IsDir i"
  shows "tree_ok (AList.delete p d)"
proof -
  have "is_dir (AList.delete p d) q" if "is_dir d q" for q
    using that assms(2,3) by (auto simp: is_dir_def split: option.splits)
  with assms(1) show ?thesis unfolding tree_ok_def by (auto split: if_splits)
qed

lemma fresh_name_spec:
  assumes "fresh_name (abs_path cs) rs d = Some p" "plain_comps cs" "list_all (\<lambda>r. slash \<notin> set r) rs"
  obtains t where "plain_comp t" "p = abs_path (cs @ [t])" "map_of d p = None"
  using assms
proof (induction rs)
  case (Cons r rs)
  have t: "plain_comp (''.callfs-tmp-'' @ r)" using Cons.prems(4) by (simp add: plain_comp_def)
  have j: "filepath_Join (abs_path cs) (''.callfs-tmp-'' @ r) = abs_path (cs @ [''.callfs-tmp-'' @ r])"
    by (rule Join_abs_path_single [OF Cons.prems(3) t])
  show ?case
  proof (cases "map_of d (abs_path (cs @ [''.callfs-tmp-'' @ r])) = None")
    case True
    then have "p = abs_path (cs @ [''.callfs-tmp-'' @ r])"
      using Cons.prems(2) j by (simp add: Let_def del: append.simps)
    then show ?thesis using Cons.prems(1) t True by blast
  next
    case False
    then have "fresh_name (abs_path cs) rs d = Some p"
      using Cons.prems(2) j by (auto simp: Let_def simp del: append.simps)
    then show ?thesis using Cons.IH Cons.prems by simp
  qed
qed simp

lemma ancestors_dirs:
  assumes "tree_ok d" "plain_comps (cs @ [c])" "is_dir d (abs_path cs)"
  shows "\<forall>q \<in> set (ancestors (abs_path (cs @ [c]))). is_dir d q"
  using assms by (auto simp: ancestors_snoc tree_ok_def is_dir_def split: option.splits)

lemma CreateTemp_state:
  assumes "tree_ok d" "env_ok env" "plain_comps cs" "is_dir d (abs_path cs)"
    "os_CreateTemp env (abs_path cs) d = (Inr tmp, d')"
  shows "\<exists>i. temp_state d tmp i d'"
proof -
  have f: "fresh_name (abs_path cs) (os_rand env) d = Some tmp"
    "d' = AList.update tmp (new_inode env False 384) d"
    using assms(5) by (auto simp: os_CreateTemp_def split: option.splits)
  obtain t where t: "plain_comp t" "tmp = abs_path (cs @ [t])" "map_of d tmp = None"
    using fresh_name_spec [OF f(1) assms(3)] assms(2) by (metis env_ok_def)
  have "tree_ok d'"
    unfolding f(2) using t assms ancestors_dirs [OF assms(1) _ assms(4), of t]
    by (intro tree_ok_update [where cs = "cs @ [t]"]) (auto simp: is_dir_def)
  then show ?thesis
    using assms(1) t(3) f(2) by (auto simp: temp_state_def new_inode_def)
qed

lemma temp_state_update:
  assumes "temp_state d tmp i d'" "\<not> in_IsDir j"
  shows "temp_state d tmp j (AList.update tmp j d')"
proof -
  have m: "map_of d' tmp = Some i" "tree_ok d'" using assms(1) by (auto simp: temp_state_def)
  obtain cs where cs: "plain_comps cs" "tmp = abs_path cs" using tree_ok_comps [OF m(2,1)] by blast
  have "\<forall>q \<in> set (ancestors tmp). is_dir d' q" using m by (auto simp: tree_ok_def)
  then have "tree_ok (AList.update tmp j d')"
    using m cs assms by (intro tree_ok_update [OF m(2) cs]) (auto simp: is_dir_def temp_state_def)
  then show ?thesis using assms by (auto simp: temp_state_def)
qed

lemma io_Copy_state:
  assumes "temp_state d tmp i d1" "io_Copy env tmp r d1 = (u, d2)"
  shows "\<exists>j. temp_state d tmp j d2 \<and> (is_ok u \<longrightarrow> rd_err r = None \<and> in_Data j = rd_data r)"
proof (cases "os_fault env ''write'' tmp")
  case None
  have m: "map_of d1 tmp = Some i" "\<not> in_IsDir i" using assms(1) by (auto simp: temp_state_def)
  let ?j = "i\<lparr>in_Data := rd_data r, in_ModTime := os_now env\<rparr>"
  have "temp_state d tmp ?j (AList.update tmp ?j d1)"
    using assms(1) m by (intro temp_state_update) auto
  then show ?thesis
    using assms(2) None m by (intro exI [of _ ?j]) (auto simp: io_Copy_def Let_def split: option.splits)
qed (use assms in \<open>auto simp: io_Copy_def\<close>)

lemma os_Chmod_state:
  assumes "temp_state d tmp i d1" "os_Chmod env tmp mode d1 = (u, d2)"
  shows "\<exists>j. temp_state d tmp j d2 \<and> in_Data j = in_Data i"
proof (cases "os_fault env ''chmod'' tmp")
  case None
  have m: "map_of d1 tmp = Some i" "\<not> in_IsDir i" using assms(1) by (auto simp: temp_state_def)
  have "temp_state d tmp (i\<lparr>in_Mode := mode\<rparr>) (AList.update tmp (i\<lparr>in_Mode := mode\<rparr>) d1)"
    using assms(1) m by (intro temp_state_update) auto
  then show ?thesis
    using assms(2) None m by (intro exI [of _ "i\<lparr>in_Mode := mode\<rparr>"]) (auto simp: os_Chmod_def)
qed (use assms in \<open>auto simp: os_Chmod_def\<close>)

text \<open>After the clean-up of a failed write: the tree without the temporary file, or with it if \<^verbatim>\<open>os.Remove\<close> failed.\<close>

definition cleaned_up :: "osenv \<Rightarrow> disk \<Rightarrow> string \<Rightarrow> disk \<Rightarrow> bool" where
  "cleaned_up env d tmp d' \<longleftrightarrow>
     (tree_ok d' \<and> map_of d' = map_of d) \<or> ((\<exists>i. temp_state d tmp i d') \<and> os_fault env ''remove'' tmp \<noteq> None)"

lemma os_Remove_temp:
  assumes "temp_state d tmp i d1"
  shows "cleaned_up env d tmp (snd (os_Remove env tmp d1))"
proof (cases "os_fault env ''remove'' tmp")
  case None
  have m: "map_of d1 tmp = Some i" "\<not> in_IsDir i" "tree_ok d1" "map_of d1 = (map_of d)(tmp \<mapsto> i)" "map_of d tmp = None"
    using assms by (auto simp: temp_state_def)
  then have "os_Remove env tmp d1 = (Inr (), AList.delete tmp d1)"
    using None tree_ok_no_file_above [OF m(3,1)] by (simp add: os_Remove_def)
  moreover have "tree_ok (AList.delete tmp d1)" using m by (intro tree_ok_delete_file)
  moreover have "map_of (AList.delete tmp d1) = map_of d" using m by (simp add: fun_upd_idem)
  ultimately show ?thesis by (simp add: cleaned_up_def)
next
  case (Some e)
  then have "os_Remove env tmp d1 = (Inl e, d1)" by (simp add: os_Remove_def)
  then show ?thesis using assms Some by (auto simp: cleaned_up_def)
qed

lemma cleaned_up_same: "tree_ok d \<Longrightarrow> cleaned_up env d tmp d"
  by (simp add: cleaned_up_def)

lemma write_temp_spec:
  assumes tree: "tree_ok d" and env: "env_ok env" and pl': "plain_comps cs" and dir: "filepath_Dir p = abs_path cs"
    and w: "write_temp env msg p r d = (res, d')"
  shows "\<exists>d1 tmp. tree_ok d1 \<and> adds_dirs d d1 \<and>
    (case res of
       Inl _ \<Rightarrow> cleaned_up env d1 tmp d'
     | Inr t \<Rightarrow> t = tmp \<and> is_dir d1 (abs_path cs) \<and> rd_err r = None \<and>
                (\<exists>i. temp_state d1 tmp i d' \<and> in_Data i = rd_data r))"
proof -
  obtain u1 d1 where m: "os_MkdirAll env (abs_path cs) d = (u1, d1)" by fastforce
  have d1: "tree_ok d1" "adds_dirs d d1" "u1 = Inr () \<Longrightarrow> is_dir d1 (abs_path cs)"
    using os_MkdirAll_tree [OF tree pl' m] by auto
  show ?thesis
  proof (cases u1)
    case (Inl e)
    then have "d' = d1" "\<exists>e'. res = Inl e'" using w by (auto simp: write_temp_def dir m)
    then show ?thesis using d1(1,2) cleaned_up_same [OF d1(1)] by auto
  next
    case (Inr u)
    obtain u2 d2 where t: "os_CreateTemp env (abs_path cs) d1 = (u2, d2)" by fastforce
    show ?thesis
    proof (cases u2)
      case (Inl e)
      then have "d2 = d1" using t by (auto simp: os_CreateTemp_def split: option.splits)
      moreover have "d' = d2" "\<exists>e'. res = Inl e'" using w Inl Inr by (auto simp: write_temp_def dir m t)
      ultimately show ?thesis using d1(1,2) cleaned_up_same [OF d1(1)] by auto
    next
      case tmp: (Inr tmp)
      have dir1: "is_dir d1 (abs_path cs)" using d1(3) Inr by simp
      obtain i2 where s2: "temp_state d1 tmp i2 d2"
        using CreateTemp_state [OF d1(1) env pl' dir1] t tmp by blast
      obtain u3 d3 where c3: "io_Copy env tmp r d2 = (u3, d3)" by fastforce
      obtain i3 where s3: "temp_state d1 tmp i3 d3" "is_ok u3 \<Longrightarrow> rd_err r = None \<and> in_Data i3 = rd_data r"
        using io_Copy_state [OF s2 c3] by blast
      obtain u4 d4 where c4: "os_Chmod env tmp 420 d3 = (u4, d4)" by fastforce
      obtain i4 where s4: "temp_state d1 tmp i4 d4" "in_Data i4 = in_Data i3"
        using os_Chmod_state [OF s3(1) c4] by blast
      have eq: "(res, d') =
        (case u3 of
           Inl copyErr \<Rightarrow> (Inl (Wrapf ''failed to write file content'' copyErr), snd (os_Remove env tmp d3))
         | Inr _ \<Rightarrow> (case os_Sync env tmp of
               Inl err \<Rightarrow> (Inl (Wrapf ''failed to fsync file'' err), snd (os_Remove env tmp d3))
             | Inr _ \<Rightarrow> (case u4 of
                 Inl err \<Rightarrow> (Inl (Wrapf ''failed to set file permissions'' err), snd (os_Remove env tmp d4))
               | Inr _ \<Rightarrow> (Inr tmp, d4))))"
        using w by (simp add: write_temp_def dir m Inr t tmp c3 c4 split: sum.splits)
      show ?thesis
        using eq s3(2) s4 os_Remove_temp [OF s3(1), of env] os_Remove_temp [OF s4(1), of env] d1(1,2) dir1
        by (intro exI [of _ d1] exI [of _ tmp]) (auto split: sum.splits)
    qed
  qed
qed

subsection \<open>Writes are atomic\<close>

text \<open>What a failed write may leave behind: the files of before and at most one temporary file.\<close>

definition write_failed :: "osenv \<Rightarrow> disk \<Rightarrow> disk \<Rightarrow> bool" where
  "write_failed env d d' \<longleftrightarrow>
     contents d' = contents d \<or> (\<exists>tmp b. map_of d tmp = None \<and> os_fault env ''remove'' tmp \<noteq> None \<and>
        contents d' = (contents d)(tmp \<mapsto> b))"

lemma temp_state_contents: "temp_state d tmp i d' \<Longrightarrow> contents d' = (contents d)(tmp \<mapsto> in_Data i)"
  by (auto simp: temp_state_def contents_def fun_eq_iff)

lemma adds_dirs_None: "adds_dirs d d1 \<Longrightarrow> map_of d1 q = None \<Longrightarrow> map_of d q = None"
  by (metis adds_dirs_keeps option.exhaust option.distinct(1))

lemma cleaned_up_failed:
  assumes "adds_dirs d d1" "cleaned_up env d1 tmp d'"
  shows "tree_ok d' \<and> write_failed env d d'"
proof -
  have "contents d1 = contents d" using assms(1) by (rule adds_dirs_contents)
  moreover have "temp_state d1 tmp i d' \<Longrightarrow> map_of d tmp = None" for i
    using adds_dirs_None [OF assms(1), of tmp] by (simp add: temp_state_def)
  moreover have "map_of d' = map_of d1 \<Longrightarrow> contents d' = contents d1" by (simp add: contents_def fun_eq_iff)
  ultimately show ?thesis
    using assms(2) temp_state_contents [of d1 tmp _ d'] unfolding cleaned_up_def write_failed_def
    by (metis temp_state_def)
qed

lemma rename_temp:
  assumes t: "temp_state d1 tmp i d2" "plain_comps (cs @ [c])" "is_dir d1 (abs_path cs)"
    and r: "os_Rename env tmp (abs_path (cs @ [c])) d2 = (u, d3)"
  shows "(is_ok u \<longrightarrow> tree_ok d3 \<and> contents d3 = (contents d1)(abs_path (cs @ [c]) \<mapsto> in_Data i)) \<and>
    (\<not> is_ok u \<longrightarrow> d3 = d2)"
proof (cases u)
  case (Inr x)
  let ?p = "abs_path (cs @ [c])"
  have m: "map_of d2 tmp = Some i" "\<not> in_IsDir i" "tree_ok d1" "tree_ok d2" "map_of d2 = (map_of d1)(tmp \<mapsto> i)" "map_of d1 tmp = None"
    using t by (auto simp: temp_state_def)
  have d3: "d3 = AList.update ?p i (AList.delete tmp d2)" "\<not> is_dir d2 ?p"
    using r m(1) Inr by (auto simp: os_Rename_def split: option.splits if_splits)
  have restored: "map_of (AList.delete tmp d2) = map_of d1" using m by (simp add: fun_upd_idem)
  then have dirs: "is_dir (AList.delete tmp d2) q = is_dir d1 q" for q by (simp add: is_dir_def)
  have "tree_ok (AList.delete tmp d2)" using m by (intro tree_ok_delete_file)
  moreover have "\<not> is_dir d1 ?p" using d3(2) m(5,2,6) by (auto simp: is_dir_def split: if_splits)
  ultimately have "tree_ok d3"
    unfolding d3(1) using t(2) ancestors_dirs [OF m(3) t(2,3)]
    by (intro tree_ok_update [where cs = "cs @ [c]"]) (auto simp: dirs)
  moreover have "contents d3 = (contents d1)(?p \<mapsto> in_Data i)"
    using m(2) restored unfolding d3(1) by (auto simp: contents_def fun_eq_iff)
  ultimately show ?thesis using Inr by simp
qed (use r in \<open>auto simp: os_Rename_def split: option.splits if_splits\<close>)

lemma loc_snoc:
  assumes "IsAbs root" "localfs_loc root rel = Some p"
  obtains cs c where "plain_comps (cs @ [c])" "p = abs_path (cs @ [c])"
proof -
  obtain rs c cs where "plain_comps rs" "plain_comps (c # cs)" "p = abs_path (rs @ c # cs)"
    using assms by (rule localfs_loc_cases)
  then show ?thesis
    using that [of "butlast (rs @ c # cs)" "last (rs @ c # cs)"]
    by (metis append_butlast_last_id append_is_Nil_conv list.distinct(1) plain_comps_simps(3))
qed

lemma localfs_Update_at:
  assumes tree: "tree_ok d" and env: "env_ok env" and join: "SafeJoin (EvalSymlinks d) (lf_rootPath a) path = Inr p"
    and p: "plain_comps (cs @ [c])" "p = abs_path (cs @ [c])"
    and u: "localfs_Update env a path r n d = (res, d')"
  shows "tree_ok d' \<and>
    (case res of
       Inr _ \<Rightarrow> rd_err r = None \<and> contents d' = (contents d)(p \<mapsto> rd_data r)
     | Inl _ \<Rightarrow> write_failed env d d')"
proof -
  have dir: "plain_comps cs" "filepath_Dir p = abs_path cs" using p Dir_abs_path_snoc by auto
  obtain w d2 where wt: "write_temp env ''failed to create temp file for update'' p r d = (w, d2)" by fastforce
  obtain d1 tmp where d1: "tree_ok d1" "adds_dirs d d1" and
    cs: "case w of Inl _ \<Rightarrow> cleaned_up env d1 tmp d2
      | Inr t \<Rightarrow> t = tmp \<and> is_dir d1 (abs_path cs) \<and> rd_err r = None \<and> (\<exists>i. temp_state d1 tmp i d2 \<and> in_Data i = rd_data r)"
    using write_temp_spec [OF tree env dir wt] by blast
  show ?thesis
  proof (cases w)
    case (Inl e)
    then show ?thesis
      using u cs cleaned_up_failed [OF d1(2), of env tmp d2] by (auto simp: localfs_Update_def join wt)
  next
    case (Inr t)
    with cs obtain i where i: "t = tmp" "is_dir d1 (abs_path cs)" "rd_err r = None" "temp_state d1 tmp i d2" "in_Data i = rd_data r"
      by auto
    obtain v d3 where ren: "os_Rename env tmp p d2 = (v, d3)" by fastforce
    have rn: "is_ok v \<Longrightarrow> tree_ok d3 \<and> contents d3 = (contents d1)(p \<mapsto> in_Data i)" "\<not> is_ok v \<Longrightarrow> d3 = d2"
      using rename_temp [OF i(4) p(1) i(2), of env v d3] ren p(2) by auto
    show ?thesis
    proof (cases v)
      case ve: (Inl e)
      have "cleaned_up env d1 tmp (snd (os_Remove env tmp d3))"
        using rn(2) ve os_Remove_temp [OF i(4)] by simp
      then show ?thesis
        using u Inr i ve ren cleaned_up_failed [OF d1(2)] by (auto simp: localfs_Update_def join wt)
    next
      case vr: (Inr x)
      then show ?thesis
        using u Inr i ren rn(1) adds_dirs_contents [OF d1(2)] by (auto simp: localfs_Update_def join wt)
    qed
  qed
qed

lemma localfs_Update_spec:
  assumes "tree_ok d" "env_ok env" "IsAbs (lf_rootPath a)" "localfs_loc (lf_rootPath a) path = Some p"
    "localfs_Update env a path r n d = (res, d')"
  shows "tree_ok d' \<and>
    (case res of
       Inr _ \<Rightarrow> rd_err r = None \<and> contents d' = (contents d)(p \<mapsto> rd_data r)
     | Inl _ \<Rightarrow> write_failed env d d')"
  using loc_snoc [OF assms(3,4)] localfs_Update_at [OF assms(1,2) SafeJoin_linkfree [OF assms(3,4)] _ _ assms(5)] by blast

text \<open>The target is checked after the temporary file is written: the same as an exclusive create.\<close>

lemma localfs_Create_at:
  assumes tree: "tree_ok d" and env: "env_ok env" and join: "SafeJoin (EvalSymlinks d) (lf_rootPath a) path = Inr p"
    and p: "plain_comps (cs @ [c])" "p = abs_path (cs @ [c])"
    and u: "localfs_Create env a path r n d = (res, d')"
  shows "tree_ok d' \<and>
    (case res of
       Inr _ \<Rightarrow> rd_err r = None \<and> contents d' = (contents d)(p \<mapsto> rd_data r) \<and>
                (os_fault env ''stat'' p = None \<longrightarrow> map_of d p = None)
     | Inl _ \<Rightarrow> write_failed env d d')"
proof -
  have dir: "plain_comps cs" "filepath_Dir p = abs_path cs" using p Dir_abs_path_snoc by auto
  obtain w d2 where wt: "write_temp env ''failed to create temp file'' p r d = (w, d2)" by fastforce
  obtain d1 tmp where d1: "tree_ok d1" "adds_dirs d d1" and
    cs: "case w of Inl _ \<Rightarrow> cleaned_up env d1 tmp d2
      | Inr t \<Rightarrow> t = tmp \<and> is_dir d1 (abs_path cs) \<and> rd_err r = None \<and> (\<exists>i. temp_state d1 tmp i d2 \<and> in_Data i = rd_data r)"
    using write_temp_spec [OF tree env dir wt] by blast
  show ?thesis
  proof (cases w)
    case (Inl e)
    then show ?thesis
      using u cs cleaned_up_failed [OF d1(2), of env tmp d2] by (auto simp: localfs_Create_def join wt)
  next
    case (Inr t)
    with cs obtain i where i: "t = tmp" "is_dir d1 (abs_path cs)" "rd_err r = None" "temp_state d1 tmp i d2" "in_Data i = rd_data r"
      by auto
    have rem: "tree_ok (snd (os_Remove env tmp d2)) \<and> write_failed env d (snd (os_Remove env tmp d2))"
      using cleaned_up_failed [OF d1(2) os_Remove_temp [OF i(4)]] .
    obtain v d3 where ren: "os_Rename env tmp p d2 = (v, d3)" by fastforce
    have rn: "is_ok v \<Longrightarrow> tree_ok d3 \<and> contents d3 = (contents d1)(p \<mapsto> in_Data i)" "\<not> is_ok v \<Longrightarrow> d3 = d2"
      using rename_temp [OF i(4) p(1) i(2), of env v d3] ren p(2) by auto
    have none: "map_of d p = None" if "os_Stat env p d2 = Inl e" "os_fault env ''stat'' p = None" for e
    proof (rule ccontr)
      assume "map_of d p \<noteq> None"
      then obtain j where "map_of d2 p = Some j" "tree_ok d2"
        using i(4) adds_dirs_keeps [OF d1(2)] by (fastforce simp: temp_state_def)
      then have "os_Stat env p d2 = Inr j"
        using that(2) tree_ok_no_file_above by (simp add: os_Stat_def)
      with that(1) show False by simp
    qed
    show ?thesis
      using u Inr i ren rn rem none adds_dirs_contents [OF d1(2)]
      by (cases "os_Stat env p d2"; cases v) (auto simp: localfs_Create_def join wt)
  qed
qed

lemma localfs_Create_spec:
  assumes "tree_ok d" "env_ok env" "IsAbs (lf_rootPath a)" "localfs_loc (lf_rootPath a) path = Some p"
    "localfs_Create env a path r n d = (res, d')"
  shows "tree_ok d' \<and>
    (case res of
       Inr _ \<Rightarrow> rd_err r = None \<and> contents d' = (contents d)(p \<mapsto> rd_data r) \<and>
                (os_fault env ''stat'' p = None \<longrightarrow> map_of d p = None)
     | Inl _ \<Rightarrow> write_failed env d d')"
  using loc_snoc [OF assms(3,4)] localfs_Create_at [OF assms(1,2) SafeJoin_linkfree [OF assms(3,4)] _ _ assms(5)] by blast

lemma os_Remove_ok:
  assumes tree: "tree_ok d" and r: "os_Remove env p d = (v, d1)"
  shows "tree_ok d1 \<and> (is_ok v \<longrightarrow> contents d1 = (contents d)(p := None)) \<and> (\<not> is_ok v \<longrightarrow> d1 = d)"
proof (cases v)
  case (Inr x)
  then obtain i where i: "map_of d p = Some i" "in_IsDir i \<Longrightarrow> \<not> has_children d p" "d1 = AList.delete p d"
    using r by (auto simp: os_Remove_def split: option.splits if_splits)
  have "p \<notin> set (ancestors q)" if q: "map_of d q = Some j" for q j
  proof
    assume a: "p \<in> set (ancestors q)"
    then have "is_dir d p" using tree q by (auto simp: tree_ok_def)
    with i have nc: "\<not> has_children d p" by (simp add: is_dir_def)
    obtain cs where "plain_comps cs" "q = abs_path cs" using tree_ok_comps [OF tree q] by blast
    then have "q \<noteq> p" using ancestors_proper a by blast
    moreover have "q \<in> fst ` set d" using q by (metis domI dom_map_of_conv_image_fst)
    ultimately show False using nc a by (auto simp: has_children_def list_ex_iff)
  qed
  then have "tree_ok (AList.delete p d)"
    using tree by (force simp: tree_ok_def is_dir_def split: if_splits)
  then show ?thesis using i Inr by (auto simp: contents_def fun_eq_iff)
qed (use r tree in \<open>auto simp: os_Remove_def split: option.splits if_splits\<close>)

lemma os_Remove_tree: "tree_ok d \<Longrightarrow> tree_ok (snd (os_Remove env p d))"
  using os_Remove_ok [OF _ prod.collapse [symmetric]] by blast

lemma localfs_Delete_spec:
  assumes tree: "tree_ok d" and abs: "IsAbs (lf_rootPath a)"
    and loc: "localfs_loc (lf_rootPath a) path = Some p"
    and u: "localfs_Delete env a path d = (res, d')"
  shows "tree_ok d' \<and> (case res of Inr _ \<Rightarrow> contents d' = (contents d)(p := None) | Inl _ \<Rightarrow> d' = d)"
proof -
  have join: "SafeJoin (EvalSymlinks d) (lf_rootPath a) path = Inr p" using abs loc by (rule SafeJoin_linkfree)
  obtain v d1 where r: "os_Remove env p d = (v, d1)" by fastforce
  note os_Remove_ok [OF tree r]
  then show ?thesis
    using u r by (cases v) (auto simp: localfs_Delete_def join)
qed

lemma localfs_CreateDirectory_spec:
  assumes tree: "tree_ok d" and abs: "IsAbs (lf_rootPath a)"
    and loc: "localfs_loc (lf_rootPath a) path = Some p"
    and u: "localfs_CreateDirectory env a path d = (res, d')"
  shows "tree_ok d' \<and> contents d' = contents d"
proof -
  have join: "SafeJoin (EvalSymlinks d) (lf_rootPath a) path = Inr p" using abs loc by (rule SafeJoin_linkfree)
  obtain cs c where p: "plain_comps (cs @ [c])" "p = abs_path (cs @ [c])" using abs loc by (rule loc_snoc)
  obtain v d1 where m: "os_MkdirAll env p d = (v, d1)" by fastforce
  have "tree_ok d1" "contents d1 = contents d"
    using os_MkdirAll_tree [OF tree p(1)] m adds_dirs_contents by (auto simp: p(2))
  then show ?thesis
    using u tree m by (auto simp: localfs_CreateDirectory_def join split: sum.splits)
qed

lemma localfs_Open_spec:
  assumes tree: "tree_ok d" and abs: "IsAbs (lf_rootPath a)"
    and loc: "localfs_loc (lf_rootPath a) path = Some p"
    and quiet: "os_fault env ''open'' p = None" and c: "contents d p = Some b"
  shows "localfs_Open env a path d = Inr (NewReader b)"
proof -
  have join: "SafeJoin (EvalSymlinks d) (lf_rootPath a) path = Inr p" using abs loc by (rule SafeJoin_linkfree)
  obtain i where i: "map_of d p = Some i" "\<not> in_IsDir i" "b = in_Data i"
    using c by (auto simp: contents_def split: option.splits if_splits)
  then have "os_Open env p d = Inr (NewReader b)"
    using quiet tree_ok_no_file_above [OF tree i(1)] by (simp add: os_Open_def NewReader_def)
  then show ?thesis by (simp add: localfs_Open_def join)
qed

definition localfs_ops :: "osenv \<Rightarrow> LocalFSAdapter \<Rightarrow> disk storage_ops" where
  "localfs_ops env a = \<lparr>
     so_Open = (\<lambda>ctx. localfs_Open env a),
     so_Create = (\<lambda>ctx. localfs_Create env a),
     so_Update = (\<lambda>ctx. localfs_Update env a),
     so_Delete = (\<lambda>ctx. localfs_Delete env a),
     so_Stat = (\<lambda>ctx. localfs_Stat env a),
     so_ListDirectory = (\<lambda>ctx path d. Some (localfs_ListDirectory env a path d)),
     so_CreateDirectory = (\<lambda>ctx. localfs_CreateDirectory env a)\<rparr>"

text \<open>Whatever path is passed, also one that names the root itself, the disk stays a tree.\<close>

lemma SafeJoin_plain:
  assumes "IsAbs root" "SafeJoin (EvalSymlinks d) root rel = Inr p"
  obtains cs where "plain_comps cs" "p = abs_path cs"
proof -
  obtain rs where rs: "filepath_Clean root = abs_path rs" "plain_comps rs" using assms(1) by (rule Clean_rooted_comps)
  obtain cr where cr: "pathutil_Clean rel = Inr cr"
    using assms(2) by (auto simp: SafeJoin_def Let_def split: sum.splits)
  obtain cs where cs: "plain_comps cs" and j: "filepath_Join (abs_path rs) (TrimPrefix cr ''/'') = abs_path (rs @ cs)"
    using rs(2) cr by (rule SafeJoin_joined)
  let ?x = "rs @ cs"
  have x: "plain_comps ?x" using rs(2) cs by simp
  have ev: "EvalSymlinks d (abs_path ys) = Some q \<Longrightarrow> q = abs_path ys" if "plain_comps ys" for ys q
    using EvalSymlinks_abs [OF that, of d] by auto
  have low: "p = abs_path ?x"
    if "EvalSymlinks d (filepath_Dir (abs_path ?x)) = Some q" "filepath_Dir (abs_path ?x) \<noteq> abs_path rs"
      "p = filepath_Join q (filepath_Base (abs_path ?x))" for q
  proof (cases ?x rule: rev_cases)
    case Nil
    then show ?thesis using that(2) by simp
  next
    case (snoc ys y)
    then have pl: "plain_comps (ys @ [y])" using x by simp
    then show ?thesis
      using that ev [of ys q] Dir_abs_path_snoc [OF pl] Base_abs_path_snoc [OF pl] Join_abs_path_single [of ys y]
      by (simp add: snoc)
  qed
  have "p = abs_path ?x"
  proof (cases "EvalSymlinks d (abs_path ?x)")
    case (Some q)
    then show ?thesis
      using assms(2) ev [OF x Some] by (simp add: SafeJoin_def Let_def rs(1) cr j Some split: if_splits)
  next
    case None
    show ?thesis
    proof (cases "filepath_Dir (abs_path ?x) \<noteq> abs_path rs \<and> EvalSymlinks d (filepath_Dir (abs_path ?x)) \<noteq> None")
      case True
      then obtain q where "EvalSymlinks d (filepath_Dir (abs_path ?x)) = Some q" by auto
      then show ?thesis
        using True low [of q] assms(2) by (simp add: SafeJoin_def Let_def rs(1) cr j None split: if_splits)
    next
      case False
      then show ?thesis
        using assms(2) by (auto simp: SafeJoin_def Let_def rs(1) cr j None split: if_splits)
    qed
  qed
  then show ?thesis using that x by blast
qed

lemma rename_onto_dir:
  assumes "is_dir d q"
  shows "\<exists>e. os_Rename env t q d = (Inl e, d)"
  using assms by (auto simp: os_Rename_def split: option.splits)

lemma localfs_write_root:
  assumes tree: "tree_ok d" and env: "env_ok env" and join: "SafeJoin (EvalSymlinks d) (lf_rootPath a) path = Inr ''/''"
  shows "tree_ok (snd (localfs_Update env a path r n d))" "tree_ok (snd (localfs_Create env a path r n d))"
proof -
  have dir: "plain_comps []" "filepath_Dir ''/'' = abs_path []" by simp_all
  have wt: "tree_ok d2 \<and> (w = Inr t \<longrightarrow> is_dir d2 ''/'' \<and> (\<forall>env'. tree_ok (snd (os_Remove env' t d2))))"
    if w: "write_temp env msg ''/'' r d = (w, d2)" for msg w d2 t
  proof (cases w)
    case (Inl e)
    then show ?thesis using write_temp_spec [OF tree env dir w] cleaned_up_failed by fastforce
  next
    case (Inr tmp)
    then obtain d1 i where *: "is_dir d1 (abs_path [])" "temp_state d1 tmp i d2"
      using write_temp_spec [OF tree env dir w] by auto
    then have "is_dir d2 ''/''" by (auto simp: is_dir_def temp_state_def split: if_splits option.splits)
    moreover have "tree_ok (snd (os_Remove env' tmp d2))" for env'
      using cleaned_up_failed [OF adds_dirs_refl os_Remove_temp [OF *(2)]] by blast
    ultimately show ?thesis using Inr * by (auto simp: temp_state_def)
  qed
  obtain w1 d1 where w1: "write_temp env ''failed to create temp file for update'' ''/'' r d = (w1, d1)" by fastforce
  show "tree_ok (snd (localfs_Update env a path r n d))"
  proof (cases w1)
    case (Inr t)
    obtain e where "os_Rename env t ''/'' d1 = (Inl e, d1)" using wt [OF w1, of t] Inr rename_onto_dir by blast
    then show ?thesis using wt [OF w1, of t] Inr by (simp add: localfs_Update_def join w1)
  qed (use wt [OF w1] in \<open>simp add: localfs_Update_def join w1\<close>)
  obtain w2 d2 where w2: "write_temp env ''failed to create temp file'' ''/'' r d = (w2, d2)" by fastforce
  show "tree_ok (snd (localfs_Create env a path r n d))"
  proof (cases w2)
    case (Inr t)
    obtain e where "os_Rename env t ''/'' d2 = (Inl e, d2)" using wt [OF w2, of t] Inr rename_onto_dir by blast
    then show ?thesis using wt [OF w2, of t] Inr by (simp add: localfs_Create_def join w2 split: sum.split)
  qed (use wt [OF w2] in \<open>simp add: localfs_Create_def join w2\<close>)
qed

lemma localfs_tree:
  assumes tree: "tree_ok d" and env: "env_ok env" and abs: "IsAbs (lf_rootPath a)"
  shows "tree_ok (snd (localfs_Update env a path r n d))" "tree_ok (snd (localfs_Create env a path r n d))"
    "tree_ok (snd (localfs_Delete env a path d))" "tree_ok (snd (localfs_CreateDirectory env a path d))"
proof -
  consider (bad) err where "SafeJoin (EvalSymlinks d) (lf_rootPath a) path = Inl err"
    | (root) "SafeJoin (EvalSymlinks d) (lf_rootPath a) path = Inr ''/''"
    | (deep) cs c where "SafeJoin (EvalSymlinks d) (lf_rootPath a) path = Inr (abs_path (cs @ [c]))" "plain_comps (cs @ [c])"
  proof (cases "SafeJoin (EvalSymlinks d) (lf_rootPath a) path")
    case (Inr p)
    obtain xs where "plain_comps xs" "p = abs_path xs" using SafeJoin_plain [OF abs Inr] .
    then show ?thesis using that(2,3) Inr by (cases xs rule: rev_cases) auto
  qed (use that in blast)
  then have "tree_ok (snd (localfs_Update env a path r n d)) \<and> tree_ok (snd (localfs_Create env a path r n d))"
  proof cases
    case root
    then show ?thesis using localfs_write_root [OF tree env] by blast
  next
    case (deep cs c)
    show ?thesis
      using localfs_Update_at [OF tree env deep(1,2) refl prod.collapse [symmetric]]
        localfs_Create_at [OF tree env deep(1,2) refl prod.collapse [symmetric]] by blast
  qed (simp add: localfs_Update_def localfs_Create_def tree)
  then show "tree_ok (snd (localfs_Update env a path r n d))" "tree_ok (snd (localfs_Create env a path r n d))" by auto
  show "tree_ok (snd (localfs_Delete env a path d))"
    using os_Remove_tree [OF tree] by (auto simp: localfs_Delete_def tree split: sum.splits prod.splits) (metis snd_conv)+
  have mk: "tree_ok (snd (os_MkdirAll env p d))" if "SafeJoin (EvalSymlinks d) (lf_rootPath a) path = Inr p" for p
    using SafeJoin_plain [OF abs that] os_MkdirAll_tree [OF tree _ prod.collapse [symmetric]] by metis
  show "tree_ok (snd (localfs_CreateDirectory env a path d))"
    using mk by (auto simp: localfs_CreateDirectory_def tree split: sum.splits prod.splits)
qed

subsection \<open>The contract of a backend\<close>

text \<open>
  \<open>loc p\<close> is the place a path names (two paths may name one place), \<open>store w\<close> the bytes at every
  place. A successful write stores exactly the bytes of the reader, which ended without an error;
  a failed one loses no file, but may have stored the bytes all the same (the answer of a remote
  backend can get lost); a file that is there can be opened.
\<close>

definition write_lost :: "string \<Rightarrow> reader \<Rightarrow> (string \<Rightarrow> bytes option) \<Rightarrow> (string \<Rightarrow> bytes option) \<Rightarrow> bool" where
  "write_lost l r m m' \<longleftrightarrow>
     (\<forall>l' b. m l' = Some b \<longrightarrow> m' l' = Some b \<or> (l' = l \<and> rd_err r = None \<and> m' l = Some (rd_data r)))"

lemma write_lost_keeps: "m \<subseteq>\<^sub>m m' \<Longrightarrow> write_lost l r m m'"
  unfolding write_lost_def map_le_def by (metis domI)

locale file_backend =
  fixes ops :: "'w storage_ops"
    and loc :: "string \<Rightarrow> string option"
    and store :: "'w \<Rightarrow> string \<Rightarrow> bytes option"
    and binv :: "'w \<Rightarrow> bool"
  assumes open_law: "binv w \<Longrightarrow> loc p = Some l \<Longrightarrow> store w l = Some b \<Longrightarrow> so_Open ops ctx p w = Inr (NewReader b)"
    and open_absent: "binv w \<Longrightarrow> loc p = Some l \<Longrightarrow> store w l = None \<Longrightarrow> so_Open ops ctx p w = Inr rd \<Longrightarrow> rd_err rd \<noteq> None"
    and create_law: "binv w \<Longrightarrow> loc p = Some l \<Longrightarrow> so_Create ops ctx p r n w = (Inr u, w') \<Longrightarrow>
      binv w' \<and> rd_err r = None \<and> store w' = (store w)(l \<mapsto> rd_data r)"
    and create_fail: "binv w \<Longrightarrow> loc p = Some l \<Longrightarrow> so_Create ops ctx p r n w = (Inl e, w') \<Longrightarrow>
      binv w' \<and> write_lost l r (store w) (store w')"
    and update_law: "binv w \<Longrightarrow> loc p = Some l \<Longrightarrow> so_Update ops ctx p r n w = (Inr u, w') \<Longrightarrow>
      binv w' \<and> rd_err r = None \<and> store w' = (store w)(l \<mapsto> rd_data r)"
    and update_fail: "binv w \<Longrightarrow> loc p = Some l \<Longrightarrow> so_Update ops ctx p r n w = (Inl e, w') \<Longrightarrow>
      binv w' \<and> write_lost l r (store w) (store w')"
    and delete_law: "binv w \<Longrightarrow> loc p = Some l \<Longrightarrow> so_Delete ops ctx p w = (v, w') \<Longrightarrow>
      binv w' \<and> (store w' = (store w)(l := None) \<or> \<not> is_ok v \<and> store w' = store w)"
    and mkdir_law: "binv w \<Longrightarrow> loc p = Some l \<Longrightarrow> so_CreateDirectory ops ctx p w = (v, w') \<Longrightarrow>
      binv w' \<and> store w' = store w"
begin

text \<open>What was written is read back, also after other places were written, and a failed write in between.\<close>

lemma write_then_open:
  assumes "binv w" "loc p = Some l" "so_Create ops ctx p r n w = (Inr u, w1)"
    and "loc q = Some l'" "l' \<noteq> l" "so_Update ops ctx' q r' n' w1 = (v, w2)"
  shows "so_Open ops ctx'' p w2 = Inr (NewReader (rd_data r))"
proof -
  have w1: "binv w1" "store w1 l = Some (rd_data r)" using create_law [OF assms(1-3)] by auto
  have "binv w2 \<and> store w2 l = Some (rd_data r)"
  proof (cases v)
    case (Inl e)
    then show ?thesis
      using update_fail [OF w1(1) assms(4) assms(6) [unfolded Inl]] assms(5) w1(2) by (auto simp: write_lost_def)
  next
    case (Inr x)
    then show ?thesis using update_law [OF w1(1) assms(4)] assms(5,6) w1(2) by auto
  qed
  then show ?thesis using open_law assms(2) by blast
qed

end

lemma write_failed_keeps:
  assumes "write_failed env d d'"
  shows "contents d \<subseteq>\<^sub>m contents d'"
proof -
  have "map_of d tmp = None \<Longrightarrow> contents d tmp = None" for tmp by (simp add: contents_def)
  then show ?thesis using assms by (auto simp: write_failed_def map_le_def)
qed

definition localfs_inv :: "osenv \<Rightarrow> LocalFSAdapter \<Rightarrow> disk \<Rightarrow> bool" where
  "localfs_inv env a d \<longleftrightarrow> tree_ok d \<and> env_ok env \<and> IsAbs (lf_rootPath a) \<and> (\<forall>p. os_fault env ''open'' p = None)"

interpretation localfs: file_backend "localfs_ops env a" "localfs_loc (lf_rootPath a)" contents "localfs_inv env a" for env a
proof unfold_locales
  fix w w' p l ctx r n u
  assume *: "localfs_inv env a w" "localfs_loc (lf_rootPath a) p = Some l"
  show "so_Create (localfs_ops env a) ctx p r n w = (Inr u, w') \<Longrightarrow>
      localfs_inv env a w' \<and> rd_err r = None \<and> contents w' = (contents w)(l \<mapsto> rd_data r)"
    using localfs_Create_spec [of w env a p l r n "Inr u" w'] * by (simp add: localfs_ops_def localfs_inv_def)
  show "so_Update (localfs_ops env a) ctx p r n w = (Inr u, w') \<Longrightarrow>
      localfs_inv env a w' \<and> rd_err r = None \<and> contents w' = (contents w)(l \<mapsto> rd_data r)"
    using localfs_Update_spec [of w env a p l r n "Inr u" w'] * by (simp add: localfs_ops_def localfs_inv_def)
next
  fix w w' p l ctx r n e
  assume *: "localfs_inv env a w" "localfs_loc (lf_rootPath a) p = Some l"
  show "so_Create (localfs_ops env a) ctx p r n w = (Inl e, w') \<Longrightarrow> localfs_inv env a w' \<and> write_lost l r (contents w) (contents w')"
    using localfs_Create_spec [of w env a p l r n "Inl e" w'] * write_failed_keeps [of env w w']
    by (simp add: localfs_ops_def localfs_inv_def write_lost_keeps)
  show "so_Update (localfs_ops env a) ctx p r n w = (Inl e, w') \<Longrightarrow> localfs_inv env a w' \<and> write_lost l r (contents w) (contents w')"
    using localfs_Update_spec [of w env a p l r n "Inl e" w'] * write_failed_keeps [of env w w']
    by (simp add: localfs_ops_def localfs_inv_def write_lost_keeps)
next
  fix w w' p l ctx v
  assume *: "localfs_inv env a w" "localfs_loc (lf_rootPath a) p = Some l"
  show "so_Delete (localfs_ops env a) ctx p w = (v, w') \<Longrightarrow>
      localfs_inv env a w' \<and> (contents w' = (contents w)(l := None) \<or> \<not> is_ok v \<and> contents w' = contents w)"
    using localfs_Delete_spec [of w a p l env v w'] * by (auto simp: localfs_ops_def localfs_inv_def split: sum.splits)
  show "so_CreateDirectory (localfs_ops env a) ctx p w = (v, w') \<Longrightarrow> localfs_inv env a w' \<and> contents w' = contents w"
    using localfs_CreateDirectory_spec [of w a p l env v w'] * by (simp add: localfs_ops_def localfs_inv_def)
next
  fix w p l ctx rd
  assume "localfs_inv env a w" "localfs_loc (lf_rootPath a) p = Some l" "contents w l = None"
    "so_Open (localfs_ops env a) ctx p w = Inr rd"
  then show "rd_err rd \<noteq> None"
    using SafeJoin_linkfree [of "lf_rootPath a" p l w]
    by (auto simp: localfs_ops_def localfs_inv_def localfs_Open_def os_Open_def contents_def split: option.splits if_splits sum.splits)
qed (simp add: localfs_ops_def localfs_inv_def localfs_Open_spec)

subsection \<open>Properties\<close>

text \<open>
  C29: (safety) Writes through the local backend are atomic under arbitrary faults of the operating
  system: an update that succeeds leaves exactly the reader's bytes at the target, with a reader
  that ended without an error, and every other file as it was; a create moreover replaced nothing
  (if its existence check could look). A write that fails, at whichever step, changes no file: at
  most its temporary file stays, and only when removing that file failed too.
\<close>

theorem localfs_writes_atomic:
  assumes "tree_ok d" "env_ok env" "IsAbs (lf_rootPath a)" "localfs_loc (lf_rootPath a) path = Some p"
  shows "(case localfs_Update env a path r n d of
       (Inr _, d') \<Rightarrow> rd_err r = None \<and> contents d' = (contents d)(p \<mapsto> rd_data r)
     | (Inl _, d') \<Rightarrow> write_failed env d d') \<and>
    (case localfs_Create env a path r n d of
       (Inr _, d') \<Rightarrow> rd_err r = None \<and> contents d' = (contents d)(p \<mapsto> rd_data r) \<and>
          (os_fault env ''stat'' p = None \<longrightarrow> map_of d p = None)
     | (Inl _, d') \<Rightarrow> write_failed env d d')"
proof -
  obtain u du where u: "localfs_Update env a path r n d = (u, du)" by fastforce
  obtain c dc where c: "localfs_Create env a path r n d = (c, dc)" by fastforce
  show ?thesis
    using localfs_Update_spec [OF assms u] localfs_Create_spec [OF assms c] u c
    by (simp add: split: sum.splits)
qed

definition demo_env :: osenv where
  "demo_env = \<lparr>os_fault = (\<lambda>call p. if call = ''fsync'' \<and> p = ''/d/.callfs-tmp-7'' then Some (Errorf ''EIO'') else None),
     os_rand = [''7'', ''8''], os_uid = 1000, os_gid = 1000, os_dirsize = 4096, os_now = 5\<rparr>"

definition demo_disk :: disk where
  "demo_disk = [(''/'', new_inode demo_env True 493), (''/d'', new_inode demo_env True 493),
     (''/d/f'', (new_inode demo_env False 420)\<lparr>in_Data := ''old''\<rparr>)]"

lemmas disk_eval = demo_env_def demo_disk_def new_inode_def env_ok_def is_dir_def is_file_def ancestors_def path_comps_def
  abs_path_def IsAbs_def localfs_loc_def pathutil_Clean_def filepath_Clean_def filepath_Dir_def filepath_Base_def
  filepath_Join_def TrimPrefix_def LastIndex_def Let_def

lemma demo_disk_ok: "tree_ok demo_disk" "env_ok demo_env"
proof -
  have c: "plain_comps []" "plain_comps [''d'']" "plain_comps [''d'', ''f'']"
    by (simp_all add: plain_comp_def)
  have k: "''/'' = abs_path []" "''/d'' = abs_path [''d'']" "''/d/f'' = abs_path [''d'', ''f'']"
    by (simp_all add: abs_path_def)
  have "map_of demo_disk p = Some i \<Longrightarrow> p \<in> {abs_path [], abs_path [''d''], abs_path [''d'', ''f'']}" for p i
    unfolding k [symmetric] by (auto simp: demo_disk_def split: if_splits)
  moreover have "gomap_ok demo_disk" by (simp add: gomap_ok_def demo_disk_def)
  moreover have "\<forall>q \<in> set (ancestors (abs_path [])) \<union> set (ancestors (abs_path [''d''])) \<union>
      set (ancestors (abs_path [''d'', ''f''])). is_dir demo_disk q"
    by (simp add: disk_eval)
  ultimately show "tree_ok demo_disk" using c unfolding tree_ok_def by blast
qed (simp add: demo_env_def env_ok_def)

lemma demo_loc: "localfs_loc ''/d'' ''f'' = Some ''/d/f''"
  by (simp add: disk_eval)

theorem localfs_writes_atomic_witness:
  "(case localfs_Update demo_env \<lparr>lf_rootPath = ''/d''\<rparr> ''f'' (NewReader ''new'') 3 demo_disk of
      (Inr _, d') \<Rightarrow> contents d' ''/d/f'' = Some ''new'' | (Inl _, d') \<Rightarrow> contents d' ''/d/f'' = Some ''old'')"
proof -
  have old: "contents demo_disk ''/d/f'' = Some ''old''" by (simp add: contents_def demo_disk_def new_inode_def)
  have quiet: "os_fault demo_env ''remove'' q = None" for q by (simp add: demo_env_def)
  have "IsAbs ''/d''" by (simp add: IsAbs_def)
  then show ?thesis
    using localfs_writes_atomic [OF demo_disk_ok, of "\<lparr>lf_rootPath = ''/d''\<rparr>" "''f''" "''/d/f''" "NewReader ''new''" 3] old quiet
    by (auto simp: demo_loc NewReader_def write_failed_def split: prod.splits sum.splits)
qed

text \<open>
  What the local backend stored it delivers: after a create that succeeded, opening
  the same path returns the bytes of the reader, also when another place was updated in between,
  successfully or not; after a delete that succeeded the path cannot be opened and the other files
  are as before.
\<close>

lemma localfs_create_open_roundtrip:
  assumes "localfs_inv env a d" "localfs_loc (lf_rootPath a) p = Some l"
    and "localfs_Create env a p r n d = (Inr u, d1)"
    and "localfs_loc (lf_rootPath a) q = Some l'" "l' \<noteq> l"
  shows "localfs_Open env a p (snd (localfs_Update env a q r' n' d1)) = Inr (NewReader (rd_data r)) \<and>
    (\<forall>d3. localfs_Delete env a p d1 = (Inr (), d3) \<longrightarrow>
       \<not> is_ok (localfs_Open env a p d3) \<and> contents d3 = (contents d)(l := None))"
proof
  obtain v d2 where u: "localfs_Update env a q r' n' d1 = (v, d2)" by fastforce
  show "localfs_Open env a p (snd (localfs_Update env a q r' n' d1)) = Inr (NewReader (rd_data r))"
    using localfs.write_then_open [of env a d p l Background r n u d1 q l' Background r' n' v d2 Background] assms u
    by (simp add: localfs_ops_def)
  have c: "localfs_inv env a d1" "contents d1 = (contents d)(l \<mapsto> rd_data r)"
    using localfs.create_law [of env a d p l Background r n u d1] assms by (auto simp: localfs_ops_def)
  have join: "SafeJoin (EvalSymlinks d') (lf_rootPath a) p = Inr l" for d'
    using assms(1,2) by (intro SafeJoin_linkfree) (simp_all add: localfs_inv_def)
  show "\<forall>d3. localfs_Delete env a p d1 = (Inr (), d3) \<longrightarrow>
       \<not> is_ok (localfs_Open env a p d3) \<and> contents d3 = (contents d)(l := None)"
  proof (intro allI impI)
    fix d3
    assume del: "localfs_Delete env a p d1 = (Inr (), d3)"
    then have "contents d3 = (contents d1)(l := None)"
      using localfs.delete_law [of env a d1 p l Background "Inr ()" d3] c(1) assms(2) by (simp add: localfs_ops_def)
    moreover have "map_of d3 l = None"
      using del by (auto simp: localfs_Delete_def join os_Remove_def split: option.splits if_splits)
    then have "\<not> is_ok (os_Open env l d3)" by (auto simp: os_Open_def split: option.splits)
    then have "\<not> is_ok (localfs_Open env a p d3)"
      by (auto simp: localfs_Open_def join split: sum.splits)
    ultimately show "\<not> is_ok (localfs_Open env a p d3) \<and> contents d3 = (contents d)(l := None)"
      by (simp add: c(2))
  qed
qed

definition quiet_env :: osenv where
  "quiet_env = demo_env\<lparr>os_fault := (\<lambda>_ _. None)\<rparr>"

lemmas localfs_eval = disk_eval quiet_env_def localfs_Create_def localfs_Update_def write_temp_def os_MkdirAll_def
  os_CreateTemp_def io_Copy_def os_Sync_def os_Chmod_def os_Stat_def os_Rename_def NewReader_def

lemma demo_create_ok:
  "fst (localfs_Create quiet_env \<lparr>lf_rootPath = ''/d''\<rparr> ''g'' (NewReader ''hi'') 2 demo_disk) = Inr ()"
proof -
  have loc: "localfs_loc ''/d'' ''g'' = Some ''/d/g''" by (simp add: disk_eval)
  have join: "SafeJoin (EvalSymlinks demo_disk) ''/d'' ''g'' = Inr ''/d/g''"
    using SafeJoin_linkfree [OF _ loc] by (simp add: IsAbs_def)
  show ?thesis by (simp add: localfs_Create_def join) (simp add: localfs_eval)
qed


end
