(* ===== verification/Cache.thy ===== *)
theory Cache
  imports Metadata "HOL-Library.Multiset"
begin

section \<open>The metadata cache (core/cache.go)\<close>

text \<open>
  \<^verbatim>\<open>MetadataCache\<close>: a Go map from path to entry with expiry time, a time to live and a
  maximal size. The order in which \<^verbatim>\<open>range\<close> visits a Go map is not determined by the
  language, so it is a parameter \<open>rng\<close>, any function that permutes the entries. The locale
  \<open>lossy_cache\<close> is the contract the engine relies on: a lookup returns what was last set
  for the path and not invalidated since, or misses.
\<close>

record CacheEntry =
  ce_Metadata :: Metadata
  ce_ExpiresAt :: gotime

record MetadataCache =
  mc_cache :: "(string, CacheEntry) gomap"
  mc_ttl :: duration
  mc_maxSize :: int

type_synonym range_order = "(string, CacheEntry) gomap \<Rightarrow> (string, CacheEntry) gomap"

definition IsExpired :: "gotime \<Rightarrow> CacheEntry \<Rightarrow> bool" where
  "IsExpired now e = After now (ce_ExpiresAt e)"

definition NewMetadataCache :: "duration \<Rightarrow> int \<Rightarrow> MetadataCache" where
  "NewMetadataCache ttl maxSize = \<lparr>mc_cache = [], mc_ttl = ttl, mc_maxSize = maxSize\<rparr>"

definition cache_Get :: "gotime \<Rightarrow> string \<Rightarrow> MetadataCache \<Rightarrow> Metadata option" where
  "cache_Get now path c =
     (case map_of (mc_cache c) path of
        None \<Rightarrow> None
      | Some entry \<Rightarrow> if IsExpired now entry then None else Some (ce_Metadata entry))"

definition evictOneEntry :: "range_order \<Rightarrow> gotime \<Rightarrow> MetadataCache \<Rightarrow> MetadataCache" where
  "evictOneEntry rng now c =
     (case filter (\<lambda>(path, entry). After now (ce_ExpiresAt entry)) (rng (mc_cache c)) of
        (path, _) # _ \<Rightarrow> c\<lparr>mc_cache := AList.delete path (mc_cache c)\<rparr>
      | [] \<Rightarrow>
          (case rng (mc_cache c) of
             (path, _) # _ \<Rightarrow> c\<lparr>mc_cache := AList.delete path (mc_cache c)\<rparr>
           | [] \<Rightarrow> c))"

definition cache_Set :: "range_order \<Rightarrow> gotime \<Rightarrow> string \<Rightarrow> Metadata \<Rightarrow> MetadataCache \<Rightarrow> MetadataCache" where
  "cache_Set rng now path md c =
     (let c1 = (if mc_maxSize c \<le> int (length (mc_cache c)) then evictOneEntry rng now c else c)
      in c1\<lparr>mc_cache := AList.update path \<lparr>ce_Metadata = md, ce_ExpiresAt = now + mc_ttl c1\<rparr> (mc_cache c1)\<rparr>)"

definition Invalidate :: "string \<Rightarrow> MetadataCache \<Rightarrow> MetadataCache" where
  "Invalidate path c = c\<lparr>mc_cache := AList.delete path (mc_cache c)\<rparr>"

definition has_path_prefix :: "string \<Rightarrow> string \<Rightarrow> bool" where
  "has_path_prefix prefix path = (path = prefix \<or> HasPrefix path (prefix @ ''/''))"

definition InvalidatePrefix :: "string \<Rightarrow> MetadataCache \<Rightarrow> MetadataCache" where
  "InvalidatePrefix prefix c =
     c\<lparr>mc_cache := filter (\<lambda>(path, _). \<not> has_path_prefix prefix path) (mc_cache c)\<rparr>"

definition performCleanup :: "gotime \<Rightarrow> MetadataCache \<Rightarrow> MetadataCache" where
  "performCleanup now c =
     c\<lparr>mc_cache := filter (\<lambda>(path, entry). \<not> After now (ce_ExpiresAt entry)) (mc_cache c)\<rparr>"

subsection \<open>Invariant\<close>

definition cache_ok :: "MetadataCache \<Rightarrow> bool" where
  "cache_ok c = (gomap_ok (mc_cache c) \<and> int (length (mc_cache c)) \<le> mc_maxSize c \<and> 0 < mc_maxSize c)"

definition is_order :: "range_order \<Rightarrow> bool" where
  "is_order rng = (\<forall>m. mset (rng m) = mset m)"

lemma is_order_set: "is_order rng \<Longrightarrow> set (rng m) = set m"
  by (metis is_order_def set_mset_mset)

lemma is_order_Nil: "is_order rng \<Longrightarrow> rng m = [] \<longleftrightarrow> m = []"
  by (metis is_order_set set_empty)

lemma evictOneEntry_cases:
  assumes "is_order rng" "mc_cache c \<noteq> []"
  obtains path where "path \<in> fst ` set (mc_cache c)"
    "evictOneEntry rng now c = c\<lparr>mc_cache := AList.delete path (mc_cache c)\<rparr>"
proof (cases "filter (\<lambda>(path, entry). After now (ce_ExpiresAt entry)) (rng (mc_cache c))")
  case (Cons x xs)
  obtain p e where x: "x = (p, e)" by (cases x)
  then have "(p, e) \<in> set (rng (mc_cache c))"
    using Cons by (metis (no_types, lifting) filter_is_subset list.set_intros(1) subsetD)
  then show ?thesis
    using that [of p] Cons x assms(1) by (force simp: evictOneEntry_def is_order_set)
next
  case Nil
  obtain p e ys where y: "rng (mc_cache c) = (p, e) # ys"
    using assms by (metis is_order_Nil list.exhaust surj_pair)
  then have "(p, e) \<in> set (mc_cache c)"
    using assms(1) by (metis is_order_set list.set_intros(1))
  then show ?thesis
    using that [of p] Nil y by (force simp: evictOneEntry_def)
qed

lemma NewMetadataCache_ok: "0 < maxSize \<Longrightarrow> cache_ok (NewMetadataCache ttl maxSize)"
  by (simp add: NewMetadataCache_def cache_ok_def)

lemma Invalidate_ok [simp]: "cache_ok c \<Longrightarrow> cache_ok (Invalidate path c)"
  using length_delete_le [of path "mc_cache c"] by (auto simp: cache_ok_def Invalidate_def)

lemma filter_ok:
  "cache_ok c \<Longrightarrow> cache_ok (c\<lparr>mc_cache := filter P (mc_cache c)\<rparr>)"
  using length_filter_le [of P "mc_cache c"]
  by (auto simp: cache_ok_def simp del: length_filter_le intro: order_trans [OF of_nat_mono])

lemma InvalidatePrefix_ok [simp]: "cache_ok c \<Longrightarrow> cache_ok (InvalidatePrefix prefix c)"
  by (simp add: InvalidatePrefix_def filter_ok)

lemma performCleanup_ok [simp]: "cache_ok c \<Longrightarrow> cache_ok (performCleanup now c)"
  by (simp add: performCleanup_def filter_ok)

text \<open>\<open>Set\<close> works on a cache that has room, obtained by evicting at most one entry.\<close>

lemma cache_Set_room:
  assumes "is_order rng" "cache_ok c"
  obtains m where "gomap_ok m" "int (length m) < mc_maxSize c" "map_of m \<subseteq>\<^sub>m map_of (mc_cache c)"
    "cache_Set rng now path md c =
       c\<lparr>mc_cache := AList.update path \<lparr>ce_Metadata = md, ce_ExpiresAt = now + mc_ttl c\<rparr> m\<rparr>"
proof (cases "mc_maxSize c \<le> int (length (mc_cache c))")
  case True
  then have ne: "mc_cache c \<noteq> []" using assms(2) by (auto simp: cache_ok_def)
  obtain p where p: "p \<in> fst ` set (mc_cache c)"
    "evictOneEntry rng now c = c\<lparr>mc_cache := AList.delete p (mc_cache c)\<rparr>"
    using evictOneEntry_cases [OF assms(1) ne] by metis
  show ?thesis
    using assms(2) True p length_delete_mem [OF p(1)]
    by (intro that [of "AList.delete p (mc_cache c)"])
       (auto simp: cache_ok_def cache_Set_def map_le_def)
next
  case False
  then show ?thesis
    using assms(2) by (intro that [of "mc_cache c"]) (auto simp: cache_ok_def cache_Set_def)
qed

lemma cache_Set_ok [simp]:
  assumes "is_order rng" "cache_ok c"
  shows "cache_ok (cache_Set rng now path md c)"
proof -
  obtain m where "gomap_ok m" "int (length m) < mc_maxSize c"
    "cache_Set rng now path md c =
       c\<lparr>mc_cache := AList.update path \<lparr>ce_Metadata = md, ce_ExpiresAt = now + mc_ttl c\<rparr> m\<rparr>"
    using assms by (rule cache_Set_room)
  then show ?thesis
    using length_update_le [of path "\<lparr>ce_Metadata = md, ce_ExpiresAt = now + mc_ttl c\<rparr>" m] assms(2)
    by (auto simp: cache_ok_def)
qed

text \<open>The operations a cache goes through.\<close>

datatype cache_event =
    CSet gotime string Metadata
  | CInvalidate string
  | CInvalidatePrefix string
  | CCleanup gotime

fun cache_step :: "range_order \<Rightarrow> cache_event \<Rightarrow> MetadataCache \<Rightarrow> MetadataCache" where
  "cache_step rng (CSet now path md) c = cache_Set rng now path md c"
| "cache_step rng (CInvalidate path) c = Invalidate path c"
| "cache_step rng (CInvalidatePrefix prefix) c = InvalidatePrefix prefix c"
| "cache_step rng (CCleanup now) c = performCleanup now c"

lemma cache_step_ok: "is_order rng \<Longrightarrow> cache_ok c \<Longrightarrow> cache_ok (cache_step rng ev c)"
  by (cases ev) auto

lemma cache_step_maxSize:
  assumes "is_order rng" "cache_ok c"
  shows "mc_maxSize (cache_step rng ev c) = mc_maxSize c"
proof (cases ev)
  case (CSet now path md)
  then show ?thesis by (auto intro: cache_Set_room [OF assms, of now path md])
qed (auto simp: Invalidate_def InvalidatePrefix_def performCleanup_def)

lemma cache_run_ok:
  assumes "is_order rng" "cache_ok c"
  shows "cache_ok (fold (cache_step rng) evs c) \<and> mc_maxSize (fold (cache_step rng) evs c) = mc_maxSize c"
  using assms(2)
  by (induction evs arbitrary: c) (auto simp: cache_step_ok [OF assms(1)] cache_step_maxSize [OF assms(1)])

text \<open>
  The cache never holds more entries than its maximal size, and never two for
  one path, whatever sequence of operations runs and in whatever order Go visits the map
  when it looks for a victim.
\<close>

lemma cache_size_bounded:
  assumes "is_order rng" "0 < maxSize"
  shows "int (length (mc_cache (fold (cache_step rng) evs (NewMetadataCache ttl maxSize)))) \<le> maxSize \<and>
    gomap_ok (mc_cache (fold (cache_step rng) evs (NewMetadataCache ttl maxSize)))"
  using cache_run_ok [OF assms(1) NewMetadataCache_ok [OF assms(2)], of evs ttl]
  by (simp add: cache_ok_def NewMetadataCache_def)


subsection \<open>The contract\<close>

text \<open>
  What a client may rely on: a hit after \<open>set\<close> is the value set for that path or an older hit
  of another path; invalidating removes exactly the paths named.
\<close>

locale lossy_cache =
  fixes get :: "gotime \<Rightarrow> string \<Rightarrow> 'c \<Rightarrow> Metadata option"
    and set_entry :: "gotime \<Rightarrow> string \<Rightarrow> Metadata \<Rightarrow> 'c \<Rightarrow> 'c"
    and invalidate :: "string \<Rightarrow> 'c \<Rightarrow> 'c"
    and invalidate_prefix :: "string \<Rightarrow> 'c \<Rightarrow> 'c"
    and ok :: "'c \<Rightarrow> bool"
  assumes get_set: "ok c \<Longrightarrow> get t q (set_entry now p md c) = Some x \<Longrightarrow>
      (if q = p then x = md else get t q c = Some x)"
    and get_invalidate: "ok c \<Longrightarrow> get t q (invalidate p c) = (if q = p then None else get t q c)"
    and get_invalidate_prefix: "ok c \<Longrightarrow>
      get t q (invalidate_prefix p c) = (if has_path_prefix p q then None else get t q c)"
    and ok_set: "ok c \<Longrightarrow> ok (set_entry now p md c)"
    and ok_invalidate: "ok c \<Longrightarrow> ok (invalidate p c)"
    and ok_invalidate_prefix: "ok c \<Longrightarrow> ok (invalidate_prefix p c)"
begin

text \<open>A cache is coherent with a table when every hit, at any time, is the table's entry.\<close>

definition coherent :: "(string \<Rightarrow> Metadata option) \<Rightarrow> 'c \<Rightarrow> bool" where
  "coherent view c = (ok c \<and> (\<forall>t q md. get t q c = Some md \<longrightarrow> view q = Some md))"

lemma coherent_hit: "coherent view c \<Longrightarrow> get t q c = Some md \<Longrightarrow> view q = Some md"
  by (auto simp: coherent_def)

lemma coherent_set:
  assumes "coherent view c" "view p = Some md"
  shows "coherent view (set_entry now p md c)"
  unfolding coherent_def
proof (intro conjI allI impI)
  show "ok (set_entry now p md c)" using assms ok_set by (simp add: coherent_def)
  fix t q x
  assume "get t q (set_entry now p md c) = Some x"
  then have "if q = p then x = md else get t q c = Some x"
    using assms(1) get_set unfolding coherent_def by blast
  then show "view q = Some x" using assms by (auto simp: coherent_def split: if_splits)
qed

lemma coherent_invalidate:
  assumes "coherent view c" "\<forall>q. q \<noteq> p \<longrightarrow> view' q = view q"
  shows "coherent view' (invalidate p c)"
  using assms by (auto simp: coherent_def get_invalidate ok_invalidate split: if_splits)

lemma coherent_invalidate_prefix: "coherent view c \<Longrightarrow> coherent view (invalidate_prefix p c)"
  by (auto simp: coherent_def get_invalidate_prefix ok_invalidate_prefix split: if_splits)

lemma coherent_grow:
  "coherent view c \<Longrightarrow> view \<subseteq>\<^sub>m view' \<Longrightarrow> coherent view' c"
  unfolding coherent_def map_le_def by (metis domI)

end

lemma cache_Get_Set:
  assumes "is_order rng" "cache_ok c" "cache_Get t q (cache_Set rng now p md c) = Some x"
  shows "if q = p then x = md else cache_Get t q c = Some x"
proof -
  obtain m where m: "map_of m \<subseteq>\<^sub>m map_of (mc_cache c)"
    "cache_Set rng now p md c =
       c\<lparr>mc_cache := AList.update p \<lparr>ce_Metadata = md, ce_ExpiresAt = now + mc_ttl c\<rparr> m\<rparr>"
    using assms(1,2) by (rule cache_Set_room)
  show ?thesis
  proof (cases "q = p")
    case True
    with assms(3) m show ?thesis by (simp add: cache_Get_def split: if_splits)
  next
    case False
    with assms(3) m obtain e where e: "map_of m q = Some e" "\<not> IsExpired t e" "x = ce_Metadata e"
      by (auto simp: cache_Get_def split: option.splits if_splits)
    from e(1) m(1) have "map_of (mc_cache c) q = Some e" by (metis domI map_le_def)
    with e False show ?thesis by (simp add: cache_Get_def)
  qed
qed

text \<open>The cache fulfils the contract for every visiting order.\<close>

definition cache_inv :: "range_order \<Rightarrow> MetadataCache \<Rightarrow> bool" where
  "cache_inv rng c = (cache_ok c \<and> is_order rng)"

lemma cache_Get_Invalidate:
  "cache_Get t q (Invalidate p c) = (if q = p then None else cache_Get t q c)"
  by (simp add: cache_Get_def Invalidate_def)

lemma cache_Get_InvalidatePrefix:
  "cache_ok c \<Longrightarrow> cache_Get t q (InvalidatePrefix p c) = (if has_path_prefix p q then None else cache_Get t q c)"
  by (simp add: cache_Get_def InvalidatePrefix_def cache_ok_def map_of_filter split: option.splits)

interpretation mdcache: lossy_cache cache_Get "cache_Set rng" Invalidate InvalidatePrefix "cache_inv rng" for rng
proof unfold_locales
  fix c t q now p md x
  assume "cache_inv rng c" "cache_Get t q (cache_Set rng now p md c) = Some x"
  then show "if q = p then x = md else cache_Get t q c = Some x"
    using cache_Get_Set unfolding cache_inv_def by blast
qed (simp_all add: cache_inv_def cache_Get_Invalidate cache_Get_InvalidatePrefix)

text \<open>
  What was stored is found again: from the moment of \<^verbatim>\<open>Set\<close> until the time to
  live is over a lookup of the path returns the stored metadata, and once the time is over it
  misses; the sweep of expired entries changes no lookup at its time or later.
\<close>

lemma cache_Set_Get:
  assumes "is_order rng" "cache_ok c"
  shows "cache_Get t path (cache_Set rng now path md c) = (if t \<le> now + mc_ttl c then Some md else None) \<and>
    (now \<le> t \<longrightarrow> cache_Get t q (performCleanup now c) = cache_Get t q c)"
proof
  obtain m where m: "cache_Set rng now path md c =
       c\<lparr>mc_cache := AList.update path \<lparr>ce_Metadata = md, ce_ExpiresAt = now + mc_ttl c\<rparr> m\<rparr>"
    using assms by (rule cache_Set_room)
  then show "cache_Get t path (cache_Set rng now path md c) = (if t \<le> now + mc_ttl c then Some md else None)"
    by (simp add: cache_Get_def IsExpired_def time_simps)
  show "now \<le> t \<longrightarrow> cache_Get t q (performCleanup now c) = cache_Get t q c"
    using assms(2)
    by (auto simp: cache_Get_def performCleanup_def cache_ok_def map_of_filter IsExpired_def time_simps
        split: option.splits)
qed


end
