(* ===== verification/Locks.thy ===== *)
theory Locks
  imports Metadata
begin

section \<open>Lock managers (locks/)\<close>

text \<open>
  The interface \<^verbatim>\<open>locks.Manager\<close> as a record of operations, its contract as the locale
  \<open>lock_manager\<close>, and the in-process manager of \<^verbatim>\<open>local_manager.go\<close>. The random owner
  identifier that \<^verbatim>\<open>generateOwnerID\<close> reads is an argument of \<open>local_Acquire\<close>. The
  lemmas show that an unexpired lock is exclusive until it is released, that an expired one
  can be taken, that the clean-up loop is invisible, and what a late release does.
\<close>

subsection \<open>manager.go\<close>

record 'w lock_ops =
  lm_Acquire :: "goctx \<Rightarrow> gotime \<Rightarrow> string \<Rightarrow> 'w \<Rightarrow> bool result \<times> 'w"
  lm_Release :: "gotime \<Rightarrow> string \<Rightarrow> 'w \<Rightarrow> unit result \<times> 'w"

subsection \<open>local\_manager.go\<close>

definition localLockTTL :: duration where
  "localLockTTL = 30 * second"

record lockEntry =
  le_expiry :: gotime
  le_ownerID :: string

type_synonym locks = "(string, lockEntry) gomap"

definition NewLocalManager :: locks where
  "NewLocalManager = []"

definition local_Acquire :: "string result \<Rightarrow> goctx \<Rightarrow> gotime \<Rightarrow> string \<Rightarrow> locks \<Rightarrow> bool result \<times> locks" where
  "local_Acquire rand ctx now key m =
     (case ctx_Err ctx of
        Some err \<Rightarrow> (Inl err, m)
      | None \<Rightarrow>
          if (case map_of m key of Some entry \<Rightarrow> Before now (le_expiry entry) | None \<Rightarrow> False)
          then (Inr False, m)
          else (case rand of
                  Inl err \<Rightarrow> (Inl (Wrapf ''failed to generate lock owner ID'' err), m)
                | Inr ownerID \<Rightarrow>
                    (Inr True,
                     AList.update key \<lparr>le_expiry = now + localLockTTL, le_ownerID = ownerID\<rparr> m)))"

definition local_Release :: "gotime \<Rightarrow> string \<Rightarrow> locks \<Rightarrow> unit result \<times> locks" where
  "local_Release now key m =
     (case map_of m key of
        None \<Rightarrow> (Inr (), m)
      | Some entry \<Rightarrow>
          if After now (le_expiry entry) then (Inr (), m)
          else (Inr (), AList.delete key m))"

definition local_Close :: "locks \<Rightarrow> locks" where
  "local_Close m = []"

text \<open>One tick of \<^verbatim>\<open>cleanupLoop\<close>.\<close>

definition local_cleanup :: "gotime \<Rightarrow> locks \<Rightarrow> locks" where
  "local_cleanup now m = filter (\<lambda>(key, entry). \<not> After now (le_expiry entry)) m"

subsection \<open>The contract of a lock manager\<close>

text \<open>
  \<open>held w key = Some t\<close>: the key is leased until \<open>t\<close>. A client may rely on: a granted
  acquire leases the key into the future; while a lease runs, acquire refuses and changes
  nothing; release ends a running lease; no operation touches the lease of another key.
\<close>

locale lock_manager =
  fixes ops :: "'w lock_ops"
    and held :: "'w \<Rightarrow> string \<Rightarrow> gotime option"
    and ttl :: duration
  assumes ttl_pos: "0 < ttl"
    and acquire_grant: "lm_Acquire ops ctx now key w = (Inr True, w') \<Longrightarrow>
      held w' = (held w)(key \<mapsto> now + ttl) \<and> (\<forall>t. held w key = Some t \<longrightarrow> t \<le> now)"
    and acquire_refuse: "lm_Acquire ops ctx now key w = (r, w') \<Longrightarrow> r \<noteq> Inr True \<Longrightarrow> held w' = held w"
    and acquire_busy: "held w key = Some t \<Longrightarrow> now < t \<Longrightarrow> lm_Acquire ops ctx now key w = (r, w') \<Longrightarrow> r \<noteq> Inr True"
    and release_lease: "lm_Release ops now key w = (u, w') \<Longrightarrow>
      (\<forall>k. k \<noteq> key \<longrightarrow> held w' k = held w k) \<and>
      held w' key = (case held w key of Some t \<Rightarrow> if t < now then Some t else None | None \<Rightarrow> None)"
begin

text \<open>Acquire and release in one run leave the key free and every other lease as it was.\<close>

lemma acquire_release_frame:
  assumes a: "lm_Acquire ops ctx now key w = (Inr True, w1)"
    and r: "lm_Release ops now' key w1 = (r, w2)" and t: "now' \<le> now + ttl"
  shows "held w2 key = None \<and> (\<forall>k. k \<noteq> key \<longrightarrow> held w2 k = held w k)"
  using acquire_grant [OF a] release_lease [OF r] t by auto

text \<open>Between grant and expiry a second acquire of the key is not granted.\<close>

lemma exclusive:
  assumes a: "lm_Acquire ops ctx now key w = (Inr True, w1)" and t: "now' < now + ttl"
  shows "fst (lm_Acquire ops ctx' now' key w1) \<noteq> Inr True"
proof -
  have "held w1 key = Some (now + ttl)" using acquire_grant [OF a] by simp
  then show ?thesis using acquire_busy [OF _ t] by (metis prod.collapse)
qed

end

subsection \<open>The local manager fulfils it\<close>

definition local_ops :: "string result \<Rightarrow> locks lock_ops" where
  "local_ops rand = \<lparr>lm_Acquire = local_Acquire rand, lm_Release = local_Release\<rparr>"

definition local_held :: "locks \<Rightarrow> string \<Rightarrow> gotime option" where
  "local_held m key = map_option le_expiry (map_of m key)"

lemma local_held_update [simp]:
  "local_held (AList.update key e m) = (local_held m)(key \<mapsto> le_expiry e)"
  by (auto simp: local_held_def fun_eq_iff)

lemma local_held_delete [simp]: "local_held (AList.delete key m) = (local_held m)(key := None)"
  by (auto simp: local_held_def fun_eq_iff)

interpretation local_lock: lock_manager "local_ops rand" local_held localLockTTL for rand
proof unfold_locales
  show "0 < localLockTTL" by (simp add: localLockTTL_def)
next
  fix ctx now key and w w' :: locks
  assume "lm_Acquire (local_ops rand) ctx now key w = (Inr True, w')"
  then show "local_held w' = (local_held w)(key \<mapsto> now + localLockTTL) \<and>
      (\<forall>t. local_held w key = Some t \<longrightarrow> t \<le> now)"
    by (auto simp: local_ops_def local_Acquire_def time_simps local_held_def fun_eq_iff
        split: option.splits if_splits sum.splits)
next
  fix ctx now key and w w' :: locks and r
  assume "lm_Acquire (local_ops rand) ctx now key w = (r, w')" "r \<noteq> Inr True"
  then show "local_held w' = local_held w"
    by (auto simp: local_ops_def local_Acquire_def split: option.splits if_splits sum.splits)
next
  fix w w' :: locks and key t now ctx r
  assume "local_held w key = Some t" "now < t" "lm_Acquire (local_ops rand) ctx now key w = (r, w')"
  then show "r \<noteq> Inr True"
    by (auto simp: local_ops_def local_Acquire_def local_held_def time_simps
        split: option.splits if_splits sum.splits)
next
  fix now key and w w' :: locks and r
  assume "lm_Release (local_ops rand) now key w = (r, w')"
  then show "(\<forall>k. k \<noteq> key \<longrightarrow> local_held w' k = local_held w k) \<and>
      local_held w' key = (case local_held w key of Some t \<Rightarrow> if t < now then Some t else None | None \<Rightarrow> None)"
    by (auto simp: local_ops_def local_Release_def local_held_def time_simps
        split: option.splits if_splits)
qed

subsection \<open>Runs of a local manager\<close>

text \<open>What can happen to a manager between two calls of one client.\<close>

datatype lock_event =
    EvAcquire gotime string "string result"
  | EvRelease gotime string
  | EvCleanup gotime

fun lock_step :: "lock_event \<Rightarrow> locks \<Rightarrow> locks" where
  "lock_step (EvAcquire now key rand) m = snd (local_Acquire rand Background now key m)"
| "lock_step (EvRelease now key) m = snd (local_Release now key m)"
| "lock_step (EvCleanup now) m = local_cleanup now m"

fun event_time :: "lock_event \<Rightarrow> gotime" where
  "event_time (EvAcquire now _ _) = now"
| "event_time (EvRelease now _) = now"
| "event_time (EvCleanup now) = now"

fun releases :: "string \<Rightarrow> lock_event \<Rightarrow> bool" where
  "releases key (EvRelease _ k) = (k = key)"
| "releases key _ = False"

lemma lock_step_keeps_lease:
  assumes "gomap_ok m" "local_held m key = Some t" "event_time ev < t" "\<not> releases key ev"
  shows "gomap_ok (lock_step ev m) \<and> local_held (lock_step ev m) key = Some t"
proof (cases ev)
  case (EvAcquire now k rand)
  with assms show ?thesis
    by (auto simp: local_Acquire_def local_held_def time_simps Background_def
        split: option.splits sum.splits if_splits)
next
  case (EvRelease now k)
  with assms show ?thesis
    by (auto simp: local_Release_def local_held_def split: option.splits)
next
  case (EvCleanup now)
  with assms show ?thesis
    by (auto simp: local_cleanup_def local_held_def map_of_filter time_simps)
qed

lemma lock_run_keeps_lease:
  assumes "gomap_ok m" "local_held m key = Some t"
    "\<forall>ev \<in> set evs. event_time ev < t \<and> \<not> releases key ev"
  shows "gomap_ok (fold lock_step evs m) \<and> local_held (fold lock_step evs m) key = Some t"
  using assms by (induction evs arbitrary: m) (auto simp: lock_step_keeps_lease)

text \<open>
  C30: (safety) Mutual exclusion: once an acquire is granted at time \<open>now\<close>, no later acquire
  of the key is granted before the lease of 30 seconds is over, whatever acquires, releases
  of other keys and clean-ups happen in between, unless somebody releases the key.
\<close>

theorem local_lock_exclusive:
  assumes "gomap_ok m" "local_Acquire rand ctx now key m = (Inr True, m')"
    and "\<forall>ev \<in> set evs. event_time ev < now + localLockTTL \<and> \<not> releases key ev"
    and "now' < now + localLockTTL"
  shows "fst (local_Acquire rand' ctx' now' key (fold lock_step evs m')) \<noteq> Inr True"
proof -
  have g: "gomap_ok m'"
    using assms(1,2) by (auto simp: local_Acquire_def split: option.splits sum.splits if_splits)
  have h: "local_held m' key = Some (now + localLockTTL)"
    using local_lock.acquire_grant [of rand ctx now key m m'] assms(2) by (simp add: local_ops_def)
  have "local_held (fold lock_step evs m') key = Some (now + localLockTTL)"
    using lock_run_keeps_lease [OF g h assms(3)] by simp
  then show ?thesis
    using local_lock.acquire_busy [OF _ assms(4), of _ key rand' ctx'] by (auto simp: local_ops_def prod_eq_iff)
qed
theorem local_lock_exclusive_witness:
  "fst (local_Acquire (Inr ''b'') Background 20 ''file:/x''
     (fold lock_step [EvRelease 10 ''file:/y'', EvCleanup 15]
        (snd (local_Acquire (Inr ''a'') Background 5 ''file:/x'' [])))) \<noteq> Inr True"
proof -
  obtain m where m: "local_Acquire (Inr ''a'') Background 5 ''file:/x'' [] = (Inr True, m)"
    by (simp add: local_Acquire_def Background_def)
  show ?thesis
    using local_lock_exclusive [OF gomap_ok_Nil m,
        of "[EvRelease 10 ''file:/y'', EvCleanup 15]" 20 "Inr ''b''" Background] m
    by (simp add: localLockTTL_def)
qed

lemma local_Acquire_free:
  assumes "ctx_Err ctx = None" "\<forall>t. local_held m key = Some t \<longrightarrow> t \<le> now"
  shows "\<exists>m'. local_Acquire (Inr owner) ctx now key m = (Inr True, m') \<and> local_held m' key = Some (now + localLockTTL)"
  using assms by (auto simp: local_Acquire_def local_held_def time_simps split: option.splits)

text \<open>
  A lock is never lost for good: from its expiry on, an acquire of the key is
  granted, in every state, if the context is live and the random source works.
\<close>

lemma local_lock_available_after_expiry:
  assumes "ctx_Err ctx = None" "rand = Inr owner"
    and "\<forall>t. local_held m key = Some t \<longrightarrow> t \<le> now"
  shows "\<exists>m'. local_Acquire rand ctx now key m = (Inr True, m') \<and>
    local_held m' key = Some (now + localLockTTL)"
  unfolding assms(2) using assms(1,3) by (rule local_Acquire_free)


text \<open>
  Release does not look at the owner: a holder whose lease ran out and whose key
  was taken over by a second client ends the second client's running lease with its late
  release, and a third client is granted the lock while the second still believes to hold
  it. The comment of \<^verbatim>\<open>Release\<close> promises the opposite.
\<close>

lemma local_late_release_breaks_exclusion:
  assumes "gomap_ok m"
    and a: "local_Acquire (Inr ownerA) ctx t0 key m = (Inr True, m1)"
    and b: "local_Acquire (Inr ownerB) ctx t1 key m1 = (Inr True, m2)"
    and "t1 \<le> t2" "t2 \<le> t1 + localLockTTL"
  shows "\<exists>m4. local_Acquire (Inr ownerC) Background t2 key (snd (local_Release t2 key m2)) = (Inr True, m4)"
proof -
  have h: "local_held m2 key = Some (t1 + localLockTTL)"
    using local_lock.acquire_grant [of "Inr ownerB" ctx t1 key m1 m2] b by (simp add: local_ops_def)
  have "local_held (snd (local_Release t2 key m2)) key = None"
    using local_lock.release_lease [of "Inr ownerB" t2 key m2 "fst (local_Release t2 key m2)" "snd (local_Release t2 key m2)"] h assms(5)
    by (simp add: local_ops_def)
  then show ?thesis
    using local_Acquire_free [of Background "snd (local_Release t2 key m2)" key t2 ownerC]
    by (auto simp: Background_def)
qed


text \<open>
  The clean-up loop is invisible: at the same or any later time an acquire
  gives the same answer with or without it.
\<close>

lemma local_cleanup_invisible:
  assumes "gomap_ok m" "now \<le> now'"
  shows "fst (local_Acquire rand ctx now' key (local_cleanup now m)) = fst (local_Acquire rand ctx now' key m)"
  using assms
  by (auto simp: local_Acquire_def local_cleanup_def map_of_filter time_simps split: option.splits sum.splits if_splits)


end
