(* ===== verification/StoreSpec.thy ===== *)
theory StoreSpec
  imports Metadata
begin

section \<open>The contracts of the store interfaces\<close>

text \<open>
  What the clients of \<^verbatim>\<open>metadata.Store\<close> rely on, as locales. \<open>view w\<close> is the table of
  metadata by path that the store presents in world \<open>w\<close>, \<open>links w\<close> the table of links by
  token. The engine and the authoriser use \<open>metadata_store\<close>; the link manager uses
  \<open>link_store\<close>, whose update law is the compare-and-set on the status that makes a link
  single-use. The laws speak about calls that return: a store whose calls can fail with an
  unknown outcome is outside the contract.
\<close>

definition parent_path :: "string \<Rightarrow> string" where
  "parent_path p = (if p = ''/'' \<or> LastIndex p slash \<le> 0 then ''/'' else take (nat (LastIndex p slash)) p)"

text \<open>
  The times that \<^verbatim>\<open>Create\<close> of the Redis and of the SQLite store fills in, and the events of a run of
  creates, updates and deletes.
\<close>

definition stamped :: "gotime \<Rightarrow> Metadata \<Rightarrow> Metadata" where
  "stamped now md =
     (let md1 = (if IsZero (md_ATime md) then md\<lparr>md_ATime := now\<rparr> else md);
          md2 = (if IsZero (md_MTime md1) then md1\<lparr>md_MTime := now\<rparr> else md1);
          md3 = (if IsZero (md_CTime md2) then md2\<lparr>md_CTime := now\<rparr> else md2)
      in md3\<lparr>md_CreatedAt := now, md_UpdatedAt := now\<rparr>)"

lemma stamped_path [simp]: "md_Path (stamped now md) = md_Path md"
  by (simp add: stamped_def Let_def)

datatype meta_event = MkMeta gotime Metadata | UpMeta gotime Metadata | RmMeta gotime string

text \<open>A stored record: a store may set the identifier and the two administrative times itself.\<close>

definition stored_as :: "Metadata \<Rightarrow> Metadata \<Rightarrow> bool" where
  "stored_as md md' \<longleftrightarrow>
     md'\<lparr>md_ID := md_ID md, md_ParentID := md_ParentID md, md_CreatedAt := md_CreatedAt md, md_UpdatedAt := md_UpdatedAt md\<rparr> = md"

lemma stored_as_refl [simp]: "stored_as md md"
  by (simp add: stored_as_def)

lemma stored_as_fields:
  assumes "stored_as md md'"
  shows "md_Path md' = md_Path md" "md_Type md' = md_Type md" "md_Size md' = md_Size md" "md_Mode md' = md_Mode md"
    "md_UID md' = md_UID md" "md_GID md' = md_GID md" "md_BackendType md' = md_BackendType md" "md_MTime md' = md_MTime md"
    "md_ErasureCoded md' = md_ErasureCoded md" "md_CallFSInstanceID md' = md_CallFSInstanceID md" "md_Name md' = md_Name md"
  using assms by (cases md; cases md'; simp add: stored_as_def)+

locale metadata_store =
  fixes ops :: "'w store_ops"
    and view :: "'w \<Rightarrow> string \<Rightarrow> Metadata option"
    and inv :: "'w \<Rightarrow> bool"
  assumes get_law: "inv w \<Longrightarrow> st_Get ops p w = (case view w p of Some md \<Rightarrow> Inr md | None \<Rightarrow> Inl ErrNotFound)"
    and view_path: "inv w \<Longrightarrow> view w p = Some md \<Longrightarrow> md_Path md = p"
    and create_law: "inv w \<Longrightarrow> st_Create ops now md w = (r, w') \<Longrightarrow> inv w' \<and>
      (case r of
         Inr md' \<Rightarrow> stored_as md md' \<and> view w (md_Path md) = None \<and> view w' = (view w)(md_Path md \<mapsto> md')
       | Inl e \<Rightarrow> view w' = view w)"
    and create_total: "inv w \<Longrightarrow> view w (md_Path md) = None \<Longrightarrow> is_ok (fst (st_Create ops now md w))"
    and create_exists: "inv w \<Longrightarrow> view w (md_Path md) \<noteq> None \<Longrightarrow>
      fst (st_Create ops now md w) = Inl ErrAlreadyExists"
    and update_law: "inv w \<Longrightarrow> st_Update ops now md w = (r, w') \<Longrightarrow> inv w' \<and>
      (case r of
         Inr md' \<Rightarrow> stored_as md md' \<and> view w (md_Path md) \<noteq> None \<and> view w' = (view w)(md_Path md \<mapsto> md')
       | Inl e \<Rightarrow> view w' = view w)"
    and update_total: "inv w \<Longrightarrow> view w (md_Path md) \<noteq> None \<Longrightarrow> is_ok (fst (st_Update ops now md w))"
    and delete_law: "inv w \<Longrightarrow> st_Delete ops p w = (u, w') \<Longrightarrow> inv w' \<and>
      (if view w p = None then u = Inl ErrNotFound \<and> view w' = view w
       else u = Inr () \<and> view w' = (view w)(p := None))"
    and list_law: "inv w \<Longrightarrow> st_ListChildren ops p w = Inr cs \<Longrightarrow>
      set cs = {md. view w (md_Path md) = Some md \<and> md_Path md \<noteq> ''/'' \<and> parent_path (md_Path md) = p}"
    and list_total: "inv w \<Longrightarrow> is_ok (st_ListChildren ops p w)"

text \<open>
  Single use rests on less: the status of a link leaves \<^verbatim>\<open>active\<close> at most once, and a call that reports success has
  made that change. Calls may fail, with their effect or without it.
\<close>

locale link_cas =
  fixes ops :: "'w store_ops"
    and links :: "'w \<Rightarrow> string \<Rightarrow> SingleUseLink option"
    and linv :: "'w \<Rightarrow> bool"
  assumes update_cas: "linv w \<Longrightarrow> st_UpdateSingleUseLink ops now t st ua ip w = (u, w') \<Longrightarrow> linv w' \<and>
      ((u \<noteq> Inr () \<and> links w' = links w) \<or>
       (\<exists>l l'. links w t = Some l \<and> lk_Status l = ''active'' \<and> links w' = (links w)(t \<mapsto> l') \<and> lk_Status l' = st))"
    and expired_only_removes: "linv w \<Longrightarrow> st_CleanupExpiredLinks ops before w = (n, w') \<Longrightarrow>
      linv w' \<and> links w' \<subseteq>\<^sub>m links w"
    and used_only_removes: "linv w \<Longrightarrow> st_CleanupUsedLinks ops olderThan w = (n, w') \<Longrightarrow>
      linv w' \<and> links w' \<subseteq>\<^sub>m links w"

locale link_store =
  fixes ops :: "'w store_ops"
    and links :: "'w \<Rightarrow> string \<Rightarrow> SingleUseLink option"
    and linv :: "'w \<Rightarrow> bool"
  assumes get_link_law: "linv w \<Longrightarrow>
      st_GetSingleUseLink ops t w = (case links w t of Some l \<Rightarrow> Inr l | None \<Rightarrow> Inl ErrNotFound)"
    and create_link_law: "linv w \<Longrightarrow> st_CreateSingleUseLink ops now l w = (u, w') \<Longrightarrow> linv w' \<and>
      (if links w (lk_Token l) = None
       then u = Inr () \<and> (\<exists>l'. links w' = (links w)(lk_Token l \<mapsto> l') \<and> lk_FilePath l' = lk_FilePath l \<and>
              lk_Status l' = lk_Status l \<and> lk_ExpiresAt l' = lk_ExpiresAt l)
       else is_ok u = False \<and> links w' = links w)"
    and update_link_law: "linv w \<Longrightarrow> st_UpdateSingleUseLink ops now t st ua ip w = (u, w') \<Longrightarrow> linv w' \<and>
      (case links w t of
         Some l \<Rightarrow> if lk_Status l = ''active''
                  then u = Inr () \<and> (\<exists>l'. links w' = (links w)(t \<mapsto> l') \<and> lk_Status l' = st \<and> lk_UsedAt l' = ua)
                  else u = Inl ErrNotFound \<and> links w' = links w
       | None \<Rightarrow> u = Inl ErrNotFound \<and> links w' = links w)"
    and cleanup_expired_law: "linv w \<Longrightarrow> st_CleanupExpiredLinks ops before w = (n, w') \<Longrightarrow>
      linv w' \<and> links w' \<subseteq>\<^sub>m links w"
    and cleanup_used_law: "linv w \<Longrightarrow> st_CleanupUsedLinks ops olderThan w = (n, w') \<Longrightarrow>
      linv w' \<and> links w' \<subseteq>\<^sub>m links w"

sublocale link_store \<subseteq> cas: link_cas ops links linv
proof
  fix w now t st ua ip u w'
  assume "linv w" "st_UpdateSingleUseLink ops now t st ua ip w = (u, w')"
  then show "linv w' \<and>
      ((u \<noteq> Inr () \<and> links w' = links w) \<or>
       (\<exists>l l'. links w t = Some l \<and> lk_Status l = ''active'' \<and> links w' = (links w)(t \<mapsto> l') \<and> lk_Status l' = st))"
    using update_link_law [of w now t st ua ip u w'] by (auto split: option.splits if_splits)
qed (use cleanup_expired_law cleanup_used_law in blast)+

end
