(* ===== verification/Engine.thy ===== *)
theory Engine
  imports Backends Cache Locks StoreSpec
begin

section \<open>The engine (core)\<close>

text \<open>
  \<^verbatim>\<open>core.Engine\<close>: it holds a metadata store, the backends, a lock manager and the metadata cache,
  and its operations combine them. Everything outside the engine is reached through the operation
  records of the engine, over one world type; the engine's own state is the cache. An operation
  reads the clock once (\<open>now\<close>): the calls of \<^verbatim>\<open>time.Now()\<close> inside one operation are not told apart.
  Logging and metrics are left out.
\<close>

subsection \<open>engine.go\<close>

text \<open>What the engine uses of the erasure manager and of \<^verbatim>\<open>InternalProxyAdapter\<close> beyond \<^verbatim>\<open>Storage\<close>.\<close>

record 'w erasure_ops =
  em_RetrieveFile :: "string \<Rightarrow> 'w \<Rightarrow> bytes result"
  em_DeleteFile :: "string \<Rightarrow> 'w \<Rightarrow> unit result \<times> 'w"

record 'w proxy_ops =
  px_DeleteOnInstance :: "string \<Rightarrow> string \<Rightarrow> 'w \<Rightarrow> unit result \<times> 'w"
  px_StatOnInstance :: "string \<Rightarrow> string \<Rightarrow> 'w \<Rightarrow> Metadata result"

record 'w Engine =
  metadataStore :: "'w store_ops"
  localFSBackend :: "'w storage_ops"
  s3Backend :: "'w storage_ops"
  internalProxyBackend :: "'w storage_ops"
  internalProxyAdapter :: "'w proxy_ops option"
  lockManager :: "'w lock_ops"
  currentInstanceID :: string
  peerEndpoints :: "(string, string) gomap"
  replicationEnabled :: bool
  replicaBackend :: string
  requireReplicaAck :: bool
  erasureManager :: "'w erasure_ops option"
  cacheOrder :: range_order

record 'w estate =
  es_world :: 'w
  es_cache :: MetadataCache

text \<open>The cache \<^verbatim>\<open>NewEngine\<close> makes: five minutes, a thousand entries.\<close>

definition NewEngine_state :: "'w \<Rightarrow> 'w estate" where
  "NewEngine_state w = \<lparr>es_world = w, es_cache = NewMetadataCache (5 * minute) 1000\<rparr>"

definition GetPeerEndpoint :: "'w Engine \<Rightarrow> string \<Rightarrow> string" where
  "GetPeerEndpoint e instanceID = (case map_of (peerEndpoints e) instanceID of Some endpoint \<Rightarrow> endpoint | None \<Rightarrow> '''')"

subsection \<open>backend\_selection.go\<close>

definition WithInstanceID :: "goctx \<Rightarrow> string \<Rightarrow> goctx" where
  "WithInstanceID ctx instanceID = ctx\<lparr>ctx_instance_id := Some instanceID\<rparr>"

definition selectBackendByType :: "'w Engine \<Rightarrow> string \<Rightarrow> 'w storage_ops" where
  "selectBackendByType e backendType =
     (if backendType = ''localfs'' then localFSBackend e
      else if backendType = ''s3'' then s3Backend e else localFSBackend e)"

definition selectBackend :: "'w Engine \<Rightarrow> goctx \<Rightarrow> Metadata \<Rightarrow> goctx \<times> 'w storage_ops" where
  "selectBackend e ctx md =
     (let by_type = (if md_BackendType md = ''localfs'' then localFSBackend e
                     else if md_BackendType md = ''s3'' then s3Backend e else localFSBackend e)
      in case md_CallFSInstanceID md of
           Some i \<Rightarrow>
             if i = currentInstanceID e then (ctx, by_type)
             else (WithInstanceID ctx i, internalProxyBackend e)
         | None \<Rightarrow> (ctx, by_type))"

text \<open>
  A lock around an operation: \<^verbatim>\<open>Acquire\<close>, the body, and the deferred \<^verbatim>\<open>Release\<close> with a background
  context, whose error is only logged.
\<close>

definition with_lock ::
  "'w Engine \<Rightarrow> goctx \<Rightarrow> gotime \<Rightarrow> string \<Rightarrow> string \<Rightarrow>
   ('w estate \<Rightarrow> 'a result \<times> 'w estate) \<Rightarrow> 'w estate \<Rightarrow> 'a result \<times> 'w estate" where
  "with_lock e ctx now lockKey what body s =
     (case lm_Acquire (lockManager e) ctx now lockKey (es_world s) of
        (Inl err, w1) \<Rightarrow> (Inl (Wrapf ''failed to acquire lock'' err), s\<lparr>es_world := w1\<rparr>)
      | (Inr acquired, w1) \<Rightarrow>
          if \<not> acquired then (Inl (Errorf (''failed to acquire lock for '' @ what)), s\<lparr>es_world := w1\<rparr>)
          else
            (case body (s\<lparr>es_world := w1\<rparr>) of
               (r, s2) \<Rightarrow>
                 (case lm_Release (lockManager e) now lockKey (es_world s2) of
                    (_, w3) \<Rightarrow> (r, s2\<lparr>es_world := w3\<rparr>))))"

definition relativePath :: "string \<Rightarrow> string" where
  "relativePath path = TrimPrefix path ''/''"

text \<open>The part of \<^verbatim>\<open>CreateDirectory\<close> after its parents exist.\<close>

definition store_directory ::
  "'w Engine \<Rightarrow> goctx \<Rightarrow> gotime \<Rightarrow> string \<Rightarrow> Metadata \<Rightarrow> 'w estate \<Rightarrow> unit result \<times> 'w estate" where
  "store_directory e ctx now path md0 s =
     (let md1 = (if md_BackendType md0 = ''localfs'' then md0\<lparr>md_CallFSInstanceID := Some (currentInstanceID e)\<rparr> else md0);
          storage = selectBackendByType e (md_BackendType md1)
      in case so_CreateDirectory storage ctx (relativePath path) (es_world s) of
           (Inl err, w1) \<Rightarrow> (Inl (Wrapf ''failed to create directory in backend'' err), s\<lparr>es_world := w1\<rparr>)
         | (Inr _, w1) \<Rightarrow>
             let md = md1\<lparr>md_Path := path, md_Type := ''directory'', md_Size := 0, md_CreatedAt := now, md_UpdatedAt := now\<rparr>
             in (case st_Create (metadataStore e) now md w1 of
                   (Inl err, w2) \<Rightarrow>
                     (Inl (Wrapf ''failed to store metadata'' err),
                      s\<lparr>es_world := snd (so_Delete storage ctx (relativePath path) w2)\<rparr>)
                 | (Inr _, w2) \<Rightarrow> (Inr (), s\<lparr>es_world := w2\<rparr>)))"

definition parent_Metadata :: "string \<Rightarrow> string \<Rightarrow> Metadata" where
  "parent_Metadata parentPath backendType = zero_Metadata\<lparr>md_Name := filepath_Base parentPath, md_Type := ''directory'',
     md_Mode := ''0777'', md_UID := 0, md_GID := 0, md_BackendType := backendType\<rparr>"

text \<open>\<^verbatim>\<open>ensureParentDirectories\<close> and \<^verbatim>\<open>CreateDirectory\<close> call each other.\<close>

function ensureParentDirectories ::
    "'w Engine \<Rightarrow> goctx \<Rightarrow> gotime \<Rightarrow> string \<Rightarrow> string \<Rightarrow> 'w estate \<Rightarrow> unit result \<times> 'w estate"
  and CreateDirectory ::
    "'w Engine \<Rightarrow> goctx \<Rightarrow> gotime \<Rightarrow> string \<Rightarrow> Metadata \<Rightarrow> 'w estate \<Rightarrow> unit result \<times> 'w estate"
where
  "ensureParentDirectories e ctx now path backendType s =
     (let parentPath = filepath_Dir path in
      if parentPath = ''/'' \<or> parentPath = ''.'' then (Inr (), s)
      else if is_ok (st_Get (metadataStore e) parentPath (es_world s)) then (Inr (), s)
      else
        (case ensureParentDirectories e ctx now parentPath backendType s of
           (Inl err, s1) \<Rightarrow> (Inl err, s1)
         | (Inr _, s1) \<Rightarrow>
             let backendType' = (if backendType = '''' then ''localfs'' else backendType) in
             (case CreateDirectory e ctx now parentPath (parent_Metadata parentPath backendType') s1 of
                (Inl err, s2) \<Rightarrow> if err = ErrAlreadyExists then (Inr (), s2) else (Inl err, s2)
              | (Inr _, s2) \<Rightarrow> (Inr (), s2))))"
| "CreateDirectory e ctx now path md s =
     with_lock e ctx now (''dir:'' @ path) ''directory creation'' (\<lambda>s1.
       if is_ok (st_Get (metadataStore e) path (es_world s1)) then (Inl ErrAlreadyExists, s1)
       else (case ensureParentDirectories e ctx now path (md_BackendType md) s1 of
               (Inl err, s2) \<Rightarrow> (Inl (Wrapf ''failed to ensure parent directories'' err), s2)
             | (Inr _, s2) \<Rightarrow> store_directory e ctx now path md s2)) s"
  by pat_completeness auto
termination
  by (relation "measure (\<lambda>x. case x of Inl (e, ctx, now, path, bt, s) \<Rightarrow> 2 * length path
                                     | Inr (e, ctx, now, path, md, s) \<Rightarrow> Suc (2 * length path))")
     (use Dir_shorter in fastforce)+

declare ensureParentDirectories.simps [simp del] CreateDirectory.simps [simp del]

definition EnsureRootDirectory :: "'w Engine \<Rightarrow> gotime \<Rightarrow> 'w estate \<Rightarrow> unit result \<times> 'w estate" where
  "EnsureRootDirectory e now s =
     (if is_ok (st_Get (metadataStore e) ''/'' (es_world s)) then (Inr (), s)
      else
        let rootMd = zero_Metadata\<lparr>md_Name := ''/'', md_Path := ''/'', md_Type := ''directory'', md_Mode := ''0777'',
                       md_UID := 0, md_GID := 0, md_BackendType := ''localfs'', md_ATime := now, md_MTime := now, md_CTime := now\<rparr>
        in (case st_Create (metadataStore e) now rootMd (es_world s) of
              (Inl err, w1) \<Rightarrow> (Inl (Wrapf ''failed to create root directory metadata'' err), s\<lparr>es_world := w1\<rparr>)
            | (Inr _, w1) \<Rightarrow> (Inr (), s\<lparr>es_world := w1\<rparr>)))"

subsection \<open>directory\_operations.go\<close>

definition ListDirectory :: "'w Engine \<Rightarrow> string \<Rightarrow> 'w estate \<Rightarrow> Metadata list result" where
  "ListDirectory e path s =
     (case st_Get (metadataStore e) path (es_world s) of
        Inl err \<Rightarrow> Inl (Wrapf ''failed to get directory metadata'' err)
      | Inr md \<Rightarrow>
          if md_Type md \<noteq> ''directory'' then Inl (Errorf ''path is not a directory'')
          else (case st_ListChildren (metadataStore e) path (es_world s) of
                  Inl err \<Rightarrow> Inl (Wrapf ''failed to list directory children'' err)
                | Inr children \<Rightarrow> Inr children))"

text \<open>
  The helper recurses at most \<open>maxDepth - currentDepth + 1\<close> levels; \<open>budget\<close> is that number, so
  \<open>0\<close> is \<open>currentDepth > maxDepth\<close>. The loop over the children is a map whose failed entries are skipped.
\<close>

fun listDirectoryRecursiveHelper ::
  "nat \<Rightarrow> 'w Engine \<Rightarrow> 'w estate \<Rightarrow> string \<Rightarrow> Metadata list \<Rightarrow> Metadata list result" where
  "listDirectoryRecursiveHelper 0 e s path allItems = Inr allItems"
| "listDirectoryRecursiveHelper (Suc budget) e s path allItems =
     (case ListDirectory e path s of
        Inl err \<Rightarrow> Inl (Wrapf (''failed to list directory '' @ path) err)
      | Inr children \<Rightarrow>
          Inr (allItems @ children @
            concat (map (\<lambda>child.
              if md_Type child = ''directory'' then
                (case listDirectoryRecursiveHelper budget e s (md_Path child) [] of
                   Inl _ \<Rightarrow> [] | Inr subItems \<Rightarrow> subItems)
              else []) children)))"

definition ListDirectoryRecursive :: "'w Engine \<Rightarrow> string \<Rightarrow> int \<Rightarrow> 'w estate \<Rightarrow> Metadata list result" where
  "ListDirectoryRecursive e path maxDepth s =
     (let maxDepth' = (if maxDepth < 0 then 100 else maxDepth)
      in listDirectoryRecursiveHelper (nat (maxDepth' + 1)) e s path [])"

subsection \<open>file\_operations.go\<close>

definition GetMetadata :: "'w Engine \<Rightarrow> gotime \<Rightarrow> string \<Rightarrow> 'w estate \<Rightarrow> Metadata result \<times> 'w estate" where
  "GetMetadata e now path s =
     (case cache_Get now path (es_cache s) of
        Some cachedMd \<Rightarrow> (Inr cachedMd, s)
      | None \<Rightarrow>
          (case st_Get (metadataStore e) path (es_world s) of
             Inl err \<Rightarrow> (Inl err, s)
           | Inr md \<Rightarrow> (Inr md, s\<lparr>es_cache := cache_Set (cacheOrder e) now path md (es_cache s)\<rparr>)))"

definition GetFile :: "'w Engine \<Rightarrow> goctx \<Rightarrow> gotime \<Rightarrow> string \<Rightarrow> 'w estate \<Rightarrow> reader result \<times> 'w estate" where
  "GetFile e ctx now path s =
     (case GetMetadata e now path s of
        (Inl err, s1) \<Rightarrow> (Inl (Wrapf ''failed to get file metadata'' err), s1)
      | (Inr md, s1) \<Rightarrow>
          if md_Type md \<noteq> ''file'' then (Inl (Errorf ''path is not a file''), s1)
          else case (if md_ErasureCoded md then erasureManager e else None) of
            Some em \<Rightarrow>
              (case em_RetrieveFile em path (es_world s1) of
                 Inl err \<Rightarrow> (Inl (Wrapf ''failed to retrieve erasure-coded file'' err), s1)
               | Inr data \<Rightarrow> (Inr (NewReader data), s1))
          | None \<Rightarrow>
              (case selectBackend e ctx md of
                 (ctx', storage) \<Rightarrow>
                   (case so_Open storage ctx' (relativePath path) (es_world s1) of
                      Inl err \<Rightarrow> (Inl (Wrapf ''failed to open file'' err), s1)
                    | Inr reader \<Rightarrow> (Inr reader, s1))))"

text \<open>The replica backend to use, if replication is on and it differs from the primary.\<close>

definition replica_target :: "'w Engine \<Rightarrow> string \<Rightarrow> string option" where
  "replica_target e primaryBackend =
     (let rb = ToLower (TrimSpace (replicaBackend e))
      in if \<not> replicationEnabled e then None
         else if rb = '''' \<or> rb = ToLower primaryBackend then None else Some rb)"

definition ack :: "'w Engine \<Rightarrow> goerr \<Rightarrow> unit result" where
  "ack e err = (if requireReplicaAck e then Inl err else Inr ())"

definition replicateFileToSecondaryBackend ::
  "'w Engine \<Rightarrow> goctx \<Rightarrow> string \<Rightarrow> int \<Rightarrow> string \<Rightarrow> 'w \<Rightarrow> unit result \<times> 'w" where
  "replicateFileToSecondaryBackend e ctx path sz primaryBackend w =
     (case replica_target e primaryBackend of
        None \<Rightarrow> (Inr (), w)
      | Some replica \<Rightarrow>
          let primaryStorage = selectBackendByType e primaryBackend;
              replicaStorage = selectBackendByType e replica;
              rel = relativePath path
          in (case so_Open primaryStorage ctx rel w of
                Inl err \<Rightarrow> (ack e (Wrapf ''failed to open source for replication'' err), w)
              | Inr reader \<Rightarrow>
                  (case so_Update replicaStorage ctx rel reader sz w of
                     (Inr _, w1) \<Rightarrow> (Inr (), w1)
                   | (Inl _, w1) \<Rightarrow>
                       (case so_Open primaryStorage ctx rel w1 of
                          Inl openErr \<Rightarrow> (ack e (Wrapf ''failed to reopen source for replica create'' openErr), w1)
                        | Inr reader2 \<Rightarrow>
                            (case so_Create replicaStorage ctx rel reader2 sz w1 of
                               (Inl err, w2) \<Rightarrow> (ack e (Wrapf ''failed to replicate file to secondary backend'' err), w2)
                             | (Inr _, w2) \<Rightarrow> (Inr (), w2))))))"

definition deleteReplicatedFile :: "'w Engine \<Rightarrow> goctx \<Rightarrow> string \<Rightarrow> string \<Rightarrow> 'w \<Rightarrow> unit result \<times> 'w" where
  "deleteReplicatedFile e ctx path primaryBackend w =
     (case replica_target e primaryBackend of
        None \<Rightarrow> (Inr (), w)
      | Some replica \<Rightarrow>
          (case so_Delete (selectBackendByType e replica) ctx (relativePath path) w of
             (Inl err, w1) \<Rightarrow> (ack e (Wrapf ''failed to delete replicated file'' err), w1)
           | (Inr _, w1) \<Rightarrow> (Inr (), w1)))"

text \<open>
  The end of a write: the cache entries of the file (if \<open>own\<close>) and of everything under its
  directory are dropped.
\<close>

definition drop_cached :: "bool \<Rightarrow> string \<Rightarrow> 'w estate \<Rightarrow> 'w estate" where
  "drop_cached own path s =
     s\<lparr>es_cache := InvalidatePrefix (filepath_Dir path) (if own then Invalidate path (es_cache s) else es_cache s)\<rparr>"

text \<open>
  The three file operations: what runs between \<^verbatim>\<open>Acquire\<close> and \<^verbatim>\<open>Release\<close>, and the operation.
  \<^verbatim>\<open>CreateFile\<close> fills in the struct its caller passes; the result carries its final value, which
  the handlers use afterwards.
\<close>

definition CreateFile_locked ::
  "'w Engine \<Rightarrow> goctx \<Rightarrow> gotime \<Rightarrow> string \<Rightarrow> reader \<Rightarrow> int \<Rightarrow> Metadata \<Rightarrow> 'w estate \<Rightarrow> Metadata result \<times> 'w estate" where
  "CreateFile_locked e ctx now path reader sz md0 s1 =
     (if is_ok (st_Get (metadataStore e) path (es_world s1)) then (Inl ErrAlreadyExists, s1)
       else case ensureParentDirectories e ctx now path (md_BackendType md0) s1 of
         (Inl err, s2) \<Rightarrow> (Inl (Wrapf ''failed to ensure parent directories'' err), s2)
       | (Inr _, s2) \<Rightarrow>
           let md1 = (if md_BackendType md0 = ''localfs'' then md0\<lparr>md_CallFSInstanceID := Some (currentInstanceID e)\<rparr> else md0);
               storage = selectBackendByType e (md_BackendType md1)
           in case so_Create storage ctx (relativePath path) reader sz (es_world s2) of
                (Inl err, w3) \<Rightarrow> (Inl (Wrapf ''failed to create file in backend'' err), s2\<lparr>es_world := w3\<rparr>)
              | (Inr _, w3) \<Rightarrow>
                  let md = md1\<lparr>md_Path := path, md_Size := sz, md_CreatedAt := now, md_UpdatedAt := now\<rparr>
                  in (case st_Create (metadataStore e) now md w3 of
                        (Inl err, w4) \<Rightarrow>
                          (Inl (Wrapf ''failed to store metadata'' err),
                           s2\<lparr>es_world := snd (so_Delete storage ctx (relativePath path) w4)\<rparr>)
                      | (Inr md', w4) \<Rightarrow>
                          (case replicateFileToSecondaryBackend e ctx path sz (md_BackendType md) w4 of
                             (Inl err, w5) \<Rightarrow> (Inl err, s2\<lparr>es_world := w5\<rparr>)
                           | (Inr _, w5) \<Rightarrow> (Inr md', drop_cached False path (s2\<lparr>es_world := w5\<rparr>)))))"

definition CreateFile ::
  "'w Engine \<Rightarrow> goctx \<Rightarrow> gotime \<Rightarrow> string \<Rightarrow> reader \<Rightarrow> int \<Rightarrow> Metadata \<Rightarrow> 'w estate \<Rightarrow> Metadata result \<times> 'w estate" where
  "CreateFile e ctx now path reader sz md0 s =
     with_lock e ctx now (''file:'' @ path) ''file creation'' (CreateFile_locked e ctx now path reader sz md0) s"

definition UpdateFile_locked ::
  "'w Engine \<Rightarrow> goctx \<Rightarrow> gotime \<Rightarrow> string \<Rightarrow> reader \<Rightarrow> int \<Rightarrow> 'w estate \<Rightarrow> unit result \<times> 'w estate" where
  "UpdateFile_locked e ctx now path reader sz s1 =
     (case st_Get (metadataStore e) path (es_world s1) of
         Inl err \<Rightarrow> (Inl (Wrapf ''failed to get existing metadata'' err), s1)
       | Inr md0 \<Rightarrow>
           if md_Type md0 \<noteq> ''file'' then (Inl (Errorf ''path is not a file''), s1)
           else case selectBackend e ctx md0 of (ctx', storage) \<Rightarrow>
             (case so_Update storage ctx' (relativePath path) reader sz (es_world s1) of
                (Inl err, w2) \<Rightarrow> (Inl (Wrapf ''failed to update file in backend'' err), s1\<lparr>es_world := w2\<rparr>)
              | (Inr _, w2) \<Rightarrow>
                  let md1 = md0\<lparr>md_Size := sz, md_MTime := now, md_UpdatedAt := now\<rparr>;
                      md = (if md_CallFSInstanceID md1 = None \<and> md_BackendType md1 = ''localfs''
                            then md1\<lparr>md_CallFSInstanceID := Some (currentInstanceID e)\<rparr> else md1)
                  in (case st_Update (metadataStore e) now md w2 of
                        (Inl err, w3) \<Rightarrow>
                          (Inl (Wrapf ''failed to update metadata'' err),
                           s1\<lparr>es_world := w3, es_cache := Invalidate path (es_cache s1)\<rparr>)
                      | (Inr _, w3) \<Rightarrow>
                          (case replicateFileToSecondaryBackend e ctx' path sz (md_BackendType md) w3 of
                             (Inl err, w4) \<Rightarrow> (Inl err, s1\<lparr>es_world := w4\<rparr>)
                           | (Inr _, w4) \<Rightarrow> (Inr (), drop_cached True path (s1\<lparr>es_world := w4\<rparr>))))))"

definition UpdateFile ::
  "'w Engine \<Rightarrow> goctx \<Rightarrow> gotime \<Rightarrow> string \<Rightarrow> reader \<Rightarrow> int \<Rightarrow> 'w estate \<Rightarrow> unit result \<times> 'w estate" where
  "UpdateFile e ctx now path reader sz s =
     with_lock e ctx now (''file:'' @ path) ''file update'' (UpdateFile_locked e ctx now path reader sz) s"

definition DeleteFile_locked ::
  "'w Engine \<Rightarrow> goctx \<Rightarrow> gotime \<Rightarrow> string \<Rightarrow> 'w estate \<Rightarrow> unit result \<times> 'w estate" where
  "DeleteFile_locked e ctx now path s1 =
     (case st_Get (metadataStore e) path (es_world s1) of
         Inl err \<Rightarrow> (Inl (Wrapf ''failed to get metadata'' err), s1)
       | Inr md \<Rightarrow>
           case (if md_Type md = ''directory'' then
                   (case st_ListChildren (metadataStore e) path (es_world s1) of
                      Inl err \<Rightarrow> Some (Wrapf ''failed to check directory contents'' err)
                    | Inr children \<Rightarrow> if 0 < length children then Some (Errorf ''directory not empty'') else None)
                 else None) of
             Some err \<Rightarrow> (Inl err, s1)
           | None \<Rightarrow>
               (case (if md_ErasureCoded md then erasureManager e else None) of
                  Some em \<Rightarrow>
                    (case em_DeleteFile em path (es_world s1) of
                       (Inl err, w2) \<Rightarrow> (Inl (Wrapf ''failed to delete erasure-coded file'' err), s1\<lparr>es_world := w2\<rparr>)
                     | (Inr _, w2) \<Rightarrow>
                         (case st_Delete (metadataStore e) path w2 of
                            (Inl err, w3) \<Rightarrow> (Inl (Wrapf ''failed to delete metadata'' err), s1\<lparr>es_world := w3\<rparr>)
                          | (Inr _, w3) \<Rightarrow> (Inr (), drop_cached True path (s1\<lparr>es_world := w3\<rparr>))))
                | None \<Rightarrow>
                    (case selectBackend e ctx md of (ctx', storage) \<Rightarrow>
                      (case st_Delete (metadataStore e) path (es_world s1) of
                         (Inl err, w2) \<Rightarrow> (Inl (Wrapf ''failed to delete metadata'' err), s1\<lparr>es_world := w2\<rparr>)
                       | (Inr _, w2) \<Rightarrow>
                           let w3 = snd (so_Delete storage ctx' (relativePath path) w2) in
                           (case deleteReplicatedFile e ctx' path (md_BackendType md) w3 of
                              (Inl err, w4) \<Rightarrow> (Inl err, s1\<lparr>es_world := w4\<rparr>)
                            | (Inr _, w4) \<Rightarrow> (Inr (), drop_cached True path (s1\<lparr>es_world := w4\<rparr>)))))))"

definition DeleteFile ::
  "'w Engine \<Rightarrow> goctx \<Rightarrow> gotime \<Rightarrow> string \<Rightarrow> 'w estate \<Rightarrow> unit result \<times> 'w estate" where
  "DeleteFile e ctx now path s =
     with_lock e ctx now (''file:'' @ path) ''file deletion'' (DeleteFile_locked e ctx now path) s"

definition CreateErasureMetadata ::
  "'w Engine \<Rightarrow> goctx \<Rightarrow> gotime \<Rightarrow> string \<Rightarrow> Metadata \<Rightarrow> 'w estate \<Rightarrow> unit result \<times> 'w estate" where
  "CreateErasureMetadata e ctx now path md0 s =
     (case ensureParentDirectories e ctx now path ''localfs'' s of
        (Inl err, s1) \<Rightarrow> (Inl (Wrapf ''failed to ensure parent directories'' err), s1)
      | (Inr _, s1) \<Rightarrow>
          let md = md0\<lparr>md_Path := path, md_CreatedAt := now, md_UpdatedAt := now\<rparr>
          in (case st_Create (metadataStore e) now md (es_world s1) of
                (Inl err, w2) \<Rightarrow> (Inl (Wrapf ''failed to store erasure metadata'' err), s1\<lparr>es_world := w2\<rparr>)
              | (Inr _, w2) \<Rightarrow> (Inr (), drop_cached False path (s1\<lparr>es_world := w2\<rparr>))))"

definition UpdateMetadataOnly :: "'w Engine \<Rightarrow> gotime \<Rightarrow> Metadata \<Rightarrow> 'w estate \<Rightarrow> unit result \<times> 'w estate" where
  "UpdateMetadataOnly e now md s =
     (case st_Update (metadataStore e) now md (es_world s) of
        (Inl err, w1) \<Rightarrow> (Inl (Wrapf ''failed to update metadata'' err), s\<lparr>es_world := w1\<rparr>)
      | (Inr _, w1) \<Rightarrow> (Inr (), s\<lparr>es_world := w1, es_cache := Invalidate (md_Path md) (es_cache s)\<rparr>))"

subsection \<open>cross\_instance\_operations.go\<close>

definition UpdateFileOnInstance ::
  "'w Engine \<Rightarrow> goctx \<Rightarrow> string \<Rightarrow> string \<Rightarrow> reader \<Rightarrow> int \<Rightarrow> 'w estate \<Rightarrow> unit result \<times> 'w estate" where
  "UpdateFileOnInstance e ctx instanceID path reader sz s =
     (case so_Update (internalProxyBackend e) (WithInstanceID ctx instanceID) (relativePath path) reader sz (es_world s) of
        (Inl err, w1) \<Rightarrow> (Inl err, s\<lparr>es_world := w1\<rparr>)
      | (Inr _, w1) \<Rightarrow> (Inr (), s\<lparr>es_world := w1, es_cache := Invalidate path (es_cache s)\<rparr>))"

definition DeleteFileOnInstance :: "'w Engine \<Rightarrow> string \<Rightarrow> string \<Rightarrow> 'w estate \<Rightarrow> unit result \<times> 'w estate" where
  "DeleteFileOnInstance e instanceID path s =
     (case internalProxyAdapter e of
        None \<Rightarrow> (Inl (Errorf ''internal proxy not configured: no peer endpoints available''), s)
      | Some px \<Rightarrow>
          (case px_DeleteOnInstance px instanceID (relativePath path) (es_world s) of
             (Inl err, w1) \<Rightarrow> (Inl err, s\<lparr>es_world := w1\<rparr>)
           | (Inr _, w1) \<Rightarrow> (Inr (), s\<lparr>es_world := w1, es_cache := Invalidate path (es_cache s)\<rparr>)))"

text \<open>The calls an engine serves, and the sweep of its cache, as events of a run.\<close>

datatype engine_event =
    EvGetMetadata gotime string
  | EvGetFile goctx gotime string
  | EvCreateFile goctx gotime string reader int Metadata
  | EvUpdateFile goctx gotime string reader int
  | EvDeleteFile goctx gotime string
  | EvCreateDirectory goctx gotime string Metadata
  | EvEnsureRoot gotime
  | EvCreateErasureMetadata goctx gotime string Metadata
  | EvUpdateMetadataOnly gotime Metadata
  | EvUpdateFileOnInstance goctx string string reader int
  | EvDeleteFileOnInstance string string
  | EvSweep gotime

fun engine_step :: "'w Engine \<Rightarrow> engine_event \<Rightarrow> 'w estate \<Rightarrow> 'w estate" where
  "engine_step e (EvGetMetadata now path) s = snd (GetMetadata e now path s)"
| "engine_step e (EvGetFile ctx now path) s = snd (GetFile e ctx now path s)"
| "engine_step e (EvCreateFile ctx now path reader sz md) s = snd (CreateFile e ctx now path reader sz md s)"
| "engine_step e (EvUpdateFile ctx now path reader sz) s = snd (UpdateFile e ctx now path reader sz s)"
| "engine_step e (EvDeleteFile ctx now path) s = snd (DeleteFile e ctx now path s)"
| "engine_step e (EvCreateDirectory ctx now path md) s = snd (CreateDirectory e ctx now path md s)"
| "engine_step e (EvEnsureRoot now) s = snd (EnsureRootDirectory e now s)"
| "engine_step e (EvCreateErasureMetadata ctx now path md) s = snd (CreateErasureMetadata e ctx now path md s)"
| "engine_step e (EvUpdateMetadataOnly now md) s = snd (UpdateMetadataOnly e now md s)"
| "engine_step e (EvUpdateFileOnInstance ctx i path reader sz) s = snd (UpdateFileOnInstance e ctx i path reader sz s)"
| "engine_step e (EvDeleteFileOnInstance i path) s = snd (DeleteFileOnInstance e i path s)"
| "engine_step e (EvSweep now) s = s\<lparr>es_cache := performCleanup now (es_cache s)\<rparr>"

definition StatFileOnInstance :: "'w Engine \<Rightarrow> string \<Rightarrow> string \<Rightarrow> 'w estate \<Rightarrow> Metadata result" where
  "StatFileOnInstance e instanceID path s =
     (case internalProxyAdapter e of
        None \<Rightarrow> Inl (Errorf ''internal proxy not configured: no peer endpoints available'')
      | Some px \<Rightarrow> px_StatOnInstance px instanceID (relativePath path) (es_world s))"

end
