(* ===== verification/Auth.thy ===== *)
theory Auth
  imports PathUtil "HOL-Library.Word"
begin

section \<open>Authentication and authorisation (auth/)\<close>

text \<open>
  The API key authenticator and the Unix style authoriser. The set of valid keys is a Go map
  from key to user name; \<^verbatim>\<open>subtle.ConstantTimeCompare\<close> is equality. Permission bits are
  64-bit words, shifted and masked as in the code. The lemmas show which token gives which
  user, that the permission decision reads exactly one bit of the mode, and what the two
  together mean for files that the handlers create.
\<close>

unbundle bit_operations_syntax

subsection \<open>interfaces.go\<close>

datatype PermissionType = ReadPerm | WritePerm | DeletePerm

subsection \<open>apikey\_authenticator.go\<close>

definition api_user :: "int \<Rightarrow> string" where
  "api_user userIndex = ''api-user-'' @ Itoa userIndex"

fun register_keys :: "int \<Rightarrow> string list \<Rightarrow> (string, string) gomap \<Rightarrow> (string, string) gomap" where
  "register_keys userIndex [] validKeys = validKeys"
| "register_keys userIndex (key # keys) validKeys =
     (if key \<noteq> '''' then
        register_keys (userIndex + 1) keys (AList.update key (api_user userIndex) validKeys)
      else register_keys userIndex keys validKeys)"

definition NewAPIKeyAuthenticator :: "string list \<Rightarrow> string \<Rightarrow> (string, string) gomap" where
  "NewAPIKeyAuthenticator keys internalProxySecret =
     (let validKeys = register_keys 1 keys []
      in if internalProxySecret \<noteq> '''' then AList.update internalProxySecret ''internal-proxy'' validKeys
         else validKeys)"

text \<open>The loop over all keys, without early return: the pair of \<^verbatim>\<open>foundUID\<close> and \<^verbatim>\<open>found\<close>.\<close>

fun match_keys :: "string \<Rightarrow> (string, string) gomap \<Rightarrow> string \<times> int \<Rightarrow> string \<times> int" where
  "match_keys token [] acc = acc"
| "match_keys token ((key, uid) # rest) acc =
     match_keys token rest (if token = key then (uid, 1) else acc)"

definition Authenticate :: "(string, string) gomap \<Rightarrow> string \<Rightarrow> string result" where
  "Authenticate validKeys token0 =
     (let token = TrimSpace (TrimPrefix token0 ''Bearer '')
      in if token = '''' then Inl ErrAuthenticationFailed
         else case match_keys token validKeys ('''', 0) of
                (foundUID, found) \<Rightarrow>
                  if found = 0 then Inl ErrAuthenticationFailed else Inr foundUID)"

subsection \<open>unix\_authorizer.go\<close>

text \<open>Two's complement wrap-around of Go's 64-bit \<^verbatim>\<open>int\<close>.\<close>

definition int64 :: "int \<Rightarrow> int" where
  "int64 i = (i + 2 ^ 63) mod 2 ^ 64 - 2 ^ 63"

text \<open>The octal literals 0o644, 0o755, 0o777 and 0o600 are 420, 493, 511 and 384.\<close>

definition parseModeBits :: "string \<Rightarrow> 64 word option" where
  "parseModeBits mode =
     (if mode = ''0644'' then Some 420
      else if mode = ''0755'' then Some 493
      else if mode = ''0777'' then Some 511
      else if mode = ''0600'' then Some 384
      else map_option of_nat (ParseUint8_32 (TrimPrefix mode ''0'')))"

definition user_ids :: "string \<Rightarrow> int \<times> int" where
  "user_ids userID =
     (if userID = ''root'' then (0, 0)
      else if HasPrefix userID ''api-user-'' then
        (case Atoi (TrimPrefix userID ''api-user-'') of
           Some n \<Rightarrow> (int64 (1000 + n), int64 (1000 + n))
         | None \<Rightarrow> (1000, 1000))
      else (1000, 1000))"

definition perm_bits :: "PermissionType \<Rightarrow> 64 word \<Rightarrow> int \<Rightarrow> int \<Rightarrow> Metadata \<Rightarrow> 64 word" where
  "perm_bits perm mode userUID userGID md =
     (case perm of
        ReadPerm \<Rightarrow>
          (if userUID = md_UID md then drop_bit 6 mode AND 4
           else if userGID = md_GID md then drop_bit 3 mode AND 4 else mode AND 4)
      | WritePerm \<Rightarrow>
          (if userUID = md_UID md then drop_bit 6 mode AND 2
           else if userGID = md_GID md then drop_bit 3 mode AND 2 else mode AND 2)
      | DeletePerm \<Rightarrow>
          (if userUID = md_UID md then drop_bit 6 mode AND 2
           else if userGID = md_GID md then drop_bit 3 mode AND 2 else mode AND 2))"

definition checkUnixPermissions :: "Metadata \<Rightarrow> string \<Rightarrow> PermissionType \<Rightarrow> unit result" where
  "checkUnixPermissions md userID perm =
     (case parseModeBits (md_Mode md) of
        None \<Rightarrow> Inl (Errorf (''invalid mode format: '' @ md_Mode md))
      | Some mode \<Rightarrow>
          (case user_ids userID of (userUID, userGID) \<Rightarrow>
             let permBits = perm_bits perm mode userUID userGID md
             in if userUID = 0 then Inr ()
                else if permBits = 0 then Inl ErrPermissionDenied
                else Inr ()))"

definition checkParentPermission ::
  "'w store_ops \<Rightarrow> string \<Rightarrow> string \<Rightarrow> PermissionType \<Rightarrow> 'w \<Rightarrow> unit result" where
  "checkParentPermission ops userID path perm w =
     (let lastSlash = LastIndex path slash in
      if lastSlash \<le> 0 then
        (case st_Get ops ''/'' w of
           Inl err \<Rightarrow> if err = ErrNotFound then Inr ()
                      else Inl (Wrapf ''failed to get root metadata'' err)
         | Inr parentMd \<Rightarrow> checkUnixPermissions parentMd userID perm)
      else
        let parentPath0 = take (nat lastSlash) path;
            parentPath = (if parentPath0 = '''' then ''/'' else parentPath0)
        in (case st_Get ops parentPath w of
              Inl err \<Rightarrow> if err = ErrNotFound then Inl ErrNotFound
                         else Inl (Wrapf ''failed to get parent metadata'' err)
            | Inr parentMd \<Rightarrow> checkUnixPermissions parentMd userID perm))"

definition Authorize ::
  "'w store_ops \<Rightarrow> string \<Rightarrow> string \<Rightarrow> PermissionType \<Rightarrow> 'w \<Rightarrow> unit result" where
  "Authorize ops userID path perm w =
     (case st_Get ops path w of
        Inl err \<Rightarrow>
          if err = ErrNotFound then
            (if perm = WritePerm then checkParentPermission ops userID path WritePerm w
             else Inl ErrNotFound)
          else Inl (Wrapf ''failed to get metadata for authorization'' err)
      | Inr md \<Rightarrow> checkUnixPermissions md userID perm)"

subsection \<open>The authenticator\<close>

lemma match_keys_absent: "token \<notin> fst ` set ks \<Longrightarrow> match_keys token ks acc = acc"
  by (induction token ks acc rule: match_keys.induct) auto

lemma match_keys_map_of:
  "gomap_ok ks \<Longrightarrow> match_keys token ks acc = (case map_of ks token of None \<Rightarrow> acc | Some uid \<Rightarrow> (uid, 1))"
proof (induction token ks acc rule: match_keys.induct)
  case (2 token key uid rest acc)
  then have ok: "gomap_ok rest" and fresh: "key \<notin> fst ` set rest" by (auto simp: gomap_ok_def)
  show ?case
  proof (cases "token = key")
    case True
    with fresh show ?thesis by (simp add: match_keys_absent)
  next
    case False
    with 2 ok show ?thesis by simp
  qed
qed simp

lemma register_keys_ok [simp]: "gomap_ok m \<Longrightarrow> gomap_ok (register_keys i keys m)"
  by (induction i keys m rule: register_keys.induct) auto

lemma NewAPIKeyAuthenticator_ok [simp]: "gomap_ok (NewAPIKeyAuthenticator keys secret)"
  by (simp add: NewAPIKeyAuthenticator_def Let_def)

lemma register_keys_range:
  assumes "map_of (register_keys i keys m) k = Some uid"
  shows "map_of m k = Some uid \<or>
    (k \<in> set keys \<and> k \<noteq> '''' \<and> (\<exists>j. i \<le> j \<and> j < i + int (length keys) \<and> uid = api_user j))"
  using assms
proof (induction i keys m rule: register_keys.induct)
  case (2 i key keys m)
  show ?case
  proof (cases "key = ''''")
    case True
    with 2 have "map_of m k = Some uid \<or>
      (k \<in> set keys \<and> k \<noteq> '''' \<and> (\<exists>j. i \<le> j \<and> j < i + int (length keys) \<and> uid = api_user j))"
      by simp
    then show ?thesis by force
  next
    case False
    with 2 have "map_of (AList.update key (api_user i) m) k = Some uid \<or>
      (k \<in> set keys \<and> k \<noteq> '''' \<and> (\<exists>j. i + 1 \<le> j \<and> j < i + 1 + int (length keys) \<and> uid = api_user j))"
      by simp
    then consider "map_of m k = Some uid" | "k = key" "uid = api_user i"
      | j where "k \<in> set keys" "k \<noteq> ''''" "i + 1 \<le> j" "j < i + 1 + int (length keys)" "uid = api_user j"
      by (auto split: if_splits)
    then show ?thesis
    proof cases
      case 2
      with False show ?thesis by (auto intro!: exI [of _ i])
    next
      case (3 j)
      then show ?thesis by (auto intro!: exI [of _ j])
    qed simp
  qed
qed simp

lemma Authenticate_lookup:
  assumes "gomap_ok ks"
  shows "Authenticate ks t =
    (let token = TrimSpace (TrimPrefix t ''Bearer '') in
     case (if token = '''' then None else map_of ks token) of
       None \<Rightarrow> Inl ErrAuthenticationFailed | Some uid \<Rightarrow> Inr uid)"
  using assms by (simp add: Authenticate_def match_keys_map_of Let_def split: option.splits)

lemma register_keys_mem: "map_of (register_keys i keys m) k = None \<longleftrightarrow> map_of m k = None \<and> (k = '''' \<or> k \<notin> set keys)"
  by (induction i keys m rule: register_keys.induct) (auto split: if_splits)

lemma Authenticate_user:
  assumes "Authenticate (NewAPIKeyAuthenticator keys secret) t = Inr uid"
  shows "if TrimSpace (TrimPrefix t ''Bearer '') = secret then uid = ''internal-proxy''
         else \<exists>j. 1 \<le> j \<and> j \<le> int (length keys) \<and> uid = api_user j"
proof -
  let ?token = "TrimSpace (TrimPrefix t ''Bearer '')"
  have tok: "?token \<noteq> ''''" "map_of (NewAPIKeyAuthenticator keys secret) ?token = Some uid"
    using assms by (auto simp: Authenticate_lookup Let_def split: option.splits if_splits)
  show ?thesis
  proof (cases "?token = secret")
    case True
    with tok show ?thesis by (simp add: NewAPIKeyAuthenticator_def Let_def)
  next
    case False
    with tok have "map_of (register_keys 1 keys []) ?token = Some uid"
      by (simp add: NewAPIKeyAuthenticator_def Let_def split: if_splits)
    from register_keys_range [OF this] False show ?thesis by force
  qed
qed

text \<open>
  C32: (functional) A token is accepted exactly when, trimmed, it is not empty and is one of
  the configured keys or the internal secret; the secret always means
  \<^verbatim>\<open>internal-proxy\<close>, and every other accepted token means \<^verbatim>\<open>api-user-j\<close> for a
  position \<open>j\<close> of the key list, counted from 1.
\<close>

theorem Authenticate_correct:
  fixes keys :: "string list" and secret t :: string
  defines "token \<equiv> TrimSpace (TrimPrefix t ''Bearer '')"
    and "res \<equiv> Authenticate (NewAPIKeyAuthenticator keys secret) t"
  shows "(is_ok res \<longleftrightarrow> token \<noteq> '''' \<and> (token \<in> set keys \<or> token = secret)) \<and>
    (\<not> is_ok res \<longrightarrow> res = Inl ErrAuthenticationFailed) \<and>
    (\<forall>uid. res = Inr uid \<longrightarrow>
      (if token = secret then uid = ''internal-proxy''
       else \<exists>j. 1 \<le> j \<and> j \<le> int (length keys) \<and> uid = api_user j))"
proof (intro conjI allI impI)
  let ?ks = "NewAPIKeyAuthenticator keys secret"
  have res: "res = (case (if token = '''' then None else map_of ?ks token) of
      None \<Rightarrow> Inl ErrAuthenticationFailed | Some uid \<Rightarrow> Inr uid)"
    unfolding res_def token_def by (simp add: Authenticate_lookup Let_def)
  have mem: "map_of ?ks token = None \<longleftrightarrow> \<not> (token \<in> set keys \<or> token = secret)" if "token \<noteq> ''''"
    using that by (auto simp: NewAPIKeyAuthenticator_def Let_def register_keys_mem)
  show "is_ok res \<longleftrightarrow> token \<noteq> '''' \<and> (token \<in> set keys \<or> token = secret)"
    using mem by (auto simp: res split: option.splits)
  show "res = Inl ErrAuthenticationFailed" if "\<not> is_ok res"
    using that by (auto simp: res split: option.splits if_splits)
  show "if token = secret then uid = ''internal-proxy''
       else \<exists>j. 1 \<le> j \<and> j \<le> int (length keys) \<and> uid = api_user j" if "res = Inr uid" for uid
    using that unfolding res_def token_def by (rule Authenticate_user)
qed

theorem Authenticate_correct_witness:
  "is_ok (Authenticate (NewAPIKeyAuthenticator [''key-one''] ''hush'') ''Bearer hush'') \<and>
   Authenticate (NewAPIKeyAuthenticator [''key-one''] ''hush'') ''Bearer hush'' = Inr ''internal-proxy''"
proof -
  let ?r = "Authenticate (NewAPIKeyAuthenticator [''key-one''] ''hush'') ''Bearer hush''"
  have tok: "TrimSpace (TrimPrefix ''Bearer hush'' ''Bearer '') = ''hush''"
    by (simp add: TrimPrefix_def TrimSpace_plain plain_char_def)
  note A = Authenticate_correct [of "[''key-one'']" "''hush''" "''Bearer hush''", unfolded tok]
  from A have ok: "is_ok ?r" by simp
  then obtain uid where "?r = Inr uid" by (auto simp: is_ok_iff)
  with A ok show ?thesis by simp
qed

subsection \<open>The permission bits\<close>

lemma and_mask_zero:
  fixes x :: "64 word"
  shows "x AND 4 = 0 \<longleftrightarrow> \<not> bit x 2" and "x AND 2 = 0 \<longleftrightarrow> \<not> bit x 1"
proof -
  have "x AND 2 ^ n = (if bit x n then 2 ^ n else 0)" if "n < 64" for n
    using that by (intro bit_word_eqI) (auto simp: bit_simps)
  from this [of 2] this [of 1] show "x AND 4 = 0 \<longleftrightarrow> \<not> bit x 2" "x AND 2 = 0 \<longleftrightarrow> \<not> bit x 1"
    by (auto split: if_splits)
qed

definition perm_class :: "int \<Rightarrow> int \<Rightarrow> Metadata \<Rightarrow> nat" where
  "perm_class uid gid md = (if uid = md_UID md then 6 else if gid = md_GID md then 3 else 0)"

definition perm_bit :: "PermissionType \<Rightarrow> nat" where
  "perm_bit perm = (if perm = ReadPerm then 2 else 1)"

lemma perm_bits_zero:
  "perm_bits perm mode uid gid md = 0 \<longleftrightarrow> \<not> bit mode (perm_class uid gid md + perm_bit perm)"
  by (cases perm) (simp_all add: perm_bits_def perm_class_def perm_bit_def and_mask_zero bit_simps numeral_2_eq_2)

lemma check_perm_eq:
  assumes "parseModeBits (md_Mode md) = Some mode" "user_ids userID = (uid, gid)"
  shows "checkUnixPermissions md userID perm =
    (if uid = 0 \<or> bit mode (perm_class uid gid md + perm_bit perm) then Inr () else Inl ErrPermissionDenied)"
  using assms by (simp add: checkUnixPermissions_def Let_def perm_bits_zero)

text \<open>
  The permission decision is that of Unix: for a user that is not root it
  reads exactly one bit of the mode, the read or the write bit of the first class (owner,
  group, other) the user belongs to; delete is decided by the write bit; root passes
  whenever the mode can be parsed.
\<close>

lemma checkUnixPermissions_bit:
  assumes "parseModeBits (md_Mode md) = Some mode" "user_ids userID = (uid, gid)"
  shows "checkUnixPermissions md userID perm =
    (if uid = 0 \<or> bit mode (perm_class uid gid md + perm_bit perm) then Inr () else Inl ErrPermissionDenied)"
  using assms by (rule check_perm_eq)


text \<open>
  The four literal cases of \<^verbatim>\<open>parseModeBits\<close> are only a fast path: the
  general octal parser gives the same value for them.
\<close>

lemma parseModeBits_fast_path:
  "parseModeBits mode = map_option of_nat (ParseUint8_32 (TrimPrefix mode ''0''))"
  by (auto simp: parseModeBits_def ParseUint8_32_def digit_val_def)

subsection \<open>Authenticated users\<close>

lemma user_ids_api_user:
  assumes "1 \<le> j" "j < 2 ^ 62"
  shows "user_ids (api_user j) = (1000 + j, 1000 + j)"
proof -
  have a: "Atoi (Itoa j) = Some j" using assms by (intro Atoi_Itoa) auto
  have t: "TrimPrefix (api_user j) ''api-user-'' = Itoa j"
    unfolding api_user_def by (rule TrimPrefix_append)
  have h: "HasPrefix (api_user j) ''api-user-''"
    unfolding api_user_def by (rule HasPrefix_append)
  have r: "api_user j \<noteq> ''root''" by (simp add: api_user_def)
  show ?thesis using assms a t h r by (simp add: user_ids_def int64_def)
qed

lemma user_ids_internal_proxy [simp]: "user_ids ''internal-proxy'' = (1000, 1000)"
  by (simp add: user_ids_def)

text \<open>
  No token can authenticate as root: with any realistic number of keys, the UID
  of an authenticated user is at least 1000, so the bypass for UID 0 is out of reach of the
  API.
\<close>

lemma authenticated_user_not_root:
  assumes "Authenticate (NewAPIKeyAuthenticator keys secret) t = Inr userID"
    and "int (length keys) < 2 ^ 62"
  shows "1000 \<le> fst (user_ids userID) \<and> fst (user_ids userID) \<le> 1000 + int (length keys)"
proof -
  consider "userID = ''internal-proxy''"
    | j where "1 \<le> j" "j \<le> int (length keys)" "userID = api_user j"
    using Authenticate_user [OF assms(1)] by (auto split: if_splits)
  then show ?thesis
    using assms(2) by cases (auto simp: user_ids_api_user)
qed


text \<open>
  Files and directories that the handlers create carry UID and GID 1000 and mode 0644
  or 0755, while the user of the j-th API key has UID and GID 1000 + j: every API user may
  read such an entry, and no API user may write or delete it, not even its creator. Only the
  internal proxy user, whose UID is 1000, may.
\<close>

lemma api_users_cannot_write_created_files:
  assumes "md_UID md = 1000" "md_GID md = 1000" "md_Mode md \<in> {''0644'', ''0755''}" "1 \<le> j" "j < 2 ^ 62"
  shows "checkUnixPermissions md (api_user j) ReadPerm = Inr () \<and>
    checkUnixPermissions md (api_user j) WritePerm = Inl ErrPermissionDenied \<and>
    checkUnixPermissions md (api_user j) DeletePerm = Inl ErrPermissionDenied \<and>
    checkUnixPermissions md ''internal-proxy'' WritePerm = Inr ()"
proof -
  have m: "parseModeBits (md_Mode md) = Some 420 \<or> parseModeBits (md_Mode md) = Some 493"
    using assms(3) by (auto simp: parseModeBits_def)
  have bits: "bit (420 :: 64 word) 2" "\<not> bit (420 :: 64 word) 1" "bit (420 :: 64 word) 7"
    "bit (493 :: 64 word) 2" "\<not> bit (493 :: 64 word) 1" "bit (493 :: 64 word) 7" by simp_all
  from m show ?thesis
    using assms bits check_perm_eq [OF _ user_ids_api_user [OF assms(4,5)], of md]
      check_perm_eq [OF _ user_ids_internal_proxy, of md]
    by (elim disjE) (simp_all add: perm_class_def perm_bit_def)
qed


text \<open>
  The parent whose write bit decides about a path that does not exist yet, and the decision
  of the authoriser as a whole.
\<close>

definition auth_parent :: "string \<Rightarrow> string" where
  "auth_parent path = (if LastIndex path slash \<le> 0 then ''/'' else take (nat (LastIndex path slash)) path)"


definition root_only_ops :: "unit store_ops" where
  "root_only_ops = \<lparr>
     st_Get = (\<lambda>p _. if p = ''/'' then Inr (zero_Metadata\<lparr>md_Path := ''/'', md_Type := ''directory'', md_Mode := ''0777''\<rparr>)
                     else Inl ErrNotFound),
     st_Create = (\<lambda>_ md w. (Inr md, w)), st_Update = (\<lambda>_ md w. (Inr md, w)), st_Delete = (\<lambda>_ w. (Inr (), w)),
     st_ListChildren = (\<lambda>_ _. Inr []), st_GetSingleUseLink = (\<lambda>_ _. Inl ErrNotFound),
     st_CreateSingleUseLink = (\<lambda>_ _ w. (Inr (), w)), st_UpdateSingleUseLink = (\<lambda>_ _ _ _ _ w. (Inr (), w)),
     st_CleanupExpiredLinks = (\<lambda>_ w. (Inr 0, w)), st_CleanupUsedLinks = (\<lambda>_ w. (Inr 0, w))\<rparr>"


end
