(* ===== verification/Erasure.thy ===== *)
theory Erasure
  imports Http Engine Auth
begin

section \<open>Erasure coding (erasure, server/handlers/erasure\_handlers.go, internal\_shard\_handlers.go)\<close>

text \<open>
  The codec, the placement of shards, the manager that distributes, gathers and deletes them, and the
  handlers behind which a node keeps its shards. The Reed-Solomon library is the record \<open>rs_lib\<close>; what
  its documentation promises is \<open>rs_laws\<close>. SHA-256 is the field \<open>mg_Sum256\<close>. The goroutines of one
  operation run in the order of a schedule that the operation takes as argument: each does one
  backend or network call and then one critical section, so every execution is one of these orders.
  The clean-up goroutines that \<^verbatim>\<open>StoreFile\<close> leaves running are executed before it returns.
\<close>

subsection \<open>metadata.go\<close>

record ErasureProfile =
  ep_DataShards :: int
  ep_ParityShards :: int
  ep_ShardSize :: int

record ShardInfo =
  si_Index :: int
  si_InstanceID :: string
  si_BackendType :: string
  si_Path :: string
  si_Size :: int
  si_Checksum :: string

text \<open>\<^verbatim>\<open>erasure.ErasureFileInfo\<close>, to be told from the record of the metadata package.\<close>

record StoredFileInfo =
  sf_FilePath :: string
  sf_OriginalSize :: int
  sf_Profile :: ErasureProfile
  sf_Shards :: "ShardInfo list"

record ShardEndpoint =
  se_Index :: int
  se_Endpoint :: string
  se_Size :: int
  se_Checksum :: string

record ChunkManifest =
  cn_Path :: string
  cn_OriginalSize :: int
  cn_ErasureProfile :: ErasureProfile
  cn_Shards :: "ShardEndpoint list"

record StoreOptions =
  op_DataShards :: int
  op_ParityShards :: int
  op_Instances :: "string list"

subsection \<open>codec.go\<close>

text \<open>
  \<^verbatim>\<open>reedsolomon.New\<close> and the methods of the encoder it returns, by the two parameters of the encoder.
  A missing shard is \<^const>\<open>None\<close>; \<^verbatim>\<open>Reconstruct\<close> and \<^verbatim>\<open>Encode\<close> return the slice they fill in.
\<close>

record rs_lib =
  rs_New :: "int \<Rightarrow> int \<Rightarrow> unit result"
  rs_Split :: "int \<Rightarrow> int \<Rightarrow> bytes \<Rightarrow> bytes list result"
  rs_Encode :: "int \<Rightarrow> int \<Rightarrow> bytes list \<Rightarrow> bytes list result"
  rs_Reconstruct :: "int \<Rightarrow> int \<Rightarrow> bytes option list \<Rightarrow> bytes list result"
  rs_Verify :: "int \<Rightarrow> int \<Rightarrow> bytes list \<Rightarrow> bool result"

definition codec_Encode :: "rs_lib \<Rightarrow> bytes \<Rightarrow> ErasureProfile \<Rightarrow> bytes list result" where
  "codec_Encode rs data profile =
     (let k = ep_DataShards profile; m = ep_ParityShards profile in
      if k < 1 \<or> m < 1 then Inl ErrInvalidProfile
      else case rs_New rs k m of
        Inl err \<Rightarrow> Inl (Wrapf ''erasure: failed to create encoder'' err)
      | Inr _ \<Rightarrow>
          (case rs_Split rs k m data of
             Inl err \<Rightarrow> Inl (Wrapf ''erasure: failed to split data'' err)
           | Inr shards \<Rightarrow>
               (case rs_Encode rs k m shards of
                  Inl err \<Rightarrow> Inl (Wrapf ''erasure: failed to encode parity'' err)
                | Inr shards1 \<Rightarrow> Inr shards1)))"

definition codec_Decode :: "rs_lib \<Rightarrow> bytes option list \<Rightarrow> ErasureProfile \<Rightarrow> int \<Rightarrow> bytes result" where
  "codec_Decode rs shards profile originalSize =
     (let k = ep_DataShards profile; m = ep_ParityShards profile in
      if k < 1 \<or> m < 1 then Inl ErrInvalidProfile
      else case rs_New rs k m of
        Inl err \<Rightarrow> Inl (Wrapf ''erasure: failed to create decoder'' err)
      | Inr _ \<Rightarrow>
          (case rs_Reconstruct rs k m shards of
             Inl err \<Rightarrow> Inl (Wrapf ''erasure: reconstruction failed'' err)
           | Inr full \<Rightarrow>
               (case rs_Verify rs k m full of
                  Inl err \<Rightarrow> Inl (Wrapf ''erasure: verification failed'' err)
                | Inr ok \<Rightarrow>
                    if \<not> ok then Inl ErrShardCorrupted
                    else let buf = concat (take (nat k) full) in
                      if int (length buf) < originalSize then Inl ErrInsufficientShards
                      else Inr (take (nat originalSize) buf))))"

definition hex_digit :: "nat \<Rightarrow> char" where
  "hex_digit d = ''0123456789abcdef'' ! d"

definition hex_encode :: "bytes \<Rightarrow> string" where
  "hex_encode b = concat (map (\<lambda>c. [hex_digit (of_char c div 16), hex_digit (of_char c mod 16)]) b)"

definition ShardChecksum :: "(bytes \<Rightarrow> bytes) \<Rightarrow> bytes \<Rightarrow> string" where
  "ShardChecksum Sum256 data = hex_encode (Sum256 data)"

subsection \<open>placement.go\<close>

definition AssignShards :: "nat \<Rightarrow> string \<Rightarrow> string list \<Rightarrow> string list" where
  "AssignShards totalShards current availableInstances =
     (if availableInstances = [] then replicate totalShards current
      else let ordered = current # filter (\<lambda>inst. inst \<noteq> current) availableInstances in
        map (\<lambda>i. ordered ! (i mod length ordered)) [0..<totalShards])"

subsection \<open>manager.go: state and shard access\<close>

record ErasureConfig =
  ec_Enabled :: bool
  ec_DataShards :: int
  ec_ParityShards :: int
  ec_MinFileSize :: int
  ec_ShardBackend :: string
  ec_ShardPath :: string

text \<open>
  The HTTP client: URL, value of the Authorization header and body to the status (and body) of the
  response, or the error of \<^verbatim>\<open>httpClient.Do\<close>.
\<close>

record 'w shard_http =
  hc_Put :: "goctx \<Rightarrow> string \<Rightarrow> string \<Rightarrow> bytes \<Rightarrow> 'w \<Rightarrow> int result \<times> 'w"
  hc_Get :: "goctx \<Rightarrow> string \<Rightarrow> string \<Rightarrow> 'w \<Rightarrow> (int \<times> reader) result"
  hc_Delete :: "goctx \<Rightarrow> string \<Rightarrow> string \<Rightarrow> 'w \<Rightarrow> int result \<times> 'w"

record 'w ErasureManager =
  mg_rs :: rs_lib
  mg_Sum256 :: "bytes \<Rightarrow> bytes"
  mg_erasureStore :: "'w erasure_store_ops"
  mg_localBackend :: "'w storage_ops"
  mg_config :: ErasureConfig
  mg_instanceID :: string
  mg_selfEndpoint :: string
  mg_peerEndpoints :: "(string, string) gomap"
  mg_internalToken :: string
  mg_httpClient :: "'w shard_http"

definition NewManager ::
  "rs_lib \<Rightarrow> (bytes \<Rightarrow> bytes) \<Rightarrow> 'w shard_http \<Rightarrow> 'w erasure_store_ops \<Rightarrow> 'w storage_ops \<Rightarrow> ErasureConfig \<Rightarrow> string \<Rightarrow>
   (string, string) gomap \<Rightarrow> string \<Rightarrow> 'w ErasureManager" where
  "NewManager rs Sum256 http erasureStore localBackend cfg instanceID peers internalToken =
     \<lparr>mg_rs = rs, mg_Sum256 = Sum256, mg_erasureStore = erasureStore, mg_localBackend = localBackend, mg_config = cfg,
      mg_instanceID = instanceID,
      mg_selfEndpoint = (case map_of peers instanceID of Some ep \<Rightarrow> ep | None \<Rightarrow> ''''),
      mg_peerEndpoints = peers, mg_internalToken = internalToken, mg_httpClient = http\<rparr>"

definition extractShardPrefix :: "string \<Rightarrow> string" where
  "extractShardPrefix shardPath =
     (let trimmed = TrimPrefix shardPath ''.erasure/''; lastSlash = LastIndex trimmed slash
      in if lastSlash < 0 then trimmed else take (nat lastSlash) trimmed)"

definition shard_path :: "string \<Rightarrow> int \<Rightarrow> string" where
  "shard_path hashPrefix idx = ''.erasure/'' @ hashPrefix @ ''/'' @ Itoa idx"

definition shard_url :: "string \<Rightarrow> string \<Rightarrow> int \<Rightarrow> string" where
  "shard_url endpoint hashPrefix idx = TrimRight endpoint slash @ ''/v1/internal/shards/'' @ hashPrefix @ ''/'' @ Itoa idx"

definition ReadAll :: "reader \<Rightarrow> bytes result" where
  "ReadAll r = (case rd_err r of None \<Rightarrow> Inr (rd_data r) | Some err \<Rightarrow> Inl err)"

definition LimitReader :: "reader \<Rightarrow> int \<Rightarrow> reader" where
  "LimitReader r n = (if int (length (rd_data r)) < n then r else NewReader (take (nat n) (rd_data r)))"

definition readLocalShard :: "'w ErasureManager \<Rightarrow> goctx \<Rightarrow> string \<Rightarrow> 'w \<Rightarrow> bytes result" where
  "readLocalShard m ctx shardPath w =
     (case so_Open (mg_localBackend m) ctx shardPath w of Inl err \<Rightarrow> Inl err | Inr reader \<Rightarrow> ReadAll reader)"

definition bearer :: "'w ErasureManager \<Rightarrow> string" where
  "bearer m = ''Bearer '' @ mg_internalToken m"

definition storeRemoteShard ::
  "'w ErasureManager \<Rightarrow> goctx \<Rightarrow> string \<Rightarrow> string \<Rightarrow> int \<Rightarrow> bytes \<Rightarrow> 'w \<Rightarrow> unit result \<times> 'w" where
  "storeRemoteShard m ctx instanceID hashPrefix index data w =
     (case map_of (mg_peerEndpoints m) instanceID of
        None \<Rightarrow> (Inl (Errorf (''no endpoint for instance '' @ instanceID)), w)
      | Some endpoint \<Rightarrow>
          (case hc_Put (mg_httpClient m) ctx (shard_url endpoint hashPrefix index) (bearer m) data w of
             (Inl err, w1) \<Rightarrow> (Inl err, w1)
           | (Inr st, w1) \<Rightarrow>
               (if st \<noteq> 200 \<and> st \<noteq> 201 then Inl (Errorf (''remote shard store failed with status '' @ Itoa st)) else Inr (), w1)))"

definition fetchRemoteShard :: "'w ErasureManager \<Rightarrow> goctx \<Rightarrow> string \<Rightarrow> string \<Rightarrow> int \<Rightarrow> 'w \<Rightarrow> bytes result" where
  "fetchRemoteShard m ctx instanceID shardPrefix index w =
     (case map_of (mg_peerEndpoints m) instanceID of
        None \<Rightarrow> Inl (Errorf (''no endpoint for instance '' @ instanceID))
      | Some endpoint \<Rightarrow>
          (case hc_Get (mg_httpClient m) ctx (shard_url endpoint shardPrefix index) (bearer m) w of
             Inl err \<Rightarrow> Inl err
           | Inr (st, body) \<Rightarrow>
               if st \<noteq> 200 then Inl (Errorf (''remote shard fetch failed with status '' @ Itoa st))
               else ReadAll (LimitReader body 268435456)))"

definition deleteRemoteShard :: "'w ErasureManager \<Rightarrow> goctx \<Rightarrow> string \<Rightarrow> string \<Rightarrow> int \<Rightarrow> 'w \<Rightarrow> unit result \<times> 'w" where
  "deleteRemoteShard m ctx instanceID shardPrefix index w =
     (case map_of (mg_peerEndpoints m) instanceID of
        None \<Rightarrow> (Inl (Errorf (''no endpoint for instance '' @ instanceID)), w)
      | Some endpoint \<Rightarrow>
          (case hc_Delete (mg_httpClient m) ctx (shard_url endpoint shardPrefix index) (bearer m) w of
             (Inl err, w1) \<Rightarrow> (Inl err, w1)
           | (Inr st, w1) \<Rightarrow>
               (if st \<noteq> 200 \<and> st \<noteq> 204 then Inl (Errorf (''remote shard delete failed with status '' @ Itoa st)) else Inr (), w1)))"

subsection \<open>manager.go: StoreFile\<close>

definition store_profile :: "ErasureConfig \<Rightarrow> StoreOptions option \<Rightarrow> int \<times> int" where
  "store_profile cfg opts =
     (let d0 = (if ec_DataShards cfg \<le> 0 then 4 else ec_DataShards cfg);
          p0 = (if ec_ParityShards cfg \<le> 0 then 2 else ec_ParityShards cfg)
      in (case opts of
            None \<Rightarrow> (d0, p0)
          | Some o1 \<Rightarrow> (if 0 < op_DataShards o1 then op_DataShards o1 else d0,
                        if 0 < op_ParityShards o1 then op_ParityShards o1 else p0)))"

text \<open>The instances in the order in which \<^verbatim>\<open>range\<close> visits the peers, a list without the values.\<close>

definition available_instances :: "'w ErasureManager \<Rightarrow> StoreOptions option \<Rightarrow> string list" where
  "available_instances m opts =
     (case opts of
        Some o1 \<Rightarrow> if op_Instances o1 \<noteq> [] then op_Instances o1
                   else mg_instanceID m # filter (\<lambda>i. i \<noteq> mg_instanceID m) (map fst (mg_peerEndpoints m))
      | None \<Rightarrow> mg_instanceID m # filter (\<lambda>i. i \<noteq> mg_instanceID m) (map fst (mg_peerEndpoints m)))"

text \<open>The goroutine of one shard up to its critical section.\<close>

definition write_shard ::
  "'w ErasureManager \<Rightarrow> goctx \<Rightarrow> string \<Rightarrow> string list \<Rightarrow> bytes list \<Rightarrow> nat \<Rightarrow> 'w \<Rightarrow> unit result \<times> 'w" where
  "write_shard m ctx hashPrefix assignments shards idx w =
     (let shard = shards ! idx in
      if assignments ! idx = mg_instanceID m
      then so_Create (mg_localBackend m) ctx (shard_path hashPrefix (int idx)) (NewReader shard) (int (length shard)) w
      else storeRemoteShard m ctx (assignments ! idx) hashPrefix (int idx) shard w)"

definition new_ShardInfo :: "'w ErasureManager \<Rightarrow> string \<Rightarrow> string list \<Rightarrow> bytes list \<Rightarrow> nat \<Rightarrow> ShardInfo" where
  "new_ShardInfo m hashPrefix assignments shards idx =
     \<lparr>si_Index = int idx, si_InstanceID = assignments ! idx, si_BackendType = ec_ShardBackend (mg_config m),
      si_Path = shard_path hashPrefix (int idx), si_Size = int (length (shards ! idx)),
      si_Checksum = ShardChecksum (mg_Sum256 m) (shards ! idx)\<rparr>"

text \<open>
  All goroutines in the order of the schedule: the table of written shards (\<^const>\<open>None\<close> for the zero
  \<^verbatim>\<open>ShardInfo\<close>), the first error and the world.
\<close>

fun store_shards ::
  "'w ErasureManager \<Rightarrow> goctx \<Rightarrow> string \<Rightarrow> string list \<Rightarrow> bytes list \<Rightarrow> nat list \<Rightarrow> ShardInfo option list \<Rightarrow> goerr option \<Rightarrow> 'w \<Rightarrow>
   ShardInfo option list \<times> goerr option \<times> 'w" where
  "store_shards m ctx hashPrefix assignments shards [] infos storeErr w = (infos, storeErr, w)"
| "store_shards m ctx hashPrefix assignments shards (idx # sched) infos storeErr w =
     (case write_shard m ctx hashPrefix assignments shards idx w of
        (Inl writeErr, w1) \<Rightarrow>
          store_shards m ctx hashPrefix assignments shards sched infos
            (if storeErr = None
             then Some (Wrapf (''failed to store shard '' @ Itoa (int idx) @ '' on '' @ assignments ! idx) writeErr)
             else storeErr) w1
      | (Inr _, w1) \<Rightarrow>
          store_shards m ctx hashPrefix assignments shards sched
            (infos[idx := Some (new_ShardInfo m hashPrefix assignments shards idx)]) storeErr w1)"

definition delete_shard :: "'w ErasureManager \<Rightarrow> goctx \<Rightarrow> string \<Rightarrow> string \<Rightarrow> int \<Rightarrow> 'w \<Rightarrow> 'w" where
  "delete_shard m ctx inst path idx w =
     (if inst = mg_instanceID m then snd (so_Delete (mg_localBackend m) ctx path w)
      else snd (deleteRemoteShard m ctx inst (extractShardPrefix path) idx w))"

definition cleanup_shards :: "'w ErasureManager \<Rightarrow> ShardInfo option list \<Rightarrow> 'w \<Rightarrow> 'w" where
  "cleanup_shards m infos w =
     fold (\<lambda>si w. case si of None \<Rightarrow> w | Some i \<Rightarrow> delete_shard m Background (si_InstanceID i) (si_Path i) (si_Index i) w) infos w"

definition md_shard :: "ShardInfo \<Rightarrow> ErasureShardInfo" where
  "md_shard si = \<lparr>sh_Index = si_Index si, sh_InstanceID = si_InstanceID si, sh_BackendType = si_BackendType si,
     sh_Path = si_Path si, sh_Size = si_Size si, sh_Checksum = si_Checksum si\<rparr>"

definition md_info :: "StoredFileInfo \<Rightarrow> ErasureFileInfo" where
  "md_info info = \<lparr>ei_FilePath = sf_FilePath info, ei_OriginalSize = sf_OriginalSize info,
     ei_DataShards = ep_DataShards (sf_Profile info), ei_ParityShards = ep_ParityShards (sf_Profile info),
     ei_ShardSize = ep_ShardSize (sf_Profile info), ei_Shards = map md_shard (sf_Shards info)\<rparr>"

definition StoreFile ::
  "'w ErasureManager \<Rightarrow> nat list \<Rightarrow> goctx \<Rightarrow> string \<Rightarrow> bytes \<Rightarrow> int \<Rightarrow> StoreOptions option \<Rightarrow> 'w \<Rightarrow> StoredFileInfo result \<times> 'w" where
  "StoreFile m sched ctx path data originalSize opts w =
     (if originalSize \<noteq> int (length data)
      then (Inl (Errorf (''originalSize '' @ Itoa originalSize @ '' does not match data length '' @ Itoa (int (length data)))), w)
      else let (dataShards, parityShards) = store_profile (mg_config m) opts in
      case codec_Encode (mg_rs m) data \<lparr>ep_DataShards = dataShards, ep_ParityShards = parityShards, ep_ShardSize = 0\<rparr> of
        Inl err \<Rightarrow> (Inl (Wrapf ''erasure encode failed'' err), w)
      | Inr shards \<Rightarrow>
          let profile = \<lparr>ep_DataShards = dataShards, ep_ParityShards = parityShards,
                         ep_ShardSize = (if shards \<noteq> [] then int (length (shards ! 0)) else 0)\<rparr>;
              totalShards = nat (dataShards + parityShards);
              assignments = AssignShards totalShards (mg_instanceID m) (available_instances m opts);
              hashPrefix = hex_encode (take 8 (mg_Sum256 m data))
          in (case store_shards m ctx hashPrefix assignments shards sched (replicate totalShards None) None w of
                (infos, Some storeErr, w1) \<Rightarrow> (Inl storeErr, cleanup_shards m infos w1)
              | (infos, None, w1) \<Rightarrow>
                  let info = \<lparr>sf_FilePath = path, sf_OriginalSize = originalSize, sf_Profile = profile,
                              sf_Shards = map the infos\<rparr>
                  in (case es_CreateErasureInfo (mg_erasureStore m) path (md_info info) w1 of
                        (Inl err, w2) \<Rightarrow> (Inl (Wrapf ''failed to store erasure metadata'' err), cleanup_shards m infos w2)
                      | (Inr _, w2) \<Rightarrow> (Inr info, w2))))"

subsection \<open>manager.go: RetrieveFile, GetManifest, GetShard, DeleteFile\<close>

definition Canceled :: goerr where
  "Canceled = Errorf ''context canceled''"

definition fetch_shard :: "'w ErasureManager \<Rightarrow> goctx \<Rightarrow> ErasureShardInfo \<Rightarrow> 'w \<Rightarrow> bytes result" where
  "fetch_shard m ctx si w =
     (if sh_InstanceID si = mg_instanceID m then readLocalShard m ctx (sh_Path si) w
      else fetchRemoteShard m ctx (sh_InstanceID si) (extractShardPrefix (sh_Path si)) (sh_Index si) w)"

text \<open>
  The fetches in the order of their critical sections. Once enough shards are there the context is
  cancelled; \<open>late\<close> says which fetches had not finished by then. An index outside of the slice makes
  the goroutine panic, which is \<^const>\<open>None\<close>.
\<close>

fun fetch_shards ::
  "'w ErasureManager \<Rightarrow> goctx \<Rightarrow> (ErasureShardInfo \<Rightarrow> bool) \<Rightarrow> int \<Rightarrow> ErasureShardInfo list \<Rightarrow> bytes option list \<Rightarrow> int \<Rightarrow> 'w \<Rightarrow>
   (bytes option list \<times> int) option" where
  "fetch_shards m ctx late dataShards [] shards successCount w = Some (shards, successCount)"
| "fetch_shards m ctx late dataShards (si # sis) shards successCount w =
     (let fetchCtx = (if dataShards \<le> successCount \<and> late si then ctx\<lparr>ctx_Err := Some Canceled\<rparr> else ctx) in
      case fetch_shard m fetchCtx si w of
        Inl fetchErr \<Rightarrow> fetch_shards m ctx late dataShards sis shards successCount w
      | Inr data \<Rightarrow>
          if ShardChecksum (mg_Sum256 m) data \<noteq> sh_Checksum si
          then fetch_shards m ctx late dataShards sis shards successCount w
          else if sh_Index si < 0 \<or> int (length shards) \<le> sh_Index si then None
          else fetch_shards m ctx late dataShards sis (shards[nat (sh_Index si) := Some data]) (successCount + 1) w)"

definition RetrieveFile ::
  "'w ErasureManager \<Rightarrow> (ErasureShardInfo list \<Rightarrow> ErasureShardInfo list) \<Rightarrow> (ErasureShardInfo \<Rightarrow> bool) \<Rightarrow> goctx \<Rightarrow> string \<Rightarrow> 'w \<Rightarrow>
   bytes result" where
  "RetrieveFile m sched late ctx path w =
     (case es_GetErasureInfo (mg_erasureStore m) path w of
        Inl err \<Rightarrow> Inl (Wrapf ''failed to get erasure info'' err)
      | Inr mdInfo \<Rightarrow>
          let totalShards = nat (ei_DataShards mdInfo + ei_ParityShards mdInfo) in
          (case fetch_shards m ctx late (ei_DataShards mdInfo) (sched (ei_Shards mdInfo)) (replicate totalShards None) 0 w of
             None \<Rightarrow> Inl (Errorf ''panic: index out of range'')
           | Some (shards, successCount) \<Rightarrow>
               if successCount < ei_DataShards mdInfo then Inl ErrInsufficientShards
               else codec_Decode (mg_rs m) shards
                      \<lparr>ep_DataShards = ei_DataShards mdInfo, ep_ParityShards = ei_ParityShards mdInfo, ep_ShardSize = ei_ShardSize mdInfo\<rparr>
                      (ei_OriginalSize mdInfo)))"

fun shard_endpoints :: "'w ErasureManager \<Rightarrow> string \<Rightarrow> ErasureShardInfo list \<Rightarrow> ShardEndpoint list result" where
  "shard_endpoints m path [] = Inr []"
| "shard_endpoints m path (si # sis) =
     (let endpoint = (if sh_InstanceID si = mg_instanceID m then mg_selfEndpoint m
                      else (case map_of (mg_peerEndpoints m) (sh_InstanceID si) of Some ep \<Rightarrow> ep | None \<Rightarrow> '''')) in
      if endpoint = ''''
      then Inl (Errorf (''no endpoint found for instance '' @ sh_InstanceID si @ '' (shard '' @ Itoa (sh_Index si) @ '')''))
      else (case shard_endpoints m path sis of
              Inl err \<Rightarrow> Inl err
            | Inr rest \<Rightarrow>
                Inr (\<lparr>se_Index = sh_Index si,
                      se_Endpoint = TrimRight endpoint slash @ ''/v1/shards/'' @ TrimPrefix path ''/'' @ ''/'' @ Itoa (sh_Index si),
                      se_Size = sh_Size si, se_Checksum = sh_Checksum si\<rparr> # rest)))"

definition GetManifest :: "'w ErasureManager \<Rightarrow> string \<Rightarrow> 'w \<Rightarrow> ChunkManifest result" where
  "GetManifest m path w =
     (case es_GetErasureInfo (mg_erasureStore m) path w of
        Inl err \<Rightarrow> Inl (Wrapf ''failed to get erasure info'' err)
      | Inr mdInfo \<Rightarrow>
          (case shard_endpoints m path (ei_Shards mdInfo) of
             Inl err \<Rightarrow> Inl err
           | Inr shardEndpoints \<Rightarrow>
               Inr \<lparr>cn_Path = path, cn_OriginalSize = ei_OriginalSize mdInfo,
                    cn_ErasureProfile = \<lparr>ep_DataShards = ei_DataShards mdInfo, ep_ParityShards = ei_ParityShards mdInfo,
                                         ep_ShardSize = ei_ShardSize mdInfo\<rparr>,
                    cn_Shards = shardEndpoints\<rparr>))"

fun find_shard :: "'w ErasureManager \<Rightarrow> goctx \<Rightarrow> int \<Rightarrow> ErasureShardInfo list \<Rightarrow> 'w \<Rightarrow> bytes result" where
  "find_shard m ctx index [] w = Inl ErrShardNotFound"
| "find_shard m ctx index (si # sis) w =
     (if sh_Index si = index \<and> sh_InstanceID si = mg_instanceID m
      then (case readLocalShard m ctx (sh_Path si) w of
              Inl readErr \<Rightarrow> Inl readErr
            | Inr data \<Rightarrow>
                if ShardChecksum (mg_Sum256 m) data \<noteq> sh_Checksum si
                then Inl (Errorf (''shard '' @ Itoa index @ '' checksum mismatch: data corrupted on disk''))
                else Inr data)
      else find_shard m ctx index sis w)"

definition GetShard :: "'w ErasureManager \<Rightarrow> goctx \<Rightarrow> string \<Rightarrow> int \<Rightarrow> 'w \<Rightarrow> bytes result" where
  "GetShard m ctx path index w =
     (case es_GetErasureInfo (mg_erasureStore m) path w of
        Inl err \<Rightarrow> Inl (Wrapf ''failed to get erasure info'' err)
      | Inr mdInfo \<Rightarrow> find_shard m ctx index (ei_Shards mdInfo) w)"

definition erasure_DeleteFile ::
  "'w ErasureManager \<Rightarrow> (ErasureShardInfo list \<Rightarrow> ErasureShardInfo list) \<Rightarrow> goctx \<Rightarrow> string \<Rightarrow> 'w \<Rightarrow> unit result \<times> 'w" where
  "erasure_DeleteFile m sched ctx path w =
     (case es_GetErasureInfo (mg_erasureStore m) path w of
        Inl err \<Rightarrow> (Inl (Wrapf ''failed to get erasure info for delete'' err), w)
      | Inr mdInfo \<Rightarrow>
          (case es_DeleteErasureInfo (mg_erasureStore m) path w of
             (Inl err, w1) \<Rightarrow> (Inl (Wrapf ''failed to delete erasure metadata'' err), w1)
           | (Inr _, w1) \<Rightarrow>
               (Inr (), fold (\<lambda>si w. delete_shard m ctx (sh_InstanceID si) (sh_Path si) (sh_Index si) w)
                          (sched (ei_Shards mdInfo)) w1)))"

subsection \<open>internal\_shard\_handlers.go\<close>

text \<open>A request is its URL path, its Authorization header and its body (a reader).\<close>

definition authorizeInternal :: "string \<Rightarrow> string \<Rightarrow> bool" where
  "authorizeInternal authorization secret =
     (if secret = '''' then False else TrimSpace (TrimPrefix authorization ''Bearer '') = secret)"

definition parseShardPath :: "string \<Rightarrow> (string \<times> int) result" where
  "parseShardPath urlPath =
     (let trimmed = TrimPrefix urlPath ''/v1/internal/shards/'' in
      if trimmed = urlPath then Inl (Errorf ''invalid shard path'')
      else let lastSlash = LastIndex trimmed slash in
      if lastSlash < 0 then Inl (Errorf ''invalid shard path: missing index'')
      else let filePath = take (nat lastSlash) trimmed; indexStr = drop (nat (lastSlash + 1)) trimmed in
      case Atoi indexStr of
        None \<Rightarrow> Inl (Wrapf ''invalid shard index'' (Errorf indexStr))
      | Some index \<Rightarrow>
          (case ValidatePath filePath of
             Inl err \<Rightarrow> Inl (Wrapf ''invalid shard file path'' err)
           | Inr _ \<Rightarrow> Inr (''.erasure/'' @ filePath @ ''/'' @ Itoa index, index)))"

definition maxShardBytes :: int where
  "maxShardBytes = 268435456"

text \<open>\<^verbatim>\<open>io.ReadAll\<close> of a body limited by \<^verbatim>\<open>http.MaxBytesReader\<close>.\<close>

definition read_limited :: "reader \<Rightarrow> int \<Rightarrow> bytes result" where
  "read_limited body n =
     (if n < int (length (rd_data body)) then Inl (Errorf ''http: request body too large'') else ReadAll body)"

definition InternalStoreShardHandler ::
  "'w storage_ops \<Rightarrow> string \<Rightarrow> goctx \<Rightarrow> string \<Rightarrow> string \<Rightarrow> reader \<Rightarrow> 'w \<Rightarrow> bytes reply \<times> 'w" where
  "InternalStoreShardHandler localBackend internalSecret ctx urlPath authorization body w =
     (if \<not> authorizeInternal authorization internalSecret then (http_Error ''unauthorized'' 401, w)
      else case parseShardPath urlPath of
        Inl err \<Rightarrow> (http_Error (Error err) 400, w)
      | Inr (shardPath, _) \<Rightarrow>
          (case read_limited body maxShardBytes of
             Inl _ \<Rightarrow> (http_Error ''failed to read shard body'' 400, w)
           | Inr data \<Rightarrow>
               (case so_Create localBackend ctx shardPath (NewReader data) (int (length data)) w of
                  (Inr _, w1) \<Rightarrow> (Reply 201 [] '''', w1)
                | (Inl err, w1) \<Rightarrow>
                    (case so_Update localBackend ctx shardPath (NewReader data) (int (length data)) w1 of
                       (Inr _, w2) \<Rightarrow> (Reply 201 [] '''', w2)
                     | (Inl updateErr, w2) \<Rightarrow> (http_Error ''failed to store shard'' 500, w2)))))"

definition InternalGetShardHandler ::
  "'w storage_ops \<Rightarrow> string \<Rightarrow> goctx \<Rightarrow> string \<Rightarrow> string \<Rightarrow> 'w \<Rightarrow> bytes reply" where
  "InternalGetShardHandler localBackend internalSecret ctx urlPath authorization w =
     (if \<not> authorizeInternal authorization internalSecret then http_Error ''unauthorized'' 401
      else case parseShardPath urlPath of
        Inl err \<Rightarrow> http_Error (Error err) 400
      | Inr (shardPath, _) \<Rightarrow>
          (case so_Open localBackend ctx shardPath w of
             Inl err \<Rightarrow> http_Error ''shard not found'' 404
           | Inr reader \<Rightarrow> Reply 200 [(''Content-Type'', ''application/octet-stream'')] (rd_data reader)))"

definition InternalDeleteShardHandler ::
  "'w storage_ops \<Rightarrow> string \<Rightarrow> goctx \<Rightarrow> string \<Rightarrow> string \<Rightarrow> 'w \<Rightarrow> bytes reply \<times> 'w" where
  "InternalDeleteShardHandler localBackend internalSecret ctx urlPath authorization w =
     (if \<not> authorizeInternal authorization internalSecret then (http_Error ''unauthorized'' 401, w)
      else case parseShardPath urlPath of
        Inl err \<Rightarrow> (http_Error (Error err) 400, w)
      | Inr (shardPath, _) \<Rightarrow> (Reply 204 [] '''', snd (so_Delete localBackend ctx shardPath w)))"

subsection \<open>erasure\_handlers.go\<close>

definition V1GetShard ::
  "'w ErasureManager \<Rightarrow> 'w store_ops \<Rightarrow> goctx \<Rightarrow> string \<Rightarrow> string option \<Rightarrow> 'w \<Rightarrow> bytes reply" where
  "V1GetShard em ops ctx urlPath user w =
     (if urlPath = '''' then SendErrorResponse (Errorf ''missing path'') 400
      else case user of
        None \<Rightarrow> SendErrorResponse ErrAuthenticationFailed 401
      | Some userID \<Rightarrow>
          let lastSlash = LastIndex urlPath slash in
          if lastSlash < 0 then SendErrorResponse (Errorf ''invalid shard path'') 400
          else let rawFilePath = take (nat lastSlash) urlPath; indexStr = drop (nat (lastSlash + 1)) urlPath in
          (case Atoi indexStr of
             None \<Rightarrow> SendErrorResponse (Errorf ''invalid shard index'') 400
           | Some index \<Rightarrow>
               let pathInfo = ParseFilePath rawFilePath in
               if pi_IsInvalid pathInfo then SendErrorResponse (Errorf ''invalid shard file path'') 400
               else let filePath = pi_FullPath pathInfo in
               (case Authorize ops userID filePath ReadPerm w of
                  Inl err \<Rightarrow> SendErrorResponse err 403
                | Inr _ \<Rightarrow>
                    (case GetShard em ctx filePath index w of
                       Inl err \<Rightarrow> SendErrorResponse err (if err = ErrShardNotFound then 404 else 500)
                     | Inr data \<Rightarrow>
                         Reply 200 [(''Content-Type'', ''application/octet-stream''), (''Content-Length'', Itoa (int (length data)))] data))))"

definition HandleErasureManifest :: "'w ErasureManager \<Rightarrow> string \<Rightarrow> 'w \<Rightarrow> ChunkManifest reply" where
  "HandleErasureManifest em path w =
     (case GetManifest em path w of
        Inl err \<Rightarrow> SendErrorResponse err 500
      | Inr manifest \<Rightarrow> Reply 200 [(''Content-Type'', ''application/json'')] manifest)"

definition HandleErasureDownload ::
  "'w ErasureManager \<Rightarrow> (ErasureShardInfo list \<Rightarrow> ErasureShardInfo list) \<Rightarrow> (ErasureShardInfo \<Rightarrow> bool) \<Rightarrow> goctx \<Rightarrow> string \<Rightarrow> 'w \<Rightarrow> bytes reply" where
  "HandleErasureDownload em sched late ctx path w =
     (case RetrieveFile em sched late ctx path w of
        Inl err \<Rightarrow> SendErrorResponse err 500
      | Inr data \<Rightarrow>
          Reply 200 [(''Content-Type'', ''application/octet-stream''), (''Content-Length'', Itoa (int (length data)))] data)"

subsection \<open>What the Reed-Solomon library promises\<close>

text \<open>
  The documentation of the library: \<^verbatim>\<open>Split\<close> cuts the data into the data shards, padding the last one,
  and appends empty parity shards; \<^verbatim>\<open>Encode\<close> fills in the parity and leaves the data; the result
  verifies; and \<^verbatim>\<open>Reconstruct\<close> recovers it from any selection that has as many shards as there are
  data shards.
\<close>

definition selection_of :: "bytes list \<Rightarrow> bytes option list \<Rightarrow> bool" where
  "selection_of S part \<longleftrightarrow> length part = length S \<and> (\<forall>i < length S. part ! i = None \<or> part ! i = Some (S ! i))"

definition present :: "'a option list \<Rightarrow> nat set" where
  "present part = {i. i < length part \<and> part ! i \<noteq> None}"

definition rs_laws :: "rs_lib \<Rightarrow> bool" where
  "rs_laws rs \<longleftrightarrow> (\<forall>k m. 1 \<le> k \<longrightarrow> 1 \<le> m \<longrightarrow> rs_New rs k m = Inr () \<longrightarrow>
     (\<forall>data ss. rs_Split rs k m data = Inr ss \<longrightarrow>
        length ss = nat (k + m) \<and> (\<exists>pad. concat (take (nat k) ss) = data @ pad)) \<and>
     (\<forall>ss S. rs_Encode rs k m ss = Inr S \<longrightarrow>
        length S = length ss \<and> take (nat k) S = take (nat k) ss \<and> rs_Verify rs k m S = Inr True \<and>
        (\<forall>part. selection_of S part \<longrightarrow> nat k \<le> card (present part) \<longrightarrow> rs_Reconstruct rs k m part = Inr S)))"

lemma codec_Encode_ok:
  assumes "rs_laws rs" "codec_Encode rs data profile = Inr S"
  shows "length S = nat (ep_DataShards profile + ep_ParityShards profile)"
    and "selection_of S part \<Longrightarrow> nat (ep_DataShards profile) \<le> card (present part) \<Longrightarrow>
      codec_Decode rs part (profile\<lparr>ep_ShardSize := z\<rparr>) (int (length data)) = Inr data"
proof -
  let ?k = "ep_DataShards profile" and ?m = "ep_ParityShards profile"
  obtain ss where km: "1 \<le> ?k" "1 \<le> ?m" and new: "rs_New rs ?k ?m = Inr ()"
    and split: "rs_Split rs ?k ?m data = Inr ss" and enc: "rs_Encode rs ?k ?m ss = Inr S"
    using assms(2) by (auto simp: codec_Encode_def Let_def split: if_splits sum.splits)
  have *: "length ss = nat (?k + ?m)" "\<exists>pad. concat (take (nat ?k) ss) = data @ pad"
    using assms(1) km new split by (auto simp: rs_laws_def)
  have **: "length S = length ss" "take (nat ?k) S = take (nat ?k) ss" "rs_Verify rs ?k ?m S = Inr True"
    "selection_of S part \<Longrightarrow> nat ?k \<le> card (present part) \<Longrightarrow> rs_Reconstruct rs ?k ?m part = Inr S" for part
    using assms(1) km new enc by (auto simp: rs_laws_def)
  show "length S = nat (?k + ?m)" using * ** by simp
  show "codec_Decode rs part (profile\<lparr>ep_ShardSize := z\<rparr>) (int (length data)) = Inr data"
    if "selection_of S part" "nat ?k \<le> card (present part)"
    using *(2) ** that km new by (auto simp: codec_Decode_def Let_def)
qed

subsection \<open>Gathering shards\<close>

text \<open>A record of a shard names a shard of \<open>S\<close>, and no other bytes at its place pass for that shard.\<close>

definition no_collision :: "'w ErasureManager \<Rightarrow> bytes list \<Rightarrow> 'w \<Rightarrow> ErasureShardInfo \<Rightarrow> bool" where
  "no_collision m S w si \<longleftrightarrow>
     (\<forall>ctx data. fetch_shard m ctx si w = Inr data \<longrightarrow> ShardChecksum (mg_Sum256 m) data = sh_Checksum si \<longrightarrow>
        data = S ! nat (sh_Index si))"

definition names_shard :: "'w ErasureManager \<Rightarrow> bytes list \<Rightarrow> ErasureShardInfo \<Rightarrow> bool" where
  "names_shard m S si \<longleftrightarrow> 0 \<le> sh_Index si \<and> nat (sh_Index si) < length S \<and>
     sh_Checksum si = ShardChecksum (mg_Sum256 m) (S ! nat (sh_Index si))"

definition intact :: "'w ErasureManager \<Rightarrow> goctx \<Rightarrow> bytes list \<Rightarrow> 'w \<Rightarrow> ErasureShardInfo \<Rightarrow> bool" where
  "intact m ctx S w si \<longleftrightarrow> fetch_shard m ctx si w = Inr (S ! nat (sh_Index si))"

lemma present_update:
  assumes "i < length part" "part ! i = None"
  shows "card (present (part[i := Some x])) = Suc (card (present part))"
proof -
  have "present (part[i := Some x]) = insert i (present part)"
    using assms by (auto simp: present_def nth_list_update)
  moreover have "finite (present part)" "i \<notin> present part" using assms(2) by (auto simp: present_def)
  ultimately show ?thesis by simp
qed

lemma fetch_shards_spec:
  assumes "\<forall>si \<in> set sis. names_shard m S si \<and> no_collision m S w si" "distinct (map sh_Index sis)"
    and "selection_of S part" "cnt = int (card (present part))"
    and "\<forall>si \<in> set sis. part ! nat (sh_Index si) = None"
  shows "\<exists>part' cnt'. fetch_shards m ctx late k sis part cnt w = Some (part', cnt') \<and> selection_of S part' \<and>
    cnt' = int (card (present part')) \<and> min k (cnt + int (length (filter (intact m ctx S w) sis))) \<le> cnt'"
  using assms
proof (induction sis arbitrary: part cnt)
  case (Cons si sis)
  let ?i = "nat (sh_Index si)"
  let ?ctx = "if k \<le> cnt \<and> late si then ctx\<lparr>ctx_Err := Some Canceled\<rparr> else ctx"
  have si: "names_shard m S si" "no_collision m S w si" "part ! ?i = None" and len: "length part = length S"
    using Cons.prems by (auto simp: selection_of_def)
  have skip: ?case if "fetch_shards m ctx late k (si # sis) part cnt w = fetch_shards m ctx late k sis part cnt w"
    and "intact m ctx S w si \<Longrightarrow> k \<le> cnt"
  proof -
    obtain part' cnt' where *: "fetch_shards m ctx late k sis part cnt w = Some (part', cnt')" "selection_of S part'"
      "cnt' = int (card (present part'))" "min k (cnt + int (length (filter (intact m ctx S w) sis))) \<le> cnt'"
      using Cons.IH [of part cnt] Cons.prems by auto
    moreover have "min k (cnt + int (length (filter (intact m ctx S w) (si # sis)))) \<le> cnt'"
      using *(4) that(2) by (cases "intact m ctx S w si") auto
    ultimately show ?thesis using that(1) by auto
  qed
  show ?case
  proof (cases "fetch_shard m ?ctx si w")
    case (Inl e)
    then show ?thesis by (intro skip) (auto simp: Let_def intact_def split: if_splits)
  next
    case (Inr data)
    show ?thesis
    proof (cases "ShardChecksum (mg_Sum256 m) data = sh_Checksum si")
      case False
      then show ?thesis
        using Inr si(1) by (intro skip) (auto simp: Let_def intact_def names_shard_def split: if_splits)
    next
      case True
      then have data: "data = S ! ?i" using si(2) Inr by (auto simp: no_collision_def)
      let ?part = "part[?i := Some data]"
      have "?i < length part" using si(1) len by (simp add: names_shard_def)
      then have "selection_of S ?part" "cnt + 1 = int (card (present ?part))"
        using Cons.prems(3,4) si(3) by (auto simp: selection_of_def data nth_list_update present_update)
      moreover have "\<forall>si' \<in> set sis. ?part ! nat (sh_Index si') = None"
      proof
        fix si' assume "si' \<in> set sis"
        then have mem: "sh_Index si' \<in> sh_Index ` set sis" "0 \<le> sh_Index si'" "part ! nat (sh_Index si') = None"
          using Cons.prems(1,5) by (auto simp: names_shard_def)
        then have "sh_Index si' \<noteq> sh_Index si" using Cons.prems(2) by auto
        with mem show "?part ! nat (sh_Index si') = None"
          using si(1) by (subst nth_list_update_neq) (auto simp: names_shard_def eq_nat_nat_iff)
      qed
      ultimately obtain part' cnt' where "fetch_shards m ctx late k sis ?part (cnt + 1) w = Some (part', cnt')"
        "selection_of S part'" "cnt' = int (card (present part'))"
        "min k (cnt + 1 + int (length (filter (intact m ctx S w) sis))) \<le> cnt'"
        using Cons.IH [of ?part "cnt + 1"] Cons.prems by auto
      moreover have "0 \<le> sh_Index si" "sh_Index si < int (length part)"
        using si(1) len by (auto simp: names_shard_def)
      ultimately show ?thesis using Inr True by (auto simp: Let_def)
    qed
  qed
qed auto

lemma store_shards_ok:
  assumes "store_shards m ctx hp as shards sched infos e w = (infos', None, w')"
  shows "e = None \<and> length infos' = length infos \<and>
    (\<forall>i < length infos. infos' ! i = (if i \<in> set sched then Some (new_ShardInfo m hp as shards i) else infos ! i))"
  using assms
proof (induction sched arbitrary: infos e w)
  case (Cons idx sched)
  obtain r w1 where wr: "write_shard m ctx hp as shards idx w = (r, w1)" by fastforce
  show ?case
  proof (cases r)
    case (Inl err)
    then show ?thesis using Cons.IH Cons.prems wr by (fastforce split: if_splits)
  next
    case (Inr u)
    let ?infos = "infos[idx := Some (new_ShardInfo m hp as shards idx)]"
    have "store_shards m ctx hp as shards sched ?infos e w1 = (infos', None, w')"
      using Cons.prems wr Inr by simp
    from Cons.IH [OF this] show ?thesis by (auto simp: nth_list_update)
  qed
qed simp

text \<open>What a successful \<^verbatim>\<open>StoreFile\<close> has done: the shards of the encoding, written in some order, recorded.\<close>

lemma StoreFile_ok:
  assumes "StoreFile m sched ctx path data sz opts w = (Inr info, w1)"
    and "set sched = {..<nat (ep_DataShards (sf_Profile info) + ep_ParityShards (sf_Profile info))}"
    and "rs_laws (mg_rs m)"
  obtains S hp as infos w0 where "codec_Encode (mg_rs m) data (sf_Profile info) = Inr S"
    "length S = nat (ep_DataShards (sf_Profile info) + ep_ParityShards (sf_Profile info))"
    "sf_OriginalSize info = int (length data)" "sf_Shards info = map (new_ShardInfo m hp as S) [0..<length S]"
    "hp = hex_encode (take 8 (mg_Sum256 m data))" "as = AssignShards (length S) (mg_instanceID m) (available_instances m opts)"
    "store_shards m ctx hp as S sched (replicate (length S) None) None w = (infos, None, w0)"
    "es_CreateErasureInfo (mg_erasureStore m) path (md_info info) w0 = (Inr (), w1)" "sf_FilePath info = path"
proof -
  obtain k p where kp: "store_profile (mg_config m) opts = (k, p)" by fastforce
  let ?hp = "hex_encode (take 8 (mg_Sum256 m data))"
  let ?as = "AssignShards (nat (k + p)) (mg_instanceID m) (available_instances m opts)"
  from assms(1) kp obtain S infos w0 where S: "codec_Encode (mg_rs m) data \<lparr>ep_DataShards = k, ep_ParityShards = p, ep_ShardSize = 0\<rparr> = Inr S"
    and st: "store_shards m ctx ?hp ?as S sched (replicate (nat (k + p)) None) None w = (infos, None, w0)"
    and sz: "sz = int (length data)"
    and info: "info = \<lparr>sf_FilePath = path, sf_OriginalSize = sz, sf_Profile = \<lparr>ep_DataShards = k, ep_ParityShards = p,
        ep_ShardSize = (if S \<noteq> [] then int (length (S ! 0)) else 0)\<rparr>, sf_Shards = map the infos\<rparr>"
    and cr: "es_CreateErasureInfo (mg_erasureStore m) path (md_info info) w0 = (Inr (), w1)"
    by (auto simp: StoreFile_def Let_def split: if_splits sum.splits prod.splits option.splits)
  have enc: "codec_Encode (mg_rs m) data (sf_Profile info) = Inr S"
    using S by (simp add: info codec_Encode_def)
  have len: "length S = nat (k + p)" using codec_Encode_ok(1) [OF assms(3) enc] by (simp add: info)
  have "sf_Shards info = map (new_ShardInfo m ?hp ?as S) [0..<length S]"
    using store_shards_ok [OF st] assms(2) by (intro nth_equalityI) (auto simp: info len)
  then show thesis using that [OF enc _ _ _ refl _ _ cr] len st sz by (simp add: info)
qed

lemma names_new_ShardInfo:
  "i < length S \<Longrightarrow> names_shard m S (md_shard (new_ShardInfo m hp as S i))"
  "sh_Index (md_shard (new_ShardInfo m hp as S i)) = int i"
  by (simp_all add: names_shard_def md_shard_def new_ShardInfo_def)

lemma RetrieveFile_stored:
  assumes laws: "rs_laws (mg_rs m)" and S: "codec_Encode (mg_rs m) data (sf_Profile info) = Inr S"
    and sz: "sf_OriginalSize info = int (length data)"
    and shards: "sf_Shards info = map (new_ShardInfo m hp as S) [0..<length S]"
    and rec: "es_GetErasureInfo (mg_erasureStore m) path w2 = Inr (md_info info)"
    and ord: "\<And>xs. mset (ord xs) = mset xs"
    and col: "\<forall>si \<in> set (ei_Shards (md_info info)). no_collision m S w2 si"
    and good: "ep_DataShards (sf_Profile info) \<le> int (length (filter (intact m ctx S w2) (ei_Shards (md_info info))))"
  shows "RetrieveFile m ord late ctx path w2 = Inr data"
proof -
  let ?k = "ep_DataShards (sf_Profile info)"
  let ?sis = "ord (ei_Shards (md_info info))"
  have sis: "set ?sis = set (ei_Shards (md_info info))" using ord mset_eq_setD by blast
  have idx: "map sh_Index (ei_Shards (md_info info)) = map int [0..<length S]"
    by (simp add: md_info_def shards comp_def names_new_ShardInfo(2))
  have "mset (map sh_Index ?sis) = mset (map int [0..<length S])"
    using ord [of "ei_Shards (md_info info)"] idx by (metis mset_map)
  then have dist: "distinct (map sh_Index ?sis)"
    by (metis mset_eq_imp_distinct_iff distinct_map distinct_upt inj_on_of_nat)
  have names: "\<forall>si \<in> set ?sis. names_shard m S si \<and> no_collision m S w2 si"
    unfolding sis using col by (auto simp: md_info_def shards names_new_ShardInfo)
  have none: "selection_of S (replicate (length S) None)" "0 = int (card (present (replicate (length S) None)))"
    "\<forall>si \<in> set ?sis. replicate (length S) None ! nat (sh_Index si) = None"
    using names by (auto simp: selection_of_def present_def names_shard_def)
  have cnt: "length (filter (intact m ctx S w2) ?sis) = length (filter (intact m ctx S w2) (ei_Shards (md_info info)))"
    using ord by (metis mset_filter size_mset)
  obtain part cnt' where run: "fetch_shards m ctx late ?k ?sis (replicate (length S) None) 0 w2 = Some (part, cnt')"
    and sel: "selection_of S part" and c: "cnt' = int (card (present part))" "?k \<le> cnt'"
    using fetch_shards_spec [OF names dist none, of ctx late ?k] good cnt by auto
  have "codec_Decode (mg_rs m) part ((sf_Profile info)\<lparr>ep_ShardSize := ep_ShardSize (sf_Profile info)\<rparr>) (int (length data)) = Inr data"
    by (rule codec_Encode_ok(2) [OF laws S sel]) (use c in linarith)
  then have "codec_Decode (mg_rs m) part \<lparr>ep_DataShards = ?k, ep_ParityShards = ep_ParityShards (sf_Profile info),
      ep_ShardSize = ep_ShardSize (sf_Profile info)\<rparr> (int (length data)) = Inr data"
    by (simp add: codec_Decode_def)
  then show ?thesis
    using rec run c codec_Encode_ok(1) [OF laws S] sz by (simp add: RetrieveFile_def Let_def md_info_def)
qed

subsection \<open>Shard paths\<close>

lemma of_char_256: "(of_char c :: nat) < 256"
  using range_nat_of_char by (metis atLeastLessThan_iff rangeI)

lemma hex_encode_chars: "c \<in> set (hex_encode b) \<Longrightarrow> c \<in> set ''0123456789abcdef''"
proof -
  assume "c \<in> set (hex_encode b)"
  then obtain x where "c = hex_digit (of_char x div 16) \<or> c = hex_digit (of_char x mod 16)"
    by (auto simp: hex_encode_def)
  moreover have "(of_char x :: nat) div 16 < 16" using of_char_256 [of x] by linarith
  ultimately obtain d where "c = ''0123456789abcdef'' ! d" "d < length ''0123456789abcdef''"
    by (auto simp: hex_digit_def)
  then show ?thesis using nth_mem by blast
qed

lemma hex_encode_comp: "b \<noteq> [] \<Longrightarrow> plain_comp (hex_encode b)"
proof -
  assume "b \<noteq> []"
  then obtain x y where xy: "hex_encode b = x # y" by (cases b) (auto simp: hex_encode_def)
  have "CHR ''.'' \<notin> set (hex_encode b)" "slash \<notin> set (hex_encode b)"
    using hex_encode_chars [of "CHR ''.''" b] hex_encode_chars [of slash b] by auto
  then show ?thesis by (auto simp: plain_comp_def xy)
qed

lemma Itoa_comp: "plain_comp (Itoa (int i))" and Itoa_no_slash: "slash \<notin> set (Itoa (int i))"
  using nat_string_plain [of _ i] nat_string_not_Nil [of i] by (auto simp: Itoa_def plain_comp_def)

lemma shard_path_comps:
  assumes "b \<noteq> []"
  shows "shard_path (hex_encode b) (int i) = JoinWith slash [''.erasure'', hex_encode b, Itoa (int i)]"
    and "plain_comps [''.erasure'', hex_encode b, Itoa (int i)]"
  using hex_encode_comp [OF assms] Itoa_comp [of i] by (simp_all add: shard_path_def plain_comp_def)

lemma LastIndex_tail: "slash \<notin> set t \<Longrightarrow> LastIndex (s @ slash # t) slash = int (length s)"
  by (simp add: LastIndex_append LastIndex_absent)

lemma extract_shard_path: "extractShardPrefix (shard_path hp (int i)) = hp"
  using TrimPrefix_append [of "''.erasure/''" "hp @ slash # Itoa (int i)"]
  by (simp add: extractShardPrefix_def shard_path_def LastIndex_tail [OF Itoa_no_slash] del: TrimPrefix_append)

lemma hex_encode_valid: "b \<noteq> [] \<Longrightarrow> ValidatePath (hex_encode b) = Inr ()"
proof -
  assume b: "b \<noteq> []"
  have "32 \<le> (of_char c :: nat) \<and> (of_char c :: nat) < 128" if "c \<in> set (hex_encode b)" for c
    using hex_encode_chars [OF that] by auto
  then show ?thesis using ValidatePath_plain [of "[hex_encode b]"] hex_encode_comp [OF b] by simp
qed

lemma parse_shard_url:
  assumes "b \<noteq> []" "int i < 2 ^ 63"
  shows "parseShardPath (''/v1/internal/shards/'' @ hex_encode b @ ''/'' @ Itoa (int i)) = Inr (shard_path (hex_encode b) (int i), int i)"
proof -
  have atoi: "Atoi (Itoa (int i)) = Some (int i)" using assms(2) by (intro Atoi_Itoa) auto
  have trim: "TrimPrefix (''/v1/internal/shards/'' @ hex_encode b @ ''/'' @ Itoa (int i)) ''/v1/internal/shards/'' =
      hex_encode b @ slash # Itoa (int i)"
    by (simp only: TrimPrefix_append) simp
  show ?thesis
    unfolding parseShardPath_def trim Let_def LastIndex_tail [OF Itoa_no_slash]
    using assms(1) by (simp add: atoi hex_encode_valid shard_path_def nat_add_distrib)
qed

text \<open>
  The two places that know the layout of shard paths agree: the prefix that the manager
  extracts from a recorded shard path, put into the URL of a shard request, is parsed by the peer's
  handlers to the very path that \<^verbatim>\<open>StoreFile\<close> recorded, for every digest and every shard number.
\<close>

lemma shard_path_roundtrip:
  assumes "b \<noteq> []" "int i < 2 ^ 63"
  shows "extractShardPrefix (shard_path (hex_encode b) (int i)) = hex_encode b \<and>
    parseShardPath (''/v1/internal/shards/'' @ extractShardPrefix (shard_path (hex_encode b) (int i)) @ ''/'' @ Itoa (int i)) =
      Inr (shard_path (hex_encode b) (int i), int i)"
  using parse_shard_url [OF assms] by (simp add: extract_shard_path)


subsection \<open>Placement\<close>

lemma AssignShards_nth:
  assumes "i < n"
  shows "AssignShards n cur avail ! i =
    (cur # filter (\<lambda>inst. inst \<noteq> cur) avail) ! (i mod length (cur # filter (\<lambda>inst. inst \<noteq> cur) avail))"
  using assms by (auto simp: AssignShards_def Let_def)

lemma residue_count: "0 < l \<Longrightarrow> card {i. i < n \<and> i mod l = r} \<le> (n + l - 1) div l" for n l r :: nat
proof -
  assume l: "0 < l"
  have "inj_on (\<lambda>i. i div l) {i. i < n \<and> i mod l = r}"
    by (rule inj_onI) (metis (mono_tags, lifting) div_mult_mod_eq mem_Collect_eq)
  moreover have "(\<lambda>i. i div l) ` {i. i < n \<and> i mod l = r} \<subseteq> {..<(n + l - 1) div l}"
  proof (clarsimp)
    fix i assume "i < n"
    have "i div l < (n + l - 1) div l \<longleftrightarrow> Suc (i div l) \<le> (n + l - 1) div l" by auto
    also have "\<dots> \<longleftrightarrow> Suc (i div l) * l \<le> n + l - 1" by (rule less_eq_div_iff_mult_less_eq [OF l])
    finally have iff: "i div l < (n + l - 1) div l \<longleftrightarrow> Suc (i div l) * l \<le> n + l - 1" .
    have "Suc (i div l) * l \<le> n + l - 1"
      using div_times_less_eq_dividend [of i l] \<open>i < n\<close> by (simp only: mult_Suc)
    with iff show "i div l < (n + l - Suc 0) div l" by simp
  qed
  ultimately show ?thesis by (metis card_inj_on_le card_lessThan finite_lessThan)
qed

text \<open>
  Round-robin placement: every shard is placed on the current or an available instance,
  shard 0 on the current one, and over distinct instances none gets more than the rounded-up share, so
  that the loss of one instance costs at most that many shards.
\<close>

lemma placement_balanced:
  fixes cur :: string and avail :: "string list"
  assumes "distinct avail"
  defines "l \<equiv> Suc (length (filter (\<lambda>inst. inst \<noteq> cur) avail))"
  shows "length (AssignShards n cur avail) = n \<and> set (AssignShards n cur avail) \<subseteq> insert cur (set avail) \<and>
    (0 < n \<longrightarrow> AssignShards n cur avail ! 0 = cur) \<and>
    card {i. i < n \<and> AssignShards n cur avail ! i = inst} \<le> (n + l - 1) div l"
proof (intro conjI)
  let ?ord = "cur # filter (\<lambda>inst. inst \<noteq> cur) avail"
  have l: "l = length ?ord" "0 < l" by (simp_all add: l_def)
  show len: "length (AssignShards n cur avail) = n" by (simp add: AssignShards_def Let_def)
  show "0 < n \<longrightarrow> AssignShards n cur avail ! 0 = cur" by (simp add: AssignShards_nth)
  show "set (AssignShards n cur avail) \<subseteq> insert cur (set avail)"
  proof
    fix x assume "x \<in> set (AssignShards n cur avail)"
    then obtain i where "i < n" "x = ?ord ! (i mod l)" using len by (metis in_set_conv_nth AssignShards_nth l(1))
    then have "x \<in> set ?ord" using l by (metis mod_less_divisor nth_mem)
    then show "x \<in> insert cur (set avail)" by auto
  qed
  have dist: "distinct ?ord" using assms(1) by simp
  have "{i. i < n \<and> AssignShards n cur avail ! i = inst} \<subseteq> {i. i < n \<and> i mod l = r}"
    if "r < l" "?ord ! r = inst" for r
    using that dist l by (auto simp: AssignShards_nth nth_eq_iff_index_eq simp del: filter.simps nth_Cons_Suc)
  then have card_le: "card {i. i < n \<and> AssignShards n cur avail ! i = inst} \<le> card {i. i < n \<and> i mod l = r}"
    if "r < l" "?ord ! r = inst" for r
    using that by (intro card_mono) auto
  have empty: "{i. i < n \<and> AssignShards n cur avail ! i = inst} = {}" if "\<nexists>r. r < l \<and> ?ord ! r = inst"
    using that l by (auto simp: AssignShards_nth)
  show "card {i. i < n \<and> AssignShards n cur avail ! i = inst} \<le> (n + l - 1) div l"
  proof (cases "\<exists>r. r < l \<and> ?ord ! r = inst")
    case True
    then obtain r where r: "r < l" "?ord ! r = inst" by blast
    from card_le [OF this] residue_count [OF l(2), of n r] show ?thesis by (rule le_trans)
  next
    case False
    show ?thesis unfolding empty [OF False] by simp
  qed
qed


subsection \<open>A code with one data shard\<close>

text \<open>With one data shard, copies are a code that meets the promises; it serves the examples.\<close>

definition copy_rs :: rs_lib where
  "copy_rs = \<lparr>
     rs_New = (\<lambda>k m. if k = 1 then Inr () else Inl (Errorf ''one data shard only'')),
     rs_Split = (\<lambda>k m data. if data = [] then Inl (Errorf ''not enough data'') else Inr (data # replicate (nat m) [])),
     rs_Encode = (\<lambda>k m ss. if ss = [] then Inl (Errorf ''too few shards'') else Inr (replicate (length ss) (hd ss))),
     rs_Reconstruct = (\<lambda>k m part. case filter (\<lambda>x. x \<noteq> None) part of
                         [] \<Rightarrow> Inl (Errorf ''too few shards'') | x # _ \<Rightarrow> Inr (replicate (length part) (the x))),
     rs_Verify = (\<lambda>k m S. Inr (\<forall>s \<in> set S. s = hd S))\<rparr>"

lemma copy_rs_laws: "rs_laws copy_rs"
proof -
  have sel: "filter (\<lambda>x. x \<noteq> None) part \<noteq> [] \<and> (\<forall>x \<in> set (filter (\<lambda>x. x \<noteq> None) part). x = Some s)"
    if "selection_of (replicate n s) part" "Suc 0 \<le> card (present part)" for part s n
  proof
    have "present part \<noteq> {}" using that(2) by auto
    then show "filter (\<lambda>x. x \<noteq> None) part \<noteq> []" by (force simp: present_def filter_empty_conv dest: nth_mem)
    show "\<forall>x \<in> set (filter (\<lambda>x. x \<noteq> None) part). x = Some s"
      using that(1) by (fastforce simp: selection_of_def in_set_conv_nth)
  qed
  have rec: "(case filter (\<lambda>x. x \<noteq> None) part of [] \<Rightarrow> Inl e | x # _ \<Rightarrow> Inr (replicate (length part) (the x))) =
      Inr (replicate n s)"
    if "selection_of (replicate n s) part" "Suc 0 \<le> card (present part)" for part s n e
    using that sel [OF that] by (cases "filter (\<lambda>x. x \<noteq> None) part") (auto simp: selection_of_def simp del: not_None_eq)
  have "replicate (min (Suc 0) (length ss)) x = [x]" if "ss \<noteq> []" for ss :: "bytes list" and x :: bytes
    using that by (cases ss) auto
  then show ?thesis
    by (auto simp: rs_laws_def copy_rs_def rec nat_add_distrib take_Suc simp del: not_None_eq split: if_splits)
qed

end
