(* ===== verification/Handlers.thy ===== *)
theory Handlers
  imports Erasure
begin

section \<open>The file handlers (server/handlers, server/middleware)\<close>

text \<open>
  The handlers of \<^verbatim>\<open>/v1/files\<close> and \<^verbatim>\<open>/v1/directories\<close>. A handler takes the parsed request, the time and
  the state of the engine, and returns the reply and the new state. The authoriser reads the engine's
  metadata store, as \<^verbatim>\<open>cmd/main.go\<close> wires it. The erasure manager that \<^verbatim>\<open>GetErasureManager\<close> returns
  (nil is \<^const>\<open>None\<close>) is an argument, with the schedule of its goroutines. \<open>FormatTime\<close> stands for
  \<^verbatim>\<open>time.Time.Format\<close> with the layout of RFC 3339.
\<close>

subsection \<open>Requests\<close>

text \<open>
  Path parameter, authenticated user (\<^verbatim>\<open>middleware.GetUserID\<close>), content length (negative if unknown),
  headers, query parameters (the empty string if absent) and body.
\<close>

record request =
  rq_Path :: string
  rq_UserID :: "string option"
  rq_ContentLength :: int
  rq_Header :: "string \<Rightarrow> string"
  rq_Query :: "string \<Rightarrow> string"
  rq_Body :: reader

text \<open>\<^verbatim>\<open>http.MaxBytesReader\<close>: after the limit the reader fails.\<close>

definition MaxBytesReader :: "reader \<Rightarrow> int \<Rightarrow> reader" where
  "MaxBytesReader body n =
     (if n < int (length (rd_data body))
      then \<lparr>rd_data = take (nat n) (rd_data body), rd_err = Some (Errorf ''http: request body too large'')\<rparr> else body)"

text \<open>
  \<^verbatim>\<open>CountingReader.BytesRead\<close> after a successful write: the backends copy the reader to its end.
\<close>

definition BytesRead :: "reader \<Rightarrow> int" where
  "BytesRead r = int (length (rd_data r))"

definition maxUploadBytes :: int where
  "maxUploadBytes = 10737418240"

definition maxErasureUpload :: int where
  "maxErasureUpload = 1073741824"

definition new_Metadata :: "gotime \<Rightarrow> string \<Rightarrow> string \<Rightarrow> string \<Rightarrow> string \<Rightarrow> Metadata" where
  "new_Metadata now name tp mode backendType = zero_Metadata\<lparr>md_Name := name, md_Type := tp, md_Mode := mode, md_UID := 1000,
     md_GID := 1000, md_BackendType := backendType, md_ATime := now, md_MTime := now, md_CTime := now\<rparr>"

definition on_other_instance :: "'w Engine \<Rightarrow> Metadata \<Rightarrow> string option" where
  "on_other_instance e md =
     (case md_CallFSInstanceID md of
        Some i \<Rightarrow> if i \<noteq> currentInstanceID e then Some i else None
      | None \<Rightarrow> None)"

subsection \<open>post\_file\_enhanced.go\<close>

record CrossServerConflictResponse =
  cf_Error :: string
  cf_ExistingPath :: string
  cf_InstanceID :: string
  cf_BackendType :: string
  cf_Suggestion :: string
  cf_UpdateURL :: string

definition shard_option :: "string \<Rightarrow> string \<Rightarrow> int" where
  "shard_option header query =
     (let pick = (\<lambda>v. case Atoi v of Some n \<Rightarrow> if 1 \<le> n then n else 0 | None \<Rightarrow> 0)
      in if header \<noteq> '''' then pick header else if query \<noteq> '''' then pick query else 0)"

definition parseErasureOptions :: "request \<Rightarrow> StoreOptions" where
  "parseErasureOptions r =
     \<lparr>op_DataShards = shard_option (rq_Header r ''X-CallFS-Erasure-Data-Shards'') (rq_Query r ''data_shards''),
      op_ParityShards = shard_option (rq_Header r ''X-CallFS-Erasure-Parity-Shards'') (rq_Query r ''parity_shards''),
      op_Instances = (if rq_Header r ''X-CallFS-Erasure-Instances'' \<noteq> ''''
                      then SplitOn (CHR '','') (rq_Header r ''X-CallFS-Erasure-Instances'')
                      else if rq_Query r ''instances'' \<noteq> '''' then SplitOn (CHR '','') (rq_Query r ''instances'') else [])\<rparr>"

definition conflict_response :: "'w Engine \<Rightarrow> PathInfo \<Rightarrow> string \<Rightarrow> Metadata \<Rightarrow> string \<Rightarrow> CrossServerConflictResponse" where
  "conflict_response e pathInfo enginePath existingMd inst =
     (let base = \<lparr>cf_Error = ''Resource exists on another server'', cf_ExistingPath = md_Path existingMd, cf_InstanceID = inst,
                  cf_BackendType = md_BackendType existingMd, cf_Suggestion = '''', cf_UpdateURL = ''''\<rparr>
      in if pi_IsDirectory pathInfo then
           (if md_Type existingMd \<noteq> ''directory''
            then base\<lparr>cf_Suggestion := ''Path exists as file on another server, cannot create directory''\<rparr>
            else base\<lparr>cf_Suggestion := ''Directory already exists on another server. Use GET to access it.''\<rparr>)
         else if md_Type existingMd \<noteq> ''file''
         then base\<lparr>cf_Suggestion := ''Path exists as directory on another server, cannot create file''\<rparr>
         else base\<lparr>cf_Suggestion := ''File already exists on another server. Use PUT to update it.'',
                   cf_UpdateURL := (let peerEndpoint = GetPeerEndpoint e inst in
                     if peerEndpoint \<noteq> '''' then peerEndpoint @ ''/v1/files'' @ enginePath else '''')\<rparr>)"

text \<open>An existing resource: another server's, or this server's.\<close>

definition post_existing ::
  "'w Engine \<Rightarrow> PathInfo \<Rightarrow> string \<Rightarrow> Metadata \<Rightarrow> CrossServerConflictResponse option reply" where
  "post_existing e pathInfo enginePath existingMd =
     (case on_other_instance e existingMd of
        Some inst \<Rightarrow>
          Reply 409 [(''Content-Type'', ''application/json'')] (Some (conflict_response e pathInfo enginePath existingMd inst))
      | None \<Rightarrow>
          if pi_IsDirectory pathInfo then
            (if md_Type existingMd \<noteq> ''directory''
             then SendErrorResponse (Errorf ''path exists as file, cannot create directory'') 409 else Reply 200 [] None)
          else if md_Type existingMd \<noteq> ''file''
          then SendErrorResponse (Errorf ''path exists as directory, cannot create file'') 409
          else SendErrorResponse (Errorf ''file already exists, use PUT to update'') 409)"

definition post_erasure ::
  "'w Engine \<Rightarrow> 'w ErasureManager \<Rightarrow> nat list \<Rightarrow> goctx \<Rightarrow> gotime \<Rightarrow> request \<Rightarrow> PathInfo \<Rightarrow> string \<Rightarrow> 'w estate \<Rightarrow>
   CrossServerConflictResponse option reply \<times> 'w estate" where
  "post_erasure e em sched ctx now r pathInfo enginePath s =
     (case ReadAll (MaxBytesReader (rq_Body r) maxErasureUpload) of
        Inl readErr \<Rightarrow> (SendErrorResponse readErr 500, s)
      | Inr data \<Rightarrow>
          let actualSize = int (length data) in
          (case StoreFile em sched ctx enginePath data actualSize (Some (parseErasureOptions r)) (es_world s) of
             (Inl storeErr, w1) \<Rightarrow> (SendErrorResponse storeErr 500, s\<lparr>es_world := w1\<rparr>)
           | (Inr _, w1) \<Rightarrow>
               let md = (new_Metadata now (pi_Name pathInfo) ''file'' ''0644'' ''erasure'')\<lparr>md_Size := actualSize, md_ErasureCoded := True\<rparr>
               in (case CreateErasureMetadata e ctx now enginePath md (s\<lparr>es_world := w1\<rparr>) of
                     (Inl err, s2) \<Rightarrow> (SendErrorResponse err 500, s2)
                   | (Inr _, s2) \<Rightarrow> (Reply 201 [] None, s2))))"

definition post_file ::
  "'w Engine \<Rightarrow> string \<Rightarrow> goctx \<Rightarrow> gotime \<Rightarrow> request \<Rightarrow> PathInfo \<Rightarrow> string \<Rightarrow> 'w estate \<Rightarrow>
   CrossServerConflictResponse option reply \<times> 'w estate" where
  "post_file e defaultBackend ctx now r pathInfo enginePath s =
     (let isChunked = rq_ContentLength r < 0;
          size0 = (if isChunked then 0 else rq_ContentLength r);
          body = MaxBytesReader (rq_Body r) maxUploadBytes;
          md0 = new_Metadata now (pi_Name pathInfo) ''file'' ''0644'' defaultBackend
      in (case CreateFile e ctx now enginePath body size0 md0 s of
            (Inl err, s1) \<Rightarrow> (SendErrorResponse err 500, s1)
          | (Inr md, s1) \<Rightarrow>
              if isChunked \<and> BytesRead body \<noteq> size0
              then (Reply 201 [] None,
                    snd (UpdateMetadataOnly e now (md\<lparr>md_Size := BytesRead body, md_MTime := now, md_UpdatedAt := now\<rparr>) s1))
              else (Reply 201 [] None, s1)))"

definition V1PostFileEnhanced ::
  "'w Engine \<Rightarrow> 'w ErasureManager option \<Rightarrow> nat list \<Rightarrow> string \<Rightarrow> goctx \<Rightarrow> gotime \<Rightarrow> request \<Rightarrow> 'w estate \<Rightarrow>
   CrossServerConflictResponse option reply \<times> 'w estate" where
  "V1PostFileEnhanced e em sched defaultBackend ctx now r s =
     (let pathInfo = ParseFilePath (rq_Path r) in
      if pi_IsInvalid pathInfo then (SendErrorResponse (Errorf ''invalid path'') 400, s)
      else case rq_UserID r of
        None \<Rightarrow> (SendErrorResponse ErrAuthenticationFailed 401, s)
      | Some userID \<Rightarrow>
          let enginePath = engine_path pathInfo in
          (case Authorize (metadataStore e) userID enginePath WritePerm (es_world s) of
             Inl err \<Rightarrow> (SendErrorResponse err 403, s)
           | Inr _ \<Rightarrow>
               (case GetMetadata e now enginePath s of
                  (Inr existingMd, s1) \<Rightarrow> (post_existing e pathInfo enginePath existingMd, s1)
                | (Inl _, s1) \<Rightarrow>
                    if pi_IsDirectory pathInfo then
                      (case CreateDirectory e ctx now enginePath
                              (new_Metadata now (pi_Name pathInfo) ''directory'' ''0755'' defaultBackend) s1 of
                         (Inl err, s2) \<Rightarrow> (SendErrorResponse err 500, s2)
                       | (Inr _, s2) \<Rightarrow> (Reply 201 [] None, s2))
                    else case (if rq_Header r ''X-CallFS-Erasure'' = ''true'' \<or> rq_Query r ''erasure'' = ''true'' then em else None) of
                      Some m \<Rightarrow> post_erasure e m sched ctx now r pathInfo enginePath s1
                    | None \<Rightarrow> post_file e defaultBackend ctx now r pathInfo enginePath s1)))"

subsection \<open>put\_file\_enhanced.go\<close>

definition put_correct_size :: "'w Engine \<Rightarrow> gotime \<Rightarrow> bool \<Rightarrow> reader \<Rightarrow> int \<Rightarrow> Metadata \<Rightarrow> 'w estate \<Rightarrow> 'w estate" where
  "put_correct_size e now isChunked body size0 md s =
     (if isChunked \<and> BytesRead body \<noteq> size0
      then snd (UpdateMetadataOnly e now (md\<lparr>md_Size := BytesRead body, md_MTime := now, md_UpdatedAt := now\<rparr>) s)
      else s)"

definition V1PutFileEnhanced ::
  "'w Engine \<Rightarrow> string \<Rightarrow> goctx \<Rightarrow> gotime \<Rightarrow> request \<Rightarrow> 'w estate \<Rightarrow> unit reply \<times> 'w estate" where
  "V1PutFileEnhanced e defaultBackend ctx now r s =
     (let pathInfo = ParseFilePath (rq_Path r) in
      if pi_IsInvalid pathInfo then (SendErrorResponse (Errorf ''invalid path'') 400, s)
      else if pi_IsDirectory pathInfo
      then (SendErrorResponse (Errorf ''PUT method cannot be used with directory paths (trailing slash)'') 400, s)
      else case rq_UserID r of
        None \<Rightarrow> (SendErrorResponse ErrAuthenticationFailed 401, s)
      | Some userID \<Rightarrow>
          let enginePath = engine_path pathInfo;
              body = MaxBytesReader (rq_Body r) maxUploadBytes;
              isChunked = rq_ContentLength r < 0;
              size0 = (if isChunked then 0 else rq_ContentLength r)
          in
          (case Authorize (metadataStore e) userID enginePath WritePerm (es_world s) of
             Inl err \<Rightarrow> (SendErrorResponse err 403, s)
           | Inr _ \<Rightarrow>
               (case GetMetadata e now enginePath s of
                  (Inl err, s1) \<Rightarrow>
                    if err = ErrNotFound then
                      (case CreateFile e ctx now enginePath body size0
                              (new_Metadata now (pi_Name pathInfo) ''file'' ''0644'' defaultBackend) s1 of
                         (Inl err, s2) \<Rightarrow> (SendErrorResponse err 500, s2)
                       | (Inr md, s2) \<Rightarrow> (Reply 201 [] (), put_correct_size e now isChunked body size0 md s2))
                    else (SendErrorResponse err 500, s1)
                | (Inr existingMd, s1) \<Rightarrow>
                    if md_Type existingMd \<noteq> ''file''
                    then (SendErrorResponse (Errorf ''cannot update directory with file content'') 400, s1)
                    else case on_other_instance e existingMd of
                      Some inst \<Rightarrow>
                        (case UpdateFileOnInstance e ctx inst enginePath body size0 s1 of
                           (Inl err, s2) \<Rightarrow> (SendErrorResponse (Wrapf ''failed to update file on remote server'' err) 502, s2)
                         | (Inr _, s2) \<Rightarrow>
                             (Reply 200 [] (),
                              snd (UpdateMetadataOnly e now (existingMd\<lparr>md_Size := size0, md_MTime := now, md_UpdatedAt := now\<rparr>) s2)))
                    | None \<Rightarrow>
                        (case UpdateFile e ctx now enginePath body size0 s1 of
                           (Inl err, s2) \<Rightarrow> (SendErrorResponse err 500, s2)
                         | (Inr _, s2) \<Rightarrow> (Reply 200 [] (), put_correct_size e now isChunked body size0 existingMd s2)))))"

subsection \<open>cross\_server\_handlers.go\<close>

definition V1DeleteFileEnhanced ::
  "'w Engine \<Rightarrow> goctx \<Rightarrow> gotime \<Rightarrow> request \<Rightarrow> 'w estate \<Rightarrow> unit reply \<times> 'w estate" where
  "V1DeleteFileEnhanced e ctx now r s =
     (let pathInfo = ParseFilePath (rq_Path r) in
      if pi_IsInvalid pathInfo then (SendErrorResponse (Errorf ''invalid path'') 400, s)
      else case rq_UserID r of
        None \<Rightarrow> (SendErrorResponse ErrAuthenticationFailed 401, s)
      | Some userID \<Rightarrow>
          let enginePath = engine_path pathInfo in
          (case Authorize (metadataStore e) userID enginePath DeletePerm (es_world s) of
             Inl err \<Rightarrow> (SendErrorResponse err 403, s)
           | Inr _ \<Rightarrow>
               (case GetMetadata e now enginePath s of
                  (Inl err, s1) \<Rightarrow> (SendErrorResponse err 404, s1)
                | (Inr md, s1) \<Rightarrow>
                    (case on_other_instance e md of
                       Some inst \<Rightarrow>
                         (case DeleteFileOnInstance e inst enginePath s1 of
                            (Inl err, s2) \<Rightarrow> (SendErrorResponse (Wrapf ''failed to proxy request to owning server'' err) 502, s2)
                          | (Inr _, s2) \<Rightarrow> (Reply 204 [] (), s2))
                     | None \<Rightarrow>
                         (case DeleteFile e ctx now enginePath s1 of
                            (Inl err, s2) \<Rightarrow> (SendErrorResponse err 500, s2)
                          | (Inr _, s2) \<Rightarrow> (Reply 204 [] (), s2))))))"

definition setMetadataHeaders :: "(gotime \<Rightarrow> string) \<Rightarrow> Metadata \<Rightarrow> (string \<times> string) list" where
  "setMetadataHeaders FormatTime md =
     [(''X-CallFS-Type'', md_Type md), (''X-CallFS-Size'', Itoa (md_Size md)), (''X-CallFS-Mode'', md_Mode md),
      (''X-CallFS-UID'', Itoa (md_UID md)), (''X-CallFS-GID'', Itoa (md_GID md)), (''X-CallFS-MTime'', FormatTime (md_MTime md))] @
     (case md_CallFSInstanceID md of Some i \<Rightarrow> [(''X-CallFS-Instance-ID'', i)] | None \<Rightarrow> [])"

definition V1HeadFileEnhanced ::
  "'w Engine \<Rightarrow> (gotime \<Rightarrow> string) \<Rightarrow> gotime \<Rightarrow> request \<Rightarrow> 'w estate \<Rightarrow> unit reply \<times> 'w estate" where
  "V1HeadFileEnhanced e FormatTime now r s =
     (let pathInfo = ParseFilePath (rq_Path r) in
      if pi_IsInvalid pathInfo then (SendErrorResponse (Errorf ''invalid path'') 400, s)
      else case rq_UserID r of
        None \<Rightarrow> (SendErrorResponse ErrAuthenticationFailed 401, s)
      | Some userID \<Rightarrow>
          let enginePath = engine_path pathInfo in
          (case Authorize (metadataStore e) userID enginePath ReadPerm (es_world s) of
             Inl err \<Rightarrow> (SendErrorResponse err 403, s)
           | Inr _ \<Rightarrow>
               (case GetMetadata e now enginePath s of
                  (Inl err, s1) \<Rightarrow> (SendErrorResponse err 404, s1)
                | (Inr md, s1) \<Rightarrow>
                    (case on_other_instance e md of
                       Some inst \<Rightarrow>
                         (case StatFileOnInstance e inst enginePath s1 of
                            Inl err \<Rightarrow> (SendErrorResponse (Wrapf ''failed to proxy request to owning server'' err) 502, s1)
                          | Inr remoteMd \<Rightarrow>
                              (Reply 200 (AList.update ''X-CallFS-Instance-ID'' inst (setMetadataHeaders FormatTime remoteMd)) (), s1))
                     | None \<Rightarrow> (Reply 200 (setMetadataHeaders FormatTime md) (), s1)))))"

subsection \<open>get\_file.go\<close>

record FileInfo =
  fi_Name :: string
  fi_Path :: string
  fi_Type :: string
  fi_Size :: int
  fi_Mode :: string
  fi_UID :: int
  fi_GID :: int
  fi_MTime :: string

record DirectoryListingResponse =
  dl_Path :: string
  dl_Type :: string
  dl_Recursive :: bool
  dl_MaxDepth :: int
  dl_Count :: nat
  dl_Items :: "FileInfo list"

text \<open>What the handlers write to the client. No write at all is a status of 200 with no body.\<close>

datatype body =
    FileBody bytes
  | ListBody "FileInfo list"
  | ListingBody DirectoryListingResponse
  | ManifestBody ChunkManifest
  | ConflictBody "CrossServerConflictResponse option"
  | NoBody

definition file_info :: "(gotime \<Rightarrow> string) \<Rightarrow> Metadata \<Rightarrow> FileInfo" where
  "file_info FormatTime child =
     \<lparr>fi_Name = md_Name child, fi_Path = md_Path child, fi_Type = md_Type child, fi_Size = md_Size child, fi_Mode = md_Mode child,
      fi_UID = md_UID child, fi_GID = md_GID child, fi_MTime = FormatTime (md_MTime child)\<rparr>"

definition owner_headers :: "(gotime \<Rightarrow> string) \<Rightarrow> Metadata \<Rightarrow> (string \<times> string) list" where
  "owner_headers FormatTime md =
     [(''X-CallFS-Mode'', md_Mode md), (''X-CallFS-UID'', Itoa (md_UID md)), (''X-CallFS-GID'', Itoa (md_GID md)),
      (''X-CallFS-MTime'', FormatTime (md_MTime md))]"

text \<open>
  The schedule of a download: the order in which the shard goroutines run and which of them miss the
  deadline. The body is what \<^verbatim>\<open>io.Copy\<close> hands to the response: an error in mid-stream is only logged.
\<close>

definition V1GetFile ::
  "'w Engine \<Rightarrow> 'w ErasureManager option \<Rightarrow> (ErasureShardInfo list \<Rightarrow> ErasureShardInfo list) \<Rightarrow> (ErasureShardInfo \<Rightarrow> bool) \<Rightarrow>
   (gotime \<Rightarrow> string) \<Rightarrow> goctx \<Rightarrow> gotime \<Rightarrow> request \<Rightarrow> 'w estate \<Rightarrow> body reply \<times> 'w estate" where
  "V1GetFile e em sched late FormatTime ctx now r s =
     (let pathInfo = ParseFilePath (rq_Path r) in
      if pi_IsInvalid pathInfo then (SendErrorResponse (Errorf ''invalid path'') 400, s)
      else case rq_UserID r of
        None \<Rightarrow> (SendErrorResponse ErrAuthenticationFailed 401, s)
      | Some userID \<Rightarrow>
          let enginePath = engine_path pathInfo in
          (case Authorize (metadataStore e) userID enginePath ReadPerm (es_world s) of
             Inl err \<Rightarrow> (SendErrorResponse err 403, s)
           | Inr _ \<Rightarrow>
               (case GetMetadata e now enginePath s of
                  (Inl err, s1) \<Rightarrow> (SendErrorResponse err 404, s1)
                | (Inr md, s1) \<Rightarrow>
                    if md_Type md = ''file'' then
                      (case (if md_ErasureCoded md then em else None) of
                         Some m \<Rightarrow>
                           if rq_Query r ''manifest'' = ''true''
                           then (map_reply ManifestBody (HandleErasureManifest m enginePath (es_world s1)), s1)
                           else (map_reply FileBody (HandleErasureDownload m sched late ctx enginePath (es_world s1)), s1)
                       | None \<Rightarrow>
                           (case GetFile e ctx now enginePath s1 of
                              (Inl err, s2) \<Rightarrow> (SendErrorResponse err 500, s2)
                            | (Inr reader, s2) \<Rightarrow>
                                (Reply 200 ([(''Content-Type'', ''application/octet-stream''), (''Content-Length'', Itoa (md_Size md)),
                                             (''X-CallFS-Type'', ''file''), (''X-CallFS-Size'', Itoa (md_Size md))] @
                                            owner_headers FormatTime md)
                                   (FileBody (rd_data reader)), s2)))
                    else if md_Type md = ''directory'' then
                      (case ListDirectory e enginePath s1 of
                         Inl err \<Rightarrow> (SendErrorResponse err 500, s1)
                       | Inr children \<Rightarrow>
                           (Reply 200 ([(''Content-Type'', ''application/json''), (''X-CallFS-Type'', ''directory''),
                                        (''X-CallFS-Size'', ''0'')] @ owner_headers FormatTime md)
                              (ListBody (map (file_info FormatTime) children)), s1))
                    else (Reply 200 [] NoBody, s1))))"

subsection \<open>list\_directory.go\<close>

definition max_depth_param :: "string \<Rightarrow> int" where
  "max_depth_param maxDepthStr =
     (if maxDepthStr \<noteq> '''' then
        (case Atoi maxDepthStr of
           Some parsed \<Rightarrow> if 1000 < parsed then 1000 else if 0 \<le> parsed then parsed else 100
         | None \<Rightarrow> 100)
      else 100)"

definition V1ListDirectory ::
  "'w Engine \<Rightarrow> (gotime \<Rightarrow> string) \<Rightarrow> gotime \<Rightarrow> request \<Rightarrow> 'w estate \<Rightarrow> body reply \<times> 'w estate" where
  "V1ListDirectory e FormatTime now r s =
     (let pathParam = (if rq_Path r = '''' then ''/'' else ''/'' @ rq_Path r);
          pathInfo = ParseFilePath pathParam in
      if pi_IsInvalid pathInfo then (SendErrorResponse (Errorf ''invalid path'') 400, s)
      else case rq_UserID r of
        None \<Rightarrow> (SendErrorResponse ErrAuthenticationFailed 401, s)
      | Some userID \<Rightarrow>
          let enginePath = engine_path pathInfo in
          (case Authorize (metadataStore e) userID enginePath ReadPerm (es_world s) of
             Inl err \<Rightarrow> (SendErrorResponse err 403, s)
           | Inr _ \<Rightarrow>
               (case GetMetadata e now enginePath s of
                  (Inl err, s1) \<Rightarrow> (SendErrorResponse err 404, s1)
                | (Inr md, s1) \<Rightarrow>
                    if md_Type md \<noteq> ''directory'' then (SendErrorResponse (Errorf ''path is not a directory'') 400, s1)
                    else
                      let recursive = rq_Query r ''recursive'' = ''true'';
                          maxDepth = max_depth_param (rq_Query r ''max_depth'')
                      in (case (if recursive then ListDirectoryRecursive e enginePath maxDepth s1 else ListDirectory e enginePath s1) of
                            Inl err \<Rightarrow> (SendErrorResponse err 500, s1)
                          | Inr children \<Rightarrow>
                              let fileInfos = map (file_info FormatTime) children in
                              (Reply 200 [(''Content-Type'', ''application/json''), (''X-CallFS-Type'', ''directory''),
                                          (''X-CallFS-Count'', Itoa (int (length fileInfos))),
                                          (''X-CallFS-Recursive'', if recursive then ''true'' else ''false'')]
                                 (ListingBody \<lparr>dl_Path = enginePath, dl_Type = ''directory'', dl_Recursive = recursive,
                                    dl_MaxDepth = (if recursive then maxDepth else 0), dl_Count = length fileInfos,
                                    dl_Items = fileInfos\<rparr>), s1)))))"

subsection \<open>middleware/auth.go and the routes of router.go\<close>

definition sendErrorResponse :: "goerr \<Rightarrow> int \<Rightarrow> 'b reply" where
  "sendErrorResponse err statusCode =
     ErrorReply statusCode
       \<lparr>er_Code = (if err = ErrAuthenticationFailed then ''AUTHENTICATION_FAILED''
                   else if err = ErrPermissionDenied then ''PERMISSION_DENIED'' else ''INTERNAL_ERROR''),
        er_Message = Error err\<rparr>"

definition V1AuthMiddleware ::
  "(string, string) gomap \<Rightarrow> (request \<Rightarrow> 's \<Rightarrow> 'b reply \<times> 's) \<Rightarrow> request \<Rightarrow> 's \<Rightarrow> 'b reply \<times> 's" where
  "V1AuthMiddleware authenticator nxt r s =
     (let authHeader = rq_Header r ''Authorization'' in
      if authHeader = '''' then (sendErrorResponse ErrAuthenticationFailed 401, s)
      else case Authenticate authenticator authHeader of
        Inl err \<Rightarrow> (sendErrorResponse ErrAuthenticationFailed 401, s)
      | Inr userID \<Rightarrow> nxt (r\<lparr>rq_UserID := Some userID\<rparr>) s)"

text \<open>\<open>GetFiles\<close> are the requests that the router does not send to the WebSocket transfer (\<^verbatim>\<open>GET /v1/files/ws/*\<close>).\<close>

datatype route = GetFiles | HeadFiles | PostFiles | PutFiles | DeleteFiles | GetDirectories

text \<open>
  The process around the handlers: the engine, the keys of the authenticator, the erasure manager with
  the schedules of its goroutines, the default backend and the context of the request.
\<close>

record 'w server =
  sv_engine :: "'w Engine"
  sv_authenticator :: "(string, string) gomap"
  sv_erasure :: "'w ErasureManager option"
  sv_store_sched :: "nat list"
  sv_fetch_sched :: "ErasureShardInfo list \<Rightarrow> ErasureShardInfo list"
  sv_late :: "ErasureShardInfo \<Rightarrow> bool"
  sv_defaultBackend :: string
  sv_FormatTime :: "gotime \<Rightarrow> string"
  sv_ctx :: goctx

fun handler :: "'w server \<Rightarrow> gotime \<Rightarrow> route \<Rightarrow> request \<Rightarrow> 'w estate \<Rightarrow> body reply \<times> 'w estate" where
  "handler sv now GetFiles r s =
     V1GetFile (sv_engine sv) (sv_erasure sv) (sv_fetch_sched sv) (sv_late sv) (sv_FormatTime sv) (sv_ctx sv) now r s"
| "handler sv now HeadFiles r s = apfst (map_reply (\<lambda>_. NoBody)) (V1HeadFileEnhanced (sv_engine sv) (sv_FormatTime sv) now r s)"
| "handler sv now PostFiles r s =
     apfst (map_reply ConflictBody)
       (V1PostFileEnhanced (sv_engine sv) (sv_erasure sv) (sv_store_sched sv) (sv_defaultBackend sv) (sv_ctx sv) now r s)"
| "handler sv now PutFiles r s =
     apfst (map_reply (\<lambda>_. NoBody)) (V1PutFileEnhanced (sv_engine sv) (sv_defaultBackend sv) (sv_ctx sv) now r s)"
| "handler sv now DeleteFiles r s = apfst (map_reply (\<lambda>_. NoBody)) (V1DeleteFileEnhanced (sv_engine sv) (sv_ctx sv) now r s)"
| "handler sv now GetDirectories r s = V1ListDirectory (sv_engine sv) (sv_FormatTime sv) now r s"

definition v1_route :: "'w server \<Rightarrow> gotime \<Rightarrow> route \<Rightarrow> request \<Rightarrow> 'w estate \<Rightarrow> body reply \<times> 'w estate" where
  "v1_route sv now rt = V1AuthMiddleware (sv_authenticator sv) (handler sv now rt)"

subsection \<open>Only authorised requests act\<close>

fun route_perm :: "route \<Rightarrow> PermissionType" where
  "route_perm PostFiles = WritePerm"
| "route_perm PutFiles = WritePerm"
| "route_perm DeleteFiles = DeletePerm"
| "route_perm rt = ReadPerm"

definition route_path :: "route \<Rightarrow> request \<Rightarrow> string" where
  "route_path rt r = (if rt = GetDirectories then ''/'' @ rq_Path r else rq_Path r)"

text \<open>The request carries a known key whose user holds the permission of the route on the path.\<close>

definition authorised :: "'w server \<Rightarrow> route \<Rightarrow> request \<Rightarrow> 'w estate \<Rightarrow> bool" where
  "authorised sv rt r s \<longleftrightarrow>
     (\<exists>userID. Authenticate (sv_authenticator sv) (rq_Header r ''Authorization'') = Inr userID \<and>
        \<not> pi_IsInvalid (ParseFilePath (route_path rt r)) \<and>
        Authorize (metadataStore (sv_engine sv)) userID (engine_path (ParseFilePath (route_path rt r))) (route_perm rt) (es_world s) = Inr ())"

lemma handler_gate:
  assumes "rq_UserID r = Some userID"
    and "pi_IsInvalid (ParseFilePath (route_path rt r)) \<or>
      Authorize (metadataStore (sv_engine sv)) userID (engine_path (ParseFilePath (route_path rt r))) (route_perm rt) (es_world s) = Inl err"
  shows "handler sv now rt r s =
    (if pi_IsInvalid (ParseFilePath (route_path rt r)) then SendErrorResponse (Errorf ''invalid path'') 400
     else if rt = PutFiles \<and> pi_IsDirectory (ParseFilePath (route_path rt r))
     then SendErrorResponse (Errorf ''PUT method cannot be used with directory paths (trailing slash)'') 400
     else SendErrorResponse err 403, s)"
proof -
  have m: "map_reply f (SendErrorResponse er st) = SendErrorResponse er st" for f :: "'x \<Rightarrow> 'y" and er st
    by (simp add: SendErrorResponse_def split: prod.split)
  have dir: "(if p = '''' then ''/'' else ''/'' @ p) = ''/'' @ p" for p :: string by simp
  show ?thesis
    using assms
    by (cases rt; cases "pi_IsInvalid (ParseFilePath (route_path rt r))")
       (simp_all add: V1GetFile_def V1HeadFileEnhanced_def V1PostFileEnhanced_def V1PutFileEnhanced_def V1DeleteFileEnhanced_def
          V1ListDirectory_def route_path_def m dir del: if_image_distrib)
qed

lemma Authorize_err:
  "Authorize ops userID path perm w = Inl err \<Longrightarrow> fst (error_class err 403) \<in> {403, 404}"
  by (auto simp: Authorize_def checkParentPermission_def checkUnixPermissions_def Let_def error_class_def
      split: sum.splits if_splits option.splits prod.splits)

end
