(* ===== verification/EngineLaws.thy ===== *)
theory EngineLaws
  imports Engine
begin

section \<open>What the engine guarantees over any store and backends\<close>

text \<open>
  The locale \<open>engine_env\<close> is the environment the engine assumes: a metadata store that keeps
  the contract \<open>metadata_store\<close>, and backends, locks and erasure manager that leave the
  metadata alone. The lemmas are proved once for all of them: the cache stays coherent with the
  store, a lookup through the cache is a lookup in the store, creating never loses an entry,
  the parents of what is created exist, and the lock of an operation is free when it ends.
\<close>

definition keeps :: "('w \<Rightarrow> bool) \<Rightarrow> ('w \<Rightarrow> 'v) \<Rightarrow> ('w \<Rightarrow> 'u \<times> 'w) \<Rightarrow> bool" where
  "keeps iv view f \<longleftrightarrow> (\<forall>w. iv w \<longrightarrow> iv (snd (f w)) \<and> view (snd (f w)) = view w)"

definition backend_keeps :: "('w \<Rightarrow> bool) \<Rightarrow> ('w \<Rightarrow> 'v) \<Rightarrow> 'w storage_ops \<Rightarrow> bool" where
  "backend_keeps iv view b \<longleftrightarrow>
     (\<forall>ctx p r n. keeps iv view (so_Create b ctx p r n) \<and> keeps iv view (so_Update b ctx p r n) \<and>
        keeps iv view (so_Delete b ctx p) \<and> keeps iv view (so_CreateDirectory b ctx p))"

lemma keepsD: "keeps iv view f \<Longrightarrow> iv w \<Longrightarrow> f w = (u, w') \<Longrightarrow> iv w' \<and> view w' = view w"
  by (auto simp: keeps_def split_pairs)

lemma backend_keepsD:
  assumes "backend_keeps iv view b" "iv w"
  shows "so_Create b ctx p r n w = (u, w') \<Longrightarrow> iv w' \<and> view w' = view w"
    and "so_Update b ctx p r n w = (u, w') \<Longrightarrow> iv w' \<and> view w' = view w"
    and "so_Delete b ctx p w = (u, w') \<Longrightarrow> iv w' \<and> view w' = view w"
    and "so_CreateDirectory b ctx p w = (u, w') \<Longrightarrow> iv w' \<and> view w' = view w"
  using assms keepsD [of iv view] unfolding backend_keeps_def by metis+

lemma noop_keeps [simp]: "backend_keeps iv view noop_ops"
  by (simp add: backend_keeps_def keeps_def noop_ops_def)

definition cache_agrees :: "(string \<Rightarrow> Metadata option) \<Rightarrow> MetadataCache \<Rightarrow> bool" where
  "cache_agrees view c \<longleftrightarrow> (\<forall>t q md. cache_Get t q c = Some md \<longrightarrow> view q = Some md)"

lemma coherent_iff:
  "lossy_cache.coherent cache_Get (cache_inv rng) view c \<longleftrightarrow> cache_inv rng c \<and> cache_agrees view c"
  by (simp add: mdcache.coherent_def cache_agrees_def)

text \<open>
  Every entry has a parent entry. The root and, for a path that is not absolute, \<^verbatim>\<open>.\<close> count as
  always present, as in \<^verbatim>\<open>ensureParentDirectories\<close>.
\<close>

definition has_parent :: "(string \<Rightarrow> 'm option) \<Rightarrow> string \<Rightarrow> bool" where
  "has_parent v p \<longleftrightarrow> filepath_Dir p = ''/'' \<or> filepath_Dir p = ''.'' \<or> v (filepath_Dir p) \<noteq> None"

definition closed :: "(string \<Rightarrow> 'm option) \<Rightarrow> bool" where
  "closed v \<longleftrightarrow> (\<forall>p. v p \<noteq> None \<longrightarrow> has_parent v p)"

lemma has_parent_mono: "v \<subseteq>\<^sub>m v' \<Longrightarrow> has_parent v p \<Longrightarrow> has_parent v' p"
  unfolding has_parent_def map_le_def by (metis domI domIff)

lemma closed_insert: "closed v \<Longrightarrow> has_parent v p \<Longrightarrow> closed (v(p \<mapsto> x))"
  by (auto simp: closed_def has_parent_def)

locale engine_env = metadata_store "metadataStore e" view inv
  for e :: "'w Engine" and view :: "'w \<Rightarrow> string \<Rightarrow> Metadata option" and inv :: "'w \<Rightarrow> bool" +
  assumes order: "is_order (cacheOrder e)"
    and local_keeps: "backend_keeps inv view (localFSBackend e)"
    and s3_keeps: "backend_keeps inv view (s3Backend e)"
    and proxy_keeps: "backend_keeps inv view (internalProxyBackend e)"
    and acquire_keeps: "keeps inv view (lm_Acquire (lockManager e) ctx now k)"
    and release_keeps: "keeps inv view (lm_Release (lockManager e) now k)"
    and erasure_keeps: "erasureManager e = Some em \<Longrightarrow> keeps inv view (em_DeleteFile em p)"
    and adapter_keeps: "internalProxyAdapter e = Some px \<Longrightarrow> keeps inv view (px_DeleteOnInstance px i p)"
begin

text \<open>Steps that leave metadata and cache alone, and steps that only add metadata.\<close>

definition same :: "'w estate \<Rightarrow> 'w estate \<Rightarrow> bool" where
  "same s s' \<longleftrightarrow> inv (es_world s') \<and> view (es_world s') = view (es_world s) \<and> es_cache s' = es_cache s"

definition grows :: "'w estate \<Rightarrow> 'w estate \<Rightarrow> bool" where
  "grows s s' \<longleftrightarrow> inv (es_world s') \<and> view (es_world s) \<subseteq>\<^sub>m view (es_world s') \<and> es_cache s' = es_cache s"

lemma same_grows: "same s s' \<Longrightarrow> grows s s'"
  by (simp add: same_def grows_def)

lemma grows_trans: "grows s s1 \<Longrightarrow> grows s1 s2 \<Longrightarrow> grows s s2"
  by (auto simp: grows_def intro: map_le_trans)

lemma grows_refl: "inv (es_world s) \<Longrightarrow> grows s s"
  by (simp add: grows_def)

lemma same_world: "inv w \<Longrightarrow> view w = view (es_world s) \<Longrightarrow> same s (s\<lparr>es_world := w\<rparr>)"
  by (simp add: same_def)

lemma by_type_keeps: "backend_keeps inv view (selectBackendByType e bt)"
  using local_keeps s3_keeps by (simp add: selectBackendByType_def)

lemma selected_keeps: "selectBackend e ctx md = (ctx', b) \<Longrightarrow> backend_keeps inv view b"
  using local_keeps s3_keeps proxy_keeps
  by (auto simp: selectBackend_def Let_def split: option.splits if_splits)

text \<open>A locked operation was refused, or its body ran between steps that change nothing.\<close>

lemma with_lock_cases:
  assumes "inv (es_world s)" "with_lock e ctx now k what body s = (r, s')"
    and body: "\<And>s1 r s2. same s s1 \<Longrightarrow> body s1 = (r, s2) \<Longrightarrow> inv (es_world s2)"
  obtains (refused) err where "r = Inl err" "err \<noteq> ErrAlreadyExists" "same s s'"
  | (ran) s1 s2 where "same s s1" "body s1 = (r, s2)" "same s2 s'"
proof -
  obtain a w1 where a: "lm_Acquire (lockManager e) ctx now k (es_world s) = (a, w1)" by fastforce
  have w1: "same s (s\<lparr>es_world := w1\<rparr>)"
    using keepsD [OF acquire_keeps assms(1) a] by (intro same_world) auto
  show ?thesis
  proof (cases "a = Inr True")
    case False
    then show ?thesis
      using assms(2) a w1 refused by (cases a) (auto simp: with_lock_def)
  next
    case True
    obtain r2 s2 where b: "body (s\<lparr>es_world := w1\<rparr>) = (r2, s2)" by fastforce
    obtain u w3 where rel: "lm_Release (lockManager e) now k (es_world s2) = (u, w3)" by fastforce
    have "same s2 (s2\<lparr>es_world := w3\<rparr>)"
      using keepsD [OF release_keeps body [OF w1 b] rel] by (intro same_world) auto
    moreover have "r = r2" "s' = s2\<lparr>es_world := w3\<rparr>"
      using assms(2) a b rel True by (auto simp: with_lock_def)
    ultimately show ?thesis using ran w1 b by simp
  qed
qed

text \<open>So what the body guarantees of metadata and cache, the locked operation guarantees, or it was refused.\<close>

lemma with_lock_spec:
  assumes i: "inv (es_world s)" and eq: "with_lock e ctx now k what body s = (r, s')"
    and body: "\<And>s1 r s2. inv (es_world s1) \<Longrightarrow> body s1 = (r, s2) \<Longrightarrow>
      inv (es_world s2) \<and> Q (view (es_world s1)) (es_cache s1) r (view (es_world s2)) (es_cache s2)"
  shows "(\<exists>err. r = Inl err \<and> err \<noteq> ErrAlreadyExists \<and> same s s') \<or>
    (inv (es_world s') \<and> Q (view (es_world s)) (es_cache s) r (view (es_world s')) (es_cache s'))"
proof -
  have pres: "inv (es_world s2)" if "same s s1" "body s1 = (r2, s2)" for s1 r2 s2
    using body [OF _ that(2)] that(1) by (simp add: same_def)
  show ?thesis
  proof (rule with_lock_cases [OF i eq pres])
    fix s1 s2
    assume *: "same s s1" "body s1 = (r, s2)" "same s2 s'"
    from body [OF _ *(2)] * show ?thesis by (simp add: same_def)
  qed auto
qed

lemma get_ok: "inv w \<Longrightarrow> is_ok (st_Get (metadataStore e) p w) \<longleftrightarrow> view w p \<noteq> None"
  by (simp add: get_law split: option.splits)

lemma create_grows:
  assumes "inv w" "st_Create (metadataStore e) now md w = (r, w')"
  shows "inv w'" "view w \<subseteq>\<^sub>m view w'" "r = Inr md' \<Longrightarrow> view w (md_Path md) = None \<and> view w' = (view w)(md_Path md \<mapsto> md')"
    "r = Inl err \<Longrightarrow> view w' = view w"
  using create_law [OF assms] by (auto simp: map_le_def split: sum.splits)

lemma store_directory_spec:
  assumes "inv (es_world s)" "store_directory e ctx now path md s = (r, s')"
  shows "grows s s' \<and> (is_ok r \<longrightarrow> view (es_world s) path = None \<and>
    (\<exists>md'. view (es_world s') = (view (es_world s))(path \<mapsto> md'))) \<and>
    (\<not> is_ok r \<longrightarrow> same s s') \<and> r \<noteq> Inl ErrAlreadyExists"
proof -
  define md1 where "md1 = (if md_BackendType md = ''localfs'' then md\<lparr>md_CallFSInstanceID := Some (currentInstanceID e)\<rparr> else md)"
  define b where "b = selectBackendByType e (md_BackendType md1)"
  define md2 where "md2 = md1\<lparr>md_Path := path, md_Type := ''directory'', md_Size := 0, md_CreatedAt := now, md_UpdatedAt := now\<rparr>"
  obtain u w1 where c: "so_CreateDirectory b ctx (relativePath path) (es_world s) = (u, w1)" by fastforce
  obtain v w2 where d: "st_Create (metadataStore e) now md2 w1 = (v, w2)" by fastforce
  have bk: "backend_keeps inv view b" unfolding b_def by (rule by_type_keeps)
  have w1: "inv w1" "view w1 = view (es_world s)" using backend_keepsD(4) [OF bk assms(1) c] by auto
  have w3: "inv (snd (so_Delete b ctx (relativePath path) w2))" "view (snd (so_Delete b ctx (relativePath path) w2)) = view w2"
    using backend_keepsD(3) [OF bk create_grows(1) [OF w1(1) d], of ctx "relativePath path"] by (metis prod.collapse)+
  have eq: "(r, s') = (case u of
      Inl err \<Rightarrow> (Inl (Wrapf ''failed to create directory in backend'' err), s\<lparr>es_world := w1\<rparr>)
    | Inr _ \<Rightarrow> (case v of
        Inl err \<Rightarrow> (Inl (Wrapf ''failed to store metadata'' err), s\<lparr>es_world := snd (so_Delete b ctx (relativePath path) w2)\<rparr>)
      | Inr _ \<Rightarrow> (Inr (), s\<lparr>es_world := w2\<rparr>)))"
    using assms(2) unfolding store_directory_def Let_def md1_def [symmetric] b_def [symmetric] md2_def [symmetric] c
    by (cases u) (simp_all add: d split: sum.splits)
  show ?thesis
    using eq w1 w3 create_grows [OF w1(1) d]
    by (auto simp: grows_def same_def md2_def split: sum.splits)
qed

text \<open>
  The mutually recursive pair: metadata only grows, by paths shorter than a bound, every new entry
  gets its parent, and success means what the callers assume.
\<close>

definition builds :: "nat \<Rightarrow> 'w estate \<Rightarrow> 'w estate \<Rightarrow> bool" where
  "builds n s s' \<longleftrightarrow> grows s s' \<and>
     (\<forall>q. view (es_world s') q \<noteq> None \<longrightarrow> view (es_world s) q \<noteq> None \<or> length q < n) \<and>
     (closed (view (es_world s)) \<longrightarrow> closed (view (es_world s')))"

lemma same_builds: "same s s' \<Longrightarrow> builds n s s'"
  by (simp add: builds_def same_grows) (simp add: same_def)

lemma builds_refl: "inv (es_world s) \<Longrightarrow> builds n s s"
  by (simp add: builds_def grows_refl)

lemma builds_trans: "builds n s s1 \<Longrightarrow> builds n s1 s2 \<Longrightarrow> builds n s s2"
  unfolding builds_def using grows_trans by blast

lemma builds_mono: "builds n s s' \<Longrightarrow> n \<le> m \<Longrightarrow> builds m s s'"
  unfolding builds_def by (meson less_le_trans)

lemma builds_inv: "builds n s s' \<Longrightarrow> inv (es_world s')"
  by (simp add: builds_def grows_def)

lemma builds_insert:
  assumes "grows s s'" "view (es_world s') = (view (es_world s))(path \<mapsto> md)" "has_parent (view (es_world s)) path"
  shows "builds (Suc (length path)) s s'"
  using assms by (auto simp: builds_def intro: closed_insert split: if_splits)

definition parents_ok :: "string \<Rightarrow> bool" where
  "parents_ok path \<longleftrightarrow> (\<forall>ctx now bt s r s'. inv (es_world s) \<longrightarrow> ensureParentDirectories e ctx now path bt s = (r, s') \<longrightarrow>
     builds (length path) s s' \<and> (is_ok r \<longrightarrow> has_parent (view (es_world s')) path))"

lemma CreateDirectory_step:
  assumes p: "parents_ok path" and i: "inv (es_world s)" and c: "CreateDirectory e ctx now path md s = (r, s')"
  shows "builds (Suc (length path)) s s' \<and> (is_ok r \<or> r = Inl ErrAlreadyExists \<longrightarrow> view (es_world s') path \<noteq> None) \<and>
     (is_ok r \<longrightarrow> view (es_world s) path = None)"
proof -
  define body where "body = (\<lambda>s1.
       if is_ok (st_Get (metadataStore e) path (es_world s1)) then (Inl ErrAlreadyExists, s1)
       else (case ensureParentDirectories e ctx now path (md_BackendType md) s1 of
               (Inl err, s2) \<Rightarrow> (Inl (Wrapf ''failed to ensure parent directories'' err), s2)
             | (Inr _, s2) \<Rightarrow> store_directory e ctx now path md s2))"
  have b: "builds (Suc (length path)) s1 s2 \<and> (is_ok r \<or> r = Inl ErrAlreadyExists \<longrightarrow> view (es_world s2) path \<noteq> None) \<and>
     (is_ok r \<longrightarrow> view (es_world s1) path = None)" if i1: "inv (es_world s1)" and eq: "body s1 = (r, s2)" for s1 r s2
  proof (cases "is_ok (st_Get (metadataStore e) path (es_world s1))")
    case True
    then show ?thesis using eq i1 by (auto simp: body_def builds_refl get_ok)
  next
    case False
    obtain u s3 where en: "ensureParentDirectories e ctx now path (md_BackendType md) s1 = (u, s3)" by fastforce
    have g0: "builds (length path) s1 s3" "is_ok u \<Longrightarrow> has_parent (view (es_world s3)) path"
      using p i1 en by (auto simp: parents_ok_def)
    have g: "builds (Suc (length path)) s1 s3" using builds_mono [OF g0(1)] by simp
    show ?thesis
    proof (cases u)
      case (Inl err)
      then show ?thesis using eq False en g by (auto simp: body_def)
    next
      case (Inr x)
      then have "store_directory e ctx now path md s3 = (r, s2)" using eq False en by (simp add: body_def)
      moreover have "inv (es_world s3)" using g by (rule builds_inv)
      ultimately have sd: "grows s3 s2 \<and> (is_ok r \<longrightarrow> (\<exists>md'. view (es_world s2) = (view (es_world s3))(path \<mapsto> md'))) \<and>
          (\<not> is_ok r \<longrightarrow> same s3 s2) \<and> r \<noteq> Inl ErrAlreadyExists"
        using store_directory_spec [of s3 ctx now path md r s2] by blast
      have "builds (Suc (length path)) s3 s2"
        using sd builds_insert [of s3 s2 path] g0(2) Inr same_builds by (cases r) auto
      moreover have "view (es_world s1) path = None" using False get_ok [OF i1] by simp
      ultimately show ?thesis using sd builds_trans [OF g] by auto
    qed
  qed
  have eq: "with_lock e ctx now (''dir:'' @ path) ''directory creation'' body s = (r, s')"
    using c unfolding CreateDirectory.simps [of e ctx now path md s] body_def .
  let ?Q = "\<lambda>v c r v' c'. v \<subseteq>\<^sub>m v' \<and> c' = c \<and> (\<forall>q. v' q \<noteq> None \<longrightarrow> v q \<noteq> None \<or> length q < Suc (length path)) \<and>
      (closed v \<longrightarrow> closed v') \<and> (is_ok r \<or> r = Inl ErrAlreadyExists \<longrightarrow> v' path \<noteq> None) \<and> (is_ok r \<longrightarrow> v path = None)"
  have "(\<exists>err. r = Inl err \<and> err \<noteq> ErrAlreadyExists \<and> same s s') \<or>
    (inv (es_world s') \<and> ?Q (view (es_world s)) (es_cache s) r (view (es_world s')) (es_cache s'))"
    by (rule with_lock_spec [OF i eq, where Q = ?Q]) (use b in \<open>unfold builds_def grows_def, blast\<close>)
  then show ?thesis
  proof
    assume "\<exists>err. r = Inl err \<and> err \<noteq> ErrAlreadyExists \<and> same s s'"
    then show ?thesis using same_builds by auto
  qed (auto simp: builds_def grows_def)
qed

lemma parents_ok_all: "parents_ok path"
proof (induction "length path" arbitrary: path rule: less_induct)
  case less
  show ?case
    unfolding parents_ok_def
  proof (intro allI impI)
    fix ctx now bt s r s'
    assume i: "inv (es_world s)" and eq: "ensureParentDirectories e ctx now path bt s = (r, s')"
    let ?d = "filepath_Dir path"
    show "builds (length path) s s' \<and> (is_ok r \<longrightarrow> has_parent (view (es_world s')) path)"
    proof (cases "?d = ''/'' \<or> ?d = ''.'' \<or> view (es_world s) ?d \<noteq> None")
      case True
      then have "s' = s"
        using eq get_ok [OF i, of ?d] unfolding ensureParentDirectories.simps [of e _ _ path] Let_def
        by (simp split: if_splits)
      then show ?thesis using True i by (auto simp: builds_refl has_parent_def)
    next
      case False
      then have short: "length ?d < length path" using Dir_shorter by blast
      then have ih: "parents_ok ?d" by (rule less)
      obtain u s1 where en: "ensureParentDirectories e ctx now ?d bt s = (u, s1)" by fastforce
      have "builds (length ?d) s s1" using ih i en by (auto simp: parents_ok_def)
      then have g: "builds (length path) s s1" by (rule builds_mono [OF _ less_imp_le [OF short]])
      then have i1: "inv (es_world s1)" by (rule builds_inv)
      define bt' where "bt' = (if bt = '''' then ''localfs'' else bt)"
      obtain v s2 where cd: "CreateDirectory e ctx now ?d (parent_Metadata ?d bt') s1 = (v, s2)" by fastforce
      have "ensureParentDirectories e ctx now path bt s = (case u of Inl err \<Rightarrow> (Inl err, s1)
          | Inr _ \<Rightarrow> (case v of Inl err \<Rightarrow> if err = ErrAlreadyExists then (Inr (), s2) else (Inl err, s2) | Inr _ \<Rightarrow> (Inr (), s2)))"
        unfolding ensureParentDirectories.simps [of e _ _ path] Let_def bt'_def [symmetric]
        using False en cd get_ok [OF i, of ?d] by (simp split: sum.split)
      moreover have "builds (length path) s s2"
        using builds_trans [OF g builds_mono [OF conjunct1 [OF CreateDirectory_step [OF ih i1 cd]]]] short by simp
      moreover have "is_ok v \<or> v = Inl ErrAlreadyExists \<Longrightarrow> has_parent (view (es_world s2)) path"
        using CreateDirectory_step [OF ih i1 cd] by (simp add: has_parent_def)
      ultimately show ?thesis
        using eq g by (cases u; cases v) (auto split: if_splits)
    qed
  qed
qed

lemma ensureParentDirectories_spec:
  assumes "inv (es_world s)" "ensureParentDirectories e ctx now path bt s = (r, s')"
  shows "builds (length path) s s'" and "is_ok r \<Longrightarrow> has_parent (view (es_world s')) path"
  using parents_ok_all [of path] assms unfolding parents_ok_def by blast+

lemmas CreateDirectory_spec = CreateDirectory_step [OF parents_ok_all]

text \<open>The engine's own invariant: whatever the cache answers is what the store holds.\<close>

definition sound :: "'w estate \<Rightarrow> bool" where
  "sound s \<longleftrightarrow> inv (es_world s) \<and> cache_ok (es_cache s) \<and> cache_agrees (view (es_world s)) (es_cache s)"

abbreviation coherent :: "(string \<Rightarrow> Metadata option) \<Rightarrow> MetadataCache \<Rightarrow> bool" where
  "coherent \<equiv> lossy_cache.coherent cache_Get (cache_inv (cacheOrder e))"

lemma sound_coherent: "sound s \<longleftrightarrow> inv (es_world s) \<and> coherent (view (es_world s)) (es_cache s)"
  by (simp add: sound_def coherent_iff cache_inv_def order)

lemma sound_grows: "sound s \<Longrightarrow> grows s s' \<Longrightarrow> sound s'"
  by (auto simp: sound_coherent grows_def intro: mdcache.coherent_grow)

lemma sound_same: "sound s \<Longrightarrow> same s s' \<Longrightarrow> sound s'"
  by (simp add: sound_grows same_grows)

text \<open>A change at one path is covered by dropping that path, and dropping more never hurts.\<close>

lemma sound_drop:
  assumes "sound s" "inv w" "\<forall>q. q \<noteq> path \<longrightarrow> view w q = view (es_world s) q"
  shows "sound (s\<lparr>es_world := w, es_cache := Invalidate path (es_cache s)\<rparr>)"
    and "sound (drop_cached True path (s\<lparr>es_world := w\<rparr>))"
proof -
  have c: "coherent (view w) (Invalidate path (es_cache s))"
    using assms(1,3) by (intro mdcache.coherent_invalidate) (auto simp: sound_coherent)
  then show "sound (s\<lparr>es_world := w, es_cache := Invalidate path (es_cache s)\<rparr>)"
    using assms(2) by (simp add: sound_coherent)
  show "sound (drop_cached True path (s\<lparr>es_world := w\<rparr>))"
    using assms(2) mdcache.coherent_invalidate_prefix [OF c] by (simp add: sound_coherent drop_cached_def)
qed

lemma sound_drop_prefix: "sound s \<Longrightarrow> sound (drop_cached False path s)"
  by (simp add: sound_coherent drop_cached_def mdcache.coherent_invalidate_prefix)

lemma GetMetadata_spec:
  assumes "sound s" "GetMetadata e now path s = (r, s')"
  shows "r = (case view (es_world s) path of Some md \<Rightarrow> Inr md | None \<Rightarrow> Inl ErrNotFound)"
    and "sound s'" and "es_world s' = es_world s"
proof -
  have i: "inv (es_world s)" and co: "coherent (view (es_world s)) (es_cache s)"
    using assms(1) by (simp_all add: sound_coherent)
  have "r = (case view (es_world s) path of Some md \<Rightarrow> Inr md | None \<Rightarrow> Inl ErrNotFound) \<and> sound s' \<and> es_world s' = es_world s"
  proof (cases "cache_Get now path (es_cache s)")
    case (Some md)
    then show ?thesis
      using assms mdcache.coherent_hit [OF co Some] by (auto simp: GetMetadata_def)
  next
    case None
    show ?thesis
    proof (cases "view (es_world s) path")
      case (Some md)
      then show ?thesis
        using None assms(2) i co mdcache.coherent_set [OF co Some, of now]
        by (auto simp: GetMetadata_def get_law [OF i] sound_coherent)
    qed (use None assms in \<open>auto simp: GetMetadata_def get_law [OF i]\<close>)
  qed
  then show "r = (case view (es_world s) path of Some md \<Rightarrow> Inr md | None \<Rightarrow> Inl ErrNotFound)"
    "sound s'" "es_world s' = es_world s" by auto
qed

lemma replicate_spec:
  assumes "inv w" "replicateFileToSecondaryBackend e ctx path sz bt w = (r, w')"
  shows "inv w' \<and> view w' = view w \<and> (\<not> is_ok r \<longrightarrow> requireReplicaAck e \<and> replicationEnabled e)"
proof (cases "replica_target e bt")
  case (Some replica)
  then have en: "replicationEnabled e" by (auto simp: replica_target_def Let_def split: if_splits)
  define b where "b = selectBackendByType e replica"
  define u w1 where "u = (\<lambda>rd. fst (so_Update b ctx (relativePath path) rd sz w))"
    and "w1 = (\<lambda>rd. snd (so_Update b ctx (relativePath path) rd sz w))"
  then have u: "so_Update b ctx (relativePath path) rd sz w = (u rd, w1 rd)" for rd by simp
  define v w2 where "v = (\<lambda>rd rd'. fst (so_Create b ctx (relativePath path) rd' sz (w1 rd)))"
    and "w2 = (\<lambda>rd rd'. snd (so_Create b ctx (relativePath path) rd' sz (w1 rd)))"
  then have v: "so_Create b ctx (relativePath path) rd' sz (w1 rd) = (v rd rd', w2 rd rd')" for rd rd' by simp
  have bk: "backend_keeps inv view b" unfolding b_def by (rule by_type_keeps)
  have w1: "inv (w1 rd) \<and> view (w1 rd) = view w" for rd using backend_keepsD(2) [OF bk assms(1) u] .
  have w2: "inv (w2 rd rd') \<and> view (w2 rd rd') = view w" for rd rd'
    using backend_keepsD(1) [OF bk _ v] w1 by metis
  show ?thesis
    using assms(2) unfolding replicateFileToSecondaryBackend_def Some option.case Let_def b_def [symmetric]
    using w1 w2 en assms(1) by (auto simp: u v ack_def split: sum.splits if_splits) (metis is_ok_simps(1))+
qed (use assms in \<open>auto simp: replicateFileToSecondaryBackend_def\<close>)

lemma deleteReplicated_spec:
  assumes "inv w" "deleteReplicatedFile e ctx path bt w = (r, w')"
  shows "inv w' \<and> view w' = view w \<and> (\<not> is_ok r \<longrightarrow> requireReplicaAck e \<and> replicationEnabled e)"
proof (cases "replica_target e bt")
  case (Some replica)
  then have en: "replicationEnabled e" by (auto simp: replica_target_def Let_def split: if_splits)
  obtain u w1 where u: "so_Delete (selectBackendByType e replica) ctx (relativePath path) w = (u, w1)" by fastforce
  from backend_keepsD(3) [OF by_type_keeps assms(1) u] show ?thesis
    using assms(2) u Some en by (auto simp: deleteReplicatedFile_def ack_def split: sum.splits if_splits)
qed (use assms in \<open>auto simp: deleteReplicatedFile_def\<close>)

text \<open>The record \<^verbatim>\<open>CreateFile\<close> hands to the store.\<close>

definition new_file :: "gotime \<Rightarrow> string \<Rightarrow> int \<Rightarrow> Metadata \<Rightarrow> Metadata" where
  "new_file now path sz md0 =
     (if md_BackendType md0 = ''localfs'' then md0\<lparr>md_CallFSInstanceID := Some (currentInstanceID e)\<rparr> else md0)
       \<lparr>md_Path := path, md_Size := sz, md_CreatedAt := now, md_UpdatedAt := now\<rparr>"

lemma CreateFile_locked_spec:
  assumes i: "inv (es_world s)" and eq: "CreateFile_locked e ctx now path reader sz md0 s = (r, s')"
  shows "(r = Inl ErrAlreadyExists \<and> s' = s \<and> view (es_world s) path \<noteq> None) \<or>
    (\<not> is_ok r \<and> r \<noteq> Inl ErrAlreadyExists \<and> view (es_world s) path = None \<and> builds (length path) s s') \<or>
    (view (es_world s) path = None \<and>
     (\<exists>s1 md w. builds (length path) s s1 \<and> has_parent (view (es_world s1)) path \<and> inv w \<and>
        stored_as (new_file now path sz md0) md \<and> view w = (view (es_world s1))(path \<mapsto> md) \<and>
        (if is_ok r then r = Inr md \<and> s' = drop_cached False path (s1\<lparr>es_world := w\<rparr>)
         else s' = s1\<lparr>es_world := w\<rparr> \<and> requireReplicaAck e \<and> replicationEnabled e)))"
proof (cases "view (es_world s) path = None")
  case False
  then show ?thesis using eq get_ok [OF i, of path] by (auto simp: CreateFile_locked_def)
next
  case True
  obtain u s1 where en: "ensureParentDirectories e ctx now path (md_BackendType md0) s = (u, s1)" by fastforce
  note g = ensureParentDirectories_spec [OF i en]
  have i1: "inv (es_world s1)" using g(1) by (rule builds_inv)
  define md1 where "md1 = (if md_BackendType md0 = ''localfs'' then md0\<lparr>md_CallFSInstanceID := Some (currentInstanceID e)\<rparr> else md0)"
  define b where "b = selectBackendByType e (md_BackendType md1)"
  define md where "md = md1\<lparr>md_Path := path, md_Size := sz, md_CreatedAt := now, md_UpdatedAt := now\<rparr>"
  obtain v w2 where c: "so_Create b ctx (relativePath path) reader sz (es_world s1) = (v, w2)" by fastforce
  have bk: "backend_keeps inv view b" unfolding b_def by (rule by_type_keeps)
  have w2: "inv w2" "view w2 = view (es_world s1)" using backend_keepsD(1) [OF bk i1 c] by auto
  obtain x w3 where m: "st_Create (metadataStore e) now md w2 = (x, w3)" by fastforce
  note cg = create_grows [OF w2(1) m]
  define w3' where "w3' = snd (so_Delete b ctx (relativePath path) w3)"
  have w3': "inv w3' \<and> view w3' = view w3"
    unfolding w3'_def using backend_keepsD(3) [OF bk cg(1)] by (metis prod.collapse)
  obtain y w4 where rp: "replicateFileToSecondaryBackend e ctx path sz (md_BackendType md) w3 = (y, w4)" by fastforce
  note w4 = replicate_spec [OF cg(1) rp]
  have "CreateFile_locked e ctx now path reader sz md0 s = (case u of
      Inl err \<Rightarrow> (Inl (Wrapf ''failed to ensure parent directories'' err), s1)
    | Inr _ \<Rightarrow> (case v of
        Inl err \<Rightarrow> (Inl (Wrapf ''failed to create file in backend'' err), s1\<lparr>es_world := w2\<rparr>)
      | Inr _ \<Rightarrow> (case x of
          Inl err \<Rightarrow> (Inl (Wrapf ''failed to store metadata'' err), s1\<lparr>es_world := w3'\<rparr>)
        | Inr md' \<Rightarrow> (case y of Inl err \<Rightarrow> (Inl err, s1\<lparr>es_world := w4\<rparr>) | Inr _ \<Rightarrow> (Inr md', drop_cached False path (s1\<lparr>es_world := w4\<rparr>))))))"
    unfolding CreateFile_locked_def Let_def md1_def [symmetric] b_def [symmetric] md_def [symmetric] w3'_def
    using True get_ok [OF i, of path] by (simp add: en c m rp split: sum.split)
  then have eq': "(r, s') = \<dots>" using eq by simp
  have same1: "same s1 (s1\<lparr>es_world := w2\<rparr>)" using w2 by (simp add: same_def)
  show ?thesis
  proof (cases "is_ok u \<and> is_ok v \<and> is_ok x")
    case False
    moreover have "x = Inl err \<Longrightarrow> same s1 (s1\<lparr>es_world := w3'\<rparr>)" for err
      using w3' w2 cg(4) by (simp add: same_def)
    ultimately show ?thesis
      using eq' True g(1) same_builds [OF same1] same_builds builds_trans [OF g(1)]
      by (cases u; cases v; cases x) auto
  next
    case ok: True
    then obtain md' where md': "x = Inr md'" by (auto simp: is_ok_iff)
    have st: "stored_as md md'" using create_law [OF w2(1) m] md' by simp
    have vw: "view w4 = (view (es_world s1))(path \<mapsto> md')"
      using w4 cg(3) [OF md'] w2(2) by (simp add: md_def)
    show ?thesis
      using eq' ok md' st vw w4 g(1) g(2) True
      by (intro disjI2 conjI exI [of _ s1] exI [of _ md'] exI [of _ w4])
         (auto simp: new_file_def md_def md1_def is_ok_iff split: sum.splits)
  qed
qed

text \<open>
  What \<^verbatim>\<open>CreateFile\<close> does to the metadata table \<open>v\<close> and the cache \<open>c\<close>: nothing (refused, or the path
  exists), parents only, or the new entry; the last also with an error when a required replica failed.
\<close>

definition file_created :: "gotime \<Rightarrow> string \<Rightarrow> int \<Rightarrow> Metadata \<Rightarrow> (string \<Rightarrow> Metadata option) \<Rightarrow> MetadataCache \<Rightarrow>
    Metadata result \<Rightarrow> (string \<Rightarrow> Metadata option) \<Rightarrow> MetadataCache \<Rightarrow> bool" where
  "file_created now path sz md0 v c r v' c' \<longleftrightarrow> v \<subseteq>\<^sub>m v' \<and> (closed v \<longrightarrow> closed v') \<and>
     (is_ok r \<longrightarrow> v path = None \<and> c' = InvalidatePrefix (filepath_Dir path) c \<and>
        has_parent v' path \<and> (\<exists>md. r = Inr md \<and> stored_as (new_file now path sz md0) md \<and> v' path = Some md)) \<and>
     (\<not> is_ok r \<longrightarrow> c' = c \<and> (v' path = v path \<or> requireReplicaAck e \<and> replicationEnabled e \<and> v path = None)) \<and>
     (v path \<noteq> None \<longrightarrow> \<not> is_ok r \<and> v' = v) \<and>
     (r = Inl ErrAlreadyExists \<longrightarrow> v path \<noteq> None \<or> requireReplicaAck e \<and> replicationEnabled e)"

lemma builds_created:
  assumes "builds (length path) s s1" "has_parent (view (es_world s1)) path" "view (es_world s) path = None"
    "view w = (view (es_world s1))(path \<mapsto> md)"
  shows "view (es_world s) \<subseteq>\<^sub>m view w" "closed (view (es_world s)) \<Longrightarrow> closed (view w)" "has_parent (view w) path"
proof -
  have none: "view (es_world s1) path = None" using assms(1,3) unfolding builds_def by (metis less_irrefl)
  have le: "view (es_world s1) \<subseteq>\<^sub>m view w" using none assms(4) by (auto simp: map_le_def)
  then show "view (es_world s) \<subseteq>\<^sub>m view w" using assms(1) unfolding builds_def grows_def by (meson map_le_trans)
  show "closed (view (es_world s)) \<Longrightarrow> closed (view w)"
    using assms(1,2,4) closed_insert by (auto simp: builds_def)
  show "has_parent (view w) path" using has_parent_mono [OF le assms(2)] .
qed

lemma builds_keeps_path:
  "builds (length path) s s1 \<Longrightarrow> view (es_world s) path = None \<Longrightarrow> view (es_world s1) path = None"
  unfolding builds_def by (metis less_irrefl)

lemma CreateFile_spec:
  assumes i: "inv (es_world s)" and eq: "CreateFile e ctx now path reader sz md0 s = (r, s')"
  shows "inv (es_world s') \<and>
    file_created now path sz md0 (view (es_world s)) (es_cache s) r (view (es_world s')) (es_cache s')"
proof -
  have body: "inv (es_world s2) \<and> file_created now path sz md0 (view (es_world s1)) (es_cache s1) r2 (view (es_world s2)) (es_cache s2)"
    if i1: "inv (es_world s1)" and b: "CreateFile_locked e ctx now path reader sz md0 s1 = (r2, s2)" for s1 r2 s2
    using CreateFile_locked_spec [OF i1 b]
  proof (elim disjE conjE exE)
    assume "r2 = Inl ErrAlreadyExists" "s2 = s1" "view (es_world s1) path \<noteq> None"
    then show ?thesis using i1 by (simp add: file_created_def)
  next
    assume "\<not> is_ok r2" "r2 \<noteq> Inl ErrAlreadyExists" "view (es_world s1) path = None" "builds (length path) s1 s2"
    then show ?thesis
      using builds_keeps_path [of path s1 s2] by (auto simp: file_created_def builds_def grows_def)
  next
    fix s3 md w
    assume *: "view (es_world s1) path = None" "builds (length path) s1 s3" "has_parent (view (es_world s3)) path"
      "inv w" "stored_as (new_file now path sz md0) md" "view w = (view (es_world s3))(path \<mapsto> md)"
      "if is_ok r2 then r2 = Inr md \<and> s2 = drop_cached False path (s3\<lparr>es_world := w\<rparr>)
         else s2 = s3\<lparr>es_world := w\<rparr> \<and> requireReplicaAck e \<and> replicationEnabled e"
    moreover have "es_cache s3 = es_cache s1" using *(2) by (simp add: builds_def grows_def)
    moreover note builds_created [OF *(2,3,1,6)]
    ultimately show ?thesis
      by (auto simp: file_created_def drop_cached_def split: if_splits)
  qed
  have "(\<exists>err. r = Inl err \<and> err \<noteq> ErrAlreadyExists \<and> same s s') \<or>
    (inv (es_world s') \<and> file_created now path sz md0 (view (es_world s)) (es_cache s) r (view (es_world s')) (es_cache s'))"
    by (rule with_lock_spec [OF i eq [unfolded CreateFile_def]]) (rule body)
  then show ?thesis by (auto simp: same_def file_created_def)
qed

lemma sound_created:
  assumes "sound s" "inv (es_world s')"
    "file_created now path sz md0 (view (es_world s)) (es_cache s) r (view (es_world s')) (es_cache s')"
  shows "sound s'"
proof -
  have "coherent (view (es_world s')) (es_cache s)"
    using assms(1,3) mdcache.coherent_grow by (auto simp: sound_coherent file_created_def)
  then show ?thesis
    using assms(2,3) mdcache.coherent_invalidate_prefix
    by (cases "is_ok r") (auto simp: sound_coherent file_created_def)
qed

definition owner_after :: "Metadata \<Rightarrow> string option" where
  "owner_after md = (if md_CallFSInstanceID md = None \<and> md_BackendType md = ''localfs''
     then Some (currentInstanceID e) else md_CallFSInstanceID md)"

definition file_updated :: "gotime \<Rightarrow> string \<Rightarrow> int \<Rightarrow> (string \<Rightarrow> Metadata option) \<Rightarrow> MetadataCache \<Rightarrow>
    unit result \<Rightarrow> (string \<Rightarrow> Metadata option) \<Rightarrow> MetadataCache \<Rightarrow> bool" where
  "file_updated now path sz v c r v' c' \<longleftrightarrow>
     (\<not> is_ok r \<and> v' = v \<and> (c' = c \<or> c' = Invalidate path c)) \<or>
     (\<exists>md md'. v path = Some md \<and> md_Type md = ''file'' \<and> v' = v(path \<mapsto> md') \<and>
        md_Type md' = ''file'' \<and> md_Size md' = sz \<and> md_MTime md' = now \<and> md_BackendType md' = md_BackendType md \<and>
        md_Mode md' = md_Mode md \<and> md_ErasureCoded md' = md_ErasureCoded md \<and>
        md_CallFSInstanceID md' = owner_after md \<and>
        (if is_ok r then c' = InvalidatePrefix (filepath_Dir path) (Invalidate path c)
         else c' = c \<and> requireReplicaAck e \<and> replicationEnabled e))"

lemma UpdateFile_locked_spec:
  assumes i: "inv (es_world s)" and eq: "UpdateFile_locked e ctx now path reader sz s = (r, s')"
  shows "inv (es_world s') \<and> file_updated now path sz (view (es_world s)) (es_cache s) r (view (es_world s')) (es_cache s')"
proof (cases "view (es_world s) path")
  case None
  then show ?thesis using eq i by (auto simp: UpdateFile_locked_def get_law file_updated_def)
next
  case (Some md0)
  obtain ctx' b where sel: "selectBackend e ctx md0 = (ctx', b)" by fastforce
  have bk: "backend_keeps inv view b" using sel by (rule selected_keeps)
  obtain u w2 where u: "so_Update b ctx' (relativePath path) reader sz (es_world s) = (u, w2)" by fastforce
  have w2: "inv w2" "view w2 = view (es_world s)" using backend_keepsD(2) [OF bk i u] by auto
  define md1 where "md1 = md0\<lparr>md_Size := sz, md_MTime := now, md_UpdatedAt := now\<rparr>"
  define md where "md = (if md_CallFSInstanceID md1 = None \<and> md_BackendType md1 = ''localfs''
                            then md1\<lparr>md_CallFSInstanceID := Some (currentInstanceID e)\<rparr> else md1)"
  have path: "md_Path md = path" using view_path [OF i Some] by (simp add: md_def md1_def)
  have fields: "md_Type md = md_Type md0" "md_Size md = sz" "md_MTime md = now" "md_BackendType md = md_BackendType md0"
    "md_Mode md = md_Mode md0" "md_ErasureCoded md = md_ErasureCoded md0" "md_CallFSInstanceID md = owner_after md0"
    by (auto simp: md_def md1_def owner_after_def)
  obtain x w3 where x: "st_Update (metadataStore e) now md w2 = (x, w3)" by fastforce
  have w3: "inv w3" "x = Inl err \<Longrightarrow> view w3 = view w2" "x = Inr md' \<Longrightarrow> stored_as md md' \<and> view w3 = (view w2)(path \<mapsto> md')"
    for err md' using update_law [OF w2(1) x] path by auto
  obtain y w4 where y: "replicateFileToSecondaryBackend e ctx' path sz (md_BackendType md) w3 = (y, w4)" by fastforce
  note w4 = replicate_spec [OF w3(1) y]
  have g: "st_Get (metadataStore e) path (es_world s) = Inr md0" using i Some by (simp add: get_law)
  have "UpdateFile_locked e ctx now path reader sz s =
     (if md_Type md0 \<noteq> ''file'' then (Inl (Errorf ''path is not a file''), s)
      else case u of
        Inl err \<Rightarrow> (Inl (Wrapf ''failed to update file in backend'' err), s\<lparr>es_world := w2\<rparr>)
      | Inr _ \<Rightarrow> (case x of
          Inl err \<Rightarrow> (Inl (Wrapf ''failed to update metadata'' err), s\<lparr>es_world := w3, es_cache := Invalidate path (es_cache s)\<rparr>)
        | Inr _ \<Rightarrow> (case y of
            Inl err \<Rightarrow> (Inl err, s\<lparr>es_world := w4\<rparr>)
          | Inr _ \<Rightarrow> (Inr (), drop_cached True path (s\<lparr>es_world := w4\<rparr>)))))"
    unfolding UpdateFile_locked_def g sum.case Let_def sel prod.case md1_def [symmetric] md_def [symmetric]
    by (simp add: u x y split: sum.split)
  then have eq': "(r, s') = \<dots>" using eq by simp
  show ?thesis
  proof (cases "md_Type md0 = ''file'' \<and> is_ok u \<and> is_ok x")
    case False
    then show ?thesis
      using eq' i w2 w3 by (cases u; cases x) (auto simp: file_updated_def split: if_splits)
  next
    case True
    then obtain md' where md': "x = Inr md'" by (auto simp: is_ok_iff)
    note st = w3(3) [OF md'] and sf = stored_as_fields [OF conjunct1 [OF w3(3) [OF md']]]
    have v4: "view w4 = (view (es_world s))(path \<mapsto> md')" using w4 st w2(2) by simp
    show ?thesis
      using eq' True md' w4 v4 sf fields Some
      by (cases y) (auto simp: file_updated_def drop_cached_def is_ok_iff intro!: exI [of _ md'])
  qed
qed

lemma UpdateFile_spec:
  assumes i: "inv (es_world s)" and eq: "UpdateFile e ctx now path reader sz s = (r, s')"
  shows "inv (es_world s') \<and> file_updated now path sz (view (es_world s)) (es_cache s) r (view (es_world s')) (es_cache s')"
proof -
  have "(\<exists>err. r = Inl err \<and> err \<noteq> ErrAlreadyExists \<and> same s s') \<or>
    (inv (es_world s') \<and> file_updated now path sz (view (es_world s)) (es_cache s) r (view (es_world s')) (es_cache s'))"
    by (rule with_lock_spec [OF i eq [unfolded UpdateFile_def]]) (rule UpdateFile_locked_spec)
  then show ?thesis by (auto simp: same_def file_updated_def)
qed

definition file_deleted :: "string \<Rightarrow> (string \<Rightarrow> Metadata option) \<Rightarrow> MetadataCache \<Rightarrow>
    unit result \<Rightarrow> (string \<Rightarrow> Metadata option) \<Rightarrow> MetadataCache \<Rightarrow> bool" where
  "file_deleted path v c r v' c' \<longleftrightarrow>
     (\<not> is_ok r \<and> v' = v \<and> c' = c) \<or>
     (\<exists>md. v path = Some md \<and> v' = v(path := None) \<and>
        (md_Type md = ''directory'' \<longrightarrow> (\<forall>q. v q \<noteq> None \<longrightarrow> q \<noteq> ''/'' \<longrightarrow> parent_path q \<noteq> path)) \<and>
        (if is_ok r then c' = InvalidatePrefix (filepath_Dir path) (Invalidate path c)
         else c' = c \<and> requireReplicaAck e \<and> replicationEnabled e))"

lemma no_children:
  assumes "inv w" "st_ListChildren (metadataStore e) path w = Inr []" "view w q \<noteq> None" "q \<noteq> ''/''"
  shows "parent_path q \<noteq> path"
proof
  assume p: "parent_path q = path"
  obtain m where m: "view w q = Some m" using assms(3) by auto
  then have "md_Path m = q" using view_path [OF assms(1)] by blast
  then have "m \<in> {md. view w (md_Path md) = Some md \<and> md_Path md \<noteq> ''/'' \<and> parent_path (md_Path md) = path}"
    using m p assms(4) by simp
  then have "m \<in> set []" using list_law [OF assms(1,2)] by blast
  then show False by simp
qed

lemma DeleteFile_locked_spec:
  assumes i: "inv (es_world s)" and eq: "DeleteFile_locked e ctx now path s = (r, s')"
  shows "inv (es_world s') \<and> file_deleted path (view (es_world s)) (es_cache s) r (view (es_world s')) (es_cache s')"
proof (cases "view (es_world s) path")
  case None
  then show ?thesis using eq i by (auto simp: DeleteFile_locked_def get_law file_deleted_def)
next
  case (Some md)
  have g: "st_Get (metadataStore e) path (es_world s) = Inr md" using i Some by (simp add: get_law)
  obtain cs where cs: "st_ListChildren (metadataStore e) path (es_world s) = Inr cs"
    using list_total [OF i] by (auto simp: is_ok_iff)
  show ?thesis
  proof (cases "md_Type md = ''directory'' \<and> cs \<noteq> []")
    case True
    then show ?thesis using eq i by (auto simp: DeleteFile_locked_def g cs file_deleted_def)
  next
    case False
    then have leaf: "md_Type md = ''directory'' \<longrightarrow> (\<forall>q. view (es_world s) q \<noteq> None \<longrightarrow> q \<noteq> ''/'' \<longrightarrow> parent_path q \<noteq> path)"
      using no_children [OF i] cs by blast
    have chk: "(if md_Type md = ''directory'' then
                   (case st_ListChildren (metadataStore e) path (es_world s) of
                      Inl err \<Rightarrow> Some (Wrapf ''failed to check directory contents'' err)
                    | Inr children \<Rightarrow> if 0 < length children then Some (Errorf ''directory not empty'') else None)
                 else None) = None"
      using False by (simp add: cs)
    have del: "inv w' \<and> v = Inr () \<and> view w' = (view w)(path := None)"
      if "inv w" "view w = view (es_world s)" "st_Delete (metadataStore e) path w = (v, w')" for w v w'
      using delete_law [OF that(1,3)] that(2) Some by simp
    show ?thesis
    proof (cases "if md_ErasureCoded md then erasureManager e else None")
      case em: (Some em)
      then have ee: "erasureManager e = Some em" by (simp split: if_splits)
      obtain u w2 where u: "em_DeleteFile em path (es_world s) = (u, w2)" by fastforce
      have w2: "inv w2" "view w2 = view (es_world s)" using keepsD [OF erasure_keeps [OF ee] i u] by auto
      obtain v w3 where v: "st_Delete (metadataStore e) path w2 = (v, w3)" by fastforce
      show ?thesis
        using eq del [OF w2 v] w2 leaf Some
        by (cases u) (auto simp: DeleteFile_locked_def g chk em u v file_deleted_def drop_cached_def)
    next
      case None
      obtain ctx' b where sel: "selectBackend e ctx md = (ctx', b)" by fastforce
      obtain v w2 where v: "st_Delete (metadataStore e) path (es_world s) = (v, w2)" by fastforce
      note w2 = del [OF i refl v]
      define w3 where "w3 = snd (so_Delete b ctx' (relativePath path) w2)"
      have w3: "inv w3" "view w3 = view w2"
        unfolding w3_def using backend_keepsD(3) [OF selected_keeps [OF sel] conjunct1 [OF w2]] by (metis prod.collapse)+
      obtain y w4 where y: "deleteReplicatedFile e ctx' path (md_BackendType md) w3 = (y, w4)" by fastforce
      note w4 = deleteReplicated_spec [OF w3(1) y]
      have "DeleteFile_locked e ctx now path s = (case y of
            Inl err \<Rightarrow> (Inl err, s\<lparr>es_world := w4\<rparr>) | Inr _ \<Rightarrow> (Inr (), drop_cached True path (s\<lparr>es_world := w4\<rparr>)))"
        using w2 by (simp add: DeleteFile_locked_def g chk None sel v Let_def w3_def [symmetric] y split: sum.split)
      then show ?thesis
        using eq w2 w3 w4 leaf Some by (cases y) (auto simp: file_deleted_def drop_cached_def)
    qed
  qed
qed

lemma DeleteFile_spec:
  assumes i: "inv (es_world s)" and eq: "DeleteFile e ctx now path s = (r, s')"
  shows "inv (es_world s') \<and> file_deleted path (view (es_world s)) (es_cache s) r (view (es_world s')) (es_cache s')"
proof -
  have "(\<exists>err. r = Inl err \<and> err \<noteq> ErrAlreadyExists \<and> same s s') \<or>
    (inv (es_world s') \<and> file_deleted path (view (es_world s)) (es_cache s) r (view (es_world s')) (es_cache s'))"
    by (rule with_lock_spec [OF i eq [unfolded DeleteFile_def]]) (rule DeleteFile_locked_spec)
  then show ?thesis by (auto simp: same_def file_deleted_def)
qed

subsection \<open>Runs\<close>

lemma GetFile_state:
  assumes "GetFile e ctx now path s = (r, s')"
  shows "s' = snd (GetMetadata e now path s)"
proof -
  obtain r1 s1 where g: "GetMetadata e now path s = (r1, s1)" by fastforce
  show ?thesis
  proof (cases r1)
    case (Inr md)
    obtain ctx' b where sel: "selectBackend e ctx md = (ctx', b)" by fastforce
    show ?thesis
      using assms unfolding GetFile_def g Inr prod.case sum.case sel
      by (simp add: g split: sum.splits option.splits if_splits)
  qed (use assms g in \<open>simp add: GetFile_def\<close>)
qed

lemma sound_updated:
  assumes "sound s" "inv (es_world s')" "\<not> (requireReplicaAck e \<and> replicationEnabled e)"
    "file_updated now path sz (view (es_world s)) (es_cache s) r (view (es_world s')) (es_cache s')"
  shows "sound s'"
proof -
  have "\<forall>q. q \<noteq> path \<longrightarrow> view (es_world s') q = view (es_world s) q"
    using assms(4) by (auto simp: file_updated_def)
  from sound_drop [OF assms(1,2) this] show ?thesis
    using assms by (auto simp: file_updated_def sound_def drop_cached_def split: if_splits)
qed

lemma sound_deleted:
  assumes "sound s" "inv (es_world s')" "\<not> (requireReplicaAck e \<and> replicationEnabled e)"
    "file_deleted path (view (es_world s)) (es_cache s) r (view (es_world s')) (es_cache s')"
  shows "sound s'"
proof -
  have "\<forall>q. q \<noteq> path \<longrightarrow> view (es_world s') q = view (es_world s) q"
    using assms(4) by (auto simp: file_deleted_def)
  from sound_drop(2) [OF assms(1,2) this] show ?thesis
    using assms by (auto simp: file_deleted_def sound_def drop_cached_def split: if_splits)
qed

lemma EnsureRoot_grows:
  assumes "inv (es_world s)"
  shows "grows s (snd (EnsureRootDirectory e now s))"
proof -
  have "inv (snd (st_Create (metadataStore e) now md (es_world s))) \<and>
      view (es_world s) \<subseteq>\<^sub>m view (snd (st_Create (metadataStore e) now md (es_world s)))" for md
    using create_grows(1,2) [OF assms] by (metis prod.collapse)
  then show ?thesis
    using assms by (auto simp: EnsureRootDirectory_def Let_def grows_def split: prod.splits sum.splits) (metis snd_conv)+
qed

lemma CreateErasureMetadata_spec:
  assumes i: "inv (es_world s)" and eq: "CreateErasureMetadata e ctx now path md s = (r, s')"
  shows "\<exists>s1. builds (length path) s s1 \<and> grows s1 (s1\<lparr>es_world := es_world s'\<rparr>) \<and>
    (s' = s1\<lparr>es_world := es_world s'\<rparr> \<or> s' = drop_cached False path (s1\<lparr>es_world := es_world s'\<rparr>))"
proof -
  obtain u s1 where en: "ensureParentDirectories e ctx now path ''localfs'' s = (u, s1)" by fastforce
  note g = ensureParentDirectories_spec(1) [OF i en]
  have i1: "inv (es_world s1)" using g by (rule builds_inv)
  define md' where "md' = md\<lparr>md_Path := path, md_CreatedAt := now, md_UpdatedAt := now\<rparr>"
  obtain v w where c: "st_Create (metadataStore e) now md' (es_world s1) = (v, w)" by fastforce
  have "grows s1 (s1\<lparr>es_world := w\<rparr>)" using create_grows(1,2) [OF i1 c] by (simp add: grows_def)
  then show ?thesis
    using eq g grows_refl [OF i1] unfolding CreateErasureMetadata_def Let_def md'_def [symmetric]
    by (intro exI [of _ s1]) (cases u; cases v; auto simp: en c drop_cached_def)
qed

lemma UpdateMetadataOnly_sound:
  assumes "sound s"
  shows "sound (snd (UpdateMetadataOnly e now md s))"
proof -
  have i: "inv (es_world s)" using assms by (simp add: sound_def)
  obtain r w where u: "st_Update (metadataStore e) now md (es_world s) = (r, w)" by fastforce
  note law = update_law [OF i u]
  show ?thesis
  proof (cases r)
    case (Inl err)
    then show ?thesis using assms law by (auto simp: UpdateMetadataOnly_def u sound_def)
  next
    case (Inr md')
    have "sound (s\<lparr>es_world := w, es_cache := Invalidate (md_Path md) (es_cache s)\<rparr>)"
      using law Inr by (intro sound_drop(1) [OF assms]) auto
    then show ?thesis by (simp add: UpdateMetadataOnly_def u Inr)
  qed
qed

lemma OnInstance_sound:
  assumes "sound s"
  shows "sound (snd (UpdateFileOnInstance e ctx i path rd sz s))" "sound (snd (DeleteFileOnInstance e i path s))"
proof -
  have iv: "inv (es_world s)" using assms by (simp add: sound_def)
  obtain u w where u: "so_Update (internalProxyBackend e) (WithInstanceID ctx i) (relativePath path) rd sz (es_world s) = (u, w)"
    by fastforce
  note k = backend_keepsD(2) [OF proxy_keeps iv u]
  have "sound (s\<lparr>es_world := w, es_cache := Invalidate path (es_cache s)\<rparr>)"
    using k by (intro sound_drop(1) [OF assms]) auto
  then show "sound (snd (UpdateFileOnInstance e ctx i path rd sz s))"
    using assms k by (cases u) (auto simp: UpdateFileOnInstance_def u sound_def)
  show "sound (snd (DeleteFileOnInstance e i path s))"
  proof (cases "internalProxyAdapter e")
    case (Some px)
    obtain v w' where v: "px_DeleteOnInstance px i (relativePath path) (es_world s) = (v, w')" by fastforce
    note k' = keepsD [OF adapter_keeps [OF Some] iv v]
    have "sound (s\<lparr>es_world := w', es_cache := Invalidate path (es_cache s)\<rparr>)"
      using k' by (intro sound_drop(1) [OF assms]) auto
    then show ?thesis
      using assms k' Some by (cases v) (auto simp: DeleteFileOnInstance_def v sound_def)
  qed (simp add: DeleteFileOnInstance_def assms)
qed

lemma sweep_sound:
  assumes "sound s"
  shows "sound (s\<lparr>es_cache := performCleanup now (es_cache s)\<rparr>)"
proof -
  have ok: "gomap_ok (mc_cache (es_cache s))" using assms by (simp add: sound_def cache_ok_def)
  have "cache_Get t q (performCleanup now (es_cache s)) = Some md \<Longrightarrow> cache_Get t q (es_cache s) = Some md" for t q md
    by (auto simp: cache_Get_def performCleanup_def map_of_filter [OF ok] split: option.splits if_splits)
  then show ?thesis using assms unfolding sound_def cache_agrees_def by simp blast
qed

lemma engine_step_sound:
  assumes "sound s" "\<not> (requireReplicaAck e \<and> replicationEnabled e)"
  shows "sound (engine_step e ev s)"
proof -
  have i: "inv (es_world s)" using assms(1) by (simp add: sound_def)
  show ?thesis
  proof (cases ev)
    case (EvGetFile ctx now path)
    then show ?thesis
      using GetFile_state [OF prod.collapse [symmetric]] GetMetadata_spec(2) [OF assms(1) prod.collapse [symmetric]] by simp
  next
    case (EvCreateFile ctx now path rd sz md)
    then show ?thesis
      using CreateFile_spec [OF i prod.collapse [symmetric]] sound_created [OF assms(1)] by simp blast
  next
    case (EvUpdateFile ctx now path rd sz)
    then show ?thesis
      using UpdateFile_spec [OF i prod.collapse [symmetric]] sound_updated [OF assms(1) _ assms(2)] by simp blast
  next
    case (EvDeleteFile ctx now path)
    then show ?thesis
      using DeleteFile_spec [OF i prod.collapse [symmetric]] sound_deleted [OF assms(1) _ assms(2)] by simp blast
  next
    case (EvCreateDirectory ctx now path md)
    then show ?thesis
      using CreateDirectory_spec [OF i prod.collapse [symmetric]] sound_grows [OF assms(1)] by (simp add: builds_def)
  next
    case (EvEnsureRoot now)
    then show ?thesis using sound_grows [OF assms(1) EnsureRoot_grows [OF i]] by simp
  next
    case (EvCreateErasureMetadata ctx now path md)
    obtain s1 where s1: "builds (length path) s s1" "grows s1 (s1\<lparr>es_world := es_world (engine_step e ev s)\<rparr>)"
      "engine_step e ev s = s1\<lparr>es_world := es_world (engine_step e ev s)\<rparr> \<or>
       engine_step e ev s = drop_cached False path (s1\<lparr>es_world := es_world (engine_step e ev s)\<rparr>)"
      using CreateErasureMetadata_spec [OF i prod.collapse [symmetric], of path ctx now md] EvCreateErasureMetadata by auto
    have "sound (s1\<lparr>es_world := es_world (engine_step e ev s)\<rparr>)"
      using sound_grows [OF sound_grows [OF assms(1)] s1(2)] s1(1) by (simp add: builds_def)
    then show ?thesis using s1(3) sound_drop_prefix by metis
  qed (use assms GetMetadata_spec(2) [OF assms(1) prod.collapse [symmetric]] UpdateMetadataOnly_sound OnInstance_sound sweep_sound in auto)
qed

lemma engine_run_sound:
  assumes "sound s" "\<not> (requireReplicaAck e \<and> replicationEnabled e)"
  shows "sound (fold (engine_step e) evs s)"
  using assms(1) by (induction evs arbitrary: s) (auto simp: engine_step_sound assms(2))

lemma NewEngine_sound: "inv w \<Longrightarrow> sound (NewEngine_state w)"
  by (simp add: sound_def NewEngine_state_def NewMetadataCache_def cache_ok_def cache_agrees_def cache_Get_def)

end

end
