(* ===== verification/EngineFrames.thy ===== *)
theory EngineFrames
  imports EngineLaws
begin

section \<open>What every engine operation inherits from its parts\<close>

text \<open>
  A relation between worlds that is reflexive and transitive, that every call of a backend and of
  the store stays in, and that survives taking a lock around an operation, holds across every
  operation of the engine. It is used for facts about the disk and about leases.
\<close>

definition stays :: "('w \<Rightarrow> 'w \<Rightarrow> bool) \<Rightarrow> ('w \<Rightarrow> 'u \<times> 'w) \<Rightarrow> bool" where
  "stays R f \<longleftrightarrow> (\<forall>w. R w (snd (f w)))"

definition backend_stays :: "('w \<Rightarrow> 'w \<Rightarrow> bool) \<Rightarrow> 'w storage_ops \<Rightarrow> bool" where
  "backend_stays R b \<longleftrightarrow> (\<forall>ctx p r n. stays R (so_Create b ctx p r n) \<and> stays R (so_Update b ctx p r n) \<and>
     stays R (so_Delete b ctx p) \<and> stays R (so_CreateDirectory b ctx p))"

lemma staysD: "stays R f \<Longrightarrow> f w = (u, w') \<Longrightarrow> R w w'"
  by (metis snd_conv stays_def)

lemma backend_staysD:
  assumes "backend_stays R b"
  shows "so_Create b ctx p r n w = (u, w') \<Longrightarrow> R w w'" "so_Update b ctx p r n w = (u, w') \<Longrightarrow> R w w'"
    "so_Delete b ctx p w = (u, w') \<Longrightarrow> R w w'" "so_CreateDirectory b ctx p w = (u, w') \<Longrightarrow> R w w'"
  using assms staysD [of R] unfolding backend_stays_def by metis+

lemma noop_stays: "(\<And>w. R w w) \<Longrightarrow> backend_stays R noop_ops"
  by (simp add: backend_stays_def stays_def noop_ops_def)

locale engine_rel =
  fixes e :: "'w Engine" and R :: "'w \<Rightarrow> 'w \<Rightarrow> bool"
  assumes R_refl: "R w w"
    and R_trans: "R w1 w2 \<Longrightarrow> R w2 w3 \<Longrightarrow> R w1 w3"
    and R_unit_lock: "(\<And>s1. R (es_world s1) (es_world (snd (body s1 :: unit result \<times> 'w estate)))) \<Longrightarrow>
      R (es_world s) (es_world (snd (with_lock e ctx now k what body s)))"
    and R_local: "backend_stays R (localFSBackend e)"
    and R_s3: "backend_stays R (s3Backend e)"
    and R_proxy: "backend_stays R (internalProxyBackend e)"
    and R_store: "stays R (st_Create (metadataStore e) now md)" "stays R (st_Update (metadataStore e) now md)"
      "stays R (st_Delete (metadataStore e) p)"
    and R_erasure: "erasureManager e = Some em \<Longrightarrow> stays R (em_DeleteFile em p)"
    and R_adapter: "internalProxyAdapter e = Some px \<Longrightarrow> stays R (px_DeleteOnInstance px i p)"
begin

abbreviation Rs :: "'w estate \<Rightarrow> 'w estate \<Rightarrow> bool" where
  "Rs s s' \<equiv> R (es_world s) (es_world s')"

lemma with_lock_unit:
  "snd (with_lock e ctx now k what (\<lambda>s1. map_prod (map_sum id (\<lambda>_. ())) id (body s1)) s) = snd (with_lock e ctx now k what body s)"
  by (simp add: with_lock_def case_prod_unfold split: sum.split)

lemma R_lock:
  assumes "\<And>s1. Rs s1 (snd (body s1))"
  shows "Rs s (snd (with_lock e ctx now k what body s))"
  using R_unit_lock [of "\<lambda>s1. map_prod (map_sum id (\<lambda>_. ())) id (body s1)"] assms by (simp add: with_lock_unit)

lemma by_type_R: "backend_stays R (selectBackendByType e bt)"
  using R_local R_s3 by (simp add: selectBackendByType_def)

lemma selected_R: "selectBackend e ctx md = (ctx', b) \<Longrightarrow> backend_stays R b"
  using R_local R_s3 R_proxy by (auto simp: selectBackend_def Let_def split: option.splits if_splits)

lemma store_directory_R: "Rs s (snd (store_directory e ctx now path md s))"
proof -
  define md1 where "md1 = (if md_BackendType md = ''localfs'' then md\<lparr>md_CallFSInstanceID := Some (currentInstanceID e)\<rparr> else md)"
  define b where "b = selectBackendByType e (md_BackendType md1)"
  define md2 where "md2 = md1\<lparr>md_Path := path, md_Type := ''directory'', md_Size := 0, md_CreatedAt := now, md_UpdatedAt := now\<rparr>"
  obtain u w1 where c: "so_CreateDirectory b ctx (relativePath path) (es_world s) = (u, w1)" by fastforce
  obtain v w2 where d: "st_Create (metadataStore e) now md2 w1 = (v, w2)" by fastforce
  obtain x w3 where f: "so_Delete b ctx (relativePath path) w2 = (x, w3)" by fastforce
  have b: "backend_stays R b" unfolding b_def by (rule by_type_R)
  have 1: "R (es_world s) w1" using b c by (rule backend_staysD)
  have 2: "R (es_world s) w2" using R_trans [OF 1 staysD [OF R_store(1) d]] .
  have 3: "R (es_world s) w3" using R_trans [OF 2 backend_staysD(3) [OF b f]] .
  show ?thesis
    unfolding store_directory_def Let_def md1_def [symmetric] b_def [symmetric] md2_def [symmetric] c
    using 1 2 3 by (cases u; cases v) (simp_all add: d f)
qed

lemma CreateDirectory_R:
  assumes "\<And>ctx now bt s. Rs s (snd (ensureParentDirectories e ctx now path bt s))"
  shows "Rs s (snd (CreateDirectory e ctx now path md s))"
proof -
  have "Rs s1 (snd (if is_ok (st_Get (metadataStore e) path (es_world s1)) then (Inl ErrAlreadyExists, s1)
       else (case ensureParentDirectories e ctx now path (md_BackendType md) s1 of
               (Inl err, s2) \<Rightarrow> (Inl (Wrapf ''failed to ensure parent directories'' err), s2)
             | (Inr _, s2) \<Rightarrow> store_directory e ctx now path md s2)))" for s1
  proof -
    obtain u s2 where en: "ensureParentDirectories e ctx now path (md_BackendType md) s1 = (u, s2)" by fastforce
    have "Rs s1 s2" using assms [where s = s1] en by (metis snd_conv)
    then show ?thesis
      using R_trans [OF _ store_directory_R] by (cases u) (simp_all add: en R_refl)
  qed
  then show ?thesis unfolding CreateDirectory.simps by (rule R_lock)
qed

lemma ensureParent_R: "Rs s (snd (ensureParentDirectories e ctx now path bt s))"
proof (induction "length path" arbitrary: path ctx now bt s rule: less_induct)
  case less
  let ?d = "filepath_Dir path"
  show ?case
  proof (cases "?d = ''/'' \<or> ?d = ''.'' \<or> is_ok (st_Get (metadataStore e) ?d (es_world s))")
    case True
    then show ?thesis unfolding ensureParentDirectories.simps [of e _ _ path] Let_def by (auto simp: R_refl)
  next
    case False
    then have ih: "Rs s (snd (ensureParentDirectories e ctx now ?d bt s))" for ctx now bt s
      using less Dir_shorter by blast
    obtain u s1 where en: "ensureParentDirectories e ctx now ?d bt s = (u, s1)" by fastforce
    define bt' where "bt' = (if bt = '''' then ''localfs'' else bt)"
    obtain v s2 where cd: "CreateDirectory e ctx now ?d (parent_Metadata ?d bt') s1 = (v, s2)" by fastforce
    have 1: "Rs s s1" using ih [where s = s] en by (metis snd_conv)
    have 2: "Rs s s2" using R_trans [OF 1] CreateDirectory_R [OF ih] cd by (metis snd_conv)
    show ?thesis
      unfolding ensureParentDirectories.simps [of e _ _ path] Let_def bt'_def [symmetric]
      using False 1 2 by (cases u; cases v) (simp_all add: en cd)
  qed
qed

lemma replicate_R: "R w (snd (replicateFileToSecondaryBackend e ctx path sz bt w))"
proof (cases "replica_target e bt")
  case (Some replica)
  define b where "b = selectBackendByType e replica"
  have b: "backend_stays R b" unfolding b_def by (rule by_type_R)
  have u: "R w (snd (so_Update b ctx (relativePath path) rd sz w))" for rd
    using backend_staysD(2) [OF b] by (metis prod.collapse)
  have c: "R w' (snd (so_Create b ctx (relativePath path) rd sz w'))" for rd w'
    using backend_staysD(1) [OF b] by (metis prod.collapse)
  show ?thesis
    unfolding replicateFileToSecondaryBackend_def Some option.case Let_def b_def [symmetric]
    using u R_trans [OF u c] by (auto simp: R_refl split: sum.splits prod.splits) (metis snd_conv)+
qed (simp add: replicateFileToSecondaryBackend_def R_refl)

lemma deleteReplicated_R: "R w (snd (deleteReplicatedFile e ctx path bt w))"
proof (cases "replica_target e bt")
  case (Some replica)
  obtain u w' where d: "so_Delete (selectBackendByType e replica) ctx (relativePath path) w = (u, w')" by fastforce
  then show ?thesis
    using backend_staysD(3) [OF by_type_R d] by (cases u) (simp_all add: deleteReplicatedFile_def Some d)
qed (simp add: deleteReplicatedFile_def R_refl)

lemma CreateFile_locked_R: "Rs s (snd (CreateFile_locked e ctx now path reader sz md0 s))"
proof -
  obtain u s1 where en: "ensureParentDirectories e ctx now path (md_BackendType md0) s = (u, s1)" by fastforce
  define md1 where "md1 = (if md_BackendType md0 = ''localfs'' then md0\<lparr>md_CallFSInstanceID := Some (currentInstanceID e)\<rparr> else md0)"
  define b where "b = selectBackendByType e (md_BackendType md1)"
  define md where "md = md1\<lparr>md_Path := path, md_Size := sz, md_CreatedAt := now, md_UpdatedAt := now\<rparr>"
  obtain v w2 where c: "so_Create b ctx (relativePath path) reader sz (es_world s1) = (v, w2)" by fastforce
  obtain x w3 where m: "st_Create (metadataStore e) now md w2 = (x, w3)" by fastforce
  obtain z w3' where f: "so_Delete b ctx (relativePath path) w3 = (z, w3')" by fastforce
  obtain y w4 where rp: "replicateFileToSecondaryBackend e ctx path sz (md_BackendType md) w3 = (y, w4)" by fastforce
  have b: "backend_stays R b" unfolding b_def by (rule by_type_R)
  have 1: "Rs s s1" using ensureParent_R [of s ctx now path "md_BackendType md0"] en by simp
  have 2: "R (es_world s) w2" using R_trans [OF 1 backend_staysD(1) [OF b c]] .
  have 3: "R (es_world s) w3" using R_trans [OF 2 staysD [OF R_store(1) m]] .
  have 4: "R (es_world s) w3'" using R_trans [OF 3 backend_staysD(3) [OF b f]] .
  have 5: "R (es_world s) w4" using R_trans [OF 3] replicate_R [of w3 ctx path sz "md_BackendType md"] rp by simp
  show ?thesis
    unfolding CreateFile_locked_def Let_def md1_def [symmetric] b_def [symmetric] md_def [symmetric]
    using 1 2 3 4 5 by (cases u; cases v; cases x; cases y) (simp_all add: en c m f rp R_refl drop_cached_def)
qed

lemma UpdateFile_locked_R: "Rs s (snd (UpdateFile_locked e ctx now path reader sz s))"
proof (cases "st_Get (metadataStore e) path (es_world s)")
  case (Inr md0)
  obtain ctx' b where sel: "selectBackend e ctx md0 = (ctx', b)" by fastforce
  have b: "backend_stays R b" using sel by (rule selected_R)
  obtain u w2 where u: "so_Update b ctx' (relativePath path) reader sz (es_world s) = (u, w2)" by fastforce
  have 2: "R (es_world s) w2" using backend_staysD(2) [OF b u] .
  have upd: "R (es_world s) (snd (st_Update (metadataStore e) now md w2))" for md
    using R_trans [OF 2] R_store(2) unfolding stays_def by blast
  have rep: "R (es_world s) (snd (replicateFileToSecondaryBackend e ctx' path sz bt (snd (st_Update (metadataStore e) now md w2))))" for md bt
    using R_trans [OF upd replicate_R] .
  show ?thesis
    unfolding UpdateFile_locked_def Inr sum.case sel prod.case u Let_def
    using R_refl 2 upd rep by (auto simp: drop_cached_def split: sum.splits prod.splits) (metis snd_conv)+
qed (simp add: UpdateFile_locked_def R_refl)

lemma DeleteFile_locked_R: "Rs s (snd (DeleteFile_locked e ctx now path s))"
proof (cases "st_Get (metadataStore e) path (es_world s)")
  case (Inr md)
  let ?chk = "if md_Type md = ''directory'' then
                   (case st_ListChildren (metadataStore e) path (es_world s) of
                      Inl err \<Rightarrow> Some (Wrapf ''failed to check directory contents'' err)
                    | Inr children \<Rightarrow> if 0 < length children then Some (Errorf ''directory not empty'') else None)
                 else None"
  show ?thesis
  proof (cases "?chk = None")
    case chk: True
    show ?thesis
    proof (cases "if md_ErasureCoded md then erasureManager e else None")
      case (Some em)
      then have ee: "erasureManager e = Some em" by (simp split: if_splits)
      obtain u w2 where u: "em_DeleteFile em path (es_world s) = (u, w2)" by fastforce
      obtain v w3 where v: "st_Delete (metadataStore e) path w2 = (v, w3)" by fastforce
      have 2: "R (es_world s) w2" using staysD [OF R_erasure [OF ee] u] .
      have 3: "R (es_world s) w3" using R_trans [OF 2 staysD [OF R_store(3) v]] .
      show ?thesis
        unfolding DeleteFile_locked_def Inr sum.case chk option.case Some
        using 2 3 by (cases u; cases v) (simp_all add: u v drop_cached_def)
    next
      case None
      obtain ctx' b where sel: "selectBackend e ctx md = (ctx', b)" by fastforce
      obtain v w2 where v: "st_Delete (metadataStore e) path (es_world s) = (v, w2)" by fastforce
      obtain x w3 where x: "so_Delete b ctx' (relativePath path) w2 = (x, w3)" by fastforce
      obtain y w4 where y: "deleteReplicatedFile e ctx' path (md_BackendType md) w3 = (y, w4)" by fastforce
      have 2: "R (es_world s) w2" using staysD [OF R_store(3) v] .
      have 3: "R (es_world s) w3" using R_trans [OF 2 backend_staysD(3) [OF selected_R [OF sel] x]] .
      have 4: "R (es_world s) w4" using R_trans [OF 3] deleteReplicated_R [of w3 ctx' path "md_BackendType md"] y by simp
      show ?thesis
        unfolding DeleteFile_locked_def Inr sum.case chk option.case None sel prod.case
        using 2 3 4 by (cases v; cases y) (simp_all add: v x y Let_def drop_cached_def)
    qed
  next
    case False
    then obtain err where chk: "?chk = Some err" by blast
    show ?thesis unfolding DeleteFile_locked_def Inr sum.case chk option.case by (simp add: R_refl)
  qed
qed (simp add: DeleteFile_locked_def R_refl)

lemma GetMetadata_world: "es_world (snd (GetMetadata e now path s)) = es_world s"
  by (simp add: GetMetadata_def split: option.splits sum.splits)

lemma GetFile_world: "es_world (snd (GetFile e ctx now path s)) = es_world s"
proof -
  obtain r s1 where g: "GetMetadata e now path s = (r, s1)" by fastforce
  have w: "es_world s1 = es_world s" using GetMetadata_world [of now path s] g by simp
  show ?thesis
  proof (cases r)
    case (Inr md)
    obtain ctx' b where sel: "selectBackend e ctx md = (ctx', b)" by fastforce
    show ?thesis unfolding GetFile_def g Inr prod.case sum.case sel by (simp add: w split: sum.splits option.splits)
  qed (simp add: GetFile_def g w)
qed

lemma EnsureRoot_R: "Rs s (snd (EnsureRootDirectory e now s))"
  using R_store(1) [unfolded stays_def]
  by (auto simp: EnsureRootDirectory_def R_refl Let_def split: sum.splits prod.splits) (metis snd_conv)+

lemma CreateErasureMetadata_R: "Rs s (snd (CreateErasureMetadata e ctx now path md s))"
proof -
  obtain u s1 where en: "ensureParentDirectories e ctx now path ''localfs'' s = (u, s1)" by fastforce
  have 1: "Rs s s1" using ensureParent_R [of s ctx now path "''localfs''"] en by simp
  have 2: "R (es_world s) (snd (st_Create (metadataStore e) now md' (es_world s1)))" for md'
    using R_trans [OF 1] R_store(1) unfolding stays_def by blast
  show ?thesis
    unfolding CreateErasureMetadata_def en prod.case Let_def
    using 1 2 by (auto simp: drop_cached_def split: sum.splits prod.splits) (metis snd_conv)+
qed

lemma UpdateMetadataOnly_R: "Rs s (snd (UpdateMetadataOnly e now md s))"
  using R_store(2) [unfolded stays_def]
  by (auto simp: UpdateMetadataOnly_def split: sum.splits prod.splits) (metis snd_conv)+

lemma OnInstance_R:
  "Rs s (snd (UpdateFileOnInstance e ctx i path rd sz s))" "Rs s (snd (DeleteFileOnInstance e i path s))"
proof -
  have "R w (snd (so_Update (internalProxyBackend e) (WithInstanceID ctx i) (relativePath path) rd sz w))" for w
    using backend_staysD(2) [OF R_proxy] by (metis prod.collapse)
  then show "Rs s (snd (UpdateFileOnInstance e ctx i path rd sz s))"
    by (auto simp: UpdateFileOnInstance_def split: sum.splits prod.splits) (metis snd_conv)+
  have "internalProxyAdapter e = Some px \<Longrightarrow> R w (snd (px_DeleteOnInstance px i (relativePath path) w))" for px w
    using R_adapter unfolding stays_def by blast
  then show "Rs s (snd (DeleteFileOnInstance e i path s))"
    by (auto simp: DeleteFileOnInstance_def R_refl split: sum.splits prod.splits option.splits) (metis snd_conv)+
qed

lemma engine_step_R: "Rs s (engine_step e ev s)"
proof (cases ev)
  case (EvCreateFile ctx now path rd sz md)
  then show ?thesis by (simp add: CreateFile_def R_lock CreateFile_locked_R)
next
  case (EvUpdateFile ctx now path rd sz)
  then show ?thesis by (simp add: UpdateFile_def R_lock UpdateFile_locked_R)
next
  case (EvDeleteFile ctx now path)
  then show ?thesis by (simp add: DeleteFile_def R_lock DeleteFile_locked_R)
next
  case (EvCreateDirectory ctx now path md)
  then show ?thesis using CreateDirectory_R [OF ensureParent_R] by simp
qed (use R_refl GetMetadata_world GetFile_world EnsureRoot_R CreateErasureMetadata_R UpdateMetadataOnly_R OnInstance_R in auto)

lemma engine_run_R: "Rs s (fold (engine_step e) evs s)"
  by (induction evs arbitrary: s) (auto intro: R_refl R_trans engine_step_R)

end

text \<open>Lock managers that leave no lease behind.\<close>

definition no_new_lease :: "('w \<Rightarrow> string \<Rightarrow> gotime option) \<Rightarrow> 'w \<Rightarrow> 'w \<Rightarrow> bool" where
  "no_new_lease held w w' \<longleftrightarrow> (\<forall>k t. held w' k = Some t \<longrightarrow> held w k = Some t)"

context lock_manager
begin

lemma with_lock_no_lease:
  assumes ops: "lockManager e = ops"
    and body: "\<And>s1. no_new_lease held (es_world s1) (es_world (snd (body s1)))"
  shows "no_new_lease held (es_world s) (es_world (snd (with_lock e ctx now k what body s)))"
proof -
  obtain a w1 where a: "lm_Acquire ops ctx now k (es_world s) = (a, w1)" by fastforce
  show ?thesis
  proof (cases "a = Inr True")
    case False
    then have "held w1 = held (es_world s)" using acquire_refuse [OF a] by simp
    then show ?thesis using False a by (cases a) (auto simp: with_lock_def ops no_new_lease_def)
  next
    case True
    obtain r2 s2 where b: "body (s\<lparr>es_world := w1\<rparr>) = (r2, s2)" by fastforce
    obtain u w3 where rel: "lm_Release ops now k (es_world s2) = (u, w3)" by fastforce
    have w1: "held w1 = (held (es_world s))(k \<mapsto> now + ttl)" using acquire_grant [of ctx now k "es_world s" w1] a True by simp
    have s2: "held (es_world s2) q = Some t \<Longrightarrow> held w1 q = Some t" for q t
      using body [of "s\<lparr>es_world := w1\<rparr>"] b by (simp add: no_new_lease_def)
    have "held w3 q = Some t \<Longrightarrow> held (es_world s) q = Some t" for q t
    proof (cases "q = k")
      case q: True
      assume "held w3 q = Some t"
      then have "held (es_world s2) k = Some t" "t < now"
        using release_lease [OF rel] q by (auto split: option.splits if_splits)
      then have "t = now + ttl" using s2 [of k t] w1 by simp
      with \<open>t < now\<close> ttl_pos show ?thesis by simp
    next
      case False
      assume "held w3 q = Some t"
      then show ?thesis using release_lease [OF rel] s2 [of q t] w1 False by auto
    qed
    then show ?thesis using a b rel True by (simp add: with_lock_def ops no_new_lease_def)
  qed
qed

end

section \<open>File content through the engine\<close>

text \<open>
  With a backend that keeps the contract \<open>file_backend\<close> (the local one or the bucket: \<open>bt\<close> is its type), and parts
  that leave each other's state alone: what \<^verbatim>\<open>CreateFile\<close> and \<^verbatim>\<open>UpdateFile\<close> stored is what \<^verbatim>\<open>GetFile\<close> reads.
\<close>

locale engine_files =
  engine_env e view inv + file_backend "selectBackendByType e bt" loc store binv +
  tree: engine_rel e "\<lambda>w w'. binv w \<longrightarrow> binv w'"
  for e :: "'w Engine" and view inv loc store binv and bt :: string +
  assumes bt_known: "bt \<in> {''localfs'', ''s3''}"
    and st_keeps: "keeps binv store (st_Create (metadataStore e) now md)" "keeps binv store (st_Update (metadataStore e) now md)"
      "keeps binv store (st_Delete (metadataStore e) p)"
    and lock_keeps: "keeps binv store (lm_Acquire (lockManager e) ctx now k)" "keeps binv store (lm_Release (lockManager e) now k)"
    and other_keeps: "bt' \<in> {''localfs'', ''s3''} \<Longrightarrow> bt' \<noteq> bt \<Longrightarrow> backend_keeps binv store (selectBackendByType e bt')"
begin

text \<open>An entry whose bytes are in this backend, as seen from this instance.\<close>

definition here :: "Metadata \<Rightarrow> bool" where
  "here md \<longleftrightarrow> md_BackendType md = bt \<and> md_CallFSInstanceID md \<in> {None, Some (currentInstanceID e)}"

lemma selectBackend_here: "here md \<Longrightarrow> selectBackend e ctx md = (ctx, selectBackendByType e bt)"
  using bt_known by (auto simp: here_def selectBackend_def selectBackendByType_def)

definition holds :: "string \<Rightarrow> bytes \<Rightarrow> 'w \<Rightarrow> bool" where
  "holds l b w \<longleftrightarrow> binv w \<and> store w l = Some b"

lemma holds_keeps: "keeps binv store f \<Longrightarrow> holds l b w \<Longrightarrow> f w = (u, w') \<Longrightarrow> holds l b w'"
  using keepsD [of binv store f w u w'] by (auto simp: holds_def)

text \<open>Writing the bytes that are there, or failing to, leaves them there.\<close>

lemma rewrite_holds:
  assumes "holds l b w" "loc p = Some l" "b' = selectBackendByType e t" "rd_data r = b"
  shows "so_Update b' ctx p r n w = (u, w') \<Longrightarrow> holds l b w'" "so_Create b' ctx p r n w = (u, w') \<Longrightarrow> holds l b w'"
proof -
  have h: "binv w" "store w l = Some b" using assms(1) by (auto simp: holds_def)
  have le: "write_lost l r (store w) (store w') \<Longrightarrow> store w' l = Some b" for w' using h(2) assms(4) by (auto simp: write_lost_def)
  have two: "b' = selectBackendByType e bt \<or> backend_keeps binv store b'"
  proof -
    have "b' = selectBackendByType e (if t = ''s3'' then ''s3'' else ''localfs'')" by (simp add: assms(3) selectBackendByType_def)
    then show ?thesis using other_keeps [of "if t = ''s3'' then ''s3'' else ''localfs''"] by (auto split: if_splits)
  qed
  have own: "so_Update (selectBackendByType e bt) ctx p r n w = (u, w') \<Longrightarrow> holds l b w'"
    "so_Create (selectBackendByType e bt) ctx p r n w = (u, w') \<Longrightarrow> holds l b w'"
    using update_law [OF h(1) assms(2), of ctx r n _ w'] update_fail [OF h(1) assms(2), of ctx r n _ w']
      create_law [OF h(1) assms(2), of ctx r n _ w'] create_fail [OF h(1) assms(2), of ctx r n _ w'] le [of w'] assms(4)
    by (cases u; simp add: holds_def)+
  have other: "so_Update b' ctx p r n w = (u, w') \<Longrightarrow> holds l b w'" "so_Create b' ctx p r n w = (u, w') \<Longrightarrow> holds l b w'"
    if "backend_keeps binv store b'"
    using backend_keepsD(1,2) [OF that h(1), of ctx p r n u w'] h(2) by (simp_all add: holds_def)
  from two own other show "so_Update b' ctx p r n w = (u, w') \<Longrightarrow> holds l b w'" "so_Create b' ctx p r n w = (u, w') \<Longrightarrow> holds l b w'"
    by blast+
qed

lemma replicate_holds:
  assumes "holds l b w" "loc (relativePath path) = Some l"
  shows "holds l b (snd (replicateFileToSecondaryBackend e ctx path sz bt w))"
proof (cases "replica_target e bt")
  case (Some replica)
  define c where "c = selectBackendByType e replica"
  have op: "so_Open (selectBackendByType e bt) ctx (relativePath path) w' = Inr (NewReader b)" if "holds l b w'" for w'
    using that open_law assms(2) by (simp add: holds_def)
  have rd: "rd_data (NewReader b) = b" by (simp add: NewReader_def)
  obtain u w1 where u: "so_Update c ctx (relativePath path) (NewReader b) sz w = (u, w1)" by fastforce
  have w1: "holds l b w1" using rewrite_holds(1) [OF assms c_def rd u] .
  obtain v w2 where v: "so_Create c ctx (relativePath path) (NewReader b) sz w1 = (v, w2)" by fastforce
  have w2: "holds l b w2" using rewrite_holds(2) [OF w1 assms(2) c_def rd v] .
  show ?thesis
    unfolding replicateFileToSecondaryBackend_def Some option.case Let_def c_def [symmetric] op [OF assms(1)] sum.case u
    using w1 w2 by (cases u; cases v) (simp_all add: op [OF w1] v)
qed (simp add: replicateFileToSecondaryBackend_def assms)

lemma CreateFile_locked_steps:
  assumes eq: "CreateFile_locked e ctx now path reader sz md0 s = (Inr x, s')" and bt: "md_BackendType md0 = bt"
  obtains u s1 v w2 md y w3 z where "ensureParentDirectories e ctx now path bt s = (u, s1)"
    "so_Create (selectBackendByType e bt) ctx (relativePath path) reader sz (es_world s1) = (Inr v, w2)"
    "st_Create (metadataStore e) now md w2 = (y, w3)"
    "replicateFileToSecondaryBackend e ctx path sz bt w3 = (Inr z, es_world s')"
proof -
  obtain u s1 where en: "ensureParentDirectories e ctx now path bt s = (u, s1)" by fastforce
  define md1 where "md1 = (if bt = ''localfs'' then md0\<lparr>md_CallFSInstanceID := Some (currentInstanceID e)\<rparr> else md0)"
  define md where "md = md1\<lparr>md_Path := path, md_Size := sz, md_CreatedAt := now, md_UpdatedAt := now\<rparr>"
  have b: "md_BackendType md1 = bt" "md_BackendType md = bt" by (simp_all add: md1_def md_def bt)
  obtain v w2 where c: "so_Create (selectBackendByType e bt) ctx (relativePath path) reader sz (es_world s1) = (v, w2)" by fastforce
  obtain y w3 where m: "st_Create (metadataStore e) now md w2 = (y, w3)" by fastforce
  obtain z w4 where rp: "replicateFileToSecondaryBackend e ctx path sz bt w3 = (z, w4)" by fastforce
  have "is_ok v" "is_ok z" "es_world s' = w4"
    using eq unfolding CreateFile_locked_def Let_def bt md1_def [symmetric] md_def [symmetric] b
    by (auto simp: en c m rp drop_cached_def split: if_splits sum.splits)
  then show ?thesis using that [OF en] c m rp by (auto simp: is_ok_iff)
qed

lemma CreateFile_locked_holds:
  assumes "binv (es_world s)" "md_BackendType md0 = bt" "loc (relativePath path) = Some l"
    "CreateFile_locked e ctx now path reader sz md0 s = (Inr x, s')"
  shows "rd_err reader = None \<and> holds l (rd_data reader) (es_world s')"
proof -
  obtain u s1 v w2 md y w3 z where st: "ensureParentDirectories e ctx now path bt s = (u, s1)"
    "so_Create (selectBackendByType e bt) ctx (relativePath path) reader sz (es_world s1) = (Inr v, w2)"
    "st_Create (metadataStore e) now md w2 = (y, w3)"
    "replicateFileToSecondaryBackend e ctx path sz bt w3 = (Inr z, es_world s')"
    using CreateFile_locked_steps [OF assms(4,2)] by blast
  have b1: "binv (es_world s1)" using tree.ensureParent_R [of s ctx now path bt] st(1) assms(1) by simp
  have w2: "rd_err reader = None" "holds l (rd_data reader) w2"
    using create_law [OF b1 assms(3) st(2)] by (simp_all add: holds_def)
  have "holds l (rd_data reader) w3" using holds_keeps [OF st_keeps(1) w2(2) st(3)] .
  then show ?thesis using replicate_holds [OF _ assms(3)] st(4) w2(1) by (metis snd_conv)
qed

lemma with_lock_holds:
  assumes i: "binv (es_world s)" and eq: "with_lock e ctx now k what body s = (Inr x, s')"
    and body: "\<And>s1 s2. binv (es_world s1) \<Longrightarrow> body s1 = (Inr x, s2) \<Longrightarrow> P \<and> holds l b (es_world s2)"
  shows "P \<and> holds l b (es_world s')"
proof -
  obtain a w1 where a: "lm_Acquire (lockManager e) ctx now k (es_world s) = (a, w1)" by fastforce
  obtain r2 s2 where b: "body (s\<lparr>es_world := w1\<rparr>) = (r2, s2)" by fastforce
  obtain u w3 where rel: "lm_Release (lockManager e) now k (es_world s2) = (u, w3)" by fastforce
  have a': "a = Inr True" "r2 = Inr x" "es_world s' = w3"
    using eq a b rel by (auto simp: with_lock_def split: sum.splits if_splits)
  have "binv w1" using keepsD [OF lock_keeps(1) i a] by simp
  then have "P \<and> holds l b (es_world s2)" using body [of "s\<lparr>es_world := w1\<rparr>" s2] b a'(2) by simp
  then show ?thesis using holds_keeps [OF lock_keeps(2) _ rel] a'(3) by blast
qed

lemma CreateFile_holds:
  assumes "binv (es_world s)" "md_BackendType md0 = bt" "loc (relativePath path) = Some l"
    "CreateFile e ctx now path reader sz md0 s = (Inr x, s')"
  shows "rd_err reader = None \<and> holds l (rd_data reader) (es_world s')"
  using assms(1,4) unfolding CreateFile_def
  by (rule with_lock_holds) (rule CreateFile_locked_holds [OF _ assms(2,3)])

text \<open>The same for an update of a plain file of this instance.\<close>

lemma UpdateFile_locked_holds:
  assumes b: "binv (es_world s)" and p: "loc (relativePath path) = Some l"
    and md: "st_Get (metadataStore e) path (es_world s) = Inr md" "here md"
    and upd: "UpdateFile_locked e ctx now path reader sz s = (Inr x, s')"
  shows "rd_err reader = None \<and> holds l (rd_data reader) (es_world s')"
proof -
  note sel = selectBackend_here [OF md(2), of ctx]
  obtain u w2 where u: "so_Update (selectBackendByType e bt) ctx (relativePath path) reader sz (es_world s) = (u, w2)" by fastforce
  define md1 where "md1 = md\<lparr>md_Size := sz, md_MTime := now, md_UpdatedAt := now\<rparr>"
  define md2 where "md2 = (if md_CallFSInstanceID md1 = None \<and> md_BackendType md1 = ''localfs''
      then md1\<lparr>md_CallFSInstanceID := Some (currentInstanceID e)\<rparr> else md1)"
  have bt2: "md_BackendType md2 = bt" using md(2) by (simp add: md2_def md1_def here_def)
  obtain y w3 where m: "st_Update (metadataStore e) now md2 w2 = (y, w3)" by fastforce
  obtain z w4 where rp: "replicateFileToSecondaryBackend e ctx path sz bt w3 = (z, w4)" by fastforce
  have all: "is_ok u" "is_ok y" "is_ok z" "es_world s' = w4"
    using upd unfolding UpdateFile_locked_def Let_def md(1) sum.case sel prod.case md1_def [symmetric] md2_def [symmetric]
    by (auto simp: u m rp bt2 drop_cached_def split: sum.splits if_splits)
  obtain x2 where v: "u = Inr x2" using all(1) by (auto simp: is_ok_iff)
  have w2: "rd_err reader = None" "holds l (rd_data reader) w2"
    using update_law [OF b p u [unfolded v]] by (simp_all add: holds_def)
  have "holds l (rd_data reader) w3" using holds_keeps [OF st_keeps(2) w2(2) m] .
  then show ?thesis using replicate_holds [OF _ p] rp w2(1) all(4) by (metis snd_conv)
qed

lemma UpdateFile_holds:
  assumes i: "inv (es_world s)" and b: "binv (es_world s)" and p: "loc (relativePath path) = Some l"
    and md: "view (es_world s) path = Some md" "here md"
    and upd: "UpdateFile e ctx now path reader sz s = (Inr x, s')"
  shows "rd_err reader = None \<and> holds l (rd_data reader) (es_world s')"
proof -
  obtain a w1 where a: "lm_Acquire (lockManager e) ctx now (''file:'' @ path) (es_world s) = (a, w1)" by fastforce
  obtain r2 s2 where r2: "UpdateFile_locked e ctx now path reader sz (s\<lparr>es_world := w1\<rparr>) = (r2, s2)" by fastforce
  obtain u w3 where rel: "lm_Release (lockManager e) now (''file:'' @ path) (es_world s2) = (u, w3)" by fastforce
  have ok: "a = Inr True" "r2 = Inr x" "es_world s' = w3"
    using upd a r2 rel by (auto simp: UpdateFile_def with_lock_def split: sum.splits if_splits)
  have w1: "binv w1" using keepsD [OF lock_keeps(1) b a] by simp
  have "inv w1 \<and> view w1 = view (es_world s)" using keepsD [OF acquire_keeps i a] by simp
  then have "st_Get (metadataStore e) path w1 = Inr md" using md(1) by (simp add: get_law)
  then have "rd_err reader = None \<and> holds l (rd_data reader) (es_world s2)"
    using UpdateFile_locked_holds [of "s\<lparr>es_world := w1\<rparr>" path l md ctx now reader sz x s2] w1 p md(2) r2 ok(2) by simp
  then show ?thesis using holds_keeps [OF lock_keeps(2) _ rel] ok(3) by blast
qed

text \<open>A file entry of this instance reads its bytes from the backend.\<close>

lemma GetFile_reads:
  assumes s: "sound s" and h: "holds l b (es_world s)" and p: "loc (relativePath path) = Some l"
    and v: "view (es_world s) path = Some md" "md_Type md = ''file''" "\<not> md_ErasureCoded md" "here md"
  shows "fst (GetFile e ctx now path s) = Inr (NewReader b)"
proof -
  obtain r s1 where g: "GetMetadata e now path s = (r, s1)" by fastforce
  have r: "r = Inr md" "es_world s1 = es_world s" using GetMetadata_spec [OF s g] v(1) by auto
  show ?thesis
    using selectBackend_here [OF v(4), of ctx] h open_law [OF _ p] v by (simp add: GetFile_def g r holds_def)
qed

lemma create_then_get:
  assumes s: "sound s" "binv (es_world s)" and p: "loc (relativePath path) = Some l"
    and md: "here md0" "md_Type md0 = ''file''" "\<not> md_ErasureCoded md0"
    and c: "CreateFile e ctx now path reader sz md0 s = (Inr x, s')"
  shows "fst (GetFile e ctx' now' path s') = Inr (NewReader (rd_data reader)) \<and> rd_err reader = None"
proof -
  have i: "inv (es_world s)" using s(1) by (simp add: sound_def)
  note cs = CreateFile_spec [OF i c]
  have s': "sound s'" using sound_created [OF s(1)] cs by blast
  obtain md where v: "view (es_world s') path = Some md" "stored_as (new_file now path sz md0) md"
    using cs by (auto simp: file_created_def)
  note f = stored_as_fields [OF v(2)]
  have "md_BackendType md0 = bt" using md(1) by (simp add: here_def)
  note h = CreateFile_holds [OF s(2) this p c]
  show ?thesis
    using GetFile_reads [OF s' conjunct2 [OF h] p v(1)] f md h by (auto simp: new_file_def here_def)
qed

end

subsection \<open>Two copies\<close>

text \<open>
  An engine with both backends: with a replica required, a file that was created is in both.
\<close>

locale engine_replicas =
  prim: engine_files e view inv loc store binv bt + repl: engine_files e view inv loc' store' binv' bt'
  for e :: "'w Engine" and view inv loc store binv bt loc' store' binv' bt'
begin

lemma replicate_stored:
  assumes tgt: "replica_target e bt = Some bt'" "requireReplicaAck e"
    and l: "prim.holds l b w" "loc (relativePath path) = Some l" "loc' (relativePath path) = Some l'" "binv' w"
    and rep: "replicateFileToSecondaryBackend e ctx path sz bt w = (Inr u, w')"
  shows "repl.holds l' b w'"
proof -
  have op: "so_Open (selectBackendByType e bt) ctx (relativePath path) w'' = Inr (NewReader b)" if "prim.holds l b w''" for w''
    using that prim.open_law l(2) by (simp add: prim.holds_def)
  have rd: "rd_data (NewReader b) = b" by (simp add: NewReader_def)
  obtain v w1 where up: "so_Update (selectBackendByType e bt') ctx (relativePath path) (NewReader b) sz w = (v, w1)" by fastforce
  obtain c w2 where cr: "so_Create (selectBackendByType e bt') ctx (relativePath path) (NewReader b) sz w1 = (c, w2)" by fastforce
  have w1: "prim.holds l b w1" using prim.rewrite_holds(1) [OF l(1,2) refl rd up] .
  note eq = rep [unfolded replicateFileToSecondaryBackend_def tgt(1) option.case Let_def op [OF l(1)] sum.case up]
  show ?thesis
  proof (cases v)
    case (Inr x)
    then show ?thesis using eq repl.update_law [OF l(4,3) up [unfolded Inr]] by (simp add: repl.holds_def rd)
  next
    case (Inl err)
    have b1: "binv' w1" using repl.update_fail [OF l(4,3) up [unfolded Inl]] by simp
    obtain x where x: "c = Inr x" "w' = w2"
      using eq Inl tgt(2) by (cases c) (auto simp: op [OF w1] cr ack_def)
    then show ?thesis using repl.create_law [OF b1 l(3) cr [unfolded x(1)]] by (simp add: repl.holds_def rd)
  qed
qed

lemma CreateFile_stored_twice:
  assumes tgt: "replica_target e bt = Some bt'" "requireReplicaAck e"
    and s: "binv (es_world s)" "binv' (es_world s)"
    and l: "loc (relativePath path) = Some l" "loc' (relativePath path) = Some l'" and md: "md_BackendType md0 = bt"
    and c: "CreateFile e ctx now path reader sz md0 s = (Inr x, s')"
  shows "prim.holds l (rd_data reader) (es_world s') \<and> repl.holds l' (rd_data reader) (es_world s')"
proof
  show "prim.holds l (rd_data reader) (es_world s')" using prim.CreateFile_holds [OF s(1) md l(1) c] by simp
  obtain a w1 where a: "lm_Acquire (lockManager e) ctx now (''file:'' @ path) (es_world s) = (a, w1)" by fastforce
  obtain r2 s2 where b: "CreateFile_locked e ctx now path reader sz md0 (s\<lparr>es_world := w1\<rparr>) = (r2, s2)" by fastforce
  obtain u w3 where rel: "lm_Release (lockManager e) now (''file:'' @ path) (es_world s2) = (u, w3)" by fastforce
  have ok: "a = Inr True" "r2 = Inr x" "es_world s' = w3"
    using c a b rel by (auto simp: CreateFile_def with_lock_def split: sum.splits if_splits)
  have b1: "binv w1" "binv' w1" using keepsD [OF prim.lock_keeps(1) s(1) a] keepsD [OF repl.lock_keeps(1) s(2) a] by simp_all
  obtain p s1 v w4 md y w5 z where st: "ensureParentDirectories e ctx now path bt (s\<lparr>es_world := w1\<rparr>) = (p, s1)"
    "so_Create (selectBackendByType e bt) ctx (relativePath path) reader sz (es_world s1) = (Inr v, w4)"
    "st_Create (metadataStore e) now md w4 = (y, w5)"
    "replicateFileToSecondaryBackend e ctx path sz bt w5 = (Inr z, es_world s2)"
    using prim.CreateFile_locked_steps [OF b [unfolded ok(2)] md] by blast
  have b2: "binv (es_world s1)" "binv' (es_world s1)"
    using prim.tree.ensureParent_R [of "s\<lparr>es_world := w1\<rparr>" ctx now path bt]
      repl.tree.ensureParent_R [of "s\<lparr>es_world := w1\<rparr>" ctx now path bt] st(1) b1 by simp_all
  have "prim.holds l (rd_data reader) w4" using prim.create_law [OF b2(1) l(1) st(2)] by (simp add: prim.holds_def)
  then have p5: "prim.holds l (rd_data reader) w5" using prim.holds_keeps [OF prim.st_keeps(1) _ st(3)] by blast
  have "binv' w4" using backend_staysD(1) [OF repl.tree.by_type_R st(2)] b2(2) by simp
  then have "binv' w5" using staysD [OF repl.tree.R_store(1) st(3)] by simp
  from replicate_stored [OF tgt p5 l this st(4)] show "repl.holds l' (rd_data reader) (es_world s')"
    unfolding ok(3) by (rule repl.holds_keeps [OF repl.lock_keeps(2) _ rel])
qed

end

end
