(* ===== verification/RaftStore.thy ===== *)
theory RaftStore
  imports StoreSpec
begin

section \<open>The Raft metadata store (metadata/raft)\<close>

text \<open>
  The replicated state machine (\<^verbatim>\<open>fsm.Apply\<close>, snapshot and restore), the store operations
  on top of it, and the path of a command from a follower to the leader: \<^verbatim>\<open>applyCommand\<close>,
  \<^verbatim>\<open>forwardToLeader\<close> and the leader's HTTP endpoint in \<^verbatim>\<open>cmd/main.go\<close>. The Raft library
  and the HTTP client are not part of the program: they are the fields of \<open>raft_env\<close>. JSON
  encoding of commands is the identity on values; a log entry that does not decode is \<open>Inl\<close>.
\<close>

subsection \<open>Types\<close>

record Command =
  cm_Op :: string
  cm_Path :: string
  cm_Metadata :: "Metadata option"
  cm_Token :: string
  cm_Link :: "SingleUseLink option"
  cm_Status :: string
  cm_UsedAt :: "gotime option"
  cm_UsedByIP :: "string option"
  cm_Before :: "gotime option"
  cm_OlderThan :: "gotime option"
  cm_ErasureInfo :: "ErasureFileInfo option"

definition zero_Command :: Command where
  "zero_Command = \<lparr>cm_Op = '''', cm_Path = '''', cm_Metadata = None, cm_Token = '''', cm_Link = None,
     cm_Status = '''', cm_UsedAt = None, cm_UsedByIP = None, cm_Before = None, cm_OlderThan = None,
     cm_ErasureInfo = None\<rparr>"

record CommandResult =
  cr_CleanupCount :: nat
  cr_Err :: string

definition zero_CommandResult :: CommandResult where
  "zero_CommandResult = \<lparr>cr_CleanupCount = 0, cr_Err = ''''\<rparr>"

record raft_state =
  MetadataByPath :: "(string, Metadata) gomap"
  LinksByToken :: "(string, SingleUseLink) gomap"
  ErasureByPath :: "(string, ErasureFileInfo) gomap"

definition empty_raft_state :: raft_state where
  "empty_raft_state = \<lparr>MetadataByPath = [], LinksByToken = [], ErasureByPath = []\<rparr>"

subsection \<open>The state machine\<close>

abbreviation res_err :: "string \<Rightarrow> CommandResult" where
  "res_err e \<equiv> \<lparr>cr_CleanupCount = 0, cr_Err = e\<rparr>"

abbreviation res_ok :: CommandResult where
  "res_ok \<equiv> \<lparr>cr_CleanupCount = 0, cr_Err = ''''\<rparr>"

definition expired_link :: "gotime \<Rightarrow> SingleUseLink \<Rightarrow> bool" where
  "expired_link before link = (lk_Status link = ''active'' \<and> Before (lk_ExpiresAt link) before)"

definition stale_used_link :: "gotime \<Rightarrow> SingleUseLink \<Rightarrow> bool" where
  "stale_used_link olderThan link =
     (lk_Status link = ''used'' \<and>
      (case lk_UsedAt link of None \<Rightarrow> False | Some t \<Rightarrow> Before t olderThan))"

definition fsm_Apply :: "gotime \<Rightarrow> string + Command \<Rightarrow> raft_state \<Rightarrow> CommandResult \<times> raft_state" where
  "fsm_Apply now data s =
     (case data of
        Inl err \<Rightarrow> (res_err (''invalid_command:'' @ err), s)
      | Inr cmd \<Rightarrow>
          if cm_Op cmd = ''create_metadata'' then
            (case cm_Metadata cmd of
               None \<Rightarrow> (res_err ''metadata_required'', s)
             | Some md \<Rightarrow>
                 if map_of (MetadataByPath s) (md_Path md) \<noteq> None then (res_err ''already_exists'', s)
                 else (res_ok, s\<lparr>MetadataByPath := AList.update (md_Path md) md (MetadataByPath s)\<rparr>))
          else if cm_Op cmd = ''update_metadata'' then
            (case cm_Metadata cmd of
               None \<Rightarrow> (res_err ''metadata_required'', s)
             | Some md \<Rightarrow>
                 if map_of (MetadataByPath s) (md_Path md) = None then (res_err ''not_found'', s)
                 else (res_ok, s\<lparr>MetadataByPath := AList.update (md_Path md) md (MetadataByPath s)\<rparr>))
          else if cm_Op cmd = ''delete_metadata'' then
            (if map_of (MetadataByPath s) (cm_Path cmd) = None then (res_err ''not_found'', s)
             else (res_ok, s\<lparr>MetadataByPath := AList.delete (cm_Path cmd) (MetadataByPath s)\<rparr>))
          else if cm_Op cmd = ''create_link'' then
            (case cm_Link cmd of
               None \<Rightarrow> (res_err ''link_required'', s)
             | Some link \<Rightarrow>
                 if map_of (LinksByToken s) (lk_Token link) \<noteq> None then (res_err ''already_exists'', s)
                 else (res_ok, s\<lparr>LinksByToken := AList.update (lk_Token link) link (LinksByToken s)\<rparr>))
          else if cm_Op cmd = ''update_link'' then
            (case map_of (LinksByToken s) (cm_Token cmd) of
               None \<Rightarrow> (res_err ''not_found'', s)
             | Some link \<Rightarrow>
                 if lk_Status link \<noteq> ''active'' then (res_err ''not_found'', s)
                 else (res_ok,
                   s\<lparr>LinksByToken := AList.update (cm_Token cmd)
                       (link\<lparr>lk_Status := cm_Status cmd, lk_UsedAt := cm_UsedAt cmd,
                             lk_UsedByIP := cm_UsedByIP cmd, lk_UpdatedAt := now\<rparr>) (LinksByToken s)\<rparr>))
          else if cm_Op cmd = ''cleanup_expired_links'' then
            (case cm_Before cmd of
               None \<Rightarrow> (res_err ''before_required'', s)
             | Some before \<Rightarrow>
                 (\<lparr>cr_CleanupCount = length (filter (\<lambda>(_, l). expired_link before l) (LinksByToken s)), cr_Err = ''''\<rparr>,
                  s\<lparr>LinksByToken := filter (\<lambda>(_, l). \<not> expired_link before l) (LinksByToken s)\<rparr>))
          else if cm_Op cmd = ''cleanup_used_links'' then
            (case cm_OlderThan cmd of
               None \<Rightarrow> (res_err ''older_than_required'', s)
             | Some olderThan \<Rightarrow>
                 (\<lparr>cr_CleanupCount = length (filter (\<lambda>(_, l). stale_used_link olderThan l) (LinksByToken s)), cr_Err = ''''\<rparr>,
                  s\<lparr>LinksByToken := filter (\<lambda>(_, l). \<not> stale_used_link olderThan l) (LinksByToken s)\<rparr>))
          else if cm_Op cmd = ''create_erasure_info'' then
            (case cm_ErasureInfo cmd of
               None \<Rightarrow> (res_err ''erasure_info_required'', s)
             | Some info \<Rightarrow>
                 if map_of (ErasureByPath s) (cm_Path cmd) \<noteq> None then (res_err ''already_exists'', s)
                 else (res_ok, s\<lparr>ErasureByPath := AList.update (cm_Path cmd) info (ErasureByPath s)\<rparr>))
          else if cm_Op cmd = ''delete_erasure_info'' then
            (res_ok, s\<lparr>ErasureByPath := AList.delete (cm_Path cmd) (ErasureByPath s)\<rparr>)
          else (res_err ''unknown_operation'', s))"

text \<open>
  A snapshot as JSON: a map that is \<^verbatim>\<open>null\<close> or missing decodes to \<^verbatim>\<open>nil\<close>.
\<close>

record snapshot_json =
  sj_MetadataByPath :: "(string, Metadata) gomap option"
  sj_LinksByToken :: "(string, SingleUseLink) gomap option"
  sj_ErasureByPath :: "(string, ErasureFileInfo) gomap option"

definition fsm_Snapshot :: "raft_state \<Rightarrow> raft_state" where
  "fsm_Snapshot s = s"

definition snapshot_Persist :: "raft_state \<Rightarrow> snapshot_json" where
  "snapshot_Persist s = \<lparr>sj_MetadataByPath = Some (MetadataByPath s),
     sj_LinksByToken = Some (LinksByToken s), sj_ErasureByPath = Some (ErasureByPath s)\<rparr>"

definition nil_to_empty :: "('k, 'v) gomap option \<Rightarrow> ('k, 'v) gomap" where
  "nil_to_empty m = (case m of None \<Rightarrow> [] | Some x \<Rightarrow> x)"

definition fsm_Restore :: "string + snapshot_json \<Rightarrow> raft_state \<Rightarrow> unit result \<times> raft_state" where
  "fsm_Restore data s =
     (case data of
        Inl err \<Rightarrow> (Inl (Wrapf ''failed to decode raft snapshot'' (Errorf err)), s)
      | Inr j \<Rightarrow>
          (Inr (), \<lparr>MetadataByPath = nil_to_empty (sj_MetadataByPath j),
                    LinksByToken = nil_to_empty (sj_LinksByToken j),
                    ErasureByPath = nil_to_empty (sj_ErasureByPath j)\<rparr>))"

subsection \<open>Commands to the leader\<close>

text \<open>What \<^verbatim>\<open>f.Response()\<close> of a Raft future can be, and a reply of the peer's endpoint.\<close>

datatype raft_response = RespNil | RespResult CommandResult | RespOther string

record ForwardApplyResponse =
  fr_CleanupCount :: nat
  fr_Error :: string

record apply_reply =
  ar_Status :: int
  ar_Body :: "string + ForwardApplyResponse"

text \<open>
  The Raft library and the HTTP client as a node sees them; \<open>re_Payload\<close> is the text of a reply's
  body, which ends up in an error message only.
\<close>

record 'w raft_env =
  re_fsm :: "'w \<Rightarrow> raft_state"
  re_IsLeader :: "'w \<Rightarrow> bool"
  re_LeaderID :: "'w \<Rightarrow> string"
  re_APIPeerEndpoint :: "'w \<Rightarrow> string \<Rightarrow> string option"
  re_Apply :: "Command \<Rightarrow> 'w \<Rightarrow> raft_response result \<times> 'w"
  re_Post :: "string \<Rightarrow> Command \<Rightarrow> 'w \<Rightarrow> apply_reply result \<times> 'w"
  re_Payload :: "apply_reply \<Rightarrow> string"

definition err_of_code :: "string \<Rightarrow> goerr" where
  "err_of_code code =
     (if code = ''not_found'' then ErrNotFound
      else if code = ''already_exists'' then ErrAlreadyExists else Errorf code)"

definition applyAsLeader :: "'w raft_env \<Rightarrow> Command \<Rightarrow> 'w \<Rightarrow> CommandResult result \<times> 'w" where
  "applyAsLeader env cmd w =
     (case re_Apply env cmd w of
        (Inl err, w') \<Rightarrow> (Inl (Wrapf ''raft apply failed'' err), w')
      | (Inr RespNil, w') \<Rightarrow> (Inr zero_CommandResult, w')
      | (Inr (RespOther t), w') \<Rightarrow> (Inl (Errorf (''unexpected raft response type: '' @ t)), w')
      | (Inr (RespResult res), w') \<Rightarrow>
          if cr_Err res \<noteq> '''' then (Inl (err_of_code (cr_Err res)), w') else (Inr res, w'))"

definition forwardToLeader :: "'w raft_env \<Rightarrow> Command \<Rightarrow> 'w \<Rightarrow> CommandResult result \<times> 'w" where
  "forwardToLeader env cmd w =
     (let leaderID = re_LeaderID env w in
      if leaderID = '''' then (Inl (Errorf ''no raft leader available''), w)
      else case re_APIPeerEndpoint env w leaderID of
        None \<Rightarrow> (Inl (Errorf (''leader endpoint not configured for node id '' @ leaderID)), w)
      | Some leaderEndpoint \<Rightarrow>
          if TrimSpace leaderEndpoint = ''''
          then (Inl (Errorf (''leader endpoint not configured for node id '' @ leaderID)), w)
          else
            let url = TrimRight leaderEndpoint slash @ ''/v1/internal/raft/metadata/apply'' in
            case re_Post env url cmd w of
              (Inl err, w') \<Rightarrow> (Inl (Wrapf ''failed to forward request to leader'' err), w')
            | (Inr resp, w') \<Rightarrow>
                if ar_Status resp \<noteq> 200
                then (Inl (Errorf (''leader forward failed with status '' @ Itoa (ar_Status resp) @ '': '' @ TrimSpace (re_Payload env resp))), w')
                else (case ar_Body resp of
                        Inl err \<Rightarrow> (Inl (Wrapf ''failed to decode forward response'' (Errorf err)), w')
                      | Inr applyResp \<Rightarrow>
                          if fr_Error applyResp \<noteq> '''' then (Inl (err_of_code (fr_Error applyResp)), w')
                          else (Inr \<lparr>cr_CleanupCount = fr_CleanupCount applyResp, cr_Err = ''''\<rparr>, w')))"

definition applyCommand :: "'w raft_env \<Rightarrow> Command \<Rightarrow> 'w \<Rightarrow> CommandResult result \<times> 'w" where
  "applyCommand env cmd w =
     (if re_IsLeader env w then applyAsLeader env cmd w else forwardToLeader env cmd w)"

definition ApplyForwardedCommand :: "'w raft_env \<Rightarrow> Command \<Rightarrow> 'w \<Rightarrow> CommandResult result \<times> 'w" where
  "ApplyForwardedCommand env cmd w =
     (if \<not> re_IsLeader env w then (Inl (Errorf ''not leader''), w) else applyAsLeader env cmd w)"

text \<open>
  The leader's endpoint \<^verbatim>\<open>/v1/internal/raft/metadata/apply\<close> in \<^verbatim>\<open>cmd/main.go\<close>: method, bearer
  token, decoded body. Status 200 is the default of a handler that writes no header.
\<close>

definition errCode :: "goerr \<Rightarrow> string" where
  "errCode err = (if err = ErrAlreadyExists then ''already_exists''
                  else if err = ErrNotFound then ''not_found'' else Error err)"

definition raft_apply_handler ::
  "'w raft_env \<Rightarrow> string \<Rightarrow> string \<Rightarrow> string \<Rightarrow> string + Command \<Rightarrow> 'w \<Rightarrow> apply_reply \<times> 'w" where
  "raft_apply_handler env secret method authorization body w =
     (if method \<noteq> ''POST'' then (\<lparr>ar_Status = 405, ar_Body = Inl ''EOF''\<rparr>, w)
      else
        let authHeader2 = TrimSpace (TrimPrefix authorization ''Bearer'') in
        if authHeader2 \<noteq> secret
        then (\<lparr>ar_Status = 401, ar_Body = Inr \<lparr>fr_CleanupCount = 0, fr_Error = ''unauthorized''\<rparr>\<rparr>, w)
        else case body of
          Inl err \<Rightarrow> (\<lparr>ar_Status = 400, ar_Body = Inr \<lparr>fr_CleanupCount = 0, fr_Error = ''invalid request: '' @ err\<rparr>\<rparr>, w)
        | Inr cmd \<Rightarrow>
            (case ApplyForwardedCommand env cmd w of
               (Inl err, w') \<Rightarrow>
                 (\<lparr>ar_Status = 502, ar_Body = Inr \<lparr>fr_CleanupCount = 0, fr_Error = errCode err\<rparr>\<rparr>, w')
             | (Inr res, w') \<Rightarrow>
                 (\<lparr>ar_Status = 200, ar_Body = Inr \<lparr>fr_CleanupCount = cr_CleanupCount res, fr_Error = ''''\<rparr>\<rparr>, w')))"

subsection \<open>The store operations\<close>

definition pathDir :: "string \<Rightarrow> string" where
  "pathDir p =
     (if p = ''/'' then ''/''
      else let lastSlash = LastIndex p slash
           in if lastSlash \<le> 0 then ''/'' else take (nat lastSlash) p)"

definition drop_result :: "CommandResult result \<times> 'w \<Rightarrow> unit result \<times> 'w" where
  "drop_result rw = (case rw of (Inl e, w) \<Rightarrow> (Inl e, w) | (Inr _, w) \<Rightarrow> (Inr (), w))"

definition count_result :: "CommandResult result \<times> 'w \<Rightarrow> nat result \<times> 'w" where
  "count_result rw = (case rw of (Inl e, w) \<Rightarrow> (Inl e, w) | (Inr res, w) \<Rightarrow> (Inr (cr_CleanupCount res), w))"

definition raft_Get :: "'w raft_env \<Rightarrow> string \<Rightarrow> 'w \<Rightarrow> Metadata result" where
  "raft_Get env path w =
     (case map_of (MetadataByPath (re_fsm env w)) path of None \<Rightarrow> Inl ErrNotFound | Some md \<Rightarrow> Inr md)"

definition raft_Create :: "'w raft_env \<Rightarrow> Metadata \<Rightarrow> 'w \<Rightarrow> unit result \<times> 'w" where
  "raft_Create env md w =
     drop_result (applyCommand env (zero_Command\<lparr>cm_Op := ''create_metadata'', cm_Metadata := Some md\<rparr>) w)"

definition raft_Update :: "'w raft_env \<Rightarrow> Metadata \<Rightarrow> 'w \<Rightarrow> unit result \<times> 'w" where
  "raft_Update env md w =
     drop_result (applyCommand env (zero_Command\<lparr>cm_Op := ''update_metadata'', cm_Metadata := Some md\<rparr>) w)"

definition raft_Delete :: "'w raft_env \<Rightarrow> string \<Rightarrow> 'w \<Rightarrow> unit result \<times> 'w" where
  "raft_Delete env path w =
     drop_result (applyCommand env (zero_Command\<lparr>cm_Op := ''delete_metadata'', cm_Path := path\<rparr>) w)"

definition raft_ListChildren :: "'w raft_env \<Rightarrow> string \<Rightarrow> 'w \<Rightarrow> Metadata list result" where
  "raft_ListChildren env parentPath w =
     Inr (sort_key md_Path
       (filter (\<lambda>md. md_Path md \<noteq> ''/'' \<and> pathDir (md_Path md) = parentPath)
          (map snd (MetadataByPath (re_fsm env w)))))"

definition raft_GetSingleUseLink :: "'w raft_env \<Rightarrow> string \<Rightarrow> 'w \<Rightarrow> SingleUseLink result" where
  "raft_GetSingleUseLink env token w =
     (case map_of (LinksByToken (re_fsm env w)) token of None \<Rightarrow> Inl ErrNotFound | Some link \<Rightarrow> Inr link)"

definition raft_CreateSingleUseLink :: "'w raft_env \<Rightarrow> SingleUseLink \<Rightarrow> 'w \<Rightarrow> unit result \<times> 'w" where
  "raft_CreateSingleUseLink env link w =
     drop_result (applyCommand env (zero_Command\<lparr>cm_Op := ''create_link'', cm_Link := Some link\<rparr>) w)"

definition raft_UpdateSingleUseLink ::
  "'w raft_env \<Rightarrow> string \<Rightarrow> string \<Rightarrow> gotime option \<Rightarrow> string option \<Rightarrow> 'w \<Rightarrow> unit result \<times> 'w" where
  "raft_UpdateSingleUseLink env token status usedAt usedByIP w =
     drop_result (applyCommand env (zero_Command\<lparr>cm_Op := ''update_link'', cm_Token := token, cm_Status := status,
        cm_UsedAt := usedAt, cm_UsedByIP := usedByIP\<rparr>) w)"

definition raft_CleanupExpiredLinks :: "'w raft_env \<Rightarrow> gotime \<Rightarrow> 'w \<Rightarrow> nat result \<times> 'w" where
  "raft_CleanupExpiredLinks env before w =
     count_result (applyCommand env (zero_Command\<lparr>cm_Op := ''cleanup_expired_links'', cm_Before := Some before\<rparr>) w)"

definition raft_CleanupUsedLinks :: "'w raft_env \<Rightarrow> gotime \<Rightarrow> 'w \<Rightarrow> nat result \<times> 'w" where
  "raft_CleanupUsedLinks env olderThan w =
     count_result (applyCommand env (zero_Command\<lparr>cm_Op := ''cleanup_used_links'', cm_OlderThan := Some olderThan\<rparr>) w)"

definition raft_CreateErasureInfo :: "'w raft_env \<Rightarrow> string \<Rightarrow> ErasureFileInfo \<Rightarrow> 'w \<Rightarrow> unit result \<times> 'w" where
  "raft_CreateErasureInfo env filePath info w =
     drop_result (applyCommand env (zero_Command\<lparr>cm_Op := ''create_erasure_info'', cm_Path := filePath,
        cm_ErasureInfo := Some info\<rparr>) w)"

definition raft_GetErasureInfo :: "'w raft_env \<Rightarrow> string \<Rightarrow> 'w \<Rightarrow> ErasureFileInfo result" where
  "raft_GetErasureInfo env filePath w =
     (case map_of (ErasureByPath (re_fsm env w)) filePath of None \<Rightarrow> Inl ErrNotFound | Some info \<Rightarrow> Inr info)"

definition raft_DeleteErasureInfo :: "'w raft_env \<Rightarrow> string \<Rightarrow> 'w \<Rightarrow> unit result \<times> 'w" where
  "raft_DeleteErasureInfo env filePath w =
     drop_result (applyCommand env (zero_Command\<lparr>cm_Op := ''delete_erasure_info'', cm_Path := filePath\<rparr>) w)"

text \<open>The method set as a \<^verbatim>\<open>metadata.Store\<close>: the struct passed in is not modified.\<close>

definition raft_ops :: "'w raft_env \<Rightarrow> 'w store_ops" where
  "raft_ops env = \<lparr>
     st_Get = raft_Get env,
     st_Create = (\<lambda>_ md w. case raft_Create env md w of (Inl e, w') \<Rightarrow> (Inl e, w') | (Inr _, w') \<Rightarrow> (Inr md, w')),
     st_Update = (\<lambda>_ md w. case raft_Update env md w of (Inl e, w') \<Rightarrow> (Inl e, w') | (Inr _, w') \<Rightarrow> (Inr md, w')),
     st_Delete = raft_Delete env,
     st_ListChildren = raft_ListChildren env,
     st_GetSingleUseLink = raft_GetSingleUseLink env,
     st_CreateSingleUseLink = (\<lambda>_. raft_CreateSingleUseLink env),
     st_UpdateSingleUseLink = (\<lambda>_. raft_UpdateSingleUseLink env),
     st_CleanupExpiredLinks = raft_CleanupExpiredLinks env,
     st_CleanupUsedLinks = raft_CleanupUsedLinks env\<rparr>"

definition raft_erasure_ops :: "'w raft_env \<Rightarrow> 'w erasure_store_ops" where
  "raft_erasure_ops env = \<lparr>
     es_CreateErasureInfo = raft_CreateErasureInfo env,
     es_GetErasureInfo = raft_GetErasureInfo env,
     es_DeleteErasureInfo = raft_DeleteErasureInfo env\<rparr>"

subsection \<open>Invariant of the state machine\<close>

definition fsm_ok :: "raft_state \<Rightarrow> bool" where
  "fsm_ok s \<longleftrightarrow> gomap_ok (MetadataByPath s) \<and> gomap_ok (LinksByToken s) \<and> gomap_ok (ErasureByPath s) \<and>
     (\<forall>p md. map_of (MetadataByPath s) p = Some md \<longrightarrow> md_Path md = p) \<and>
     (\<forall>t l. map_of (LinksByToken s) t = Some l \<longrightarrow> lk_Token l = t)"

lemma fsm_ok_empty [simp]: "fsm_ok empty_raft_state"
  by (simp add: fsm_ok_def empty_raft_state_def)

lemma fsm_ok_metadata:
  "fsm_ok s \<Longrightarrow> gomap_ok m \<Longrightarrow> (\<And>p md. map_of m p = Some md \<Longrightarrow> md_Path md = p) \<Longrightarrow>
   fsm_ok (s\<lparr>MetadataByPath := m\<rparr>)"
  by (simp add: fsm_ok_def)

lemma fsm_ok_links:
  "fsm_ok s \<Longrightarrow> gomap_ok m \<Longrightarrow> (\<And>t l. map_of m t = Some l \<Longrightarrow> lk_Token l = t) \<Longrightarrow>
   fsm_ok (s\<lparr>LinksByToken := m\<rparr>)"
  by (simp add: fsm_ok_def)

lemma fsm_ok_erasure: "fsm_ok s \<Longrightarrow> gomap_ok m \<Longrightarrow> fsm_ok (s\<lparr>ErasureByPath := m\<rparr>)"
  by (simp add: fsm_ok_def)

lemma fsm_ok_filter_links:
  assumes "fsm_ok s"
  shows "fsm_ok (s\<lparr>LinksByToken := filter P (LinksByToken s)\<rparr>)"
  using assms
  by (intro fsm_ok_links) (auto simp: fsm_ok_def map_of_filter split: option.splits if_splits)

lemma fsm_ok_set_metadata:
  "fsm_ok s \<Longrightarrow> fsm_ok (s\<lparr>MetadataByPath := AList.update (md_Path md) md (MetadataByPath s)\<rparr>)"
  by (rule fsm_ok_metadata) (auto simp: fsm_ok_def split: if_splits)

lemma fsm_ok_drop_metadata:
  "fsm_ok s \<Longrightarrow> fsm_ok (s\<lparr>MetadataByPath := AList.delete p (MetadataByPath s)\<rparr>)"
  by (rule fsm_ok_metadata) (auto simp: fsm_ok_def split: if_splits)

lemma fsm_ok_set_link:
  "fsm_ok s \<Longrightarrow> lk_Token l = t \<Longrightarrow> fsm_ok (s\<lparr>LinksByToken := AList.update t l (LinksByToken s)\<rparr>)"
  by (rule fsm_ok_links) (auto simp: fsm_ok_def split: if_splits)

lemmas fsm_ok_rules = fsm_ok_set_metadata fsm_ok_drop_metadata fsm_ok_set_link fsm_ok_filter_links fsm_ok_erasure

lemma fsm_ok_Apply:
  assumes "fsm_ok s"
  shows "fsm_ok (snd (fsm_Apply now data s))"
proof -
  have tok: "lk_Token l = t" if "map_of (LinksByToken s) t = Some l" for t l
    using assms that by (simp add: fsm_ok_def)
  have er: "gomap_ok (ErasureByPath s)" using assms by (simp add: fsm_ok_def)
  show ?thesis
  proof (cases data)
    case (Inr cmd)
    show ?thesis
      unfolding fsm_Apply_def Inr sum.case
      by (simp add: assms er fsm_ok_rules tok split: option.split cong: if_cong)
  qed (simp add: fsm_Apply_def assms)
qed

text \<open>The state after a log of entries, each with the time at which the replica applied it.\<close>

type_synonym raft_log = "(gotime \<times> (string + Command)) list"

definition fsm_run :: "raft_log \<Rightarrow> raft_state \<Rightarrow> raft_state" where
  "fsm_run log s = fold (\<lambda>(now, data) s. snd (fsm_Apply now data s)) log s"

lemma fsm_run_simps [simp]:
  "fsm_run [] s = s"
  "fsm_run ((now, data) # log) s = fsm_run log (snd (fsm_Apply now data s))"
  by (simp_all add: fsm_run_def)

lemma fsm_run_ok: "fsm_ok s \<Longrightarrow> fsm_ok (fsm_run log s)"
  by (induction log arbitrary: s) (auto simp: fsm_ok_Apply)

subsection \<open>A leader that commits\<close>

text \<open>
  The world of a node: its clock and its state machine. \<open>leader_env\<close> is the Raft library as a
  node sees it that is leader and whose entries commit: \<^verbatim>\<open>Apply\<close> runs the state machine on the
  command. The type is a record scheme, so that a larger world (files, locks) is a node too.
\<close>

record node =
  nd_clock :: gotime
  nd_fsm :: raft_state

definition leader_env :: "('a node_scheme) raft_env" where
  "leader_env = \<lparr>re_fsm = nd_fsm, re_IsLeader = (\<lambda>_. True), re_LeaderID = (\<lambda>_. ''''),
     re_APIPeerEndpoint = (\<lambda>_ _. None),
     re_Apply = (\<lambda>cmd w. case fsm_Apply (nd_clock w) (Inr cmd) (nd_fsm w) of
                   (res, s) \<Rightarrow> (Inr (RespResult res), w\<lparr>nd_fsm := s\<rparr>)),
     re_Post = (\<lambda>_ _ w. (Inl (Errorf ''connection refused''), w)), re_Payload = (\<lambda>_. '''')\<rparr>"

lemma leader_applyCommand [store_simps]:
  "applyCommand leader_env cmd w =
     (case fsm_Apply (nd_clock w) (Inr cmd) (nd_fsm w) of
        (res, s) \<Rightarrow> (if cr_Err res \<noteq> '''' then Inl (err_of_code (cr_Err res)) else Inr res, w\<lparr>nd_fsm := s\<rparr>))"
  by (simp add: applyCommand_def applyAsLeader_def leader_env_def split: prod.splits)

lemma leader_fsm [store_simps]: "re_fsm leader_env = nd_fsm"
  by (simp add: leader_env_def)

definition md_view :: "'a node_scheme \<Rightarrow> string \<Rightarrow> Metadata option" where
  "md_view w = map_of (MetadataByPath (nd_fsm w))"

definition link_view :: "'a node_scheme \<Rightarrow> string \<Rightarrow> SingleUseLink option" where
  "link_view w = map_of (LinksByToken (nd_fsm w))"

definition node_ok :: "'a node_scheme \<Rightarrow> bool" where
  "node_ok w = fsm_ok (nd_fsm w)"

lemma leader_Create [store_simps]:
  "raft_Create leader_env md w =
     (if md_view w (md_Path md) \<noteq> None then (Inl ErrAlreadyExists, w)
      else (Inr (), w\<lparr>nd_fsm := (nd_fsm w)\<lparr>MetadataByPath := AList.update (md_Path md) md (MetadataByPath (nd_fsm w))\<rparr>\<rparr>))"
  by (simp add: raft_Create_def store_simps fsm_Apply_def zero_Command_def md_view_def drop_result_def err_of_code_def)

lemma leader_Update [store_simps]:
  "raft_Update leader_env md w =
     (if md_view w (md_Path md) = None then (Inl ErrNotFound, w)
      else (Inr (), w\<lparr>nd_fsm := (nd_fsm w)\<lparr>MetadataByPath := AList.update (md_Path md) md (MetadataByPath (nd_fsm w))\<rparr>\<rparr>))"
  by (simp add: raft_Update_def store_simps fsm_Apply_def zero_Command_def md_view_def drop_result_def err_of_code_def)

lemma leader_Delete [store_simps]:
  "raft_Delete leader_env p w =
     (if md_view w p = None then (Inl ErrNotFound, w)
      else (Inr (), w\<lparr>nd_fsm := (nd_fsm w)\<lparr>MetadataByPath := AList.delete p (MetadataByPath (nd_fsm w))\<rparr>\<rparr>))"
  by (simp add: raft_Delete_def store_simps fsm_Apply_def zero_Command_def md_view_def drop_result_def err_of_code_def)

lemma leader_CreateLink [store_simps]:
  "raft_CreateSingleUseLink leader_env l w =
     (if link_view w (lk_Token l) \<noteq> None then (Inl ErrAlreadyExists, w)
      else (Inr (), w\<lparr>nd_fsm := (nd_fsm w)\<lparr>LinksByToken := AList.update (lk_Token l) l (LinksByToken (nd_fsm w))\<rparr>\<rparr>))"
  by (simp add: raft_CreateSingleUseLink_def store_simps fsm_Apply_def zero_Command_def link_view_def drop_result_def err_of_code_def)

lemma leader_UpdateLink [store_simps]:
  "raft_UpdateSingleUseLink leader_env t st ua ip w =
     (case link_view w t of
        None \<Rightarrow> (Inl ErrNotFound, w)
      | Some l \<Rightarrow>
          if lk_Status l \<noteq> ''active'' then (Inl ErrNotFound, w)
          else (Inr (), w\<lparr>nd_fsm := (nd_fsm w)\<lparr>LinksByToken := AList.update t
                 (l\<lparr>lk_Status := st, lk_UsedAt := ua, lk_UsedByIP := ip, lk_UpdatedAt := nd_clock w\<rparr>)
                 (LinksByToken (nd_fsm w))\<rparr>\<rparr>))"
  by (simp add: raft_UpdateSingleUseLink_def store_simps fsm_Apply_def zero_Command_def link_view_def
      drop_result_def err_of_code_def split: option.splits)

lemma leader_Cleanup [store_simps]:
  "raft_CleanupExpiredLinks leader_env b w =
     (Inr (length (filter (\<lambda>(_, l). expired_link b l) (LinksByToken (nd_fsm w)))),
      w\<lparr>nd_fsm := (nd_fsm w)\<lparr>LinksByToken := filter (\<lambda>(_, l). \<not> expired_link b l) (LinksByToken (nd_fsm w))\<rparr>\<rparr>)"
  "raft_CleanupUsedLinks leader_env b w =
     (Inr (length (filter (\<lambda>(_, l). stale_used_link b l) (LinksByToken (nd_fsm w)))),
      w\<lparr>nd_fsm := (nd_fsm w)\<lparr>LinksByToken := filter (\<lambda>(_, l). \<not> stale_used_link b l) (LinksByToken (nd_fsm w))\<rparr>\<rparr>)"
  by (simp_all add: raft_CleanupExpiredLinks_def raft_CleanupUsedLinks_def store_simps fsm_Apply_def zero_Command_def
      count_result_def)

lemma leader_CreateErasureInfo [store_simps]:
  "raft_CreateErasureInfo leader_env p info w =
     (if map_of (ErasureByPath (nd_fsm w)) p \<noteq> None then (Inl ErrAlreadyExists, w)
      else (Inr (), w\<lparr>nd_fsm := (nd_fsm w)\<lparr>ErasureByPath := AList.update p info (ErasureByPath (nd_fsm w))\<rparr>\<rparr>))"
  by (simp add: raft_CreateErasureInfo_def store_simps fsm_Apply_def zero_Command_def drop_result_def err_of_code_def)

lemma leader_DeleteErasureInfo [store_simps]:
  "raft_DeleteErasureInfo leader_env p w =
     (Inr (), w\<lparr>nd_fsm := (nd_fsm w)\<lparr>ErasureByPath := AList.delete p (ErasureByPath (nd_fsm w))\<rparr>\<rparr>)"
  by (simp add: raft_DeleteErasureInfo_def store_simps fsm_Apply_def zero_Command_def drop_result_def err_of_code_def)

lemma filter_links_sub:
  assumes "node_ok w"
  shows "node_ok (w\<lparr>nd_fsm := (nd_fsm w)\<lparr>LinksByToken := filter P (LinksByToken (nd_fsm w))\<rparr>\<rparr>) \<and>
    link_view (w\<lparr>nd_fsm := (nd_fsm w)\<lparr>LinksByToken := filter P (LinksByToken (nd_fsm w))\<rparr>\<rparr>) \<subseteq>\<^sub>m link_view w"
proof -
  have ok: "gomap_ok (LinksByToken (nd_fsm w))" using assms by (simp add: node_ok_def fsm_ok_def)
  show ?thesis
    using assms by (auto simp: node_ok_def fsm_ok_def link_view_def map_le_def dom_def map_of_filter [OF ok]
        split: option.splits if_splits)
qed

lemma pathDir_parent: "pathDir = parent_path"
  by (simp add: fun_eq_iff pathDir_def parent_path_def)

lemma leader_ListChildren [store_simps]:
  "raft_ListChildren leader_env p w = Inr (sort_key md_Path
     (filter (\<lambda>md. md_Path md \<noteq> ''/'' \<and> parent_path (md_Path md) = p) (map snd (MetadataByPath (nd_fsm w)))))"
  by (simp add: raft_ListChildren_def leader_fsm pathDir_parent)

lemma md_view_values:
  assumes "node_ok w"
  shows "set (map snd (MetadataByPath (nd_fsm w))) = {md. md_view w (md_Path md) = Some md}"
proof -
  have ok: "gomap_ok (MetadataByPath (nd_fsm w))"
    and path: "map_of (MetadataByPath (nd_fsm w)) p = Some md \<Longrightarrow> md_Path md = p" for p md
    using assms by (auto simp: node_ok_def fsm_ok_def)
  have "md \<in> snd ` set (MetadataByPath (nd_fsm w)) \<longleftrightarrow> (\<exists>k. map_of (MetadataByPath (nd_fsm w)) k = Some md)" for md
    unfolding map_of_in_set [OF ok] by force
  also have "\<dots> md \<longleftrightarrow> md_view w (md_Path md) = Some md" for md
    unfolding md_view_def by (metis path)
  finally show ?thesis by auto
qed

subsection \<open>The leader fulfils both contracts\<close>

interpretation raft_md: metadata_store "raft_ops leader_env" md_view node_ok
proof unfold_locales
  fix w :: "'a node_scheme" and p cs
  assume "node_ok w" "st_ListChildren (raft_ops leader_env) p w = Inr cs"
  then show "set cs = {md. md_view w (md_Path md) = Some md \<and> md_Path md \<noteq> ''/'' \<and> parent_path (md_Path md) = p}"
    using md_view_values [of w] by (auto simp: raft_ops_def store_simps)
qed (auto simp: raft_ops_def store_simps raft_Get_def md_view_def node_ok_def fsm_ok_drop_metadata fsm_ok_set_metadata
      split: option.splits if_splits sum.splits, auto simp: fsm_ok_def)

interpretation raft_link: link_store "raft_ops leader_env" link_view node_ok
proof unfold_locales
  fix w w' :: "'a node_scheme" and now t st ua ip u
  assume *: "node_ok w" "st_UpdateSingleUseLink (raft_ops leader_env) now t st ua ip w = (u, w')"
  have tok: "link_view w t = Some l \<Longrightarrow> lk_Token l = t" for l
    using *(1) by (simp add: node_ok_def fsm_ok_def link_view_def)
  show "node_ok w' \<and> (case link_view w t of
         Some l \<Rightarrow> if lk_Status l = ''active''
                  then u = Inr () \<and> (\<exists>l'. link_view w' = (link_view w)(t \<mapsto> l') \<and> lk_Status l' = st \<and> lk_UsedAt l' = ua)
                  else u = Inl ErrNotFound \<and> link_view w' = link_view w
       | None \<Rightarrow> u = Inl ErrNotFound \<and> link_view w' = link_view w)"
    using * tok
    by (auto simp: raft_ops_def store_simps node_ok_def link_view_def fsm_ok_set_link split: option.splits if_splits)
next
  fix w w' :: "'a node_scheme" and b n
  assume ok: "node_ok w"
  show "node_ok w' \<and> link_view w' \<subseteq>\<^sub>m link_view w"
    if "st_CleanupExpiredLinks (raft_ops leader_env) b w = (n, w')"
    using that filter_links_sub [OF ok] by (auto simp: raft_ops_def leader_Cleanup)
  show "node_ok w' \<and> link_view w' \<subseteq>\<^sub>m link_view w"
    if "st_CleanupUsedLinks (raft_ops leader_env) b w = (n, w')"
    using that filter_links_sub [OF ok] by (auto simp: raft_ops_def leader_Cleanup)
qed (auto simp: raft_ops_def store_simps raft_GetSingleUseLink_def link_view_def node_ok_def fsm_ok_set_link
      split: option.splits if_splits sum.splits)

subsection \<open>Properties\<close>

text \<open>
  C18: (invariant) Whatever log of commands a node applies, valid or not, its three maps stay
  maps (no key twice), every metadata entry is filed under its own path and every link under
  its own token; and a listing of a directory through the store returns exactly the entries
  whose parent it is, sorted by path, the root never among them.
\<close>

theorem raft_state_consistent:
  fixes log :: raft_log
  defines "s \<equiv> fsm_run log empty_raft_state"
  shows "fsm_ok s \<and>
    (\<exists>cs. raft_ListChildren leader_env d \<lparr>nd_clock = t, nd_fsm = s\<rparr> = Inr cs \<and> sorted (map md_Path cs) \<and>
       set cs = {md. map_of (MetadataByPath s) (md_Path md) = Some md \<and> md_Path md \<noteq> ''/'' \<and> parent_path (md_Path md) = d})"
proof
  show ok: "fsm_ok s" unfolding s_def by (rule fsm_run_ok) simp
  let ?w = "\<lparr>nd_clock = t, nd_fsm = s\<rparr>"
  obtain cs where cs: "raft_ListChildren leader_env d ?w = Inr cs" "sorted (map md_Path cs)"
    by (simp add: store_simps sorted_sort_key)
  have "set cs = {md. md_view ?w (md_Path md) = Some md \<and> md_Path md \<noteq> ''/'' \<and> parent_path (md_Path md) = d}"
    using raft_md.list_law [of ?w d cs] ok cs(1) by (simp add: node_ok_def raft_ops_def)
  then show "\<exists>cs. raft_ListChildren leader_env d ?w = Inr cs \<and> sorted (map md_Path cs) \<and>
      set cs = {md. map_of (MetadataByPath s) (md_Path md) = Some md \<and> md_Path md \<noteq> ''/'' \<and> parent_path (md_Path md) = d}"
    using cs by (auto simp: md_view_def)
qed

lemma restore_persist: "fsm_Restore (Inr (snapshot_Persist (fsm_Snapshot s))) s0 = (Inr (), s)"
  by (simp add: fsm_Restore_def snapshot_Persist_def fsm_Snapshot_def nil_to_empty_def)

lemma fsm_run_append: "fsm_run (log @ log') s = fsm_run log' (fsm_run log s)"
  by (simp add: fsm_run_def)


subsubsection \<open>Replicas\<close>

text \<open>Two states that differ at most in the time stamps of links.\<close>

definition forget_links :: "(string, SingleUseLink) gomap \<Rightarrow> (string, SingleUseLink) gomap" where
  "forget_links m = map (\<lambda>(t, l). (t, l\<lparr>lk_UpdatedAt := 0\<rparr>)) m"

definition forget_UpdatedAt :: "raft_state \<Rightarrow> raft_state" where
  "forget_UpdatedAt s = s\<lparr>LinksByToken := forget_links (LinksByToken s)\<rparr>"

lemma map_of_forget: "map_of (forget_links m) t = map_option (\<lambda>l. l\<lparr>lk_UpdatedAt := 0\<rparr>) (map_of m t)"
  by (induction m) (auto simp: forget_links_def)

lemma update_forget: "forget_links (AList.update t l m) = AList.update t (l\<lparr>lk_UpdatedAt := 0\<rparr>) (forget_links m)"
  by (induction m) (auto simp: forget_links_def)

lemma filter_forget:
  "(\<And>l. P (l\<lparr>lk_UpdatedAt := 0\<rparr>) = P l) \<Longrightarrow>
   forget_links (filter (\<lambda>(_, l). P l) m) = filter (\<lambda>(_, l). P l) (forget_links m)"
  by (induction m) (auto simp: forget_links_def)

lemma length_filter_forget:
  "(\<And>l. P (l\<lparr>lk_UpdatedAt := 0\<rparr>) = P l) \<Longrightarrow>
   length (filter (\<lambda>(_, l). P l) (forget_links m)) = length (filter (\<lambda>(_, l). P l) m)"
  by (induction m) (auto simp: forget_links_def)

lemma UpdatedAt_irrelevant [simp]:
  "expired_link b (l\<lparr>lk_UpdatedAt := u\<rparr>) = expired_link b l"
  "stale_used_link b (l\<lparr>lk_UpdatedAt := u\<rparr>) = stale_used_link b l"
  by (simp_all add: expired_link_def stale_used_link_def)

lemma if_both: "(c \<Longrightarrow> f a = f b) \<Longrightarrow> (\<not> c \<Longrightarrow> f a' = f b') \<Longrightarrow> f (if c then a else a') = f (if c then b else b')"
  by simp

lemma Apply_forget_prod:
  "map_prod id forget_UpdatedAt (fsm_Apply now data s) = map_prod id forget_UpdatedAt (fsm_Apply now' data (forget_UpdatedAt s))"
proof (cases data)
  case (Inr cmd)
  have idem: "forget_links (forget_links m) = forget_links m" for m
    by (simp add: forget_links_def case_prod_unfold)
  show ?thesis
    unfolding fsm_Apply_def Inr sum.case
    by (intro if_both) (simp_all add: forget_UpdatedAt_def idem map_of_forget update_forget filter_forget
        length_filter_forget split: option.split)
qed (simp add: fsm_Apply_def forget_UpdatedAt_def forget_links_def case_prod_unfold)

lemma Apply_forget:
  "forget_UpdatedAt (snd (fsm_Apply now data s)) = forget_UpdatedAt (snd (fsm_Apply now' data (forget_UpdatedAt s)))"
  "fst (fsm_Apply now data s) = fst (fsm_Apply now' data (forget_UpdatedAt s))"
  using Apply_forget_prod [of now data s now'] by (simp_all add: map_prod_def prod_eq_iff case_prod_unfold)

lemma Apply_agree:
  assumes "forget_UpdatedAt s1 = forget_UpdatedAt s2"
  shows "forget_UpdatedAt (snd (fsm_Apply t1 data s1)) = forget_UpdatedAt (snd (fsm_Apply t2 data s2)) \<and>
    fst (fsm_Apply t1 data s1) = fst (fsm_Apply t2 data s2)"
  using Apply_forget [of t1 data s1 0] Apply_forget [of t2 data s2 0] assms by simp

lemma run_agree:
  assumes "forget_UpdatedAt s1 = forget_UpdatedAt s2" "map snd log1 = map snd log2"
  shows "forget_UpdatedAt (fsm_run log1 s1) = forget_UpdatedAt (fsm_run log2 s2)"
  using assms
proof (induction log1 arbitrary: log2 s1 s2)
  case (Cons e log1)
  then obtain t1 t2 data log2' where log: "e = (t1, data)" "log2 = (t2, data) # log2'" "map snd log1 = map snd log2'"
    by (cases e; cases log2) auto
  then show ?case
    using Cons.IH [OF _ log(3)] Apply_agree [OF Cons.prems(1), of t1 data t2] by simp
qed simp

text \<open>
  C17: (equivalence) Replicas that apply the same commands at different times hold the same
  metadata, the same erasure records and, up to \<^verbatim>\<open>updated_at\<close>, the same links, and answer the
  next command alike: \<^verbatim>\<open>Apply\<close> reads the clock, but only into a field no later command reads.
\<close>

theorem replicas_agree:
  assumes "map snd log1 = map snd log2"
  defines "s1 \<equiv> fsm_run log1 empty_raft_state" and "s2 \<equiv> fsm_run log2 empty_raft_state"
  shows "MetadataByPath s1 = MetadataByPath s2 \<and> ErasureByPath s1 = ErasureByPath s2 \<and>
    forget_links (LinksByToken s1) = forget_links (LinksByToken s2) \<and>
    fst (fsm_Apply t1 data s1) = fst (fsm_Apply t2 data s2)"
proof -
  have eq: "forget_UpdatedAt s1 = forget_UpdatedAt s2"
    unfolding s1_def s2_def by (rule run_agree [OF refl assms(1)])
  then show ?thesis
    using Apply_agree [OF eq, of t1 data t2] by (cases s1; cases s2) (simp add: forget_UpdatedAt_def)
qed

theorem replicas_agree_witness:
  fixes create use :: Command
  defines "create \<equiv> zero_Command\<lparr>cm_Op := ''create_link'', cm_Link := Some \<lparr>lk_ID = 1, lk_Token = ''t'', lk_FilePath = ''/f'',
      lk_Status = ''active'', lk_ExpiresAt = 9, lk_UsedAt = None, lk_UsedByIP = None, lk_HMACSignature = ''s'',
      lk_CreatedAt = 0, lk_UpdatedAt = 0\<rparr>\<rparr>"
    and "use \<equiv> zero_Command\<lparr>cm_Op := ''update_link'', cm_Token := ''t'', cm_Status := ''used''\<rparr>"
  shows "LinksByToken (fsm_run [(1, Inr create), (2, Inr use)] empty_raft_state) \<noteq>
      LinksByToken (fsm_run [(1, Inr create), (3, Inr use)] empty_raft_state) \<and>
    fst (fsm_Apply 4 (Inr use) (fsm_run [(1, Inr create), (2, Inr use)] empty_raft_state)) =
    fst (fsm_Apply 5 (Inr use) (fsm_run [(1, Inr create), (3, Inr use)] empty_raft_state))"
proof
  show "LinksByToken (fsm_run [(1, Inr create), (2, Inr use)] empty_raft_state) \<noteq>
      LinksByToken (fsm_run [(1, Inr create), (3, Inr use)] empty_raft_state)"
    by (simp add: create_def use_def zero_Command_def fsm_Apply_def empty_raft_state_def)
  show "fst (fsm_Apply 4 (Inr use) (fsm_run [(1, Inr create), (2, Inr use)] empty_raft_state)) =
    fst (fsm_Apply 5 (Inr use) (fsm_run [(1, Inr create), (3, Inr use)] empty_raft_state))"
    using replicas_agree [of "[(1, Inr create), (2, Inr use)]" "[(1, Inr create), (3, Inr use)]" 4 "Inr use" 5] by simp
qed

subsubsection \<open>Single use\<close>

definition spent :: "string \<Rightarrow> raft_state \<Rightarrow> bool" where
  "spent t s = (case map_of (LinksByToken s) t of None \<Rightarrow> True | Some l \<Rightarrow> lk_Status l \<noteq> ''active'')"

definition creates_link :: "string \<Rightarrow> string + Command \<Rightarrow> bool" where
  "creates_link t data = (case data of
      Inl _ \<Rightarrow> False
    | Inr cmd \<Rightarrow> cm_Op cmd = ''create_link'' \<and> (case cm_Link cmd of None \<Rightarrow> False | Some l \<Rightarrow> lk_Token l = t))"

lemma if_snd: "(c \<Longrightarrow> P (snd a)) \<Longrightarrow> (\<not> c \<Longrightarrow> P (snd b)) \<Longrightarrow> P (snd (if c then a else b))"
  by simp

lemma spent_Apply:
  assumes "fsm_ok s" "spent t s" "\<not> creates_link t data"
  shows "spent t (snd (fsm_Apply now data s))"
proof (cases data)
  case (Inr cmd)
  have ok: "gomap_ok (LinksByToken s)" using assms(1) by (simp add: fsm_ok_def)
  show ?thesis
    unfolding fsm_Apply_def Inr sum.case using assms(2,3) Inr
    by (intro if_snd [where P = "spent t"])
       (auto simp: spent_def creates_link_def map_of_filter [OF ok] split: option.splits)
qed (simp add: fsm_Apply_def assms)

lemma spent_run:
  assumes "fsm_ok s" "spent t s" "\<forall>e \<in> set log. \<not> creates_link t (snd e)"
  shows "spent t (fsm_run log s)"
  using assms by (induction log arbitrary: s) (auto simp: spent_Apply fsm_ok_Apply)

lemma update_link_Apply:
  assumes "cm_Op cmd = ''update_link''" "cm_Token cmd = t"
  shows "fst (fsm_Apply now (Inr cmd) s) = (if spent t s then res_err ''not_found'' else res_ok)"
    and "cm_Status cmd \<noteq> ''active'' \<Longrightarrow> spent t (snd (fsm_Apply now (Inr cmd) s))"
  using assms by (auto simp: fsm_Apply_def spent_def split: option.splits)

text \<open>
  A link is used at most once: after an \<^verbatim>\<open>update_link\<close> command that moved the link
  of a token to another status than \<^verbatim>\<open>active\<close>, every later \<^verbatim>\<open>update_link\<close> of the token is
  answered \<^verbatim>\<open>not_found\<close>, whatever commands, clean-ups included, are applied in between, as
  long as none creates a link with that token again.
\<close>

lemma link_consumed_at_most_once:
  assumes "fsm_ok s" "cm_Op use = ''update_link''" "cm_Token use = t" "cm_Status use \<noteq> ''active''"
    and "\<forall>e \<in> set log. \<not> creates_link t (snd e)"
    and "cm_Op use' = ''update_link''" "cm_Token use' = t"
  shows "cr_Err (fst (fsm_Apply now' (Inr use') (fsm_run log (snd (fsm_Apply now (Inr use) s))))) = ''not_found''"
proof -
  have "spent t (snd (fsm_Apply now (Inr use) s))" using assms(2-4) by (rule update_link_Apply(2))
  then have "spent t (fsm_run log (snd (fsm_Apply now (Inr use) s)))"
    using assms(1,5) by (intro spent_run fsm_ok_Apply)
  then show ?thesis using update_link_Apply(1) [OF assms(6,7)] by simp
qed

definition demo_link :: SingleUseLink where
  "demo_link = \<lparr>lk_ID = 1, lk_Token = ''t'', lk_FilePath = ''/f'', lk_Status = ''active'', lk_ExpiresAt = 9,
     lk_UsedAt = None, lk_UsedByIP = None, lk_HMACSignature = ''s'', lk_CreatedAt = 0, lk_UpdatedAt = 0\<rparr>"

definition demo_create :: Command where
  "demo_create = zero_Command\<lparr>cm_Op := ''create_link'', cm_Link := Some demo_link\<rparr>"

definition demo_use :: Command where
  "demo_use = zero_Command\<lparr>cm_Op := ''update_link'', cm_Token := ''t'', cm_Status := ''used''\<rparr>"


subsubsection \<open>Commands from a follower\<close>

text \<open>
  A follower whose HTTP client reaches the leader: posting to the leader's apply endpoint runs
  the leader's handler, with the follower's shared secret as bearer token.
\<close>

definition reaches_leader :: "'w raft_env \<Rightarrow> 'w raft_env \<Rightarrow> string \<Rightarrow> string \<Rightarrow> 'w \<Rightarrow> bool" where
  "reaches_leader fenv lenv secret token w \<longleftrightarrow>
     \<not> re_IsLeader fenv w \<and> re_IsLeader lenv w \<and> re_LeaderID fenv w \<noteq> '''' \<and>
     (\<exists>ep. re_APIPeerEndpoint fenv w (re_LeaderID fenv w) = Some ep \<and> TrimSpace ep \<noteq> '''' \<and>
        (\<forall>cmd. re_Post fenv (TrimRight ep slash @ ''/v1/internal/raft/metadata/apply'') cmd w =
           (case raft_apply_handler lenv secret ''POST'' (''Bearer '' @ token) (Inr cmd) w of (r, w') \<Rightarrow> (Inr r, w'))))"

lemma bearer_token: "TrimSpace (TrimPrefix (''Bearer '' @ token) ''Bearer'') = TrimSpace token"
  by (simp add: TrimPrefix_def TrimSpace_space ascii_space_def)

lemma leader_handler:
  assumes "re_IsLeader lenv w" "TrimSpace secret = secret"
  shows "raft_apply_handler lenv secret ''POST'' (''Bearer '' @ secret) (Inr cmd) w =
    (case applyAsLeader lenv cmd w of
       (Inl err, w') \<Rightarrow> (\<lparr>ar_Status = 502, ar_Body = Inr \<lparr>fr_CleanupCount = 0, fr_Error = errCode err\<rparr>\<rparr>, w')
     | (Inr res, w') \<Rightarrow> (\<lparr>ar_Status = 200, ar_Body = Inr \<lparr>fr_CleanupCount = cr_CleanupCount res, fr_Error = ''''\<rparr>\<rparr>, w'))"
  unfolding raft_apply_handler_def Let_def bearer_token assms(2)
  using assms(1) by (simp add: ApplyForwardedCommand_def Let_def)

text \<open>
  C35: (equivalence) A command issued on a follower that reaches the leader with the right secret
  changes the leader's state exactly as if issued there and succeeds exactly when it succeeds
  there, with the same count. A command that fails there fails on the follower with an error of its
  own that is neither of the store's two error values: the endpoint answers a failure with status 502 and the follower reads the body of
  status 200 only, so \<^verbatim>\<open>ErrNotFound\<close> and \<^verbatim>\<open>ErrAlreadyExists\<close> never cross the wire although both
  sides carry code for them.
\<close>

theorem follower_forwards_faithfully_but_loses_error_codes:
  assumes "reaches_leader fenv lenv secret secret w" "TrimSpace secret = secret"
  shows "applyCommand fenv cmd w =
    (case applyCommand lenv cmd w of
       (Inr res, w') \<Rightarrow> (Inr \<lparr>cr_CleanupCount = cr_CleanupCount res, cr_Err = ''''\<rparr>, w')
     | (Inl err, w') \<Rightarrow> (Inl (Errorf (''leader forward failed with status '' @ Itoa 502 @ '': '' @
         TrimSpace (re_Payload fenv \<lparr>ar_Status = 502, ar_Body = Inr \<lparr>fr_CleanupCount = 0, fr_Error = errCode err\<rparr>\<rparr>))), w'))"
proof -
  have lead: "re_IsLeader lenv w" using assms(1) by (simp add: reaches_leader_def)
  show ?thesis
    using assms(1) unfolding reaches_leader_def applyCommand_def forwardToLeader_def Let_def
    by (auto simp: leader_handler [OF lead assms(2)] simp del: append.simps split: prod.splits sum.splits)
qed

definition demo_follower :: "node raft_env" where
  "demo_follower = leader_env\<lparr>re_IsLeader := (\<lambda>_. False), re_LeaderID := (\<lambda>_. ''n1''),
     re_APIPeerEndpoint := (\<lambda>_ _. Some ''https://n1''),
     re_Payload := (\<lambda>r. case ar_Body r of Inl _ \<Rightarrow> '''' | Inr b \<Rightarrow> fr_Error b),
     re_Post := (\<lambda>url cmd w. case raft_apply_handler leader_env ''s3cret'' ''POST'' ''Bearer s3cret'' (Inr cmd) w of (r, w') \<Rightarrow> (Inr r, w'))\<rparr>"

theorem follower_forwards_faithfully_but_loses_error_codes_witness:
  "raft_Delete leader_env ''/x'' \<lparr>nd_clock = 0, nd_fsm = empty_raft_state\<rparr> =
     (Inl ErrNotFound, \<lparr>nd_clock = 0, nd_fsm = empty_raft_state\<rparr>) \<and>
   raft_Delete demo_follower ''/x'' \<lparr>nd_clock = 0, nd_fsm = empty_raft_state\<rparr> =
     (Inl (Errorf (''leader forward failed with status '' @ Itoa 502 @ '': '' @ ''not_found'')), \<lparr>nd_clock = 0, nd_fsm = empty_raft_state\<rparr>)"
proof
  let ?w = "\<lparr>nd_clock = 0, nd_fsm = empty_raft_state\<rparr>"
  have none: "md_view ?w ''/x'' = None" by (simp add: md_view_def empty_raft_state_def)
  show del: "raft_Delete leader_env ''/x'' ?w = (Inl ErrNotFound, ?w)"
    by (simp add: leader_Delete none)
  have trim: "TrimSpace ''s3cret'' = ''s3cret''" "TrimSpace ''https://n1'' = ''https://n1''"
    "TrimSpace ''not_found'' = ''not_found''"
    by (rule TrimSpace_plain, simp add: plain_char_def)+
  have "reaches_leader demo_follower leader_env ''s3cret'' ''s3cret'' ?w"
    by (simp add: reaches_leader_def demo_follower_def leader_env_def trim)
  from follower_forwards_faithfully_but_loses_error_codes [OF this trim(1)] del
  show "raft_Delete demo_follower ''/x'' ?w =
     (Inl (Errorf (''leader forward failed with status '' @ Itoa 502 @ '': '' @ ''not_found'')), ?w)"
    by (auto simp: raft_Delete_def drop_result_def demo_follower_def errCode_def trim(3) simp del: append.simps
        split: prod.splits sum.splits)
qed

end
