(* ===== verification/S3.thy ===== *)
theory S3
  imports Backends "HOL-Library.Multiset"
begin

section \<open>The S3 backend (backends/s3)\<close>

text \<open>
  The adapter is a client of the AWS SDK, which is the record \<open>s3_client\<close>: one entry per call the adapter
  makes, on a world that holds the buckets. What the adapter relies on is the locale \<open>s3_api\<close>, from the
  documented behaviour of the service; a server in memory that behaves so is defined at the end, with
  pages of any size and requests that fail, before or after their effect.
\<close>

subsection \<open>The SDK\<close>

record s3_put =
  ui_Bucket :: string
  ui_Key :: string
  ui_Body :: reader
  ui_ServerSideEncryption :: "string option"
  ui_SSEKMSKeyId :: "string option"
  ui_ACL :: "string option"
  ui_ContentType :: "string option"

record s3_head =
  ho_ContentLength :: int
  ho_LastModified :: "gotime option"

record s3_entry =
  en_Key :: "string option"
  en_Size :: int
  en_LastModified :: "gotime option"

record s3_page =
  pg_CommonPrefixes :: "string option list"
  pg_Contents :: "s3_entry list"
  pg_NextContinuationToken :: "string option"

record 'w s3_client =
  aws_GetObject :: "goctx \<Rightarrow> string \<Rightarrow> string \<Rightarrow> 'w \<Rightarrow> reader result"
  aws_Upload :: "goctx \<Rightarrow> s3_put \<Rightarrow> 'w \<Rightarrow> unit result \<times> 'w"
  aws_PutObject :: "goctx \<Rightarrow> s3_put \<Rightarrow> 'w \<Rightarrow> unit result \<times> 'w"
  aws_DeleteObject :: "goctx \<Rightarrow> string \<Rightarrow> string \<Rightarrow> 'w \<Rightarrow> unit result \<times> 'w"
  aws_HeadObject :: "goctx \<Rightarrow> string \<Rightarrow> string \<Rightarrow> 'w \<Rightarrow> s3_head result"
  aws_ListObjectsV2 :: "goctx \<Rightarrow> string \<Rightarrow> string \<Rightarrow> string \<Rightarrow> string option \<Rightarrow> 'w \<Rightarrow> s3_page result"

subsection \<open>adapter.go\<close>

record S3Adapter =
  s3_bucketName :: string
  s3_serverSideEncryption :: string
  s3_acl :: string
  s3_kmsKeyID :: string

definition pathToKey :: "string \<Rightarrow> string" where
  "pathToKey path = TrimPrefix path ''/''"

definition keyToPath :: "string \<Rightarrow> string" where
  "keyToPath key = (if key = '''' then ''/'' else if \<not> HasPrefix key ''/'' then ''/'' @ key else key)"

definition isS3NotFound :: "goerr \<Rightarrow> bool" where
  "isS3NotFound err = (let errStr = Error err in
     Contains errStr ''NoSuchKey'' \<or> Contains errStr ''NotFound'' \<or> Contains errStr ''status code: 404'')"

subsection \<open>file\_operations.go\<close>

text \<open>\<^verbatim>\<open>filepath.Ext\<close>: from the last dot of the last element.\<close>

definition filepath_Ext :: "string \<Rightarrow> string" where
  "filepath_Ext path =
     (let r = takeWhile (\<lambda>c. c \<noteq> slash) (rev path)
      in if CHR ''.'' \<in> set r then CHR ''.'' # rev (takeWhile (\<lambda>c. c \<noteq> CHR ''.'') r) else '''')"

definition getContentType :: "string \<Rightarrow> string" where
  "getContentType path =
     (let ext = ToLower (filepath_Ext path) in
      if ext = ''.html'' \<or> ext = ''.htm'' then ''text/html''
      else if ext = ''.css'' then ''text/css''
      else if ext = ''.js'' then ''application/javascript''
      else if ext = ''.json'' then ''application/json''
      else if ext = ''.xml'' then ''application/xml''
      else if ext = ''.pdf'' then ''application/pdf''
      else if ext = ''.jpg'' \<or> ext = ''.jpeg'' then ''image/jpeg''
      else if ext = ''.png'' then ''image/png''
      else if ext = ''.gif'' then ''image/gif''
      else if ext = ''.svg'' then ''image/svg+xml''
      else if ext = ''.txt'' then ''text/plain''
      else if ext = ''.md'' then ''text/markdown''
      else ''application/octet-stream'')"

definition s3_Open :: "'w s3_client \<Rightarrow> S3Adapter \<Rightarrow> goctx \<Rightarrow> string \<Rightarrow> 'w \<Rightarrow> reader result" where
  "s3_Open client a ctx path w =
     (case aws_GetObject client ctx (s3_bucketName a) (pathToKey path) w of
        Inl err \<Rightarrow> if isS3NotFound err then Inl ErrNotFound else Inl (Wrapf ''failed to get object from S3'' err)
      | Inr body \<Rightarrow> Inr body)"

definition put_input :: "S3Adapter \<Rightarrow> string \<Rightarrow> reader \<Rightarrow> s3_put" where
  "put_input a path reader = \<lparr>
     ui_Bucket = s3_bucketName a, ui_Key = pathToKey path, ui_Body = reader,
     ui_ServerSideEncryption = (if s3_serverSideEncryption a \<noteq> '''' then Some (s3_serverSideEncryption a) else None),
     ui_SSEKMSKeyId = (if s3_serverSideEncryption a \<noteq> '''' \<and> s3_serverSideEncryption a = ''aws:kms'' \<and> s3_kmsKeyID a \<noteq> ''''
                       then Some (s3_kmsKeyID a) else None),
     ui_ACL = (if s3_acl a \<noteq> '''' then Some (s3_acl a) else None),
     ui_ContentType = (let contentType = getContentType path in if contentType \<noteq> '''' then Some contentType else None)\<rparr>"

definition s3_Create :: "'w s3_client \<Rightarrow> S3Adapter \<Rightarrow> goctx \<Rightarrow> string \<Rightarrow> reader \<Rightarrow> int \<Rightarrow> 'w \<Rightarrow> unit result \<times> 'w" where
  "s3_Create client a ctx path reader sz w =
     (case aws_Upload client ctx (put_input a path reader) w of
        (Inl err, w1) \<Rightarrow> (Inl (Wrapf ''failed to put object to S3'' err), w1)
      | (Inr _, w1) \<Rightarrow> (Inr (), w1))"

definition s3_Update :: "'w s3_client \<Rightarrow> S3Adapter \<Rightarrow> goctx \<Rightarrow> string \<Rightarrow> reader \<Rightarrow> int \<Rightarrow> 'w \<Rightarrow> unit result \<times> 'w" where
  "s3_Update client a ctx path reader sz w = s3_Create client a ctx path reader sz w"

definition s3_Delete :: "'w s3_client \<Rightarrow> S3Adapter \<Rightarrow> goctx \<Rightarrow> string \<Rightarrow> 'w \<Rightarrow> unit result \<times> 'w" where
  "s3_Delete client a ctx path w =
     (case aws_DeleteObject client ctx (s3_bucketName a) (pathToKey path) w of
        (Inl err, w1) \<Rightarrow> (Inl (Wrapf ''failed to delete object from S3'' err), w1)
      | (Inr _, w1) \<Rightarrow> (Inr (), w1))"

definition with_times :: "gotime option \<Rightarrow> Metadata \<Rightarrow> Metadata" where
  "with_times lastModified md =
     (case lastModified of None \<Rightarrow> md | Some t \<Rightarrow> md\<lparr>md_MTime := t, md_ATime := t, md_CTime := t\<rparr>)"

definition s3_Stat :: "'w s3_client \<Rightarrow> S3Adapter \<Rightarrow> goctx \<Rightarrow> string \<Rightarrow> 'w \<Rightarrow> Metadata result" where
  "s3_Stat client a ctx path w =
     (let key = pathToKey path in
      case aws_HeadObject client ctx (s3_bucketName a) key w of
        Inl err \<Rightarrow> if isS3NotFound err then Inl ErrNotFound else Inl (Wrapf ''failed to stat object in S3'' err)
      | Inr result \<Rightarrow> Inr (with_times (ho_LastModified result) (zero_Metadata\<lparr>
          md_Name := filepath_Base path, md_Path := ''/'' @ key, md_Type := ''file'', md_Size := ho_ContentLength result,
          md_Mode := ''0644'', md_UID := 1000, md_GID := 1000, md_BackendType := ''s3''\<rparr>)))"

subsection \<open>directory\_operations.go\<close>

definition prefix_entry :: "gotime \<Rightarrow> string \<Rightarrow> string option \<Rightarrow> Metadata option" where
  "prefix_entry now pre commonPrefix =
     (case commonPrefix of
        None \<Rightarrow> None
      | Some p \<Rightarrow>
          let dirName = TrimSuffix (TrimPrefix p pre) ''/'' in
          if dirName = '''' then None
          else Some (zero_Metadata\<lparr>
            md_Name := dirName, md_Path := keyToPath (TrimSuffix p ''/''), md_Type := ''directory'', md_Size := 0, md_Mode := ''0755'',
            md_UID := 1000, md_GID := 1000, md_BackendType := ''s3'', md_ATime := now, md_MTime := now, md_CTime := now\<rparr>))"

definition object_entry :: "string \<Rightarrow> s3_entry \<Rightarrow> Metadata option" where
  "object_entry pre object =
     (case en_Key object of
        None \<Rightarrow> None
      | Some key \<Rightarrow>
          if HasSuffix key ''/'' then None
          else let fileName = TrimPrefix key pre in
            if fileName = '''' \<or> Contains fileName ''/'' then None
            else Some (with_times (en_LastModified object) (zero_Metadata\<lparr>
              md_Name := fileName, md_Path := keyToPath key, md_Type := ''file'', md_Size := en_Size object, md_Mode := ''0644'',
              md_UID := 1000, md_GID := 1000, md_BackendType := ''s3''\<rparr>)))"

definition page_entries :: "gotime \<Rightarrow> string \<Rightarrow> s3_page \<Rightarrow> Metadata list" where
  "page_entries now pre result =
     List.map_filter (prefix_entry now pre) (pg_CommonPrefixes result) @ List.map_filter (object_entry pre) (pg_Contents result)"

text \<open>The loop over the pages ends when a page has no continuation token: whether it does is up to the server.\<close>

partial_function (option) list_loop ::
  "(string option \<Rightarrow> s3_page result) \<Rightarrow> gotime \<Rightarrow> string \<Rightarrow> string option \<Rightarrow> Metadata list \<Rightarrow> Metadata list result option" where
  "list_loop list now pre token results =
     (case list token of
        Inl err \<Rightarrow> Some (Inl (Wrapf ''failed to list objects in S3'' err))
      | Inr result \<Rightarrow>
          let results' = results @ page_entries now pre result in
          (case pg_NextContinuationToken result of
             None \<Rightarrow> Some (Inr results')
           | Some t \<Rightarrow> list_loop list now pre (Some t) results'))"

definition list_prefix :: "string \<Rightarrow> string" where
  "list_prefix path =
     (let pre = TrimPrefix path ''/'' in if pre \<noteq> '''' \<and> \<not> HasSuffix pre ''/'' then pre @ ''/'' else pre)"

definition s3_ListDirectory :: "'w s3_client \<Rightarrow> gotime \<Rightarrow> S3Adapter \<Rightarrow> goctx \<Rightarrow> string \<Rightarrow> 'w \<Rightarrow> Metadata list result option" where
  "s3_ListDirectory client now a ctx path w =
     (let pre = list_prefix path
      in list_loop (\<lambda>token. aws_ListObjectsV2 client ctx (s3_bucketName a) pre ''/'' token w) now pre None [])"

definition s3_CreateDirectory :: "'w s3_client \<Rightarrow> S3Adapter \<Rightarrow> goctx \<Rightarrow> string \<Rightarrow> 'w \<Rightarrow> unit result \<times> 'w" where
  "s3_CreateDirectory client a ctx path w =
     (let key0 = pathToKey path;
          key = (if \<not> HasSuffix key0 ''/'' then key0 @ ''/'' else key0)
      in case aws_PutObject client ctx
                \<lparr>ui_Bucket = s3_bucketName a, ui_Key = key, ui_Body = NewReader [], ui_ServerSideEncryption = None,
                 ui_SSEKMSKeyId = None, ui_ACL = None, ui_ContentType = None\<rparr> w of
           (Inl err, w1) \<Rightarrow> (Inl (Wrapf ''failed to create directory marker in S3'' err), w1)
         | (Inr _, w1) \<Rightarrow> (Inr (), w1))"

definition s3_ops :: "'w s3_client \<Rightarrow> ('w \<Rightarrow> gotime) \<Rightarrow> S3Adapter \<Rightarrow> 'w storage_ops" where
  "s3_ops client clock a = \<lparr>
     so_Open = s3_Open client a,
     so_Create = s3_Create client a,
     so_Update = s3_Update client a,
     so_Delete = s3_Delete client a,
     so_Stat = s3_Stat client a,
     so_ListDirectory = (\<lambda>ctx path w. s3_ListDirectory client (clock w) a ctx path w),
     so_CreateDirectory = s3_CreateDirectory client a\<rparr>"

subsection \<open>What the adapter relies on\<close>

record s3_object =
  ob_Data :: bytes
  ob_LastModified :: gotime
  ob_ServerSideEncryption :: "string option"
  ob_SSEKMSKeyId :: "string option"
  ob_ACL :: "string option"
  ob_ContentType :: "string option"

definition put_object :: "s3_put \<Rightarrow> gotime \<Rightarrow> s3_object" where
  "put_object i t = \<lparr>ob_Data = rd_data (ui_Body i), ob_LastModified = t, ob_ServerSideEncryption = ui_ServerSideEncryption i,
     ob_SSEKMSKeyId = ui_SSEKMSKeyId i, ob_ACL = ui_ACL i, ob_ContentType = ui_ContentType i\<rparr>"

definition put_effect ::
  "s3_put \<Rightarrow> unit result \<Rightarrow> (string \<Rightarrow> string \<Rightarrow> s3_object option) \<Rightarrow> (string \<Rightarrow> string \<Rightarrow> s3_object option) \<Rightarrow> bool" where
  "put_effect i v m m' \<longleftrightarrow>
     rd_err (ui_Body i) = None \<and> (\<exists>t. m' = m(ui_Bucket i := (m (ui_Bucket i))(ui_Key i \<mapsto> put_object i t))) \<or>
     \<not> is_ok v \<and> m' = m"

text \<open>The pages of a listing, from a token to the last page.\<close>

fun follows :: "(string option \<Rightarrow> s3_page result) \<Rightarrow> string option \<Rightarrow> s3_page list \<Rightarrow> bool" where
  "follows list token [] = False"
| "follows list token (p # ps) =
     (list token = Inr p \<and>
      (case pg_NextContinuationToken p of None \<Rightarrow> ps = [] | Some t \<Rightarrow> follows list (Some t) ps))"

text \<open>What a bucket holds directly below a prefix, and the common prefixes there.\<close>

definition leaves :: "(string \<Rightarrow> s3_object option) \<Rightarrow> string \<Rightarrow> string set" where
  "leaves m pre = {n. slash \<notin> set n \<and> m (pre @ n) \<noteq> None}"

definition branches :: "(string \<Rightarrow> s3_object option) \<Rightarrow> string \<Rightarrow> string set" where
  "branches m pre = {n. slash \<notin> set n \<and> (\<exists>k. m (pre @ n @ slash # k) \<noteq> None)}"

definition listed :: "(string \<Rightarrow> s3_object option) \<Rightarrow> string \<Rightarrow> s3_page list \<Rightarrow> bool" where
  "listed m pre pages \<longleftrightarrow>
     (let ps = concat (map pg_CommonPrefixes pages); es = concat (map pg_Contents pages) in
      distinct ps \<and> set ps = (\<lambda>n. Some (pre @ n @ ''/'')) ` branches m pre \<and>
      distinct (map en_Key es) \<and> en_Key ` set es = (\<lambda>n. Some (pre @ n)) ` leaves m pre \<and>
      (\<forall>e \<in> set es. \<forall>k ob. en_Key e = Some k \<longrightarrow> m k = Some ob \<longrightarrow> en_Size e = int (length (ob_Data ob))))"

text \<open>
  \<open>up\<close>: the service answers reads. A write that fails may have had its effect, but never with a part of
  the body: the upload of a body that ends in an error is abandoned.
\<close>

locale s3_api =
  fixes client :: "'w s3_client"
    and obj :: "'w \<Rightarrow> string \<Rightarrow> string \<Rightarrow> s3_object option"
    and up :: "'w \<Rightarrow> bool"
  assumes get_law: "up w \<Longrightarrow> obj w b k = Some ob \<Longrightarrow> aws_GetObject client ctx b k w = Inr (NewReader (ob_Data ob))"
    and get_absent: "up w \<Longrightarrow> obj w b k = None \<Longrightarrow> \<exists>err. aws_GetObject client ctx b k w = Inl err \<and> Contains (Error err) ''NoSuchKey''"
    and head_law: "up w \<Longrightarrow> obj w b k = Some ob \<Longrightarrow>
      aws_HeadObject client ctx b k w = Inr \<lparr>ho_ContentLength = int (length (ob_Data ob)), ho_LastModified = Some (ob_LastModified ob)\<rparr>"
    and head_absent: "up w \<Longrightarrow> obj w b k = None \<Longrightarrow> \<exists>err. aws_HeadObject client ctx b k w = Inl err \<and> Contains (Error err) ''NotFound''"
    and upload_law: "aws_Upload client ctx i w = (v, w') \<Longrightarrow> up w' = up w \<and> put_effect i v (obj w) (obj w')"
    and put_law: "aws_PutObject client ctx i w = (v, w') \<Longrightarrow> up w' = up w \<and> put_effect i v (obj w) (obj w')"
    and del_law: "aws_DeleteObject client ctx b k w = (v, w') \<Longrightarrow> up w' = up w \<and>
      (obj w' = (obj w)(b := (obj w b)(k := None)) \<or> \<not> is_ok v \<and> obj w' = obj w)"
    and list_law: "up w \<Longrightarrow> \<exists>pages. follows (\<lambda>t. aws_ListObjectsV2 client ctx b pre ''/'' t w) None pages \<and> listed (obj w b) pre pages"

text \<open>The place of a path is its key; a key that ends with a slash is the marker of a directory, not a file.\<close>

definition s3_loc :: "string \<Rightarrow> string option" where
  "s3_loc path = (if HasSuffix (pathToKey path) ''/'' then None else Some (pathToKey path))"

definition s3_store :: "('w \<Rightarrow> string \<Rightarrow> string \<Rightarrow> s3_object option) \<Rightarrow> string \<Rightarrow> 'w \<Rightarrow> string \<Rightarrow> bytes option" where
  "s3_store obj bucket w l = (if HasSuffix l ''/'' then None else map_option ob_Data (obj w bucket l))"

lemma s3_loc_key: "s3_loc p = Some l \<longleftrightarrow> l = pathToKey p \<and> \<not> HasSuffix l ''/''"
  by (auto simp: s3_loc_def)

context s3_api
begin

lemma keeps_up:
  "up (snd (s3_Create client a ctx p r n w)) = up w" "up (snd (s3_Delete client a ctx p w)) = up w"
  "up (snd (s3_CreateDirectory client a ctx p w)) = up w"
  using upload_law [OF prod.collapse [symmetric]] del_law [OF prod.collapse [symmetric]] put_law [OF prod.collapse [symmetric]]
  by (simp_all add: s3_Create_def s3_Delete_def s3_CreateDirectory_def Let_def case_prod_unfold split: sum.split)

lemma Create_law:
  assumes "s3_loc p = Some l" "s3_Create client a ctx p r n w = (v, w')"
  shows "up w' = up w \<and>
    (rd_err r = None \<and> s3_store obj (s3_bucketName a) w' = (s3_store obj (s3_bucketName a) w)(l \<mapsto> rd_data r) \<or>
     \<not> is_ok v \<and> s3_store obj (s3_bucketName a) w' = s3_store obj (s3_bucketName a) w)"
proof -
  obtain u where u: "aws_Upload client ctx (put_input a p r) w = (u, w')" "is_ok u = is_ok v"
    using assms(2) by (auto simp: s3_Create_def split: prod.splits sum.splits)
  have k: "ui_Key (put_input a p r) = l" "ui_Bucket (put_input a p r) = s3_bucketName a" "ui_Body (put_input a p r) = r" "\<not> HasSuffix l ''/''"
    using assms(1) by (auto simp: put_input_def s3_loc_key)
  show ?thesis
    using upload_law [OF u(1)] u(2) k(4) by (auto simp: put_effect_def k put_object_def s3_store_def fun_eq_iff)
qed

lemma Delete_law:
  assumes "s3_loc p = Some l" "s3_Delete client a ctx p w = (v, w')"
  shows "up w' = up w \<and> (s3_store obj (s3_bucketName a) w' = (s3_store obj (s3_bucketName a) w)(l := None) \<or>
     \<not> is_ok v \<and> s3_store obj (s3_bucketName a) w' = s3_store obj (s3_bucketName a) w)"
proof -
  obtain u where u: "aws_DeleteObject client ctx (s3_bucketName a) l w = (u, w')" "is_ok u = is_ok v"
    using assms by (auto simp: s3_Delete_def s3_loc_key split: prod.splits sum.splits)
  show ?thesis using del_law [OF u(1)] u(2) by (auto simp: s3_store_def fun_eq_iff)
qed

lemma CreateDirectory_law:
  assumes "s3_CreateDirectory client a ctx p w = (v, w')"
  shows "up w' = up w \<and> s3_store obj (s3_bucketName a) w' = s3_store obj (s3_bucketName a) w"
proof -
  obtain i u where u: "aws_PutObject client ctx i w = (u, w')" "HasSuffix (ui_Key i) ''/''"
    using assms by (auto simp: s3_CreateDirectory_def Let_def split: prod.splits sum.splits if_splits)
  show ?thesis using put_law [OF u(1)] u(2) by (auto simp: put_effect_def s3_store_def fun_eq_iff)
qed

end

sublocale s3_api \<subseteq> fs: file_backend "s3_ops client clock a" s3_loc "s3_store obj (s3_bucketName a)" up for clock a
proof unfold_locales
  show "up w \<Longrightarrow> s3_loc p = Some l \<Longrightarrow> s3_store obj (s3_bucketName a) w l = Some b \<Longrightarrow>
      so_Open (s3_ops client clock a) ctx p w = Inr (NewReader b)" for w p l b ctx
    using get_law by (auto simp: s3_ops_def s3_Open_def s3_loc_key s3_store_def split: if_splits)
  show "up w \<Longrightarrow> s3_loc p = Some l \<Longrightarrow> s3_store obj (s3_bucketName a) w l = None \<Longrightarrow>
      so_Open (s3_ops client clock a) ctx p w = Inr rd \<Longrightarrow> rd_err rd \<noteq> None" for w p l ctx rd
    using get_absent [of w "s3_bucketName a" l ctx] by (auto simp: s3_ops_def s3_Open_def s3_loc_key s3_store_def split: if_splits)
next
  fix w w' p l ctx r n u
  assume *: "up w" "s3_loc p = Some l"
  show "so_Create (s3_ops client clock a) ctx p r n w = (Inr u, w') \<Longrightarrow>
      up w' \<and> rd_err r = None \<and> s3_store obj (s3_bucketName a) w' = (s3_store obj (s3_bucketName a) w)(l \<mapsto> rd_data r)"
    "so_Update (s3_ops client clock a) ctx p r n w = (Inr u, w') \<Longrightarrow>
      up w' \<and> rd_err r = None \<and> s3_store obj (s3_bucketName a) w' = (s3_store obj (s3_bucketName a) w)(l \<mapsto> rd_data r)"
    using Create_law [OF *(2), of a ctx r n w "Inr u" w'] *(1) by (auto simp: s3_ops_def s3_Update_def)
next
  fix w w' p l ctx r n e
  assume *: "up w" "s3_loc p = Some l"
  show "so_Create (s3_ops client clock a) ctx p r n w = (Inl e, w') \<Longrightarrow>
      up w' \<and> write_lost l r (s3_store obj (s3_bucketName a) w) (s3_store obj (s3_bucketName a) w')"
    "so_Update (s3_ops client clock a) ctx p r n w = (Inl e, w') \<Longrightarrow>
      up w' \<and> write_lost l r (s3_store obj (s3_bucketName a) w) (s3_store obj (s3_bucketName a) w')"
    using Create_law [OF *(2), of a ctx r n w "Inl e" w'] *(1) by (auto simp: s3_ops_def s3_Update_def write_lost_def split: if_splits)
next
  fix w w' p l ctx v
  assume *: "up w" "s3_loc p = Some l"
  show "so_Delete (s3_ops client clock a) ctx p w = (v, w') \<Longrightarrow>
      up w' \<and> (s3_store obj (s3_bucketName a) w' = (s3_store obj (s3_bucketName a) w)(l := None) \<or>
        \<not> is_ok v \<and> s3_store obj (s3_bucketName a) w' = s3_store obj (s3_bucketName a) w)"
    using Delete_law [OF *(2), of a ctx w v w'] *(1) by (simp add: s3_ops_def)
  show "so_CreateDirectory (s3_ops client clock a) ctx p w = (v, w') \<Longrightarrow>
      up w' \<and> s3_store obj (s3_bucketName a) w' = s3_store obj (s3_bucketName a) w"
    using CreateDirectory_law [of a ctx p w v w'] *(1) by (simp add: s3_ops_def)
qed


subsection \<open>Listings\<close>

lemma list_loop_pages:
  "follows list token pages \<Longrightarrow>
   list_loop list now pre token results = Some (Inr (results @ concat (map (page_entries now pre) pages)))"
proof (induction pages arbitrary: token results)
  case (Cons p ps)
  then show ?case by (subst list_loop.simps) (auto simp: Let_def split: option.splits)
qed simp

lemma page_entries_mset:
  "mset (concat (map (page_entries now pre) pages)) =
   mset (List.map_filter (prefix_entry now pre) (concat (map pg_CommonPrefixes pages)) @
     List.map_filter (object_entry pre) (concat (map pg_Contents pages)))"
  by (induction pages) (auto simp: page_entries_def map_filter_def)

lemma distinct_map_filter:
  assumes "distinct xs" "inj_on (\<lambda>x. h (the (f x))) {x \<in> set xs. f x \<noteq> None}"
  shows "distinct (map h (List.map_filter f xs))"
  using assms by (auto simp: map_filter_def distinct_map comp_def intro!: inj_onI dest: inj_onD)

lemma set_map_filter_some: "set (List.map_filter f xs) = {y. \<exists>x \<in> set xs. f x = Some y}"
  by (force simp: map_filter_def)

abbreviation kind :: "Metadata \<Rightarrow> string \<times> string" where
  "kind md \<equiv> (md_Type md, md_Name md)"

text \<open>The entries of a directory: its files with their sizes, and the first segments of what lies deeper.\<close>

definition dir_listing :: "(string \<Rightarrow> s3_object option) \<Rightarrow> string \<Rightarrow> Metadata list \<Rightarrow> bool" where
  "dir_listing m pre mds \<longleftrightarrow>
     kind ` set mds = {''directory''} \<times> (branches m pre - {''''}) \<union> {''file''} \<times> (leaves m pre - {''''}) \<and>
     distinct (map kind mds) \<and>
     (\<forall>md \<in> set mds. md_Path md = keyToPath (pre @ md_Name md) \<and>
        (md_Type md = ''file'' \<longrightarrow> (\<exists>ob. m (pre @ md_Name md) = Some ob \<and> md_Size md = int (length (ob_Data ob)))))"

lemma prefix_entry_branch:
  assumes "slash \<notin> set n"
  shows "prefix_entry now pre (Some (pre @ n @ ''/'')) = (if n = '''' then None else
    Some (zero_Metadata\<lparr>md_Name := n, md_Path := keyToPath (pre @ n), md_Type := ''directory'', md_Size := 0, md_Mode := ''0755'',
      md_UID := 1000, md_GID := 1000, md_BackendType := ''s3'', md_ATime := now, md_MTime := now, md_CTime := now\<rparr>))"
  using TrimSuffix_append [of "pre @ n" "''/''"] TrimSuffix_append [of n "''/''"]
  by (auto simp: prefix_entry_def Let_def)

lemma object_entry_leaf:
  assumes "slash \<notin> set n" "en_Key e = Some (pre @ n)"
  shows "n = '''' \<Longrightarrow> object_entry pre e = None"
    "n \<noteq> '''' \<Longrightarrow> \<exists>md. object_entry pre e = Some md \<and> kind md = (''file'', n) \<and> md_Path md = keyToPath (pre @ n) \<and> md_Size md = en_Size e"
proof -
  have "\<not> HasSuffix (pre @ n) ''/''" if "n \<noteq> ''''"
  proof
    assume "HasSuffix (pre @ n) ''/''"
    then have "last (pre @ n) = slash" by (auto simp: HasSuffix_iff)
    then show False using that assms(1) by (metis last_appendR last_in_set)
  qed
  then show "n = '''' \<Longrightarrow> object_entry pre e = None"
    "n \<noteq> '''' \<Longrightarrow> \<exists>md. object_entry pre e = Some md \<and> kind md = (''file'', n) \<and> md_Path md = keyToPath (pre @ n) \<and> md_Size md = en_Size e"
    using assms TrimPrefix_append [of pre n] by (auto simp: object_entry_def Let_def with_times_def split: option.splits)
qed

lemma prefix_entry_listed:
  assumes "x \<in> (\<lambda>n. Some (pre @ n @ ''/'')) ` branches m pre" "prefix_entry now pre x = Some md"
  shows "\<exists>n \<in> branches m pre. n \<noteq> '''' \<and> x = Some (pre @ n @ ''/'') \<and> kind md = (''directory'', n) \<and> md_Path md = keyToPath (pre @ n)"
proof -
  obtain n where n: "n \<in> branches m pre" "x = Some (pre @ n @ ''/'')" using assms(1) by blast
  then have "slash \<notin> set n" by (simp add: branches_def)
  from prefix_entry_branch [OF this, of now pre] show ?thesis using n assms(2) by (auto split: if_splits)
qed

lemma object_entry_listed:
  assumes "en_Key x \<in> (\<lambda>n. Some (pre @ n)) ` leaves m pre" "object_entry pre x = Some md"
  shows "\<exists>n \<in> leaves m pre. n \<noteq> '''' \<and> en_Key x = Some (pre @ n) \<and> kind md = (''file'', n) \<and>
    md_Path md = keyToPath (pre @ n) \<and> md_Size md = en_Size x"
proof -
  obtain n where n: "n \<in> leaves m pre" "en_Key x = Some (pre @ n)" using assms(1) by blast
  then have "slash \<notin> set n" by (simp add: leaves_def)
  note leaf = object_entry_leaf [OF this n(2)]
  have "n \<noteq> ''''" using leaf(1) assms(2) by auto
  then show ?thesis using leaf(2) assms(2) n by auto
qed

lemma entries_distinct:
  assumes ps: "distinct ps" "set ps = (\<lambda>n. Some (pre @ n @ ''/'')) ` branches m pre"
    and es: "distinct (map en_Key es)" "en_Key ` set es = (\<lambda>n. Some (pre @ n)) ` leaves m pre"
  shows "distinct (map kind (List.map_filter (prefix_entry now pre) ps @ List.map_filter (object_entry pre) es))"
proof -
  let ?f = "prefix_entry now pre" and ?g = "object_entry pre"
  have D: "x \<in> set ps \<Longrightarrow> ?f x = Some md \<Longrightarrow> \<exists>n. x = Some (pre @ n @ ''/'') \<and> kind md = (''directory'', n)" for x md
    using prefix_entry_listed [of x pre m now md] ps(2) by blast
  have F: "x \<in> set es \<Longrightarrow> ?g x = Some md \<Longrightarrow> \<exists>n. en_Key x = Some (pre @ n) \<and> kind md = (''file'', n)" for x md
    using object_entry_listed [of x pre m md] es(2) by blast
  have "x = y" if "x \<in> set ps" "?f x = Some a" "y \<in> set ps" "?f y = Some b" "kind a = kind b" for x y a b
    using D [OF that(1,2)] D [OF that(3,4)] that(5) by auto
  then have "inj_on (\<lambda>x. kind (the (?f x))) {x \<in> set ps. ?f x \<noteq> None}" by (auto simp: inj_on_def)
  moreover have "x = y" if "x \<in> set es" "?g x = Some a" "y \<in> set es" "?g y = Some b" "kind a = kind b" for x y a b
  proof -
    have "en_Key x = en_Key y" using F [OF that(1,2)] F [OF that(3,4)] that(5) by auto
    then show ?thesis using es(1) that(1,3) by (auto simp: distinct_map dest: inj_onD)
  qed
  then have "inj_on (\<lambda>x. kind (the (?g x))) {x \<in> set es. ?g x \<noteq> None}" by (auto simp: inj_on_def)
  moreover have "distinct es" using es(1) by (simp add: distinct_map)
  moreover have "kind ` {y. \<exists>x \<in> set ps. ?f x = Some y} \<inter> kind ` {y. \<exists>x \<in> set es. ?g x = Some y} = {}"
    using D F by (fastforce simp: disjoint_iff)
  ultimately show ?thesis
    using distinct_map_filter [OF ps(1), of kind ?f] distinct_map_filter [of es kind ?g] by (simp add: set_map_filter_some)
qed

lemma listed_dir_listing:
  assumes "listed m pre pages"
  shows "dir_listing m pre (concat (map (page_entries now pre) pages))"
proof -
  define ps where "ps = concat (map pg_CommonPrefixes pages)"
  define es where "es = concat (map pg_Contents pages)"
  define mds where "mds = concat (map (page_entries now pre) pages)"
  let ?f = "prefix_entry now pre" and ?g = "object_entry pre"
  have l: "distinct ps" "set ps = (\<lambda>n. Some (pre @ n @ ''/'')) ` branches m pre" "distinct (map en_Key es)"
      "en_Key ` set es = (\<lambda>n. Some (pre @ n)) ` leaves m pre"
      "\<And>e k ob. e \<in> set es \<Longrightarrow> en_Key e = Some k \<Longrightarrow> m k = Some ob \<Longrightarrow> en_Size e = int (length (ob_Data ob))"
    using assms by (auto simp: listed_def ps_def es_def Let_def)
  have ms: "mset mds = mset (List.map_filter ?f ps @ List.map_filter ?g es)"
    unfolding mds_def ps_def es_def by (rule page_entries_mset)
  then have st: "set mds = {y. \<exists>x \<in> set ps. ?f x = Some y} \<union> {y. \<exists>x \<in> set es. ?g x = Some y}"
    by (metis mset_eq_setD set_append set_map_filter_some)
  have K: "(\<exists>n \<in> branches m pre. n \<noteq> '''' \<and> kind md = (''directory'', n) \<and> md_Path md = keyToPath (pre @ n)) \<or>
      (\<exists>n \<in> leaves m pre. n \<noteq> '''' \<and> kind md = (''file'', n) \<and> md_Path md = keyToPath (pre @ n) \<and>
         (\<exists>x \<in> set es. en_Key x = Some (pre @ n) \<and> md_Size md = en_Size x))" if mem: "md \<in> set mds" for md
  proof -
    consider (d) x where "x \<in> set ps" "?f x = Some md" | (f) x where "x \<in> set es" "?g x = Some md"
      using mem unfolding st by blast
    then show ?thesis
    proof cases
      case d
      then show ?thesis using prefix_entry_listed [OF d(1) [unfolded l(2)] d(2)] by blast
    next
      case f
      then show ?thesis using object_entry_listed [OF imageI [OF f(1), of en_Key, unfolded l(4)] f(2)] by blast
    qed
  qed
  have D: "(''directory'', n) \<in> kind ` set mds" if "n \<in> branches m pre" "n \<noteq> ''''" for n
  proof -
    have n: "slash \<notin> set n" "Some (pre @ n @ ''/'') \<in> set ps" using that(1) by (auto simp: branches_def l(2))
    show ?thesis unfolding st using prefix_entry_branch [OF n(1), of now pre] that(2) n(2) by (intro image_eqI) auto
  qed
  have F: "(''file'', n) \<in> kind ` set mds" if lf: "n \<in> leaves m pre" "n \<noteq> ''''" for n
  proof -
    have "Some (pre @ n) \<in> en_Key ` set es" using lf(1) by (simp add: l(4))
    then obtain e where e: "e \<in> set es" "en_Key e = Some (pre @ n)" by auto
    obtain md where "?g e = Some md" "kind md = (''file'', n)"
      using object_entry_leaf(2) [OF _ e(2) lf(2)] lf(1) by (auto simp: leaves_def)
    then show ?thesis unfolding st using e(1) by (intro image_eqI [of _ _ md]) auto
  qed
  have "kind ` set mds = {''directory''} \<times> (branches m pre - {''''}) \<union> {''file''} \<times> (leaves m pre - {''''})" (is "_ = ?R")
  proof (intro subset_antisym subsetI)
    show "x \<in> ?R" if "x \<in> kind ` set mds" for x using that K by fastforce
    show "x \<in> kind ` set mds" if "x \<in> ?R" for x using that D F by auto
  qed
  moreover have "distinct (map kind mds)"
    using entries_distinct [OF l(1-4), of now] ms by (metis mset_map mset_eq_imp_distinct_iff)
  moreover have "\<forall>md \<in> set mds. md_Path md = keyToPath (pre @ md_Name md) \<and>
      (md_Type md = ''file'' \<longrightarrow> (\<exists>ob. m (pre @ md_Name md) = Some ob \<and> md_Size md = int (length (ob_Data ob))))"
    using K l(5) by (fastforce simp: leaves_def)
  ultimately show ?thesis by (simp add: dir_listing_def mds_def)
qed

context s3_api
begin

lemma ListDirectory_complete:
  assumes "up w"
  shows "\<exists>mds. s3_ListDirectory client now a ctx path w = Some (Inr mds) \<and> dir_listing (obj w (s3_bucketName a)) (list_prefix path) mds"
proof -
  obtain pages where "follows (\<lambda>t. aws_ListObjectsV2 client ctx (s3_bucketName a) (list_prefix path) ''/'' t w) None pages"
    "listed (obj w (s3_bucketName a)) (list_prefix path) pages" using list_law [OF assms] by blast
  then show ?thesis
    using list_loop_pages listed_dir_listing by (fastforce simp: s3_ListDirectory_def Let_def)
qed

end

subsection \<open>A server in memory\<close>

text \<open>
  \<open>bs_page\<close> is one less than the number of entries on a page, \<open>bs_faults\<close> what happens to the writes to come,
  \<open>bs_up\<close> whether reads are answered. A continuation token is as long as the number of entries it skips.
\<close>

record s3_server =
  bs_objects :: "(string \<times> string, s3_object) gomap"
  bs_faults :: "fault list"
  bs_clock :: gotime
  bs_page :: nat
  bs_up :: bool

definition mem_obj :: "s3_server \<Rightarrow> string \<Rightarrow> string \<Rightarrow> s3_object option" where
  "mem_obj w b k = map_of (bs_objects w) (b, k)"

definition mem_write :: "(s3_server \<Rightarrow> s3_server) \<Rightarrow> s3_server \<Rightarrow> unit result \<times> s3_server" where
  "mem_write f w =
     (case bs_faults w of
        [] \<Rightarrow> (Inr (), f w)
      | Works # fs \<Rightarrow> (Inr (), f (w\<lparr>bs_faults := fs\<rparr>))
      | Fails err # fs \<Rightarrow> (Inl err, w\<lparr>bs_faults := fs\<rparr>)
      | LosesAnswer err # fs \<Rightarrow> (Inl err, f (w\<lparr>bs_faults := fs\<rparr>)))"

definition mem_put :: "s3_put \<Rightarrow> s3_server \<Rightarrow> unit result \<times> s3_server" where
  "mem_put i w =
     (case rd_err (ui_Body i) of
        Some err \<Rightarrow> (Inl err, w)
      | None \<Rightarrow> mem_write (\<lambda>w. w\<lparr>bs_objects := AList.update (ui_Bucket i, ui_Key i) (put_object i (bs_clock w)) (bs_objects w),
                               bs_clock := bs_clock w + 1\<rparr>) w)"

definition roll :: "string \<Rightarrow> string \<Rightarrow> string + string" where
  "roll pre k =
     (let r = drop (length pre) k
      in if slash \<in> set r then Inl (pre @ takeWhile (\<lambda>c. c \<noteq> slash) r @ ''/'') else Inr k)"

definition mem_entries :: "string \<Rightarrow> string \<Rightarrow> s3_server \<Rightarrow> (string + string) list" where
  "mem_entries b pre w =
     remdups (map (roll pre) (filter (\<lambda>k. HasPrefix k pre) (map snd (filter (\<lambda>bk. fst bk = b) (map fst (bs_objects w))))))"

definition mem_page :: "string \<Rightarrow> s3_server \<Rightarrow> nat \<Rightarrow> (string + string) list \<Rightarrow> s3_page" where
  "mem_page b w i es =
     (let n = Suc (bs_page w); part = take n (drop i es) in
      \<lparr>pg_CommonPrefixes = List.map_filter (\<lambda>e. case e of Inl p \<Rightarrow> Some (Some p) | Inr _ \<Rightarrow> None) part,
       pg_Contents = List.map_filter (\<lambda>e. case e of Inl _ \<Rightarrow> None | Inr k \<Rightarrow>
         map_option (\<lambda>ob. \<lparr>en_Key = Some k, en_Size = int (length (ob_Data ob)), en_LastModified = Some (ob_LastModified ob)\<rparr>) (mem_obj w b k)) part,
       pg_NextContinuationToken = (if i + n < length es then Some (replicate (i + n) CHR ''x'') else None)\<rparr>)"

definition mem_list :: "string \<Rightarrow> string \<Rightarrow> string option \<Rightarrow> s3_server \<Rightarrow> s3_page result" where
  "mem_list b pre token w =
     (if \<not> bs_up w then Inl (Errorf ''RequestError'')
      else Inr (mem_page b w (case token of None \<Rightarrow> 0 | Some t \<Rightarrow> length t) (mem_entries b pre w)))"

definition mem_client :: "s3_server s3_client" where
  "mem_client = \<lparr>
     aws_GetObject = (\<lambda>ctx b k w. if \<not> bs_up w then Inl (Errorf ''RequestError'') else case mem_obj w b k of
        None \<Rightarrow> Inl (Errorf ''NoSuchKey: The specified key does not exist.'') | Some ob \<Rightarrow> Inr (NewReader (ob_Data ob))),
     aws_Upload = (\<lambda>ctx. mem_put), aws_PutObject = (\<lambda>ctx. mem_put),
     aws_DeleteObject = (\<lambda>ctx b k. mem_write (\<lambda>w. w\<lparr>bs_objects := AList.delete (b, k) (bs_objects w)\<rparr>)),
     aws_HeadObject = (\<lambda>ctx b k w. if \<not> bs_up w then Inl (Errorf ''RequestError'') else case mem_obj w b k of
        None \<Rightarrow> Inl (Errorf ''NotFound: Not Found'')
      | Some ob \<Rightarrow> Inr \<lparr>ho_ContentLength = int (length (ob_Data ob)), ho_LastModified = Some (ob_LastModified ob)\<rparr>),
     aws_ListObjectsV2 = (\<lambda>ctx b pre delimiter. mem_list b pre)\<rparr>"

lemma map_filter_append [simp]: "List.map_filter f (xs @ ys) = List.map_filter f xs @ List.map_filter f ys"
  by (simp add: map_filter_def)

lemma mem_pages:
  fixes b :: string
  defines "P \<equiv> List.map_filter (\<lambda>e. case e of Inl p \<Rightarrow> Some (Some p) | Inr _ \<Rightarrow> None)"
    and "C \<equiv> \<lambda>w. List.map_filter (\<lambda>e. case e of Inl _ \<Rightarrow> None | Inr k \<Rightarrow>
         map_option (\<lambda>ob. \<lparr>en_Key = Some k, en_Size = int (length (ob_Data ob)), en_LastModified = Some (ob_LastModified ob)\<rparr>) (mem_obj w b k))"
  assumes "bs_up w" "i = (case token of None \<Rightarrow> 0 | Some t \<Rightarrow> length t)"
  shows "\<exists>pages. follows (\<lambda>t. mem_list b pre t w) token pages \<and>
    concat (map pg_CommonPrefixes pages) = P (drop i (mem_entries b pre w)) \<and>
    concat (map pg_Contents pages) = C w (drop i (mem_entries b pre w))"
  using assms(4)
proof (induction "length (mem_entries b pre w) - i" arbitrary: i token rule: less_induct)
  case less
  define es where "es = mem_entries b pre w"
  define n where "n = Suc (bs_page w)"
  define p where "p = mem_page b w i es"
  have list: "mem_list b pre token w = Inr p" using assms(3) less(2) by (simp add: mem_list_def p_def es_def)
  have split: "drop i es = take n (drop i es) @ drop (i + n) es" by (metis add.commute append_take_drop_id drop_drop)
  have p: "pg_CommonPrefixes p = P (take n (drop i es))" "pg_Contents p = C w (take n (drop i es))"
    "pg_NextContinuationToken p = (if i + n < length es then Some (replicate (i + n) CHR ''x'') else None)"
    by (simp_all add: p_def mem_page_def Let_def n_def P_def C_def)
  show ?case
  proof (cases "i + n < length es")
    case True
    have "length es - (i + n) < length es - i" using True by (simp add: n_def)
    from less(1) [of "i + n" "Some (replicate (i + n) CHR ''x'')", folded es_def, OF this]
    obtain pages where "follows (\<lambda>t. mem_list b pre t w) (Some (replicate (i + n) CHR ''x'')) pages"
      "concat (map pg_CommonPrefixes pages) = P (drop (i + n) es)" "concat (map pg_Contents pages) = C w (drop (i + n) es)" by auto
    then show ?thesis
      unfolding es_def [symmetric] using list p True split
      by (intro exI [of _ "p # pages"]) (metis (no_types, lifting) C_def P_def concat.simps(2) follows.simps(2) list.simps(9) map_filter_append option.simps(5))
  next
    case False
    then have "drop i es = take n (drop i es)" using split by simp
    then show ?thesis
      unfolding es_def [symmetric] using list p False by (intro exI [of _ "[p]"]) simp
  qed
qed

lemma mem_keys: "set (map snd (filter (\<lambda>bk. fst bk = b) (map fst (bs_objects w)))) = {k. mem_obj w b k \<noteq> None}"
proof -
  have "snd ` {bk \<in> S. fst bk = b} = {k. (b, k) \<in> S}" for S :: "(string \<times> string) set" by force
  then show ?thesis by (simp add: mem_obj_def map_of_eq_None_iff)
qed

lemma roll_branch: "slash \<notin> set n \<Longrightarrow> roll pre (pre @ n @ slash # k) = Inl (pre @ n @ ''/'')"
  by (simp add: roll_def takeWhile_append)

lemma roll_leaf: "slash \<notin> set n \<Longrightarrow> roll pre (pre @ n) = Inr (pre @ n)"
  by (simp add: roll_def)

lemma roll_cases:
  obtains (branch) n s where "slash \<notin> set n" "k = n @ slash # s" | (leaf) "slash \<notin> set k"
  by (metis split_list_first)

lemma mem_entries_iff:
  "Inl p \<in> set (mem_entries b pre w) \<longleftrightarrow> (\<exists>n \<in> branches (mem_obj w b) pre. p = pre @ n @ ''/'')"
  "Inr k \<in> set (mem_entries b pre w) \<longleftrightarrow> (\<exists>n \<in> leaves (mem_obj w b) pre. k = pre @ n)"
proof -
  have st: "set (mem_entries b pre w) = roll pre ` {pre @ r | r. mem_obj w b (pre @ r) \<noteq> None}"
    using mem_keys [of b w] by (auto simp: mem_entries_def HasPrefix_iff)
  have "e \<in> set (mem_entries b pre w) \<longleftrightarrow>
      (\<exists>n \<in> branches (mem_obj w b) pre. e = Inl (pre @ n @ ''/'')) \<or> (\<exists>n \<in> leaves (mem_obj w b) pre. e = Inr (pre @ n))" (is "_ \<longleftrightarrow> ?R") for e
  proof
    assume "e \<in> set (mem_entries b pre w)"
    then obtain r where r: "e = roll pre (pre @ r)" "mem_obj w b (pre @ r) \<noteq> None" unfolding st by auto
    show ?R
    proof (cases r rule: roll_cases)
      case (branch n s)
      then show ?thesis using r roll_branch [of n pre s] by (auto simp: branches_def)
    next
      case leaf
      then show ?thesis using r roll_leaf [of r pre] by (auto simp: leaves_def)
    qed
  next
    assume ?R
    then show "e \<in> set (mem_entries b pre w)"
    proof (elim disjE bexE)
      fix n
      assume "n \<in> branches (mem_obj w b) pre" "e = Inl (pre @ n @ ''/'')"
      then obtain k where "slash \<notin> set n" "mem_obj w b (pre @ n @ slash # k) \<noteq> None" by (auto simp: branches_def)
      then show ?thesis unfolding st using roll_branch [of n pre k] \<open>e = _\<close> by (intro image_eqI [of _ _ "pre @ n @ slash # k"]) auto
    next
      fix n
      assume "n \<in> leaves (mem_obj w b) pre" "e = Inr (pre @ n)"
      then show ?thesis unfolding st using roll_leaf [of n pre] by (intro image_eqI [of _ _ "pre @ n"]) (auto simp: leaves_def)
    qed
  qed
  then show "Inl p \<in> set (mem_entries b pre w) \<longleftrightarrow> (\<exists>n \<in> branches (mem_obj w b) pre. p = pre @ n @ ''/'')"
    "Inr k \<in> set (mem_entries b pre w) \<longleftrightarrow> (\<exists>n \<in> leaves (mem_obj w b) pre. k = pre @ n)" by auto
qed

lemma mem_listed:
  assumes "bs_up w"
  shows "\<exists>pages. follows (\<lambda>t. mem_list b pre t w) None pages \<and> listed (mem_obj w b) pre pages"
proof -
  let ?P = "\<lambda>e. case e of Inl p \<Rightarrow> Some (Some p) | Inr _ \<Rightarrow> None"
  let ?C = "\<lambda>e. case e of Inl _ \<Rightarrow> None | Inr k \<Rightarrow>
     map_option (\<lambda>ob. \<lparr>en_Key = Some k, en_Size = int (length (ob_Data ob)), en_LastModified = Some (ob_LastModified ob)\<rparr>) (mem_obj w b k)"
  let ?es = "mem_entries b pre w"
  obtain pages where pg: "follows (\<lambda>t. mem_list b pre t w) None pages"
    "concat (map pg_CommonPrefixes pages) = List.map_filter ?P ?es" "concat (map pg_Contents pages) = List.map_filter ?C ?es"
    using mem_pages [OF assms, of 0 None b pre] by auto
  have d: "distinct ?es" by (simp add: mem_entries_def)
  have "distinct (map id (List.map_filter ?P ?es))"
    by (rule distinct_map_filter [OF d]) (auto intro!: inj_onI split: sum.splits)
  moreover have "distinct (map en_Key (List.map_filter ?C ?es))"
    by (rule distinct_map_filter [OF d]) (auto intro!: inj_onI split: sum.splits)
  moreover have "set (List.map_filter ?P ?es) = (\<lambda>n. Some (pre @ n @ ''/'')) ` branches (mem_obj w b) pre"
  proof -
    have "x \<in> set (List.map_filter ?P ?es) \<longleftrightarrow> (\<exists>p. Inl p \<in> set ?es \<and> x = Some p)" for x
    proof
      assume "x \<in> set (List.map_filter ?P ?es)"
      then obtain e where "e \<in> set ?es" "?P e = Some x" by (auto simp: set_map_filter_some)
      then show "\<exists>p. Inl p \<in> set ?es \<and> x = Some p" by (cases e rule: sum.exhaust) auto
    next
      assume "\<exists>p. Inl p \<in> set ?es \<and> x = Some p"
      then obtain p where "Inl p \<in> set ?es" "x = Some p" by blast
      then show "x \<in> set (List.map_filter ?P ?es)"
        unfolding set_map_filter_some by (intro CollectI bexI [of _ "Inl p"]) simp_all
    qed
    then show ?thesis using mem_entries_iff(1) [of _ b pre w] by auto
  qed
  moreover have "en_Key ` set (List.map_filter ?C ?es) = (\<lambda>n. Some (pre @ n)) ` leaves (mem_obj w b) pre"
  proof (intro subset_antisym subsetI)
    fix x
    assume "x \<in> en_Key ` set (List.map_filter ?C ?es)"
    then obtain e y where "e \<in> set ?es" "?C e = Some y" "x = en_Key y" by (auto simp: set_map_filter_some)
    then obtain k where "Inr k \<in> set ?es" "x = Some k" by (cases e rule: sum.exhaust) auto
    then show "x \<in> (\<lambda>n. Some (pre @ n)) ` leaves (mem_obj w b) pre" using mem_entries_iff(2) [of k b pre w] by auto
  next
    fix x
    assume "x \<in> (\<lambda>n. Some (pre @ n)) ` leaves (mem_obj w b) pre"
    then obtain n ob where n: "n \<in> leaves (mem_obj w b) pre" "x = Some (pre @ n)" "mem_obj w b (pre @ n) = Some ob"
      by (auto simp: leaves_def)
    then have "?C (Inr (pre @ n)) = Some \<lparr>en_Key = x, en_Size = int (length (ob_Data ob)), en_LastModified = Some (ob_LastModified ob)\<rparr>"
      "Inr (pre @ n) \<in> set ?es" using mem_entries_iff(2) [of "pre @ n" b pre w] by auto
    then show "x \<in> en_Key ` set (List.map_filter ?C ?es)" unfolding set_map_filter_some by (force intro: image_eqI)
  qed
  moreover have "\<forall>e \<in> set (List.map_filter ?C ?es). \<forall>k ob. en_Key e = Some k \<longrightarrow> mem_obj w b k = Some ob \<longrightarrow> en_Size e = int (length (ob_Data ob))"
  proof -
    have "?C x = Some e \<Longrightarrow> en_Key e = Some k \<Longrightarrow> mem_obj w b k = Some ob \<Longrightarrow> en_Size e = int (length (ob_Data ob))" for x e k ob
      by (cases x) auto
    then show ?thesis unfolding set_map_filter_some by blast
  qed
  ultimately have "listed (mem_obj w b) pre pages" by (simp add: listed_def pg(2,3) Let_def)
  then show ?thesis using pg(1) by blast
qed

lemma mem_put_effect: "mem_put i w = (v, w') \<Longrightarrow> bs_up w' = bs_up w \<and> put_effect i v (mem_obj w) (mem_obj w')"
  by (auto simp: mem_put_def mem_write_def put_effect_def mem_obj_def fun_eq_iff split: option.splits list.splits fault.splits)

interpretation mem: s3_api mem_client mem_obj bs_up
proof unfold_locales
  show "\<exists>err. aws_GetObject mem_client ctx b k w = Inl err \<and> Contains (Error err) ''NoSuchKey''" if "bs_up w" "mem_obj w b k = None" for w b k ctx
    using that by (simp add: mem_client_def)
  show "\<exists>err. aws_HeadObject mem_client ctx b k w = Inl err \<and> Contains (Error err) ''NotFound''" if "bs_up w" "mem_obj w b k = None" for w b k ctx
    using that by (simp add: mem_client_def)
  show "aws_DeleteObject mem_client ctx b k w = (v, w') \<Longrightarrow> bs_up w' = bs_up w \<and>
      (mem_obj w' = (mem_obj w)(b := (mem_obj w b)(k := None)) \<or> \<not> is_ok v \<and> mem_obj w' = mem_obj w)" for ctx b k w v w'
    by (auto simp: mem_client_def mem_write_def mem_obj_def fun_eq_iff split: list.splits fault.splits)
qed (use mem_put_effect mem_listed in \<open>auto simp: mem_client_def\<close>)

subsection \<open>Properties\<close>

text \<open>
  C27: (termination) A listing returns, however many pages the service cuts it into, and is complete: with a service that
  behaves as documented and answers, \<^verbatim>\<open>ListDirectory\<close> ends without an error and its entries are, each once, the files directly in the
  directory, with their sizes, and the directories that the keys below it imply.
\<close>

theorem s3_listing_ends:
  assumes "s3_api client obj up" "up w"
  shows "\<exists>mds. s3_ListDirectory client now a ctx path w = Some (Inr mds) \<and>
    dir_listing (obj w (s3_bucketName a)) (list_prefix path) mds"
  by (rule s3_api.ListDirectory_complete [OF assms])

definition demo_adapter :: S3Adapter where
  "demo_adapter = \<lparr>s3_bucketName = ''b'', s3_serverSideEncryption = '''', s3_acl = '''', s3_kmsKeyID = ''''\<rparr>"

definition demo_s3 :: s3_server where
  "demo_s3 = \<lparr>bs_objects = [], bs_faults = [], bs_clock = 0, bs_page = 0, bs_up = True\<rparr>"

definition demo_stored :: s3_server where
  "demo_stored = snd (s3_Create mem_client demo_adapter Background ''/d/x'' (NewReader ''hi'') 2
     (snd (s3_CreateDirectory mem_client demo_adapter Background ''d/e'' demo_s3)))"


theorem s3_listing_ends_witness:
  "\<exists>mds. s3_ListDirectory mem_client 5 demo_adapter Background ''/d'' demo_stored = Some (Inr mds) \<and>
     kind ` set mds = {(''directory'', ''e''), (''file'', ''x'')}"
proof -
  have up: "bs_up demo_stored" by code_simp
  obtain mds where mds: "s3_ListDirectory mem_client 5 demo_adapter Background ''/d'' demo_stored = Some (Inr mds)"
      "dir_listing (mem_obj demo_stored ''b'') ''d/'' mds"
    using s3_listing_ends [OF mem.s3_api_axioms up, of 5 demo_adapter Background "''/d''"]
    by (auto simp: demo_adapter_def list_prefix_def HasSuffix_def)
  have es: "mem_entries ''b'' ''d/'' demo_stored = [Inl ''d/e/'', Inr ''d/x'']" by code_simp
  have "n \<in> branches (mem_obj demo_stored ''b'') ''d/'' \<longleftrightarrow> Inl (''d/'' @ n @ ''/'') \<in> set [Inl ''d/e/'', Inr ''d/x'' :: string + string]"
    "n \<in> leaves (mem_obj demo_stored ''b'') ''d/'' \<longleftrightarrow> Inr (''d/'' @ n) \<in> set [Inl ''d/e/'', Inr ''d/x'' :: string + string]" for n
    using mem_entries_iff [of _ "''b''" "''d/''" demo_stored] unfolding es by (metis append.right_neutral same_append_eq append_assoc append_same_eq)+
  then have "branches (mem_obj demo_stored ''b'') ''d/'' = {''e''}" "leaves (mem_obj demo_stored ''b'') ''d/'' = {''x''}"
    by (auto simp: append_eq_Cons_conv)
  then show ?thesis using mds by (auto simp: dir_listing_def)
qed

text \<open>
  \<^verbatim>\<open>CreateDirectory\<close> stores a marker whose key ends with a slash, \<^verbatim>\<open>Delete\<close> removes the key without it: a directory
  that was created and deleted is still listed.
\<close>

lemma deleted_directory_still_listed:
  assumes api: "s3_api client obj up" and up: "up w" and n: "slash \<notin> set n" "n \<noteq> ''''"
    and dir: "path = ''/'' @ list_prefix parent @ n"
    and mk: "s3_CreateDirectory client a ctx path w = (Inr (), w1)" and rm: "s3_Delete client a ctx' path w1 = (Inr (), w2)"
  shows "\<exists>mds. s3_ListDirectory client now a ctx'' parent w2 = Some (Inr mds) \<and> (''directory'', n) \<in> kind ` set mds"
proof -
  let ?b = "s3_bucketName a" and ?k = "list_prefix parent @ n"
  have key: "pathToKey path = ?k" by (simp add: pathToKey_def dir)
  have ns: "\<not> HasSuffix ?k ''/''"
  proof
    assume "HasSuffix ?k ''/''"
    then have "last ?k = slash" by (auto simp: HasSuffix_iff)
    then show False using n by (metis last_appendR last_in_set)
  qed
  obtain i u where i: "aws_PutObject client ctx i w = (Inr u, w1)" "ui_Key i = ?k @ ''/''" "ui_Bucket i = ?b"
    using mk ns by (auto simp: s3_CreateDirectory_def key Let_def split: prod.splits sum.splits if_splits)
  have w1: "up w1" "obj w1 ?b (?k @ ''/'') \<noteq> None"
    using s3_api.put_law [OF api i(1)] up by (auto simp: put_effect_def i(2,3))
  obtain u' where "aws_DeleteObject client ctx' ?b ?k w1 = (Inr u', w2)"
    using rm by (auto simp: s3_Delete_def key split: prod.splits sum.splits)
  from s3_api.del_law [OF api this] w1 have w2: "up w2" "obj w2 ?b (?k @ ''/'') \<noteq> None" by auto
  then have br: "n \<in> branches (obj w2 ?b) (list_prefix parent)" using n(1) by (auto simp: branches_def intro: exI [of _ "[]"])
  obtain mds where "s3_ListDirectory client now a ctx'' parent w2 = Some (Inr mds)" "dir_listing (obj w2 ?b) (list_prefix parent) mds"
    using s3_api.ListDirectory_complete [OF api w2(1)] by blast
  then show ?thesis using br n(2) by (auto simp: dir_listing_def)
qed

end
