(* ===== verification/Node.thy ===== *)
theory Node
  imports EngineFrames RaftStore S3
begin

section \<open>A node (wiring of cmd/main.go)\<close>

text \<open>
  The engine as \<^verbatim>\<open>cmd/main.go\<close> wires it for one node: the Raft metadata store of a leader, the
  local file system backend, the S3 backend if a bucket is configured, the local lock manager, and \<^verbatim>\<open>noop\<close>
  adapters otherwise (there are no peers). Its world has the node's clock and state machine, the disk, the
  S3 service and the lock table. The interpretation of \<open>engine_env\<close> shows that the parts fulfil what the engine
  assumes; the theorems state what that means for every such node, whatever its settings.
\<close>

record world = node +
  w_disk :: disk
  w_bucket :: s3_server
  w_locks :: locks

definition lift_storage :: "('w \<Rightarrow> 'v) \<Rightarrow> ('v \<Rightarrow> 'w \<Rightarrow> 'w) \<Rightarrow> 'v storage_ops \<Rightarrow> 'w storage_ops" where
  "lift_storage get put b = \<lparr>
     so_Open = (\<lambda>ctx p w. so_Open b ctx p (get w)),
     so_Create = (\<lambda>ctx p r n w. case so_Create b ctx p r n (get w) of (u, v) \<Rightarrow> (u, put v w)),
     so_Update = (\<lambda>ctx p r n w. case so_Update b ctx p r n (get w) of (u, v) \<Rightarrow> (u, put v w)),
     so_Delete = (\<lambda>ctx p w. case so_Delete b ctx p (get w) of (u, v) \<Rightarrow> (u, put v w)),
     so_Stat = (\<lambda>ctx p w. so_Stat b ctx p (get w)),
     so_ListDirectory = (\<lambda>ctx p w. so_ListDirectory b ctx p (get w)),
     so_CreateDirectory = (\<lambda>ctx p w. case so_CreateDirectory b ctx p (get w) of (u, v) \<Rightarrow> (u, put v w))\<rparr>"

lemma lift_storage_iff:
  "so_Create (lift_storage get put b) ctx p r n w = (u, w') \<longleftrightarrow> (\<exists>v. so_Create b ctx p r n (get w) = (u, v) \<and> w' = put v w)"
  "so_Update (lift_storage get put b) ctx p r n w = (u, w') \<longleftrightarrow> (\<exists>v. so_Update b ctx p r n (get w) = (u, v) \<and> w' = put v w)"
  "so_Delete (lift_storage get put b) ctx p w = (u, w') \<longleftrightarrow> (\<exists>v. so_Delete b ctx p (get w) = (u, v) \<and> w' = put v w)"
  "so_CreateDirectory (lift_storage get put b) ctx p w = (u, w') \<longleftrightarrow> (\<exists>v. so_CreateDirectory b ctx p (get w) = (u, v) \<and> w' = put v w)"
  "so_Open (lift_storage get put b) ctx p w = so_Open b ctx p (get w)"
  by (auto simp: lift_storage_def split: prod.splits)

definition lift_locks :: "('w \<Rightarrow> 'v) \<Rightarrow> ('v \<Rightarrow> 'w \<Rightarrow> 'w) \<Rightarrow> 'v lock_ops \<Rightarrow> 'w lock_ops" where
  "lift_locks get put b = \<lparr>
     lm_Acquire = (\<lambda>ctx now k w. case lm_Acquire b ctx now k (get w) of (u, v) \<Rightarrow> (u, put v w)),
     lm_Release = (\<lambda>now k w. case lm_Release b now k (get w) of (u, v) \<Rightarrow> (u, put v w))\<rparr>"

text \<open>
  The settings of a node. \<open>dp_visit\<close> fixes in which order Go visits a map, by a priority of the
  keys that may depend on the map: every order of visits has such a priority.
\<close>

record deployment =
  dp_instance :: string
  dp_rootPath :: string
  dp_env :: osenv
  dp_s3 :: "S3Adapter option"
  dp_ownerID :: "string result"
  dp_replication :: bool
  dp_replica :: string
  dp_ack :: bool
  dp_visit :: "(string, CacheEntry) gomap \<Rightarrow> string \<Rightarrow> nat"

definition node_backend :: "deployment \<Rightarrow> world storage_ops" where
  "node_backend d = lift_storage w_disk (\<lambda>v w. w\<lparr>w_disk := v\<rparr>) (localfs_ops (dp_env d) \<lparr>lf_rootPath = dp_rootPath d\<rparr>)"

definition node_s3 :: "deployment \<Rightarrow> world storage_ops" where
  "node_s3 d = (case dp_s3 d of
     None \<Rightarrow> noop_ops
   | Some a \<Rightarrow> lift_storage w_bucket (\<lambda>v w. w\<lparr>w_bucket := v\<rparr>) (s3_ops mem_client bs_clock a))"

definition node_locks :: "deployment \<Rightarrow> world lock_ops" where
  "node_locks d = lift_locks w_locks (\<lambda>v w. w\<lparr>w_locks := v\<rparr>) (local_ops (dp_ownerID d))"

definition single_node :: "deployment \<Rightarrow> world Engine" where
  "single_node d = \<lparr>
     metadataStore = raft_ops leader_env,
     localFSBackend = node_backend d,
     s3Backend = node_s3 d,
     internalProxyBackend = noop_ops,
     internalProxyAdapter = None,
     lockManager = node_locks d,
     currentInstanceID = dp_instance d,
     peerEndpoints = [],
     replicationEnabled = dp_replication d,
     replicaBackend = dp_replica d,
     requireReplicaAck = dp_ack d,
     erasureManager = None,
     cacheOrder = (\<lambda>m. sort_key (\<lambda>kv. dp_visit d m (fst kv)) m)\<rparr>"

lemma md_view_frame [simp]:
  "md_view (w\<lparr>w_disk := x\<rparr>) = md_view w" "md_view (w\<lparr>w_locks := y\<rparr>) = md_view w" "md_view (w\<lparr>w_bucket := z\<rparr>) = md_view w"
  "node_ok (w\<lparr>w_disk := x\<rparr>) = node_ok w" "node_ok (w\<lparr>w_locks := y\<rparr>) = node_ok w" "node_ok (w\<lparr>w_bucket := z\<rparr>) = node_ok w"
  by (simp_all add: md_view_def node_ok_def)

interpretation nd: engine_env "single_node d" md_view node_ok for d
proof -
  have store: "metadata_store (metadataStore (single_node d)) md_view node_ok"
    using raft_md.metadata_store_axioms by (simp add: single_node_def)
  show "engine_env (single_node d) md_view node_ok"
    by (rule engine_env.intro [OF store], unfold_locales)
       (auto simp: single_node_def is_order_def node_backend_def node_s3_def node_locks_def lift_storage_def lift_locks_def
          backend_keeps_def keeps_def noop_ops_def split: prod.splits option.splits)
qed

subsection \<open>Locks and disk of a node\<close>

definition node_held :: "world \<Rightarrow> string \<Rightarrow> gotime option" where
  "node_held w = local_held (w_locks w)"

interpretation nd_lock: lock_manager "node_locks d" node_held localLockTTL for d
proof unfold_locales
  show "0 < localLockTTL" by (rule local_lock.ttl_pos)
next
  fix ctx now key w w'
  assume "lm_Acquire (node_locks d) ctx now key w = (Inr True, w')"
  then show "node_held w' = (node_held w)(key \<mapsto> now + localLockTTL) \<and> (\<forall>t. node_held w key = Some t \<longrightarrow> t \<le> now)"
    using local_lock.acquire_grant [of "dp_ownerID d" ctx now key "w_locks w"]
    by (auto simp: node_locks_def lift_locks_def node_held_def split: prod.splits)
next
  fix ctx now key w r w'
  assume "lm_Acquire (node_locks d) ctx now key w = (r, w')" "r \<noteq> Inr True"
  then show "node_held w' = node_held w"
    using local_lock.acquire_refuse [of "dp_ownerID d" ctx now key "w_locks w"]
    by (auto simp: node_locks_def lift_locks_def node_held_def split: prod.splits)
next
  fix w key t now ctx r w'
  assume "node_held w key = Some t" "now < t" "lm_Acquire (node_locks d) ctx now key w = (r, w')"
  then show "r \<noteq> Inr True"
    using local_lock.acquire_busy [of "w_locks w" key t now "dp_ownerID d" ctx]
    by (auto simp: node_locks_def lift_locks_def node_held_def split: prod.splits)
next
  fix now key w u w'
  assume "lm_Release (node_locks d) now key w = (u, w')"
  then show "(\<forall>k. k \<noteq> key \<longrightarrow> node_held w' k = node_held w k) \<and>
      node_held w' key = (case node_held w key of Some t \<Rightarrow> if t < now then Some t else None | None \<Rightarrow> None)"
    using local_lock.release_lease [of "dp_ownerID d" now key "w_locks w"]
    by (auto simp: node_locks_def lift_locks_def node_held_def split: prod.splits)
qed

lemma store_frame:
  "stays R (st_Create (raft_ops leader_env) now md) \<and> stays R (st_Update (raft_ops leader_env) now md) \<and>
   stays R (st_Delete (raft_ops leader_env) p)"
  if "\<And>w s. R w (w\<lparr>nd_fsm := s\<rparr>)" "\<And>w. R w w"
  using that by (auto simp: stays_def raft_ops_def store_simps)

lemma lift_stays:
  assumes "\<And>w v. R w (put v w)"
  shows "backend_stays R (lift_storage get put b)"
  using assms by (auto simp: backend_stays_def stays_def lift_storage_def split: prod.splits)

interpretation nd_lease: engine_rel "single_node d" "no_new_lease node_held" for d
proof unfold_locales
  fix body :: "world estate \<Rightarrow> unit result \<times> world estate" and s :: "world estate" and ctx now k what
  assume "\<And>s1. no_new_lease node_held (es_world s1) (es_world (snd (body s1)))"
  then show "no_new_lease node_held (es_world s) (es_world (snd (with_lock (single_node d) ctx now k what body s)))"
    by (rule nd_lock.with_lock_no_lease [rotated]) (simp add: single_node_def)
next
  have frame: "no_new_lease node_held w (w\<lparr>nd_fsm := s\<rparr>)" "no_new_lease node_held w w"
    "no_new_lease node_held w (w\<lparr>w_disk := x\<rparr>)" "no_new_lease node_held w (w\<lparr>w_bucket := y\<rparr>)" for w s x y
    by (simp_all add: no_new_lease_def node_held_def)
  show "stays (no_new_lease node_held) (st_Create (metadataStore (single_node d)) now md)"
    "stays (no_new_lease node_held) (st_Update (metadataStore (single_node d)) now md)"
    "stays (no_new_lease node_held) (st_Delete (metadataStore (single_node d)) p)" for now md p
    using store_frame [of "no_new_lease node_held", OF frame(1,2)] by (simp_all add: single_node_def)
  show "backend_stays (no_new_lease node_held) (localFSBackend (single_node d))"
    using lift_stays [of "no_new_lease node_held", OF frame(3)] by (simp add: single_node_def node_backend_def)
  show "backend_stays (no_new_lease node_held) (s3Backend (single_node d))"
    "backend_stays (no_new_lease node_held) (internalProxyBackend (single_node d))"
    using noop_stays [of "no_new_lease node_held", OF frame(2)] lift_stays [of "no_new_lease node_held" "\<lambda>v w. w\<lparr>w_bucket := v\<rparr>", OF frame(4)]
    by (simp_all add: single_node_def node_s3_def split: option.split)
qed (auto simp: no_new_lease_def single_node_def)

subsection \<open>Where a node keeps files\<close>

text \<open>
  The two kinds of backends, with the type that metadata records for them, the place of a path, the bytes
  at every place and the state in which the laws of a backend hold: a tree on a disk whose files can be
  opened, a service that answers reads. Without a bucket the second kind holds nothing.
\<close>

datatype storage_kind = LocalFS | Bucket

primrec kind_type :: "storage_kind \<Rightarrow> string" where
  "kind_type LocalFS = ''localfs''"
| "kind_type Bucket = ''s3''"

primrec node_loc :: "deployment \<Rightarrow> storage_kind \<Rightarrow> string \<Rightarrow> string option" where
  "node_loc d LocalFS = localfs_loc (dp_rootPath d)"
| "node_loc d Bucket = s3_loc"

definition disk_ok :: "deployment \<Rightarrow> world \<Rightarrow> bool" where
  "disk_ok d w = localfs_inv (dp_env d) \<lparr>lf_rootPath = dp_rootPath d\<rparr> (w_disk w)"

primrec files_ok :: "deployment \<Rightarrow> storage_kind \<Rightarrow> world \<Rightarrow> bool" where
  "files_ok d LocalFS w = disk_ok d w"
| "files_ok d Bucket w = (dp_s3 d \<noteq> None \<longrightarrow> bs_up (w_bucket w))"

primrec node_contents :: "deployment \<Rightarrow> storage_kind \<Rightarrow> world \<Rightarrow> string \<Rightarrow> bytes option" where
  "node_contents d LocalFS w = contents (w_disk w)"
| "node_contents d Bucket w = (case dp_s3 d of None \<Rightarrow> Map.empty | Some a \<Rightarrow> s3_store mem_obj (s3_bucketName a) (w_bucket w))"

lemma node_by_type:
  "selectBackendByType (single_node d) (kind_type k) = (case k of LocalFS \<Rightarrow> node_backend d | Bucket \<Rightarrow> node_s3 d)"
  by (simp add: selectBackendByType_def single_node_def split: storage_kind.split)

lemma files_frame [simp]:
  "files_ok d k (w\<lparr>w_locks := l\<rparr>) = files_ok d k w" "files_ok d k (w\<lparr>nd_fsm := s\<rparr>) = files_ok d k w"
  "node_contents d k (w\<lparr>w_locks := l\<rparr>) = node_contents d k w" "node_contents d k (w\<lparr>nd_fsm := s\<rparr>) = node_contents d k w"
proof -
  show "files_ok d k (w\<lparr>w_locks := l\<rparr>) = files_ok d k w" "files_ok d k (w\<lparr>nd_fsm := s\<rparr>) = files_ok d k w"
    by (cases k; simp add: disk_ok_def)+
  show "node_contents d k (w\<lparr>w_locks := l\<rparr>) = node_contents d k w" "node_contents d k (w\<lparr>nd_fsm := s\<rparr>) = node_contents d k w"
    by (cases k; simp split: option.split)+
qed

lemma s3_up: "backend_stays (\<lambda>w w'. bs_up w \<longrightarrow> bs_up w') (s3_ops mem_client clock a)"
  by (simp add: backend_stays_def stays_def s3_ops_def s3_Update_def mem.keeps_up)

lemma lift_stays_part:
  assumes "backend_stays (\<lambda>v v'. P v \<longrightarrow> P v') b" "\<And>v w. get (put v w) = v"
  shows "backend_stays (\<lambda>w w'. P (get w) \<longrightarrow> P (get w')) (lift_storage get put b)"
  using assms by (auto simp: backend_stays_def stays_def lift_storage_def case_prod_unfold)

interpretation nd_tree: engine_rel "single_node d" "\<lambda>w w'. files_ok d k w \<longrightarrow> files_ok d k w'" for d k
proof unfold_locales
  fix body :: "world estate \<Rightarrow> unit result \<times> world estate" and s :: "world estate" and ctx now key what
  assume body: "\<And>s1. files_ok d k (es_world s1) \<longrightarrow> files_ok d k (es_world (snd (body s1)))"
  have lk: "files_ok d k (snd (lm_Acquire (node_locks d) ctx now key w)) = files_ok d k w"
    "files_ok d k (snd (lm_Release (node_locks d) now key w)) = files_ok d k w" for w
    by (simp_all add: node_locks_def lift_locks_def split: prod.splits)
  obtain a w1 where a: "lm_Acquire (node_locks d) ctx now key (es_world s) = (a, w1)" by fastforce
  obtain r2 s2 where b: "body (s\<lparr>es_world := w1\<rparr>) = (r2, s2)" by fastforce
  obtain u w3 where rel: "lm_Release (node_locks d) now key (es_world s2) = (u, w3)" by fastforce
  have "files_ok d k w1 = files_ok d k (es_world s)" "files_ok d k w3 = files_ok d k (es_world s2)"
    using lk(1) [of "es_world s"] lk(2) [of "es_world s2"] a rel by simp_all
  then show "files_ok d k (es_world s) \<longrightarrow> files_ok d k (es_world (snd (with_lock (single_node d) ctx now key what body s)))"
    using a b rel body [of "s\<lparr>es_world := w1\<rparr>"]
    by (cases a) (auto simp: with_lock_def single_node_def)
next
  let ?R = "\<lambda>w w'. files_ok d k w \<longrightarrow> files_ok d k w'"
  have "backend_stays (\<lambda>v v'. localfs_inv (dp_env d) \<lparr>lf_rootPath = dp_rootPath d\<rparr> v \<longrightarrow> localfs_inv (dp_env d) \<lparr>lf_rootPath = dp_rootPath d\<rparr> v')
      (localfs_ops (dp_env d) \<lparr>lf_rootPath = dp_rootPath d\<rparr>)"
    using localfs_tree [of _ "dp_env d" "\<lparr>lf_rootPath = dp_rootPath d\<rparr>"]
    by (simp add: backend_stays_def stays_def localfs_ops_def localfs_inv_def)
  then have "backend_stays (\<lambda>w w'. disk_ok d w \<longrightarrow> disk_ok d w') (node_backend d)"
    unfolding node_backend_def disk_ok_def by (rule lift_stays_part) simp
  moreover have "backend_stays (\<lambda>w w'. files_ok d Bucket w \<longrightarrow> files_ok d Bucket w') (node_backend d)"
    unfolding node_backend_def by (rule lift_stays) simp
  ultimately show "backend_stays ?R (localFSBackend (single_node d))" by (cases k) (simp_all add: single_node_def)
  have "backend_stays (\<lambda>w w'. bs_up (w_bucket w) \<longrightarrow> bs_up (w_bucket w')) (lift_storage (w_bucket :: world \<Rightarrow> s3_server) (\<lambda>v w. w\<lparr>w_bucket := v\<rparr>) (s3_ops mem_client bs_clock a))" for a
    by (rule lift_stays_part [OF s3_up]) simp
  moreover have "backend_stays (\<lambda>w w'. disk_ok d w \<longrightarrow> disk_ok d w') (lift_storage w_bucket (\<lambda>v w. w\<lparr>w_bucket := v\<rparr>) b)" for b
    by (rule lift_stays) (simp add: disk_ok_def)
  ultimately show "backend_stays ?R (s3Backend (single_node d))"
    by (cases k) (simp_all add: single_node_def node_s3_def noop_stays split: option.split)
next
  show "stays (\<lambda>w w'. files_ok d k w \<longrightarrow> files_ok d k w') (st_Create (metadataStore (single_node d)) now md)"
    "stays (\<lambda>w w'. files_ok d k w \<longrightarrow> files_ok d k w') (st_Update (metadataStore (single_node d)) now md)"
    "stays (\<lambda>w w'. files_ok d k w \<longrightarrow> files_ok d k w') (st_Delete (metadataStore (single_node d)) p)" for now md p
    using store_frame [of "\<lambda>w w'. files_ok d k w \<longrightarrow> files_ok d k w'"] by (simp_all add: single_node_def)
qed (simp_all add: single_node_def noop_stays)

lemma lift_backend:
  assumes fb: "file_backend b loc store iv" and get: "\<And>v w. get (put v w) = v"
  shows "file_backend (lift_storage get put b) loc (\<lambda>w. store (get w)) (\<lambda>w. iv (get w))"
proof unfold_locales
  show "so_Open (lift_storage get put b) ctx p w = Inr (NewReader x)" if "iv (get w)" "loc p = Some l" "store (get w) l = Some x" for w p l x ctx
    using file_backend.open_law [OF fb that] by (simp add: lift_storage_iff)
  show "rd_err rd \<noteq> None" if "iv (get w)" "loc p = Some l" "store (get w) l = None" "so_Open (lift_storage get put b) ctx p w = Inr rd" for w p l ctx rd
    using file_backend.open_absent [OF fb that(1-3)] that(4) by (simp add: lift_storage_iff)
next
  fix w w' p l ctx r n u
  assume *: "iv (get w)" "loc p = Some l"
  show "so_Create (lift_storage get put b) ctx p r n w = (Inr u, w') \<Longrightarrow> iv (get w') \<and> rd_err r = None \<and> store (get w') = (store (get w))(l \<mapsto> rd_data r)"
    using file_backend.create_law [OF fb *] get by (auto simp: lift_storage_iff)
  show "so_Update (lift_storage get put b) ctx p r n w = (Inr u, w') \<Longrightarrow> iv (get w') \<and> rd_err r = None \<and> store (get w') = (store (get w))(l \<mapsto> rd_data r)"
    using file_backend.update_law [OF fb *] get by (auto simp: lift_storage_iff)
next
  fix w w' p l ctx r n err
  assume *: "iv (get w)" "loc p = Some l"
  show "so_Create (lift_storage get put b) ctx p r n w = (Inl err, w') \<Longrightarrow> iv (get w') \<and> write_lost l r (store (get w)) (store (get w'))"
    using file_backend.create_fail [OF fb *] get by (auto simp: lift_storage_iff)
  show "so_Update (lift_storage get put b) ctx p r n w = (Inl err, w') \<Longrightarrow> iv (get w') \<and> write_lost l r (store (get w)) (store (get w'))"
    using file_backend.update_fail [OF fb *] get by (auto simp: lift_storage_iff)
next
  fix w w' p l ctx v
  assume *: "iv (get w)" "loc p = Some l"
  show "so_Delete (lift_storage get put b) ctx p w = (v, w') \<Longrightarrow>
      iv (get w') \<and> (store (get w') = (store (get w))(l := None) \<or> \<not> is_ok v \<and> store (get w') = store (get w))"
    using file_backend.delete_law [OF fb *] get by (fastforce simp: lift_storage_iff)
  show "so_CreateDirectory (lift_storage get put b) ctx p w = (v, w') \<Longrightarrow> iv (get w') \<and> store (get w') = store (get w)"
    using file_backend.mkdir_law [OF fb *] get by (fastforce simp: lift_storage_iff)
qed

lemma noop_backend: "file_backend noop_ops loc (\<lambda>w l. None) (\<lambda>w. True)"
  by unfold_locales (auto simp: noop_ops_def write_lost_def)

lemma node_file_backend: "file_backend (selectBackendByType (single_node d) (kind_type k)) (node_loc d k) (node_contents d k) (files_ok d k)"
proof (cases k)
  case LocalFS
  have "file_backend (node_backend d) (localfs_loc (dp_rootPath d)) (\<lambda>w. contents (w_disk w)) (disk_ok d)"
    using lift_backend [OF localfs.file_backend_axioms, of w_disk "\<lambda>v w. w\<lparr>w_disk := v\<rparr>" "dp_env d" "\<lparr>lf_rootPath = dp_rootPath d\<rparr>"]
    by (simp add: node_backend_def disk_ok_def [abs_def])
  moreover have "node_contents d LocalFS = (\<lambda>w. contents (w_disk w))" "files_ok d LocalFS = disk_ok d" by (simp_all add: fun_eq_iff)
  ultimately show ?thesis unfolding node_by_type LocalFS by simp
next
  case Bucket
  show ?thesis
  proof (cases "dp_s3 d")
    case None
    moreover have "node_contents d Bucket = (\<lambda>w l. None)" "files_ok d Bucket = (\<lambda>w. True)" using None by (simp_all add: fun_eq_iff)
    ultimately show ?thesis unfolding node_by_type Bucket using noop_backend by (simp add: node_s3_def)
  next
    case (Some a)
    have "file_backend (node_s3 d) s3_loc (\<lambda>w. s3_store mem_obj (s3_bucketName a) (w_bucket w)) (\<lambda>w. bs_up (w_bucket w))"
      using lift_backend [OF mem.fs.file_backend_axioms, of w_bucket "\<lambda>v w. w\<lparr>w_bucket := v\<rparr>"] by (simp add: node_s3_def Some)
    moreover have "node_contents d Bucket = (\<lambda>w. s3_store mem_obj (s3_bucketName a) (w_bucket w))" "files_ok d Bucket = (\<lambda>w. bs_up (w_bucket w))"
      using Some by (simp_all add: fun_eq_iff)
    ultimately show ?thesis unfolding node_by_type Bucket by simp
  qed
qed

interpretation nd_files: engine_files "single_node d" md_view node_ok "node_loc d k" "node_contents d k" "files_ok d k" "kind_type k" for d k
proof (intro engine_files.intro engine_files_axioms.intro node_file_backend nd.engine_env_axioms nd_tree.engine_rel_axioms)
  show "kind_type k \<in> {''localfs'', ''s3''}" by (cases k) simp_all
  show "keeps (files_ok d k) (node_contents d k) (st_Create (metadataStore (single_node d)) now md)"
    "keeps (files_ok d k) (node_contents d k) (st_Update (metadataStore (single_node d)) now md)"
    "keeps (files_ok d k) (node_contents d k) (st_Delete (metadataStore (single_node d)) p)" for now md p
    by (auto simp: keeps_def single_node_def raft_ops_def store_simps)
  show "keeps (files_ok d k) (node_contents d k) (lm_Acquire (lockManager (single_node d)) ctx now key)"
    "keeps (files_ok d k) (node_contents d k) (lm_Release (lockManager (single_node d)) now key)" for ctx now key
    by (auto simp: keeps_def single_node_def node_locks_def lift_locks_def split: prod.splits)
  fix bt' :: string
  assume "bt' \<in> {''localfs'', ''s3''}" "bt' \<noteq> kind_type k"
  then show "backend_keeps (files_ok d k) (node_contents d k) (selectBackendByType (single_node d) bt')"
    by (cases k) (auto simp: selectBackendByType_def single_node_def node_backend_def node_s3_def backend_keeps_def keeps_def lift_storage_def
        disk_ok_def noop_ops_def split: prod.splits option.splits)
qed

subsection \<open>Properties\<close>

definition node_sound :: "world estate \<Rightarrow> bool" where
  "node_sound s \<longleftrightarrow> node_ok (es_world s) \<and> cache_ok (es_cache s) \<and> cache_agrees (md_view (es_world s)) (es_cache s)"

lemma node_sound_iff: "nd.sound s = node_sound s"
  by (simp add: nd.sound_def node_sound_def)

text \<open>The state of a node after a run of engine calls, from an empty cache.\<close>

definition node_run :: "deployment \<Rightarrow> engine_event list \<Rightarrow> world \<Rightarrow> world estate" where
  "node_run d evs w = fold (engine_step (single_node d)) evs (NewEngine_state w)"

lemma node_run_sound:
  assumes "node_ok w" "\<not> (dp_ack d \<and> dp_replication d)"
  shows "node_sound (node_run d evs w)"
  using nd.engine_run_sound [OF nd.NewEngine_sound [OF assms(1)], of d evs] assms(2)
  by (simp add: node_run_def node_sound_iff single_node_def)

lemma node_run_files: "files_ok d k w \<Longrightarrow> files_ok d k (es_world (node_run d evs w))"
  using nd_tree.engine_run_R [of d k "NewEngine_state w" evs] by (simp add: node_run_def NewEngine_state_def)


definition demo_node :: deployment where
  "demo_node = \<lparr>dp_instance = ''n1'', dp_rootPath = ''/d'', dp_env = quiet_env, dp_s3 = Some demo_adapter, dp_ownerID = Inr ''o'',
     dp_replication = False, dp_replica = '''', dp_ack = False, dp_visit = (\<lambda>_ _. 0)\<rparr>"

definition demo_world :: world where
  "demo_world = \<lparr>nd_clock = 0, nd_fsm = empty_raft_state, w_disk = demo_disk, w_bucket = demo_s3, w_locks = NewLocalManager\<rparr>"

lemma demo_world_ok: "node_ok demo_world" "disk_ok demo_node demo_world"
  using demo_disk_ok
  by (simp_all add: demo_world_def node_ok_def disk_ok_def demo_node_def localfs_inv_def quiet_env_def demo_env_def env_ok_def IsAbs_def)

lemma demo_files_ok: "files_ok demo_node LocalFS demo_world" "files_ok demo_node Bucket demo_world"
  using demo_world_ok(2) by (simp_all add: demo_world_def demo_s3_def)



definition demo_file :: Metadata where
  "demo_file = zero_Metadata\<lparr>md_Name := ''g'', md_Type := ''file'', md_BackendType := ''localfs''\<rparr>"

lemma demo_CreateFile:
  "is_ok (fst (CreateFile (single_node demo_node) Background 1 ''/g'' (NewReader ''hi'') 2 demo_file (node_run demo_node [] demo_world)))"
  by code_simp


text \<open>
  C11: (invariant) The name space stays closed under parents: if every entry has its parent entry,
  then so it is after creating a file or a directory or updating a file, whatever the outcome of
  the call, and no such call loses an entry. A create of a path that exists changes no metadata and
  does not succeed.
\<close>

theorem namespace_closed:
  assumes "node_ok (es_world s)" "closed (md_view (es_world s))"
  shows "(\<forall>s' \<in> {snd (CreateFile (single_node d) ctx now path reader sz md s),
              snd (CreateDirectory (single_node d) ctx now path md s),
              snd (UpdateFile (single_node d) ctx now path reader sz s)}.
            closed (md_view (es_world s')) \<and> dom (md_view (es_world s)) \<subseteq> dom (md_view (es_world s'))) \<and>
    (md_view (es_world s) path \<noteq> None \<longrightarrow>
       \<not> is_ok (fst (CreateFile (single_node d) ctx now path reader sz md s)) \<and>
       md_view (es_world (snd (CreateFile (single_node d) ctx now path reader sz md s))) = md_view (es_world s))"
proof -
  let ?e = "single_node d"
  obtain r1 s1 where 1: "CreateFile ?e ctx now path reader sz md s = (r1, s1)" by fastforce
  obtain r2 s2 where 2: "CreateDirectory ?e ctx now path md s = (r2, s2)" by fastforce
  obtain r3 s3 where 3: "UpdateFile ?e ctx now path reader sz s = (r3, s3)" by fastforce
  let ?v = "md_view (es_world s)"
  have c1: "closed (md_view (es_world s1))" "?v \<subseteq>\<^sub>m md_view (es_world s1)"
    "?v path \<noteq> None \<longrightarrow> \<not> is_ok r1 \<and> md_view (es_world s1) = ?v"
    using nd.CreateFile_spec [OF assms(1) 1] assms(2) unfolding nd.file_created_def by blast+
  have c2: "closed (md_view (es_world s2))" "?v \<subseteq>\<^sub>m md_view (es_world s2)"
    using nd.CreateDirectory_spec [OF assms(1) 2] assms(2) unfolding nd.builds_def nd.grows_def by blast+
  have "md_view (es_world s3) = ?v \<or> (\<exists>x y. ?v path = Some y \<and> md_view (es_world s3) = ?v(path \<mapsto> x))"
    using nd.UpdateFile_spec [OF assms(1) 3] unfolding nd.file_updated_def by blast
  then have c3: "closed (md_view (es_world s3))" "dom ?v \<subseteq> dom (md_view (es_world s3))"
    using assms(2) closed_insert [OF assms(2), of path] by (auto simp: closed_def)
  show ?thesis
    using c1 c2(1) c3 map_le_implies_dom_le [OF c1(2)] map_le_implies_dom_le [OF c2(2)] by (simp add: 1 2 3)
qed

theorem namespace_closed_witness:
  "closed (md_view (es_world (snd (CreateFile (single_node demo_node) Background 1 ''/a/b/c'' (NewReader ''hi'') 2 demo_file
     (NewEngine_state demo_world)))))"
proof -
  have "closed (md_view (es_world (NewEngine_state demo_world)))"
    by (simp add: closed_def md_view_def NewEngine_state_def demo_world_def empty_raft_state_def)
  moreover have "node_ok (es_world (NewEngine_state demo_world))"
    using demo_world_ok(1) by (simp add: NewEngine_state_def)
  ultimately show ?thesis
    using namespace_closed [of "NewEngine_state demo_world" demo_node Background 1 "''/a/b/c''" "NewReader ''hi''" 2 demo_file] by blast
qed

text \<open>
  C12: (safety) A directory with children is not deleted: as long as one entry lies directly in it,
  \<^verbatim>\<open>DeleteFile\<close> of the directory fails and changes no metadata. A delete that succeeds removes
  exactly the entry of the path, after which lookups of it answer not found.
\<close>

theorem delete_only_empty_directories:
  assumes "node_sound s" "DeleteFile (single_node d) ctx now path s = (r, s')"
  shows "(\<forall>md q. md_view (es_world s) path = Some md \<longrightarrow> md_Type md = ''directory'' \<longrightarrow>
       md_view (es_world s) q \<noteq> None \<longrightarrow> q \<noteq> ''/'' \<longrightarrow> parent_path q = path \<longrightarrow>
         \<not> is_ok r \<and> md_view (es_world s') = md_view (es_world s)) \<and>
    (is_ok r \<longrightarrow> md_view (es_world s) path \<noteq> None \<and> md_view (es_world s') = (md_view (es_world s))(path := None) \<and>
       fst (GetMetadata (single_node d) now' path s') = Inl ErrNotFound)"
proof -
  have ok: "node_ok (es_world s)" "cache_ok (es_cache s)" using assms(1) by (simp_all add: node_sound_def)
  note del = nd.DeleteFile_spec [OF ok(1) assms(2)]
  have "fst (GetMetadata (single_node d) now' path s') = Inl ErrNotFound" if "is_ok r"
  proof -
    have c: "es_cache s' = InvalidatePrefix (filepath_Dir path) (Invalidate path (es_cache s))"
      and v: "md_view (es_world s') path = None" using del that by (auto simp: nd.file_deleted_def)
    have "cache_Get now' path (es_cache s') = None"
      using ok(2) by (simp add: c cache_Get_InvalidatePrefix cache_Get_Invalidate)
    then show ?thesis
      using v nd.get_law [of "es_world s'" d path] del by (simp add: GetMetadata_def)
  qed
  then show ?thesis using del unfolding nd.file_deleted_def by auto
qed

definition demo_tree_world :: world where
  "demo_tree_world = demo_world\<lparr>nd_fsm := empty_raft_state\<lparr>MetadataByPath :=
     [(''/a'', zero_Metadata\<lparr>md_Path := ''/a'', md_Type := ''directory''\<rparr>),
      (''/a/x'', demo_file\<lparr>md_Path := ''/a/x'', md_CallFSInstanceID := Some ''n1''\<rparr>)]\<rparr>\<rparr>"

lemma demo_tree_ok: "node_ok demo_tree_world"
  by (auto simp: demo_tree_world_def node_ok_def fsm_ok_def empty_raft_state_def gomap_ok_def split: if_splits)

theorem delete_only_empty_directories_witness:
  "\<not> is_ok (fst (DeleteFile (single_node demo_node) Background 1 ''/a'' (NewEngine_state demo_tree_world)))"
proof -
  have "node_sound (NewEngine_state demo_tree_world)"
    using nd.NewEngine_sound [OF demo_tree_ok] by (simp add: node_sound_iff)
  moreover have "md_view (es_world (NewEngine_state demo_tree_world)) ''/a'' = Some (zero_Metadata\<lparr>md_Path := ''/a'', md_Type := ''directory''\<rparr>)"
    "md_view (es_world (NewEngine_state demo_tree_world)) ''/a/x'' \<noteq> None"
    by (simp_all add: md_view_def NewEngine_state_def demo_tree_world_def empty_raft_state_def)
  moreover have "parent_path ''/a/x'' = ''/a''" by (simp add: parent_path_def LastIndex_def)
  ultimately show ?thesis
    using delete_only_empty_directories [of "NewEngine_state demo_tree_world" demo_node Background 1 "''/a''"
        "fst (DeleteFile (single_node demo_node) Background 1 ''/a'' (NewEngine_state demo_tree_world))"
        "snd (DeleteFile (single_node demo_node) Background 1 ''/a'' (NewEngine_state demo_tree_world))"]
    by auto
qed


lemma replica_unavailable:
  assumes "dp_ack d" "dp_replication d" "dp_replica d = ''s3''" "dp_s3 d = None"
  shows "\<exists>err. replicateFileToSecondaryBackend (single_node d) ctx path sz ''localfs'' w = (Inl err, w)"
proof -
  have trim: "TrimSpace ''s3'' = ''s3''" by (rule TrimSpace_plain) (simp add: plain_char_def)
  have tgt: "replica_target (single_node d) ''localfs'' = Some ''s3''"
    using assms by (simp add: replica_target_def single_node_def trim ToLower_def)
  have s3: "selectBackendByType (single_node d) ''s3'' = noop_ops"
    using assms(4) by (simp add: selectBackendByType_def single_node_def node_s3_def)
  have ack: "ack (single_node d) err = Inl err" for err using assms(1) by (simp add: ack_def single_node_def)
  show ?thesis
    by (simp add: replicateFileToSecondaryBackend_def tgt s3 ack Let_def noop_ops_def split: sum.split)
qed


definition ack_node :: deployment where
  "ack_node = demo_node\<lparr>dp_replication := True, dp_replica := ''s3'', dp_s3 := None, dp_ack := True\<rparr>"

definition cached_file :: Metadata where
  "cached_file = demo_file\<lparr>md_Path := ''/f'', md_Size := 3, md_CallFSInstanceID := Some ''n1''\<rparr>"

definition cached_state :: "world estate" where
  "cached_state = \<lparr>es_world = demo_world\<lparr>nd_fsm := empty_raft_state\<lparr>MetadataByPath := [(''/f'', cached_file)]\<rparr>\<rparr>,
     es_cache = \<lparr>mc_cache = [(''/f'', \<lparr>ce_Metadata = cached_file, ce_ExpiresAt = 100\<rparr>)], mc_ttl = 5 * minute, mc_maxSize = 1000\<rparr>\<rparr>"

lemma demo_update_ok:
  "fst (localfs_Update quiet_env \<lparr>lf_rootPath = ''/d''\<rparr> ''f'' (NewReader ''longer'') 6 demo_disk) = Inr ()"
proof -
  have join: "SafeJoin (EvalSymlinks demo_disk) ''/d'' ''f'' = Inr ''/d/f''"
    using SafeJoin_linkfree [OF _ demo_loc] by (simp add: IsAbs_def)
  show ?thesis by (simp add: localfs_Update_def join) (simp add: localfs_eval)
qed


subsection \<open>Replicas\<close>

interpretation nd_rep: engine_replicas "single_node d" md_view node_ok "node_loc d k" "node_contents d k" "files_ok d k" "kind_type k"
    "node_loc d k'" "node_contents d k'" "files_ok d k'" "kind_type k'" for d k k'
  by (rule engine_replicas.intro) (rule nd_files.engine_files_axioms)+

text \<open>
  C9: (safety) A required replica is there: on a node that replicates to its other backend (S3 for local files, or the
  other way round) and requires the replica, a \<^verbatim>\<open>CreateFile\<close> that succeeds, after any run, has left exactly the bytes of the
  reader in both backends, whichever requests to them failed in between.
\<close>

theorem required_replica_written:
  assumes "dp_replication d" "dp_ack d" "ToLower (TrimSpace (dp_replica d)) = kind_type k'" "k' \<noteq> k"
    and "files_ok d k w" "files_ok d k' w"
    and "node_loc d k (relativePath path) = Some l" "node_loc d k' (relativePath path) = Some l'"
    and "md_BackendType md = kind_type k"
    and "CreateFile (single_node d) ctx now path reader sz md (node_run d evs w) = (Inr x, s')"
  shows "node_contents d k (es_world s') l = Some (rd_data reader) \<and> node_contents d k' (es_world s') l' = Some (rd_data reader)"
proof -
  have "replica_target (single_node d) (kind_type k) = Some (kind_type k')" "requireReplicaAck (single_node d)"
    using assms(1-4) by (cases k; cases k'; simp add: replica_target_def single_node_def ToLower_def)+
  from nd_rep.CreateFile_stored_twice [OF this node_run_files [OF assms(5)] node_run_files [OF assms(6)] assms(7-10)]
  show ?thesis by (simp add: nd_files.holds_def)
qed

definition mirror_node :: deployment where
  "mirror_node = demo_node\<lparr>dp_replication := True, dp_replica := '' S3'', dp_ack := True\<rparr>"

theorem required_replica_written_witness:
  "\<exists>m s'. CreateFile (single_node mirror_node) Background 1 ''/g'' (NewReader ''hi'') 2 demo_file (node_run mirror_node [] demo_world) = (Inr m, s') \<and>
     contents (w_disk (es_world s')) ''/d/g'' = Some ''hi'' \<and> map_option ob_Data (mem_obj (w_bucket (es_world s')) ''b'' ''g'') = Some ''hi''"
proof -
  have "is_ok (fst (CreateFile (single_node mirror_node) Background 1 ''/g'' (NewReader ''hi'') 2 demo_file (node_run mirror_node [] demo_world)))"
    by code_simp
  then obtain m s' where s': "CreateFile (single_node mirror_node) Background 1 ''/g'' (NewReader ''hi'') 2 demo_file
      (node_run mirror_node [] demo_world) = (Inr m, s')" by (metis is_ok_iff prod.collapse)
  have l: "node_loc mirror_node LocalFS (relativePath ''/g'') = Some ''/d/g''" "node_loc mirror_node Bucket (relativePath ''/g'') = Some ''g''"
    by (simp_all add: mirror_node_def demo_node_def relativePath_def disk_eval s3_loc_def pathToKey_def HasSuffix_def)
  have r: "ToLower (TrimSpace (dp_replica mirror_node)) = kind_type Bucket" by code_simp
  have ok: "files_ok mirror_node LocalFS demo_world" "files_ok mirror_node Bucket demo_world"
    using demo_files_ok by (simp_all add: mirror_node_def disk_ok_def)
  from required_replica_written [OF _ _ r _ ok l _ s'] s'
  show ?thesis by (simp add: mirror_node_def demo_node_def demo_file_def s3_store_def NewReader_def demo_adapter_def HasSuffix_def)
qed

end
