(* ===== verification/Server.thy ===== *)
theory Server
  imports Handlers Node
begin

section \<open>The HTTP interface of a node\<close>

text \<open>
  The routes of \<^verbatim>\<open>/v1/files\<close> and \<^verbatim>\<open>/v1/directories\<close> on top of the engine: what a client sees. The
  lemmas about an upload and a download are proved for every engine that meets the contracts of its
  store, its locks and its local backend, and used for a node.
\<close>

subsection \<open>An upload and the download that follows\<close>

lemma readable_0644:
  assumes "md_Mode md = ''0644''"
  shows "checkUnixPermissions md userID ReadPerm = Inr ()"
proof -
  have m: "parseModeBits (md_Mode md) = Some 420" by (simp add: assms parseModeBits_def)
  obtain uid gid where u: "user_ids userID = (uid, gid)" by fastforce
  have "bit (420 :: 64 word) 8" "bit (420 :: 64 word) 5" "bit (420 :: 64 word) 2" by simp_all
  then show ?thesis by (simp add: check_perm_eq [OF m u] perm_class_def perm_bit_def)
qed

lemma error_not_created: "status (SendErrorResponse err 500) \<noteq> 201"
  by (simp add: SendErrorResponse_status error_class_def)

text \<open>The entry of an uploaded file of \<open>n\<close> bytes.\<close>

definition uploaded :: "string \<Rightarrow> string \<Rightarrow> int \<Rightarrow> Metadata \<Rightarrow> bool" where
  "uploaded bt inst n md \<longleftrightarrow> md_Type md = ''file'' \<and> md_Mode md = ''0644'' \<and> \<not> md_ErasureCoded md \<and> md_BackendType md = bt \<and>
     md_CallFSInstanceID md \<in> {None, Some inst} \<and> md_Size md = n"

text \<open>\<^verbatim>\<open>net/http\<close> delivers as many bytes as the request declared, or fails.\<close>

definition honest :: "request \<Rightarrow> bool" where
  "honest r \<longleftrightarrow> (0 \<le> rq_ContentLength r \<and> rd_err (rq_Body r) = None \<longrightarrow> int (length (rd_data (rq_Body r))) = rq_ContentLength r)"

context engine_files
begin

definition serves :: "string \<Rightarrow> bytes \<Rightarrow> 'w estate \<Rightarrow> bool" where
  "serves path b s \<longleftrightarrow> sound s \<and>
     (\<exists>l md. loc (relativePath path) = Some l \<and> holds l b (es_world s) \<and> view (es_world s) path = Some md \<and>
        uploaded bt (currentInstanceID e) (int (length b)) md)"

lemma correct_size:
  assumes s: "sound s" and h: "holds l b (es_world s)" and v: "view (es_world s) path = Some md"
    and md': "md' = md\<lparr>md_Size := n, md_MTime := now, md_UpdatedAt := now\<rparr>"
  defines "s' \<equiv> snd (UpdateMetadataOnly e now md' s)"
  shows "sound s' \<and> holds l b (es_world s') \<and> (\<exists>md2. view (es_world s') path = Some md2 \<and> stored_as md' md2)"
proof -
  have i: "inv (es_world s)" using s by (simp add: sound_def)
  have p: "md_Path md' = path" using view_path [OF i v] by (simp add: md')
  obtain u w where u: "st_Update (metadataStore e) now md' (es_world s) = (u, w)" by fastforce
  have "is_ok u" using update_total [OF i, of md' now] v p u by simp
  then obtain md2 where r: "u = Inr md2" by (auto simp: is_ok_iff)
  have "view w path = Some md2" "stored_as md' md2" using metadata_store.update_law [OF metadata_store_axioms i u] p by (auto simp: r)
  moreover have "es_world s' = w" by (simp add: s'_def UpdateMetadataOnly_def u r)
  moreover have "holds l b w" using holds_keeps [OF st_keeps(2) h u] .
  ultimately show ?thesis using UpdateMetadataOnly_sound [OF s, of now md'] by (simp add: s'_def)
qed

lemma post_file_serves:
  assumes s: "sound s" "binv (es_world s)" and p: "loc (relativePath path) = Some l" and hon: "honest r"
    and c: "post_file e bt ctx now r pathInfo path s = (rep, s')" "status rep = 201"
  shows "serves path (rd_data (rq_Body r)) s'"
proof -
  define body where "body = MaxBytesReader (rq_Body r) maxUploadBytes"
  define n where "n = (if rq_ContentLength r < 0 then 0 else rq_ContentLength r)"
  define md0 where "md0 = new_Metadata now (pi_Name pathInfo) ''file'' ''0644'' bt"
  note c' = c [unfolded post_file_def Let_def, folded body_def n_def md0_def]
  obtain res s1 where cf: "CreateFile e ctx now path body n md0 s = (res, s1)" by fastforce
  obtain md where res: "res = Inr md" using c' error_not_created by (cases res) (auto simp: cf)
  have md0: "md_BackendType md0 = bt" "md_CallFSInstanceID md0 = None" "md_Type md0 = ''file''" "md_Mode md0 = ''0644''" "\<not> md_ErasureCoded md0"
    by (simp_all add: md0_def new_Metadata_def zero_Metadata_def)
  have i: "inv (es_world s)" using s(1) by (simp add: sound_def)
  note cs = CreateFile_spec [OF i cf]
  have s1: "sound s1" using sound_created [OF s(1)] cs by blast
  have v: "view (es_world s1) path = Some md" "stored_as (new_file now path n md0) md"
    using cs by (auto simp: file_created_def res)
  have h: "rd_err body = None" "holds l (rd_data body) (es_world s1)"
    using CreateFile_holds [OF s(2) md0(1) p cf [unfolded res]] by simp_all
  have b: "body = rq_Body r" using h(1) by (simp add: body_def MaxBytesReader_def split: if_splits)
  note f = stored_as_fields [OF v(2)]
  show ?thesis
  proof (cases "rq_ContentLength r < 0 \<and> BytesRead body \<noteq> n")
    case True
    define md' where "md' = md\<lparr>md_Size := BytesRead body, md_MTime := now, md_UpdatedAt := now\<rparr>"
    have "s' = snd (UpdateMetadataOnly e now md' s1)" using c'(1) True by (simp add: cf res md'_def)
    with correct_size [OF s1 h(2) v(1) md'_def] obtain md2 where *: "sound s'" "holds l (rd_data body) (es_world s')"
      "view (es_world s') path = Some md2" "stored_as md' md2" by auto
    have "uploaded bt (currentInstanceID e) (int (length (rd_data body))) md2"
      using stored_as_fields [OF *(4)] f md0 by (simp add: uploaded_def md'_def BytesRead_def new_file_def)
    then show ?thesis using * p unfolding serves_def b by blast
  next
    case False
    then have "s' = s1" using c'(1) by (auto simp: cf res)
    moreover have "n = int (length (rd_data body))"
      using False hon h(1) by (auto simp: n_def BytesRead_def honest_def b split: if_splits)
    then have "uploaded bt (currentInstanceID e) (int (length (rd_data body))) md"
      using f md0 by (simp add: uploaded_def new_file_def)
    ultimately show ?thesis using s1 h(2) v(1) p unfolding serves_def b by blast
  qed
qed

lemma get_served:
  assumes sv: "serves path b s" and r: "rq_UserID r = Some userID" "\<not> pi_IsInvalid (ParseFilePath (rq_Path r))"
    "path = engine_path (ParseFilePath (rq_Path r))"
  shows "\<exists>hs. fst (V1GetFile e em sched late FormatTime ctx now r s) = Reply 200 hs (FileBody b) \<and>
     map_of hs ''Content-Length'' = Some (Itoa (int (length b)))"
proof -
  obtain l md where s: "sound s" "loc (relativePath path) = Some l" "holds l b (es_world s)" "view (es_world s) path = Some md"
    and md: "uploaded bt (currentInstanceID e) (int (length b)) md" using sv by (auto simp: serves_def)
  have i: "inv (es_world s)" using s(1) by (simp add: sound_def)
  have a: "Authorize (metadataStore e) userID path ReadPerm (es_world s) = Inr ()"
    using md by (simp add: Authorize_def get_law [OF i] s(4) readable_0644 uploaded_def)
  obtain res s1 where g: "GetMetadata e now path s = (res, s1)" by fastforce
  have g': "res = Inr md" "sound s1" "es_world s1 = es_world s" using GetMetadata_spec [OF s(1) g] s(4) by auto
  have "fst (GetFile e ctx now path s1) = Inr (NewReader b)"
    using GetFile_reads [OF g'(2) _ s(2)] s g'(3) md by (simp add: uploaded_def here_def)
  then obtain s2 where f: "GetFile e ctx now path s1 = (Inr (NewReader b), s2)" by (metis prod.collapse)
  show ?thesis
    using r md by (simp add: V1GetFile_def Let_def a [unfolded r(3)] g [unfolded r(3)] g'(1) f [unfolded r(3)] uploaded_def NewReader_def)
qed

lemma post_serves:
  assumes s: "sound s" "binv (es_world s)" and r: "honest r" "\<not> pi_IsDirectory (ParseFilePath (rq_Path r))"
    "path = engine_path (ParseFilePath (rq_Path r))" "loc (relativePath path) = Some l"
    and c: "V1PostFileEnhanced e None sched bt ctx now r s = (rep, s')" "status rep = 201"
  shows "serves path (rd_data (rq_Body r)) s'"
proof -
  let ?pi = "ParseFilePath (rq_Path r)"
  have no: "status (SendErrorResponse err st) \<noteq> 201" if "st \<in> {400, 401, 403, 409}" for err st
    using that by (auto simp: SendErrorResponse_status error_class_def)
  obtain res s1 where g: "GetMetadata e now path s = (res, s1)" by fastforce
  note g' = GetMetadata_spec [OF s(1) g]
  have "\<not> is_ok res \<and> post_file e bt ctx now r ?pi path s1 = (rep, s')"
    using c r(2) g [unfolded r(3)] no
    by (auto simp: V1PostFileEnhanced_def Let_def r(3) post_existing_def is_ok_iff
        split: option.splits sum.splits if_splits)
  then show ?thesis
    using post_file_serves [OF g'(2) _ r(4,1) _ c(2)] s(2) g'(3) by metis
qed

end

text \<open>The routes of a node.\<close>

definition node_server :: "deployment \<Rightarrow> storage_kind \<Rightarrow> (string, string) gomap \<Rightarrow> (gotime \<Rightarrow> string) \<Rightarrow> world server" where
  "node_server d k keys FormatTime =
     \<lparr>sv_engine = single_node d, sv_authenticator = keys, sv_erasure = None, sv_store_sched = [], sv_fetch_sched = (\<lambda>x. x),
      sv_late = (\<lambda>_. False), sv_defaultBackend = kind_type k, sv_FormatTime = FormatTime, sv_ctx = Background\<rparr>"

lemma Authenticate_header: "Authenticate keys h = Inr userID \<Longrightarrow> h \<noteq> ''''"
proof
  have "TrimSpace '''' = ''''" by code_simp
  moreover assume "Authenticate keys h = Inr userID" "h = ''''"
  ultimately show False by (simp add: Authenticate_def TrimPrefix_def)
qed

lemma route_post_serves:
  assumes "node_ok w" "files_ok d k w" "\<not> (dp_ack d \<and> dp_replication d)" "honest r"
    and "node_loc d k (relativePath (engine_path (ParseFilePath (rq_Path r)))) = Some l"
    and "v1_route (node_server d k keys FormatTime) now PostFiles r (node_run d evs w) = (rep, s')"
    and "status rep = 201" "\<not> pi_IsDirectory (ParseFilePath (rq_Path r))"
  shows "nd_files.serves d k (engine_path (ParseFilePath (rq_Path r))) (rd_data (rq_Body r)) s'"
proof -
  let ?s = "node_run d evs w"
  obtain u where u: "Authenticate keys (rq_Header r ''Authorization'') = Inr u" "rq_Header r ''Authorization'' \<noteq> ''''"
    using assms(6,7) by (auto simp: v1_route_def V1AuthMiddleware_def sendErrorResponse_def node_server_def Let_def
        split: sum.splits if_splits)
  define q where "q = r\<lparr>rq_UserID := Some u\<rparr>"
  obtain rep1 where q: "V1PostFileEnhanced (single_node d) None [] (kind_type k) Background now q ?s = (rep1, s')"
      "status rep1 = 201"
    using assms(6,7) u by (cases "V1PostFileEnhanced (single_node d) None [] (kind_type k) Background now q ?s")
      (auto simp: v1_route_def V1AuthMiddleware_def node_server_def q_def)
  have same: "rq_Path q = rq_Path r" "rq_Body q = rq_Body r" "honest q = honest r"
    by (simp_all add: q_def honest_def)
  have sound: "nd.sound ?s" using node_run_sound [OF assms(1,3)] by (simp add: node_sound_iff)
  show ?thesis
    using nd_files.post_serves [OF sound node_run_files [OF assms(2)] _ _ _ assms(5) q] assms(4,8) by (simp add: same)
qed


text \<open>A concrete node with one API key, and a chunked upload of two bytes.\<close>

definition demo_keys :: "(string, string) gomap" where
  "demo_keys = NewAPIKeyAuthenticator [''k1''] ''hush''"

definition demo_request :: "string \<Rightarrow> string \<Rightarrow> bytes \<Rightarrow> request" where
  "demo_request key path b =
     \<lparr>rq_Path = path, rq_UserID = None, rq_ContentLength = -1,
      rq_Header = (\<lambda>h. if h = ''Authorization'' then ''Bearer '' @ key else ''''),
      rq_Query = (\<lambda>_. ''''), rq_Body = NewReader b\<rparr>"

definition demo_server :: "world server" where
  "demo_server = node_server demo_node LocalFS demo_keys (\<lambda>_. ''2024-01-01T00:00:00Z'')"

lemma demo_post: "status (fst (v1_route demo_server 1 PostFiles (demo_request ''k1'' ''g'' ''hi'') (node_run demo_node [] demo_world))) = 201"
  by code_simp


subsection \<open>Requests without authority\<close>



end
