(* ===== verification/WebSocket.thy ===== *)
theory WebSocket
  imports Server
begin

section \<open>Transfers over a WebSocket (server/handlers/websocket\_transfer.go)\<close>

text \<open>
  A connection, as the handler sees it: whether the upgrade succeeds, the messages the client sends
  and the error that ends them, how many bytes each read of the file returns, and which of the handler's
  messages can be written. The reply to a failed upgrade is written by the library. A read
  that returns bytes together with the end of the file is the same to the handler as one
  read for each.
\<close>

datatype ws_frame = BinaryMessage bytes | TextMessage bytes | CloseMessage int string

datatype ws_end = CloseError int | ReadError

record ws_conn =
  wc_upgrade :: bool
  wc_messages :: "(bool \<times> bytes) list"
  wc_end :: ws_end
  wc_reads :: "nat list"
  wc_write_ok :: "nat \<Rightarrow> bool"

datatype ws_result = WsReply "unit reply" | WsNotUpgraded | WsSession "ws_frame list"

definition wsChunkSize :: nat where
  "wsChunkSize = 65536"

definition maxWSUpload :: int where
  "maxWSUpload = 104857600"

subsection \<open>The origin check\<close>

text \<open>\<^verbatim>\<open>strings.Index\<close>.\<close>

fun strings_Index :: "string \<Rightarrow> string \<Rightarrow> int" where
  "strings_Index [] p = (if p = [] then 0 else -1)"
| "strings_Index (c # s) p =
     (if HasPrefix (c # s) p then 0 else let i = strings_Index s p in if i < 0 then -1 else i + 1)"

definition CheckOrigin :: "string \<Rightarrow> string \<Rightarrow> bool" where
  "CheckOrigin origin host =
     (if origin = '''' then True
      else let i = strings_Index origin ''://'';
               h1 = (if 0 \<le> i then drop (nat (i + 3)) origin else origin);
               j = strings_Index h1 ''/'';
               h2 = (if 0 \<le> j then take (nat j) h1 else h1)
           in h2 = host)"

subsection \<open>The two loops\<close>

text \<open>
  Download: \<open>i\<close> counts the messages written so far. A write that fails ends the session.
\<close>

function download_loop :: "(nat \<Rightarrow> bool) \<Rightarrow> nat \<Rightarrow> nat list \<Rightarrow> bytes \<Rightarrow> goerr option \<Rightarrow> ws_frame list" where
  "download_loop write_ok i sizes data err =
     (if data = [] then
        (case err of
           None \<Rightarrow> [CloseMessage 1000 ''download complete'']
         | Some _ \<Rightarrow> [CloseMessage 1011 ''file read failed''])
      else
        let n = (case sizes of [] \<Rightarrow> wsChunkSize | k # _ \<Rightarrow> min k wsChunkSize) in
        if n = 0 then download_loop write_ok i (tl sizes) data err
        else if \<not> write_ok i then []
        else BinaryMessage (take n data) # download_loop write_ok (i + 1) (tl sizes) (drop n data) err)"
  by pat_completeness auto
termination
  by (relation "measure (\<lambda>(write_ok, i, sizes, data, err). length sizes + length data)")
     (auto simp: wsChunkSize_def split: list.splits intro: add_le_less_mono)

declare download_loop.simps [simp del]

text \<open>Upload: what the messages amount to.\<close>

datatype ws_upload = Complete bytes | TooBig | Aborted

fun upload_loop :: "(bool \<times> bytes) list \<Rightarrow> ws_end \<Rightarrow> bytes \<Rightarrow> ws_upload" where
  "upload_loop [] (CloseError code) payload = (if code = 1000 \<or> code = 1001 then Complete payload else Aborted)"
| "upload_loop [] ReadError payload = Aborted"
| "upload_loop ((binary, data) # msgs) fin payload =
     (if \<not> binary then upload_loop msgs fin payload
      else if maxWSUpload < int (length payload) + int (length data) then TooBig
      else upload_loop msgs fin (payload @ data))"

subsection \<open>The handler\<close>

definition ws_download :: "'w Engine \<Rightarrow> goctx \<Rightarrow> gotime \<Rightarrow> string \<Rightarrow> string \<Rightarrow> ws_conn \<Rightarrow> 'w estate \<Rightarrow> ws_frame list \<times> 'w estate" where
  "ws_download e ctx now userID enginePath conn s =
     (case Authorize (metadataStore e) userID enginePath ReadPerm (es_world s) of
        Inl _ \<Rightarrow> ([CloseMessage 1008 ''read access denied''], s)
      | Inr _ \<Rightarrow>
          (case GetFile e ctx now enginePath s of
             (Inl _, s1) \<Rightarrow> ([CloseMessage 1011 ''failed to open file''], s1)
           | (Inr reader, s1) \<Rightarrow> (download_loop (wc_write_ok conn) 0 (wc_reads conn) (rd_data reader) (rd_err reader), s1)))"

definition ws_store ::
  "'w Engine \<Rightarrow> string \<Rightarrow> goctx \<Rightarrow> gotime \<Rightarrow> PathInfo \<Rightarrow> string \<Rightarrow> bytes \<Rightarrow> 'w estate \<Rightarrow> ws_frame option \<times> 'w estate" where
  "ws_store e defaultBackend ctx now pathInfo enginePath payload s =
     (let sz = int (length payload) in
      case GetMetadata e now enginePath s of
        (Inl err, s1) \<Rightarrow>
          if \<not> errors_Is err ErrNotFound then (Some (CloseMessage 1011 ''metadata lookup failed''), s1)
          else
            (case CreateFile e ctx now enginePath (NewReader payload) sz
                    (new_Metadata now (pi_Name pathInfo) ''file'' ''0644'' defaultBackend) s1 of
               (Inl _, s2) \<Rightarrow> (Some (CloseMessage 1011 ''file create failed''), s2)
             | (Inr _, s2) \<Rightarrow> (None, s2))
      | (Inr existingMd, s1) \<Rightarrow>
          if md_Type existingMd \<noteq> ''file'' then (Some (CloseMessage 1003 ''target path is not a file''), s1)
          else
            (case UpdateFile e ctx now enginePath (NewReader payload) sz s1 of
               (Inl _, s2) \<Rightarrow> (Some (CloseMessage 1011 ''file update failed''), s2)
             | (Inr _, s2) \<Rightarrow> (None, s2)))"

definition ws_upload_file ::
  "'w Engine \<Rightarrow> string \<Rightarrow> goctx \<Rightarrow> gotime \<Rightarrow> PathInfo \<Rightarrow> string \<Rightarrow> string \<Rightarrow> ws_conn \<Rightarrow> 'w estate \<Rightarrow> ws_frame list \<times> 'w estate" where
  "ws_upload_file e defaultBackend ctx now pathInfo userID enginePath conn s =
     (case Authorize (metadataStore e) userID enginePath WritePerm (es_world s) of
        Inl _ \<Rightarrow> ([CloseMessage 1008 ''write access denied''], s)
      | Inr _ \<Rightarrow>
          (case upload_loop (wc_messages conn) (wc_end conn) [] of
             Aborted \<Rightarrow> ([], s)
           | TooBig \<Rightarrow> ([CloseMessage 1009 ''upload too large''], s)
           | Complete payload \<Rightarrow>
               (case ws_store e defaultBackend ctx now pathInfo enginePath payload s of
                  (Some frame, s1) \<Rightarrow> ([frame], s1)
                | (None, s1) \<Rightarrow>
                    ((if wc_write_ok conn 0 then [TextMessage (''ok:'' @ Itoa (int (length payload)))] else []) @
                     [CloseMessage 1000 ''upload complete''], s1))))"

definition V1WebSocketTransfer ::
  "'w Engine \<Rightarrow> string \<Rightarrow> goctx \<Rightarrow> gotime \<Rightarrow> string \<Rightarrow> request \<Rightarrow> ws_conn \<Rightarrow> 'w estate \<Rightarrow> ws_result \<times> 'w estate" where
  "V1WebSocketTransfer e defaultBackend ctx now host r conn s =
     (let pathInfo = ParseFilePath (rq_Path r) in
      if pi_IsInvalid pathInfo then (WsReply (SendErrorResponse (Errorf ''invalid path'') 400), s)
      else if pi_IsDirectory pathInfo then (WsReply (SendErrorResponse (Errorf ''websocket transfer requires a file path'') 400), s)
      else case rq_UserID r of
        None \<Rightarrow> (WsReply (SendErrorResponse ErrAuthenticationFailed 401), s)
      | Some userID \<Rightarrow>
          let mode0 = ToLower (TrimSpace (rq_Query r ''mode''));
              mode = (if mode0 = '''' then ''download'' else mode0) in
          if mode \<noteq> ''download'' \<and> mode \<noteq> ''upload''
          then (WsReply (SendErrorResponse (Errorf ''mode must be one of: download, upload'') 400), s)
          else if \<not> (CheckOrigin (rq_Header r ''Origin'') host \<and> wc_upgrade conn) then (WsNotUpgraded, s)
          else let enginePath = pi_FullPath pathInfo in
            if mode = ''download'' then apfst WsSession (ws_download e ctx now userID enginePath conn s)
            else apfst WsSession (ws_upload_file e defaultBackend ctx now pathInfo userID enginePath conn s))"

subsection \<open>What the loops do\<close>

lemma download_loop_chunks:
  assumes "\<And>j. write_ok j"
  shows "\<exists>chunks. download_loop write_ok i sizes data None = map BinaryMessage chunks @ [CloseMessage 1000 ''download complete''] \<and>
    concat chunks = data \<and> (\<forall>c \<in> set chunks. c \<noteq> [] \<and> length c \<le> wsChunkSize)"
  using assms
proof (induction write_ok i sizes data "None :: goerr option" rule: download_loop.induct)
  case (1 write_ok i sizes data)
  define n where "n = (case sizes of [] \<Rightarrow> wsChunkSize | k # _ \<Rightarrow> min k wsChunkSize)"
  have le: "n \<le> wsChunkSize" by (simp add: n_def split: list.split)
  show ?case
  proof (cases "data = [] \<or> n = 0")
    case True
    then show ?thesis
      using 1(1) [OF _ n_def] 1(3) by (subst download_loop.simps) (auto simp: n_def [symmetric] Let_def intro: exI [of _ "[]"])
  next
    case False
    then obtain chunks where
      c: "download_loop write_ok (i + 1) (tl sizes) (drop n data) None = map BinaryMessage chunks @ [CloseMessage 1000 ''download complete'']"
      "concat chunks = drop n data" "\<forall>c \<in> set chunks. c \<noteq> [] \<and> length c \<le> wsChunkSize"
      using 1(2) [OF _ n_def] 1(3) by auto
    have "download_loop write_ok i sizes data None = map BinaryMessage (take n data # chunks) @ [CloseMessage 1000 ''download complete'']"
      using False 1(3) c(1) by (subst download_loop.simps) (simp add: n_def [symmetric] Let_def)
    then show ?thesis using c(2,3) False le by (intro exI [of _ "take n data # chunks"]) auto
  qed
qed

definition payload_of :: "ws_conn \<Rightarrow> bytes" where
  "payload_of conn = concat (map snd (filter fst (wc_messages conn)))"

lemma upload_loop_Complete:
  "upload_loop msgs fin p = Complete q \<Longrightarrow> int (length p) \<le> maxWSUpload \<Longrightarrow>
   q = p @ concat (map snd (filter fst msgs)) \<and> int (length q) \<le> maxWSUpload \<and> fin \<in> {CloseError 1000, CloseError 1001}"
proof (induction msgs arbitrary: p)
  case Nil
  then show ?case by (cases fin) (auto split: if_splits)
next
  case (Cons m msgs)
  then show ?case by (cases m) (fastforce split: if_splits)
qed

lemma upload_complete:
  assumes "upload_loop (wc_messages conn) (wc_end conn) [] = Complete payload"
  shows "payload = payload_of conn" "int (length payload) \<le> maxWSUpload" "wc_end conn \<in> {CloseError 1000, CloseError 1001}"
  using upload_loop_Complete [OF assms] by (auto simp: payload_of_def maxWSUpload_def)

lemma download_last: "CloseMessage 1000 ''upload complete'' \<notin> set (download_loop write_ok i sizes data err)"
proof (induction write_ok i sizes data err rule: download_loop.induct)
  case (1 write_ok i sizes data err)
  then show ?case by (subst download_loop.simps) (auto simp: Let_def split: option.split)
qed

subsection \<open>An upload and the download that follows\<close>

context engine_files
begin

lemma ws_store_serves:
  assumes s: "sound s" "binv (es_world s)" and p: "loc (relativePath path) = Some l" and ack: "\<not> (requireReplicaAck e \<and> replicationEnabled e)"
    and old: "\<And>md. view (es_world s) path = Some md \<Longrightarrow> \<exists>n. uploaded bt (currentInstanceID e) n md"
    and c: "ws_store e bt ctx now pathInfo path payload s = (None, s')"
  shows "serves path payload s'"
proof -
  obtain g s1 where g: "GetMetadata e now path s = (g, s1)" by fastforce
  note gs = GetMetadata_spec [OF s(1) g]
  have i: "inv (es_world s1)" using gs by (simp add: sound_def)
  have b1: "binv (es_world s1)" using gs s(2) by simp
  let ?md0 = "new_Metadata now (pi_Name pathInfo) ''file'' ''0644'' bt"
  have rd: "rd_data (NewReader payload) = payload" by (simp add: NewReader_def)
  show ?thesis
  proof (cases g)
    case (Inl err)
    obtain md where cf: "CreateFile e ctx now path (NewReader payload) (int (length payload)) ?md0 s1 = (Inr md, s')"
      using c by (auto simp: ws_store_def Let_def g Inl split: if_splits prod.splits sum.splits)
    have md0: "md_BackendType ?md0 = bt" "md_CallFSInstanceID ?md0 = None" "md_Type ?md0 = ''file''" "md_Mode ?md0 = ''0644''" "\<not> md_ErasureCoded ?md0"
      by (simp_all add: new_Metadata_def zero_Metadata_def)
    note cs = CreateFile_spec [OF i cf]
    have s': "sound s'" using sound_created cs gs by blast
    obtain md' where v: "view (es_world s') path = Some md'" "stored_as (new_file now path (int (length payload)) ?md0) md'"
      using cs by (auto simp: file_created_def)
    have h: "holds l payload (es_world s')" using CreateFile_holds [OF b1 md0(1) p cf] rd by simp
    have "uploaded bt (currentInstanceID e) (int (length payload)) md'"
      using stored_as_fields [OF v(2)] md0 by (simp add: uploaded_def new_file_def new_Metadata_def zero_Metadata_def)
    then show ?thesis using s' h v(1) p unfolding serves_def by blast
  next
    case (Inr md)
    have v: "view (es_world s1) path = Some md" using gs by (auto simp: Inr split: option.splits)
    then obtain n where up: "uploaded bt (currentInstanceID e) n md" using old gs by auto
    have uf: "UpdateFile e ctx now path (NewReader payload) (int (length payload)) s1 = (Inr (), s')"
      using c by (auto simp: ws_store_def Let_def g Inr split: if_splits prod.splits sum.splits)
    note us = UpdateFile_spec [OF i uf]
    have s': "sound s'" using sound_updated [OF _ _ ack] us gs by blast
    have h: "holds l payload (es_world s')" using UpdateFile_holds [OF i b1 p v _ uf] up rd by (auto simp: uploaded_def here_def)
    obtain md' where "view (es_world s') path = Some md'" "uploaded bt (currentInstanceID e) (int (length payload)) md'"
      using us v up by (auto simp: file_updated_def uploaded_def owner_after_def)
    then show ?thesis using s' h p unfolding serves_def by blast
  qed
qed

lemma ws_download_served:
  assumes sv: "serves path b s" and ok: "\<And>j. wc_write_ok conn j"
  shows "\<exists>chunks. fst (ws_download e ctx now userID path conn s) = map BinaryMessage chunks @ [CloseMessage 1000 ''download complete''] \<and>
    concat chunks = b \<and> (\<forall>c \<in> set chunks. c \<noteq> [] \<and> length c \<le> wsChunkSize)"
proof -
  obtain l md where s: "sound s" "loc (relativePath path) = Some l" "holds l b (es_world s)" "view (es_world s) path = Some md"
    and md: "uploaded bt (currentInstanceID e) (int (length b)) md" using sv by (auto simp: serves_def)
  have i: "inv (es_world s)" using s(1) by (simp add: sound_def)
  have a: "Authorize (metadataStore e) userID path ReadPerm (es_world s) = Inr ()"
    using md by (simp add: Authorize_def get_law [OF i] s(4) readable_0644 uploaded_def)
  have "fst (GetFile e ctx now path s) = Inr (NewReader b)"
    using GetFile_reads [OF s(1,3,2,4)] md by (simp add: uploaded_def here_def)
  then obtain s2 where f: "GetFile e ctx now path s = (Inr (NewReader b), s2)" by (metis prod.collapse)
  show ?thesis
    using download_loop_chunks [of "wc_write_ok conn" 0 "wc_reads conn" b, OF ok] by (simp add: ws_download_def a f NewReader_def)
qed

end

text \<open>The path of a transfer.\<close>

definition ws_path :: "request \<Rightarrow> string" where
  "ws_path r = pi_FullPath (ParseFilePath (rq_Path r))"


text \<open>
  C7: (safety) A WebSocket request changes something other than the cache only if it is an authenticated upload with write
  permission on its path that passed the origin check, ended with a regular close of the client and carried at
  most 100 MiB; otherwise metadata, files and locks are as before.
\<close>

theorem ws_changes_only_complete_uploads:
  assumes "V1WebSocketTransfer (single_node d) defaultBackend ctx now host r conn s = (res, s')" "es_world s' \<noteq> es_world s"
  shows "\<exists>userID payload. rq_UserID r = Some userID \<and> ToLower (TrimSpace (rq_Query r ''mode'')) = ''upload'' \<and>
    CheckOrigin (rq_Header r ''Origin'') host \<and> Authorize (metadataStore (single_node d)) userID (ws_path r) WritePerm (es_world s) = Inr () \<and>
    upload_loop (wc_messages conn) (wc_end conn) [] = Complete payload \<and> payload = payload_of conn \<and>
    int (length payload) \<le> maxWSUpload \<and> wc_end conn \<in> {CloseError 1000, CloseError 1001}"
proof -
  have dl: "es_world (snd (ws_download (single_node d) ctx now u p conn s)) = es_world s" for u p
    using nd_tree.GetFile_world [of d ctx now p s] by (auto simp: ws_download_def split: sum.splits prod.splits)
  obtain userID where user: "rq_UserID r = Some userID" "ToLower (TrimSpace (rq_Query r ''mode'')) = ''upload''"
      "CheckOrigin (rq_Header r ''Origin'') host"
    and up: "snd (ws_upload_file (single_node d) defaultBackend ctx now (ParseFilePath (rq_Path r)) userID (ws_path r) conn s) = s'"
    using assms dl
    by (auto simp: V1WebSocketTransfer_def ws_path_def Let_def apfst_def map_prod_def split: option.splits if_splits prod.splits)
      (metis snd_conv)+
  obtain payload where pay: "upload_loop (wc_messages conn) (wc_end conn) [] = Complete payload"
    and au: "Authorize (metadataStore (single_node d)) userID (ws_path r) WritePerm (es_world s) = Inr ()"
    using up assms(2) by (auto simp: ws_upload_file_def split: sum.splits ws_upload.splits)
  show ?thesis using user au pay upload_complete [OF pay] by blast
qed

text \<open>
  \<^verbatim>\<open>GET /v1/files/\<close>, for a request that has passed the authentication: the router prefers the pattern \<^verbatim>\<open>/ws/*\<close> to \<^verbatim>\<open>/*\<close>.
\<close>

definition files_get ::
  "'w server \<Rightarrow> gotime \<Rightarrow> string \<Rightarrow> request \<Rightarrow> ws_conn \<Rightarrow> 'w estate \<Rightarrow> (body reply + ws_result) \<times> 'w estate" where
  "files_get sv now host r conn s =
     (if HasPrefix (rq_Path r) ''ws/''
      then apfst Inr (V1WebSocketTransfer (sv_engine sv) (sv_defaultBackend sv) (sv_ctx sv) now host (r\<lparr>rq_Path := drop 3 (rq_Path r)\<rparr>) conn s)
      else apfst Inl (handler sv now GetFiles r s))"

text \<open>
  So files below \<^verbatim>\<open>/ws\<close> can be created and deleted, but a plain \<^verbatim>\<open>GET\<close> never returns them: it is answered with an
  error, and what an upgraded connection downloads is the file whose path lacks the first segment.
\<close>

lemma files_below_ws_not_served:
  assumes "HasPrefix (rq_Path r) ''ws/''" "\<not> wc_upgrade conn" "rq_UserID r = Some userID"
  shows "\<exists>res. files_get sv now host r conn s = (Inr res, s) \<and> (res = WsNotUpgraded \<or> (\<exists>er. res = WsReply (ErrorReply 400 er)))"
proof -
  have e: "\<exists>er. SendErrorResponse (Errorf m) 400 = (ErrorReply 400 er :: unit reply)" for m
    by (simp add: SendErrorResponse_def)
  show ?thesis
    using assms e by (auto simp: files_get_def V1WebSocketTransfer_def Let_def apfst_def map_prod_def)
qed

text \<open>A concrete session: two binary messages around a text message, then a download in reads of one byte.\<close>

definition demo_transfer :: "string \<Rightarrow> request" where
  "demo_transfer mode = (demo_request ''k1'' ''g'' '''')\<lparr>rq_UserID := Some ''u1'', rq_Query := (\<lambda>q. if q = ''mode'' then mode else '''')\<rparr>"

definition demo_conn :: ws_conn where
  "demo_conn = \<lparr>wc_upgrade = True, wc_messages = [(True, ''h''), (False, ''x''), (True, ''i'')], wc_end = CloseError 1000,
     wc_reads = [1, 0, 1], wc_write_ok = (\<lambda>_. True)\<rparr>"

definition demo_session :: "string \<Rightarrow> world estate \<Rightarrow> ws_result \<times> world estate" where
  "demo_session mode = V1WebSocketTransfer (single_node demo_node) ''localfs'' Background 1 ''h:1'' (demo_transfer mode) demo_conn"

lemma demo_upload: "fst (demo_session ''upload'' (node_run demo_node [] demo_world)) =
    WsSession [TextMessage ''ok:2'', CloseMessage 1000 ''upload complete'']"
  by code_simp

lemma demo_download: "\<exists>frames. fst (demo_session ''download'' s) = WsSession frames"
proof -
  have "\<not> pi_IsInvalid (ParseFilePath ''g'')" "\<not> pi_IsDirectory (ParseFilePath ''g'')" "ToLower (TrimSpace ''download'') = ''download''"
    by code_simp+
  then show ?thesis
    by (simp add: demo_session_def V1WebSocketTransfer_def demo_transfer_def demo_request_def demo_conn_def CheckOrigin_def)
qed


theorem ws_changes_only_complete_uploads_witness:
  "Authorize (metadataStore (single_node demo_node)) ''u1'' ''/g'' WritePerm demo_world = Inr ()"
proof -
  let ?s = "node_run demo_node [] demo_world"
  obtain res s' where up: "demo_session ''upload'' ?s = (res, s')" by fastforce
  have "md_view (es_world (snd (demo_session ''upload'' ?s))) ''/g'' \<noteq> None" by code_simp
  moreover have "md_view (es_world ?s) ''/g'' = None" by code_simp
  ultimately have "es_world s' \<noteq> es_world ?s" using up by auto
  note c = ws_changes_only_complete_uploads [OF up [unfolded demo_session_def] this]
  have "pi_FullPath (ParseFilePath ''g'') = ''/g''" "es_world ?s = demo_world" by (code_simp, simp add: node_run_def NewEngine_state_def)
  with c show ?thesis by (auto simp: demo_transfer_def demo_request_def ws_path_def)
qed

end
