(* ===== verification/InternalProxy.thy ===== *)
theory InternalProxy
  imports WebSocket
begin

section \<open>The internal proxy (backends/internalproxy/adapter.go)\<close>

text \<open>
  The adapter sends the file requests of one instance to the instance that owns the file. The HTTP client
  is an argument of the adapter, a function of the request and the world of the peers; reads return only the answer, since
  all they change on the peer is its cache. \<open>ip_Parse\<close> is \<^verbatim>\<open>url.Parse\<close>, which gives the scheme with the host and the
  path, \<open>ip_NewRequest\<close> the check of \<^verbatim>\<open>http.NewRequest\<close>, \<open>ip_ParseTime\<close> is \<^verbatim>\<open>time.Parse\<close> with the layout of the code and
  \<open>ip_Decode\<close> the JSON decoder for a listing. How \<^verbatim>\<open>net/url\<close> joins, escapes and unescapes paths is written out, on both
  sides of the connection.
\<close>

subsection \<open>Paths of URLs (net/url)\<close>

definition hex_char :: "nat \<Rightarrow> char" where
  "hex_char d = ''0123456789ABCDEF'' ! d"

definition hex_val :: "char \<Rightarrow> nat option" where
  "hex_val c = (let n = of_char c :: nat in
     if 48 \<le> n \<and> n \<le> 57 then Some (n - 48)
     else if 65 \<le> n \<and> n \<le> 70 then Some (n - 55)
     else if 97 \<le> n \<and> n \<le> 102 then Some (n - 87) else None)"

definition unreserved :: "char \<Rightarrow> bool" where
  "unreserved c = (let n = of_char c :: nat in
     48 \<le> n \<and> n \<le> 57 \<or> 65 \<le> n \<and> n \<le> 90 \<or> 97 \<le> n \<and> n \<le> 122 \<or> c \<in> set ''-_.~'')"

text \<open>\<^verbatim>\<open>shouldEscape\<close> in the modes of a path and of a path segment.\<close>

definition plain_in_path :: "char \<Rightarrow> bool" where
  "plain_in_path c = (unreserved c \<or> c \<in> set ''$&+,/:;=@'')"

definition plain_in_segment :: "char \<Rightarrow> bool" where
  "plain_in_segment c = (unreserved c \<or> c \<in> set ''$&+:=@'')"

fun url_escape :: "(char \<Rightarrow> bool) \<Rightarrow> string \<Rightarrow> string" where
  "url_escape plain [] = []"
| "url_escape plain (c # s) =
     (if plain c then c # url_escape plain s
      else CHR ''%'' # hex_char (of_char c div 16) # hex_char (of_char c mod 16) # url_escape plain s)"

fun url_unescape :: "string \<Rightarrow> string option" where
  "url_unescape [] = Some []"
| "url_unescape (c # s) =
     (if c = CHR ''%'' then
        (case s of
           a # b # s' \<Rightarrow>
             (case (hex_val a, hex_val b) of
                (Some x, Some y) \<Rightarrow> map_option (Cons (char_of (16 * x + y))) (url_unescape s')
              | _ \<Rightarrow> None)
         | _ \<Rightarrow> None)
      else map_option (Cons c) (url_unescape s))"

definition validEncoded :: "string \<Rightarrow> bool" where
  "validEncoded s = list_all (\<lambda>c. c \<in> set ''!$&()*+,;=:@[]%'' \<or> c = CHR 39 \<or> plain_in_path c) s"

text \<open>
  \<^verbatim>\<open>url.JoinPath\<close> and \<^verbatim>\<open>URL.String\<close>: the joined path is taken for an escaped one. It is sent as it is if it can be an escaped
  path, and escaped after unescaping otherwise; if it cannot be unescaped the URL stays without it.
\<close>

definition url_JoinPath :: "string \<times> string \<Rightarrow> string list \<Rightarrow> string" where
  "url_JoinPath base elems =
     (let (origin, basePath) = base;
          first = (if HasPrefix basePath ''/'' then basePath else ''/'' @ basePath);
          p = filepath_Clean (JoinWith slash (filter (\<lambda>x. x \<noteq> '''') (first # elems)));
          p' = (if HasSuffix (last (first # elems)) ''/'' \<and> \<not> HasSuffix p ''/'' then p @ ''/'' else p)
      in case url_unescape p' of
           None \<Rightarrow> origin @ basePath
         | Some path \<Rightarrow> origin @ (if validEncoded p' then p' else url_escape plain_in_path path))"

text \<open>The path by which the router of the peer finds a request: the escaped form is kept if it is not the standard one.\<close>

definition routePath :: "string \<Rightarrow> string option" where
  "routePath requestURI =
     (case url_unescape requestURI of
        None \<Rightarrow> None
      | Some path \<Rightarrow> Some (if url_escape plain_in_path path = requestURI then path else requestURI))"

text \<open>\<^verbatim>\<open>strconv.ParseInt\<close> and \<^verbatim>\<open>Atoi\<close> when the error is ignored: zero for a syntax error, the nearest number for a range error.\<close>

fun parse_u64 :: "nat \<Rightarrow> string \<Rightarrow> nat option" where
  "parse_u64 acc [] = Some acc"
| "parse_u64 acc (c # s) =
     (case digit_val c of
        None \<Rightarrow> None
      | Some d \<Rightarrow> if 2 ^ 64 \<le> acc * 10 + d then Some (2 ^ 64 - 1) else parse_u64 (acc * 10 + d) s)"

definition ParseInt_value :: "string \<Rightarrow> int" where
  "ParseInt_value s =
     (let neg = HasPrefix s ''-'';
          ds = (if HasPrefix s ''-'' \<or> HasPrefix s ''+'' then tl s else s)
      in if ds = [] then 0
         else case parse_u64 0 ds of
           None \<Rightarrow> 0
         | Some n \<Rightarrow> if neg then max (- (2 ^ 63)) (- int n) else min (2 ^ 63 - 1) (int n))"

subsection \<open>The adapter\<close>

record http_request =
  hq_Method :: string
  hq_URL :: string
  hq_Header :: "(string \<times> string) list"
  hq_ContentLength :: int
  hq_Body :: reader

record http_response =
  rs_StatusCode :: int
  rs_Header :: "(string \<times> string) list"
  rs_Body :: reader

definition header_Get :: "(string \<times> string) list \<Rightarrow> string \<Rightarrow> string" where
  "header_Get hs k = (case map_of hs k of None \<Rightarrow> '''' | Some v \<Rightarrow> v)"

record 'w InternalProxyAdapter =
  ip_client :: "goctx \<Rightarrow> http_request \<Rightarrow> 'w \<Rightarrow> http_response result \<times> 'w"
  ip_instanceMap :: "(string, string) gomap"
  ip_internalAuthToken :: string
  ip_Parse :: "string \<Rightarrow> (string \<times> string) option"
  ip_NewRequest :: "string \<Rightarrow> goerr option"
  ip_ParseTime :: "string \<Rightarrow> gotime option"
  ip_Decode :: "bytes \<Rightarrow> FileInfo list result"

definition buildProxyURL :: "(string \<Rightarrow> (string \<times> string) option) \<Rightarrow> string \<Rightarrow> string \<Rightarrow> string" where
  "buildProxyURL Parse endpoint path =
     (let base = TrimRight endpoint slash;
          cleanPath = TrimLeft path slash
      in case Parse base of
           None \<Rightarrow> base @ ''/v1/files/'' @ url_escape plain_in_segment cleanPath
         | Some u \<Rightarrow> url_JoinPath u [''v1'', ''files'', cleanPath])"

definition getInstanceIDFromContext :: "goctx \<Rightarrow> string" where
  "getInstanceIDFromContext ctx = (case ctx_instance_id ctx of Some i \<Rightarrow> i | None \<Rightarrow> '''')"

text \<open>What every request begins with: the endpoint of the instance, the request with its token, and the call.\<close>

definition proxy_send ::
  "'w InternalProxyAdapter \<Rightarrow> goctx \<Rightarrow> string \<Rightarrow> string \<Rightarrow> string \<Rightarrow> (string \<times> string) list \<Rightarrow> int \<Rightarrow> reader \<Rightarrow> 'w \<Rightarrow>
   http_response result \<times> 'w" where
  "proxy_send a ctx instanceID method path hs len body w =
     (case map_of (ip_instanceMap a) instanceID of
        None \<Rightarrow> (Inl (Errorf (''unknown instance ID: '' @ instanceID)), w)
      | Some endpoint \<Rightarrow>
          let reqURL = buildProxyURL (ip_Parse a) endpoint path in
          (case ip_NewRequest a reqURL of
             Some err \<Rightarrow> (Inl (Wrapf ''failed to create request'' err), w)
           | None \<Rightarrow>
               (case ip_client a ctx
                  \<lparr>hq_Method = method, hq_URL = reqURL, hq_Header = (''Authorization'', ''Bearer '' @ ip_internalAuthToken a) # hs,
                   hq_ContentLength = len, hq_Body = body\<rparr> w of
                  (Inl err, w1) \<Rightarrow> (Inl (Wrapf ''failed to proxy request'' err), w1)
                | (Inr resp, w1) \<Rightarrow> (Inr resp, w1))))"

definition bad_status :: "int \<Rightarrow> goerr" where
  "bad_status st = (if st = 404 then ErrNotFound else Errorf (''proxy request failed with status '' @ Itoa st))"

definition OpenFromInstance :: "'w InternalProxyAdapter \<Rightarrow> goctx \<Rightarrow> string \<Rightarrow> string \<Rightarrow> 'w \<Rightarrow> reader result" where
  "OpenFromInstance a ctx instanceID path w =
     (case fst (proxy_send a ctx instanceID ''GET'' path [] 0 (NewReader []) w) of
        Inl err \<Rightarrow> Inl err
      | Inr resp \<Rightarrow> if rs_StatusCode resp \<noteq> 200 then Inl (bad_status (rs_StatusCode resp)) else Inr (rs_Body resp))"

definition UpdateOnInstance ::
  "'w InternalProxyAdapter \<Rightarrow> goctx \<Rightarrow> string \<Rightarrow> string \<Rightarrow> reader \<Rightarrow> int \<Rightarrow> 'w \<Rightarrow> unit result \<times> 'w" where
  "UpdateOnInstance a ctx instanceID path reader sz w =
     (case proxy_send a ctx instanceID ''PUT'' path [(''Content-Type'', ''application/octet-stream'')] (if 0 < sz then sz else 0) reader w of
        (Inl err, w1) \<Rightarrow> (Inl err, w1)
      | (Inr resp, w1) \<Rightarrow>
          (if rs_StatusCode resp \<noteq> 200 \<and> rs_StatusCode resp \<noteq> 201 then Inl (bad_status (rs_StatusCode resp)) else Inr (), w1))"

definition DeleteOnInstance :: "'w InternalProxyAdapter \<Rightarrow> goctx \<Rightarrow> string \<Rightarrow> string \<Rightarrow> 'w \<Rightarrow> unit result \<times> 'w" where
  "DeleteOnInstance a ctx instanceID path w =
     (case proxy_send a ctx instanceID ''DELETE'' path [] 0 (NewReader []) w of
        (Inl err, w1) \<Rightarrow> (Inl err, w1)
      | (Inr resp, w1) \<Rightarrow> (if rs_StatusCode resp \<noteq> 204 then Inl (bad_status (rs_StatusCode resp)) else Inr (), w1))"

definition rooted_path :: "string \<Rightarrow> string" where
  "rooted_path path = (if HasPrefix path ''/'' then path else ''/'' @ path)"

definition parsed_time :: "(string \<Rightarrow> gotime option) \<Rightarrow> gotime \<Rightarrow> string \<Rightarrow> gotime" where
  "parsed_time ParseTime now t = (if t \<noteq> '''' then (case ParseTime t of Some x \<Rightarrow> x | None \<Rightarrow> now) else now)"

definition StatOnInstance :: "'w InternalProxyAdapter \<Rightarrow> gotime \<Rightarrow> goctx \<Rightarrow> string \<Rightarrow> string \<Rightarrow> 'w \<Rightarrow> Metadata result" where
  "StatOnInstance a now ctx instanceID path w =
     (case fst (proxy_send a ctx instanceID ''HEAD'' path [] 0 (NewReader []) w) of
        Inl err \<Rightarrow> Inl err
      | Inr resp \<Rightarrow>
          if rs_StatusCode resp \<noteq> 200 then Inl (bad_status (rs_StatusCode resp))
          else
            let get = header_Get (rs_Header resp);
                mTime = parsed_time (ip_ParseTime a) now (get ''X-CallFS-MTime'');
                cleanPath = rooted_path path;
                name = (if cleanPath = ''/'' then ''/'' else filepath_Base cleanPath)
            in Inr (zero_Metadata\<lparr>
                 md_Name := name, md_Path := cleanPath,
                 md_Type := (if get ''X-CallFS-Type'' = '''' then ''file'' else get ''X-CallFS-Type''),
                 md_Size := ParseInt_value (get ''X-CallFS-Size''),
                 md_Mode := (if get ''X-CallFS-Mode'' = '''' then ''0644'' else get ''X-CallFS-Mode''),
                 md_UID := ParseInt_value (get ''X-CallFS-UID''), md_GID := ParseInt_value (get ''X-CallFS-GID''),
                 md_MTime := mTime, md_ATime := mTime, md_CTime := mTime, md_BackendType := ''localfs''\<rparr>))"

definition proxied_child :: "'w InternalProxyAdapter \<Rightarrow> gotime \<Rightarrow> string \<Rightarrow> FileInfo \<Rightarrow> Metadata" where
  "proxied_child a now path item =
     (let itemPath = (if fi_Path item = '''' then ''/'' @ TrimLeft (filepath_Join path (fi_Name item)) slash else fi_Path item);
          mTime = parsed_time (ip_ParseTime a) now (fi_MTime item);
          mode = (if fi_Mode item = '''' then (if fi_Type item = ''directory'' then ''0755'' else ''0644'') else fi_Mode item)
      in zero_Metadata\<lparr>
           md_Name := fi_Name item, md_Path := rooted_path itemPath, md_Type := fi_Type item, md_Size := fi_Size item, md_Mode := mode,
           md_UID := fi_UID item, md_GID := fi_GID item, md_MTime := mTime, md_ATime := mTime, md_CTime := mTime,
           md_BackendType := ''localfs''\<rparr>)"

definition ListDirectoryOnInstance :: "'w InternalProxyAdapter \<Rightarrow> gotime \<Rightarrow> goctx \<Rightarrow> string \<Rightarrow> string \<Rightarrow> 'w \<Rightarrow> Metadata list result" where
  "ListDirectoryOnInstance a now ctx instanceID path w =
     (case fst (proxy_send a ctx instanceID ''GET'' path [] 0 (NewReader []) w) of
        Inl err \<Rightarrow> Inl err
      | Inr resp \<Rightarrow>
          if rs_StatusCode resp \<noteq> 200 then Inl (bad_status (rs_StatusCode resp))
          else (case ip_Decode a (rd_data (rs_Body resp)) of
                  Inl err \<Rightarrow> Inl (Wrapf ''failed to decode directory listing response'' err)
                | Inr items \<Rightarrow> Inr (map (proxied_child a now path) items)))"

text \<open>The methods of the backend interface take the instance from the context.\<close>

definition no_instance :: goerr where
  "no_instance = Errorf ''internal proxy requires instance ID in context''"

definition proxy_Open :: "'w InternalProxyAdapter \<Rightarrow> goctx \<Rightarrow> string \<Rightarrow> 'w \<Rightarrow> reader result" where
  "proxy_Open a ctx path w =
     (let i = getInstanceIDFromContext ctx in if i = '''' then Inl no_instance else OpenFromInstance a ctx i path w)"

definition proxy_Update :: "'w InternalProxyAdapter \<Rightarrow> goctx \<Rightarrow> string \<Rightarrow> reader \<Rightarrow> int \<Rightarrow> 'w \<Rightarrow> unit result \<times> 'w" where
  "proxy_Update a ctx path reader sz w =
     (let i = getInstanceIDFromContext ctx in if i = '''' then (Inl no_instance, w) else UpdateOnInstance a ctx i path reader sz w)"

definition proxy_Delete :: "'w InternalProxyAdapter \<Rightarrow> goctx \<Rightarrow> string \<Rightarrow> 'w \<Rightarrow> unit result \<times> 'w" where
  "proxy_Delete a ctx path w =
     (let i = getInstanceIDFromContext ctx in if i = '''' then (Inl no_instance, w) else DeleteOnInstance a ctx i path w)"

definition proxy_Stat :: "'w InternalProxyAdapter \<Rightarrow> gotime \<Rightarrow> goctx \<Rightarrow> string \<Rightarrow> 'w \<Rightarrow> Metadata result" where
  "proxy_Stat a now ctx path w =
     (let i = getInstanceIDFromContext ctx in if i = '''' then Inl no_instance else StatOnInstance a now ctx i path w)"

definition proxy_ListDirectory :: "'w InternalProxyAdapter \<Rightarrow> gotime \<Rightarrow> goctx \<Rightarrow> string \<Rightarrow> 'w \<Rightarrow> Metadata list result" where
  "proxy_ListDirectory a now ctx path w =
     (let i = getInstanceIDFromContext ctx in if i = '''' then Inl no_instance else ListDirectoryOnInstance a now ctx i path w)"

definition proxy_Create :: "goctx \<Rightarrow> string \<Rightarrow> reader \<Rightarrow> int \<Rightarrow> 'w \<Rightarrow> unit result \<times> 'w" where
  "proxy_Create ctx path reader sz w = (Inl (Errorf ''Create method not supported for internal proxy - files are created locally''), w)"

definition proxy_CreateDirectory :: "goctx \<Rightarrow> string \<Rightarrow> 'w \<Rightarrow> unit result \<times> 'w" where
  "proxy_CreateDirectory ctx path w =
     (Inl (Errorf ''CreateDirectory method not supported for internal proxy - directories are created locally''), w)"

text \<open>The adapter as the engine uses it: as a backend, and for the calls that name the instance.\<close>

definition proxy_storage :: "'w InternalProxyAdapter \<Rightarrow> ('w \<Rightarrow> gotime) \<Rightarrow> 'w storage_ops" where
  "proxy_storage a clock = \<lparr>
     so_Open = proxy_Open a,
     so_Create = proxy_Create,
     so_Update = proxy_Update a,
     so_Delete = proxy_Delete a,
     so_Stat = (\<lambda>ctx path w. proxy_Stat a (clock w) ctx path w),
     so_ListDirectory = (\<lambda>ctx path w. Some (proxy_ListDirectory a (clock w) ctx path w)),
     so_CreateDirectory = proxy_CreateDirectory\<rparr>"

definition proxy_calls :: "'w InternalProxyAdapter \<Rightarrow> ('w \<Rightarrow> gotime) \<Rightarrow> goctx \<Rightarrow> 'w proxy_ops" where
  "proxy_calls a clock ctx = \<lparr>
     px_DeleteOnInstance = DeleteOnInstance a ctx,
     px_StatOnInstance = (\<lambda>i path w. StatOnInstance a (clock w) ctx i path w)\<rparr>"

subsection \<open>What is sent is what is routed\<close>

lemma hex_val_char:
  assumes "d < 16"
  shows "hex_val (hex_char d) = Some d"
proof -
  have "\<forall>d \<in> set [0..<16]. hex_val (hex_char d) = Some d" by code_simp
  then show ?thesis using assms by simp
qed

lemma unescape_escape:
  assumes "\<not> plain CHR ''%''"
  shows "url_unescape (url_escape plain s) = Some s"
proof (induction s)
  case (Cons c s)
  have "(of_char c :: nat) < 256" by (rule nat_of_char_less_256)
  then have d: "(of_char c :: nat) div 16 < 16" by linarith
  have m: "(of_char c :: nat) mod 16 < 16" by simp
  show ?case using Cons assms by (auto simp: hex_val_char [OF d] hex_val_char [OF m])
qed simp

lemma unescape_plain: "CHR ''%'' \<notin> set s \<Longrightarrow> url_unescape s = Some s"
  by (induction s) auto

lemma sent_is_routed:
  assumes "CHR ''%'' \<notin> set p"
  shows "routePath (if validEncoded p then p else url_escape plain_in_path p) = Some p"
proof -
  have "\<not> plain_in_path CHR ''%''" by code_simp
  from unescape_escape [of plain_in_path p, OF this] unescape_plain [OF assms] show ?thesis by (auto simp: routePath_def)
qed

lemma join_comps:
  assumes cs: "plain_comps cs" "cs \<noteq> []" and p: "path = JoinWith slash cs"
  shows "path \<noteq> ''''" "\<not> HasPrefix path ''/''" "\<not> HasSuffix path ''/''" "SplitOn slash path = cs" "path \<noteq> ''.''"
proof -
  have c: "\<forall>c \<in> set cs. slash \<notin> set c \<and> c \<noteq> '''' \<and> c \<noteq> ''.''" using cs(1) by (auto simp: plain_comps_def plain_comp_def)
  show s: "SplitOn slash path = cs" unfolding p using SplitOn_JoinWith cs(2) c by blast
  show "path \<noteq> ''''" "path \<noteq> ''.''" using s c cs(2) by auto
  show "\<not> HasPrefix path ''/''"
  proof
    assume "HasPrefix path ''/''"
    then obtain r where "path = slash # r" by (auto simp: HasPrefix_iff)
    then have "'''' \<in> set cs" using s by auto
    then show False using c by blast
  qed
  show "\<not> HasSuffix path ''/''"
  proof
    assume "HasSuffix path ''/''"
    then obtain r where "path = r @ slash # []" by (auto simp: HasSuffix_iff)
    then have "'''' \<in> set cs" using s SplitOn_append_sep [of slash r "[]"] by auto
    then show False using c by blast
  qed
qed

lemma JoinPath_plain:
  assumes cs: "plain_comps cs" "cs \<noteq> []" and p: "path = JoinWith slash cs" and pc: "CHR ''%'' \<notin> set path"
  shows "url_JoinPath (origin, '''') [''v1'', ''files'', path] =
    origin @ (if validEncoded (''/v1/files/'' @ path) then ''/v1/files/'' @ path else url_escape plain_in_path (''/v1/files/'' @ path))"
proof -
  note j = join_comps [OF cs p]
  have "SplitOn slash (''//v1/files/'' @ path) = '''' # '''' # ''v1'' # ''files'' # cs" using j(4) by simp
  moreover have "plain_comps (''v1'' # ''files'' # cs)" using cs(1) by (simp add: plain_comps_def plain_comp_def)
  ultimately have "filepath_Clean (''//v1/files/'' @ path) = abs_path (''v1'' # ''files'' # cs)"
    using Clean_rooted [of "''//v1/files/'' @ path"] clean_stack_plain [of "''v1'' # ''files'' # cs" True "[]"] by (simp add: IsAbs_def)
  also have "\<dots> = ''/v1/files/'' @ path" using cs(2) by (simp add: abs_path_def p JoinWith_Cons)
  finally have c: "filepath_Clean (''//v1/files/'' @ path) = ''/v1/files/'' @ path" .
  have jw: "JoinWith slash (filter (\<lambda>x. x \<noteq> '''') [''/'', ''v1'', ''files'', path]) = ''//v1/files/'' @ path" using j(1) by simp
  have "CHR ''%'' \<notin> set (''/v1/files/'' @ path)" using pc by simp
  note un = unescape_plain [OF this]
  show ?thesis
    unfolding url_JoinPath_def Let_def prod.case
    using jw c un j(3) by (simp del: url_unescape.simps append.simps add: Let_def)
qed

text \<open>
  For a clean relative path without a percent sign, whatever other characters it has, the URL is the endpoint followed by a
  request path from which the peer's router reads \<^verbatim>\<open>/v1/files/\<close> and the path.
\<close>

lemma proxy_url_routed:
  assumes "plain_comps cs" "cs \<noteq> []" "path = JoinWith slash cs" "CHR ''%'' \<notin> set path"
    and "TrimRight endpoint slash = base" "Parse base = Some (base, '''')"
  shows "\<exists>uri. buildProxyURL Parse endpoint path = base @ uri \<and> routePath uri = Some (''/v1/files/'' @ path)"
proof -
  have "TrimLeft path slash = path"
    using join_comps(2) [OF assms(1-3)] by (cases path) (auto simp: TrimLeft_def)
  then have "buildProxyURL Parse endpoint path = url_JoinPath (base, '''') [''v1'', ''files'', path]"
    by (simp add: buildProxyURL_def assms(5,6))
  moreover have "CHR ''%'' \<notin> set (''/v1/files/'' @ path)" using assms(4) by simp
  ultimately show ?thesis using JoinPath_plain [OF assms(1-4), of base] sent_is_routed by metis
qed

definition plain_Parse :: "string \<Rightarrow> (string \<times> string) option" where
  "plain_Parse base = Some (base, '''')"

text \<open>A percent escape in a name is undone on the way: the peer looks for another file.\<close>

lemma proxy_unescapes_names:
  "buildProxyURL plain_Parse ''https://n2'' ''a%20b'' = ''https://n2'' @ ''/v1/files/a%20b''" "routePath ''/v1/files/a%20b'' = Some ''/v1/files/a b''"
  by code_simp+

subsection \<open>A peer\<close>

text \<open>
  The client whose requests reach the server of a peer under a base URL. The body of a listing and of an error is JSON,
  by the functions \<open>enc\<close> and \<open>enc_err\<close>. A request body of unknown length is sent in chunks, an empty one without.
\<close>

definition no_upgrade :: ws_conn where
  "no_upgrade = \<lparr>wc_upgrade = False, wc_messages = [], wc_end = ReadError, wc_reads = [], wc_write_ok = (\<lambda>_. False)\<rparr>"

definition peer_get :: "'w server \<Rightarrow> gotime \<Rightarrow> string \<Rightarrow> request \<Rightarrow> 'w estate \<Rightarrow> body reply \<times> 'w estate" where
  "peer_get sv now host r s =
     (case files_get sv now host r no_upgrade s of
        (Inl rep, s1) \<Rightarrow> (rep, s1)
      | (Inr (WsReply rep), s1) \<Rightarrow> (map_reply (\<lambda>_. NoBody) rep, s1)
      | (Inr _, s1) \<Rightarrow> (Reply 400 [] NoBody, s1))"

definition peer_route :: "'w server \<Rightarrow> gotime \<Rightarrow> string \<Rightarrow> string \<Rightarrow> request \<Rightarrow> 'w estate \<Rightarrow> body reply \<times> 'w estate" where
  "peer_route sv now host method r s =
     (if method = ''GET'' then V1AuthMiddleware (sv_authenticator sv) (peer_get sv now host) r s
      else if method = ''HEAD'' then v1_route sv now HeadFiles r s
      else if method = ''PUT'' then v1_route sv now PutFiles r s
      else if method = ''DELETE'' then v1_route sv now DeleteFiles r s
      else (Reply 405 [] NoBody, s))"

definition to_request :: "http_request \<Rightarrow> string \<Rightarrow> request" where
  "to_request q path = \<lparr>
     rq_Path = path, rq_UserID = None,
     rq_ContentLength = (if 0 < hq_ContentLength q then hq_ContentLength q
       else if rd_data (hq_Body q) = [] \<and> rd_err (hq_Body q) = None then 0 else -1),
     rq_Header = header_Get (hq_Header q), rq_Query = (\<lambda>_. ''''), rq_Body = hq_Body q\<rparr>"

definition to_response :: "(body \<Rightarrow> bytes) \<Rightarrow> (ErrorResponse \<Rightarrow> bytes) \<Rightarrow> body reply \<Rightarrow> http_response" where
  "to_response enc enc_err rep =
     (case rep of
        Reply st hs b \<Rightarrow>
          \<lparr>rs_StatusCode = st, rs_Header = hs, rs_Body = NewReader (case b of FileBody x \<Rightarrow> x | NoBody \<Rightarrow> [] | _ \<Rightarrow> enc b)\<rparr>
      | ErrorReply st er \<Rightarrow> \<lparr>rs_StatusCode = st, rs_Header = [], rs_Body = NewReader (enc_err er)\<rparr>)"

definition peer_client ::
  "'w server \<Rightarrow> string \<Rightarrow> (body \<Rightarrow> bytes) \<Rightarrow> (ErrorResponse \<Rightarrow> bytes) \<Rightarrow> gotime \<Rightarrow> goctx \<Rightarrow> http_request \<Rightarrow> 'w estate \<Rightarrow>
   http_response result \<times> 'w estate" where
  "peer_client sv base enc enc_err now ctx q s =
     (if \<not> HasPrefix (hq_URL q) base then (Inl (Errorf ''no such host''), s)
      else case routePath (TrimPrefix (hq_URL q) base) of
        None \<Rightarrow> (Inr \<lparr>rs_StatusCode = 400, rs_Header = [], rs_Body = NewReader []\<rparr>, s)
      | Some p \<Rightarrow>
          if \<not> HasPrefix p ''/v1/files/'' then (Inr \<lparr>rs_StatusCode = 404, rs_Header = [], rs_Body = NewReader []\<rparr>, s)
          else (case peer_route sv now base (hq_Method q) (to_request q (TrimPrefix p ''/v1/files/'')) s of
                  (rep, s1) \<Rightarrow> (Inr (to_response enc enc_err rep), s1)))"

text \<open>An adapter that reaches the server \<open>sv\<close> as the instance \<open>inst\<close>, with a token its authenticator knows.\<close>

definition proxies_to ::
  "'w estate InternalProxyAdapter \<Rightarrow> string \<Rightarrow> 'w server \<Rightarrow> gotime \<Rightarrow> string \<Rightarrow> bool" where
  "proxies_to a inst sv now userID \<longleftrightarrow>
     (\<exists>endpoint base enc enc_err. map_of (ip_instanceMap a) inst = Some endpoint \<and> TrimRight endpoint slash = base \<and>
        ip_Parse a base = Some (base, '''') \<and> (\<forall>u. ip_NewRequest a u = None) \<and>
        ip_client a = peer_client sv base enc enc_err now \<and>
        Authenticate (sv_authenticator sv) (''Bearer '' @ ip_internalAuthToken a) = Inr userID)"

lemma proxy_reaches:
  assumes to: "proxies_to a inst sv now userID"
    and p: "plain_comps cs" "cs \<noteq> []" "path = JoinWith slash cs" "CHR ''%'' \<notin> set path"
  shows "\<exists>base enc enc_err q. hq_Header q = (''Authorization'', ''Bearer '' @ ip_internalAuthToken a) # hs \<and>
    proxy_send a ctx inst method path hs len body s =
      (case peer_route sv now base method (to_request q path) s of (rep, s1) \<Rightarrow> (Inr (to_response enc enc_err rep), s1))"
proof -
  obtain endpoint base enc enc_err where a: "map_of (ip_instanceMap a) inst = Some endpoint" "TrimRight endpoint slash = base"
    "ip_Parse a base = Some (base, '''')" "\<forall>u. ip_NewRequest a u = None" "ip_client a = peer_client sv base enc enc_err now"
    using to by (auto simp: proxies_to_def)
  obtain uri where u: "buildProxyURL (ip_Parse a) endpoint path = base @ uri" "routePath uri = Some (''/v1/files/'' @ path)"
    using proxy_url_routed [of cs path endpoint base "ip_Parse a", OF p a(2,3)] by blast
  define q where "q = \<lparr>hq_Method = method, hq_URL = base @ uri, hq_Header = (''Authorization'', ''Bearer '' @ ip_internalAuthToken a) # hs,
     hq_ContentLength = len, hq_Body = body\<rparr>"
  have t: "TrimPrefix (hq_URL q) base = uri" "HasPrefix (hq_URL q) base" "hq_Method q = method" by (simp_all add: q_def)
  have v: "TrimPrefix (''/v1/files/'' @ path) ''/v1/files/'' = path" "HasPrefix (''/v1/files/'' @ path) ''/v1/files/''"
    by (rule TrimPrefix_append, rule HasPrefix_append)
  have "ip_client a ctx q s = (case peer_route sv now base method (to_request q path) s of (rep, s1) \<Rightarrow> (Inr (to_response enc enc_err rep), s1))"
    unfolding a(5) peer_client_def t u(2) option.case v by (simp add: t)
  then have "proxy_send a ctx inst method path hs len body s =
      (case peer_route sv now base method (to_request q path) s of (rep, s1) \<Rightarrow> (Inr (to_response enc enc_err rep), s1))"
    unfolding proxy_send_def a(1) option.case Let_def u(1) q_def [symmetric] by (simp add: a(4) split: prod.split)
  moreover have "hq_Header q = (''Authorization'', ''Bearer '' @ ip_internalAuthToken a) # hs" by (simp add: q_def)
  ultimately show ?thesis by blast
qed

lemma peer_authenticated:
  assumes "Authenticate keys (''Bearer '' @ token) = Inr userID" "rq_Header r ''Authorization'' = ''Bearer '' @ token"
  shows "V1AuthMiddleware keys h r s = h (r\<lparr>rq_UserID := Some userID\<rparr>) s"
  using assms by (simp add: V1AuthMiddleware_def)

lemma to_request_header:
  assumes "hq_Header q = (''Authorization'', t) # hs"
  shows "rq_Header (to_request q path) ''Authorization'' = t" "rq_Path (to_request q path) = path"
  by (simp_all add: to_request_def header_Get_def assms)

lemma not_directory:
  assumes "plain_comps cs" "cs \<noteq> []" "path = JoinWith slash cs" "\<not> pi_IsInvalid (ParseFilePath path)"
  shows "\<not> pi_IsDirectory (ParseFilePath path)" "engine_path (ParseFilePath path) = ''/'' @ path"
proof -
  note j = join_comps [OF assms(1-3)]
  have "TrimPrefix path ''/'' = path" "TrimSuffix path ''/'' = path" using j(2,3) by (simp_all add: TrimPrefix_def TrimSuffix_def)
  with assms(4) j show "\<not> pi_IsDirectory (ParseFilePath path)" "engine_path (ParseFilePath path) = ''/'' @ path"
    by (auto simp: ParseFilePath_def Let_def engine_path_def invalid_PathInfo_def split: if_splits)
qed

lemma proxy_Open_served:
  assumes to: "proxies_to a inst (node_server d k keys FormatTime) now userID" and c: "ctx_instance_id ctx = Some inst" "inst \<noteq> ''''"
    and p: "plain_comps cs" "cs \<noteq> []" "path = JoinWith slash cs" "CHR ''%'' \<notin> set path" "\<not> HasPrefix path ''ws/''"
    and i: "\<not> pi_IsInvalid (ParseFilePath path)"
    and sv: "nd_files.serves d k (engine_path (ParseFilePath path)) b s"
  shows "proxy_Open a ctx path s = Inr (NewReader b)"
proof -
  obtain base enc enc_err q where q: "hq_Header q = [(''Authorization'', ''Bearer '' @ ip_internalAuthToken a)]"
    "proxy_send a ctx inst ''GET'' path [] 0 (NewReader []) s =
      (case peer_route (node_server d k keys FormatTime) now base ''GET'' (to_request q path) s of (rep, s1) \<Rightarrow> (Inr (to_response enc enc_err rep), s1))"
    using proxy_reaches [OF to p(1-4)] by blast
  have k: "Authenticate keys (''Bearer '' @ ip_internalAuthToken a) = Inr userID" using to by (auto simp: proxies_to_def node_server_def)
  note h = to_request_header [OF q(1), of path]
  let ?r = "to_request q path\<lparr>rq_UserID := Some userID\<rparr>"
  obtain hs s1 where g: "V1GetFile (single_node d) None (\<lambda>x. x) (\<lambda>_. False) FormatTime Background now ?r s = (Reply 200 hs (FileBody b), s1)"
    using nd_files.get_served [OF sv, of ?r userID None "\<lambda>x. x" "\<lambda>_. False" FormatTime Background now] i h by (auto simp: prod_eq_iff)
  have "peer_route (node_server d k keys FormatTime) now base ''GET'' (to_request q path) s = (Reply 200 hs (FileBody b), s1)"
    using p(5) h(2) g by (simp add: peer_route_def node_server_def peer_authenticated [OF k h(1)] peer_get_def files_get_def)
  then show ?thesis
    by (simp add: proxy_Open_def getInstanceIDFromContext_def c OpenFromInstance_def q(2) to_response_def)
qed


definition demo_proxy :: "string \<Rightarrow> world estate InternalProxyAdapter" where
  "demo_proxy token = \<lparr>ip_client = peer_client demo_server ''https://n1'' (\<lambda>_. []) (\<lambda>_. []) 2, ip_instanceMap = [(''n1'', ''https://n1/'')],
     ip_internalAuthToken = token, ip_Parse = plain_Parse, ip_NewRequest = (\<lambda>_. None), ip_ParseTime = (\<lambda>_. Some 1704067200),
     ip_Decode = (\<lambda>_. Inr [])\<rparr>"

lemma demo_proxies: "proxies_to (demo_proxy ''hush'') ''n1'' (node_server demo_node LocalFS demo_keys (\<lambda>_. ''2024-01-01T00:00:00Z'')) 2 ''internal-proxy''"
proof -
  have "Authenticate demo_keys (''Bearer '' @ ''hush'') = Inr ''internal-proxy''" by code_simp
  then show ?thesis
    unfolding proxies_to_def demo_server_def [symmetric]
    by (intro exI [of _ "''https://n1/''"] exI [of _ "''https://n1''"] exI [of _ "\<lambda>_. []"])
       (simp add: demo_proxy_def TrimRight_def plain_Parse_def demo_server_def node_server_def)
qed


subsection \<open>The entry of a file as the proxy sees it\<close>

lemma parse_digits_grows: "parse_digits 10 acc s = Some n \<Longrightarrow> acc \<le> n"
proof (induction s arbitrary: acc)
  case (Cons c s)
  then obtain d where "parse_digits 10 (acc * 10 + d) s = Some n" by (auto split: option.splits if_splits)
  from Cons.IH [OF this] show ?case by simp
qed simp

lemma parse_u64_digits:
  assumes "n < 2 ^ 64"
  shows "parse_digits 10 acc s = Some n \<Longrightarrow> parse_u64 acc s = Some n"
proof (induction s arbitrary: acc)
  case (Cons c s)
  then obtain d where d: "digit_val c = Some d" "parse_digits 10 (acc * 10 + d) s = Some n" by (auto split: option.splits if_splits)
  have "acc * 10 + d < 2 ^ 64" using parse_digits_grows [OF d(2)] assms by simp
  then show ?case using Cons.IH [OF d(2)] d(1) by simp
qed simp

lemma ParseInt_Itoa:
  assumes "- (2 ^ 63) \<le> i" "i < 2 ^ 63"
  shows "ParseInt_value (Itoa i) = i"
proof -
  have u: "parse_u64 0 (nat_string n) = Some n" if "n < 2 ^ 64" for n by (rule parse_u64_digits [OF that parse_nat_string])
  have h: "\<not> HasPrefix (nat_string n) ''-''" "\<not> HasPrefix (nat_string n) ''+''" for n
    using nat_string_plain [of "hd (nat_string n)" n] by (cases "nat_string n"; simp)+
  have "nat i < 2 ^ 64" "nat (- i) < 2 ^ 64" using assms by (simp_all add: nat_less_iff)
  then show ?thesis using assms u [of "nat i"] u [of "nat (- i)"] h [of "nat i"] by (auto simp: ParseInt_value_def Itoa_def Let_def)
qed

text \<open>What the headers of a reply carry of an entry, with the time rounded by its format.\<close>

definition seen_entry :: "(gotime \<Rightarrow> gotime) \<Rightarrow> string \<Rightarrow> string \<Rightarrow> Metadata \<Rightarrow> Metadata" where
  "seen_entry tm name path md = zero_Metadata\<lparr>
     md_Name := name, md_Path := path, md_Type := md_Type md, md_Size := md_Size md, md_Mode := md_Mode md, md_UID := md_UID md,
     md_GID := md_GID md, md_MTime := tm (md_MTime md), md_ATime := tm (md_MTime md), md_CTime := tm (md_MTime md), md_BackendType := ''localfs''\<rparr>"

definition owned_entry :: "string \<Rightarrow> Metadata \<Rightarrow> bool" where
  "owned_entry inst md \<longleftrightarrow> md_Type md \<noteq> '''' \<and> md_Mode md \<noteq> '''' \<and> md_CallFSInstanceID md \<in> {None, Some inst} \<and>
     (\<forall>i \<in> {md_Size md, md_UID md, md_GID md}. - (2 ^ 63) \<le> i \<and> i < 2 ^ 63)"

lemma head_entry:
  assumes s: "nd.sound s" and r: "rq_UserID r = Some userID" "rq_Path r = path" "\<not> pi_IsInvalid (ParseFilePath path)"
    "engine_path (ParseFilePath path) = p"
    and md: "\<And>md. md_view (es_world s) p = Some md \<Longrightarrow> owned_entry (dp_instance d) md \<and> checkUnixPermissions md userID ReadPerm = Inr ()"
  shows "fst (V1HeadFileEnhanced (single_node d) FormatTime now r s) =
    (case md_view (es_world s) p of None \<Rightarrow> SendErrorResponse ErrNotFound 403 | Some md \<Rightarrow> Reply 200 (setMetadataHeaders FormatTime md) ())"
proof -
  have i: "node_ok (es_world s)" using s by (simp add: nd.sound_def)
  obtain res s1 where g: "GetMetadata (single_node d) now p s = (res, s1)" by fastforce
  note g' = nd.GetMetadata_spec(1) [OF s g]
  note get = nd.get_law [OF i, of d p]
  show ?thesis
  proof (cases "md_view (es_world s) p")
    case None
    then show ?thesis using r get by (simp add: V1HeadFileEnhanced_def Let_def Authorize_def)
  next
    case (Some x)
    have "currentInstanceID (single_node d) = dp_instance d" by (simp add: single_node_def)
    then have "on_other_instance (single_node d) x = None" using md [OF Some] by (auto simp: on_other_instance_def owned_entry_def)
    then show ?thesis using r get md [OF Some] g g' Some by (simp add: V1HeadFileEnhanced_def Let_def Authorize_def)
  qed
qed


definition demo_entry_state :: "world estate" where
  "demo_entry_state = node_run demo_node [EvCreateFile Background 1 ''/g'' (NewReader ''hi'') 2 (demo_file\<lparr>md_Mode := ''0644''\<rparr>)] demo_world"

lemma demo_entry:
  "case md_view (es_world demo_entry_state) ''/g'' of None \<Rightarrow> False
   | Some md \<Rightarrow> md_Size md = 2 \<and> owned_entry (dp_instance demo_node) md \<and> checkUnixPermissions md ''internal-proxy'' ReadPerm = Inr ()"
  by code_simp


end
