(* ===== verification/Links.thy ===== *)
theory Links
  imports Http Engine Auth RaftStore
begin

section \<open>Single-use download links (links, server/handlers/links)\<close>

text \<open>
  \<^verbatim>\<open>LinkManager\<close> generates tokens and consumes them, the clean-up worker removes old links, and two
  handlers expose both. HMAC-SHA256 under the manager's key, base64 encoded, is the field
  \<open>lm_mac\<close>: the proofs use of it only that it is a function. The random part of a token is an
  argument. Validation reads the link, checks it and then marks it used in a second store call,
  whose compare-and-set decides between concurrent requests; the two halves are definitions of
  their own so that requests can be interleaved between them.
\<close>

subsection \<open>links/manager.go\<close>

record 'w LinkManager =
  lm_metadataStore :: "'w store_ops"
  lm_mac :: "string \<Rightarrow> string"

definition NewLinkManager :: "'w store_ops option \<Rightarrow> (string \<Rightarrow> string \<Rightarrow> string) \<Rightarrow> string \<Rightarrow> 'w LinkManager result" where
  "NewLinkManager ms hmac secretKey =
     (case ms of
        None \<Rightarrow> Inl (Errorf ''metadata store cannot be nil'')
      | Some ops \<Rightarrow>
          if secretKey = '''' then Inl (Errorf ''secret key cannot be empty'')
          else Inr \<lparr>lm_metadataStore = ops, lm_mac = hmac secretKey\<rparr>)"

definition GenerateLink ::
  "'w LinkManager \<Rightarrow> string result \<Rightarrow> gotime \<Rightarrow> string \<Rightarrow> duration \<Rightarrow> 'w \<Rightarrow> string result \<times> 'w" where
  "GenerateLink lm rand now filePath expiryDuration w =
     (case rand of
        Inl err \<Rightarrow> (Inl (Wrapf ''failed to generate token'' err), w)
      | Inr tokenID \<Rightarrow>
          let signature = lm_mac lm (tokenID @ filePath);
              token = tokenID @ ''.'' @ signature;
              link = \<lparr>lk_ID = 0, lk_Token = token, lk_FilePath = filePath, lk_Status = ''active'',
                      lk_ExpiresAt = now + expiryDuration, lk_UsedAt = None, lk_UsedByIP = None,
                      lk_HMACSignature = signature, lk_CreatedAt = now, lk_UpdatedAt = 0\<rparr>
          in (case st_CreateSingleUseLink (lm_metadataStore lm) now link w of
                (Inl err, w1) \<Rightarrow> (Inl (Wrapf ''failed to store link'' err), w1)
              | (Inr _, w1) \<Rightarrow> (Inr token, w1)))"

definition verifySignature :: "'w LinkManager \<Rightarrow> string \<Rightarrow> string \<Rightarrow> bool" where
  "verifySignature lm token filePath =
     (let dotIndex = IndexByte token (CHR ''.'') in
      if dotIndex = -1 then False
      else drop (nat (dotIndex + 1)) token = lm_mac lm (take (nat dotIndex) token @ filePath))"

text \<open>The first half: look the link up and check it; the path is returned with the link's.\<close>

definition check_link :: "'w LinkManager \<Rightarrow> gotime \<Rightarrow> string \<Rightarrow> 'w \<Rightarrow> string result" where
  "check_link lm now token w =
     (case st_GetSingleUseLink (lm_metadataStore lm) token w of
        Inl err \<Rightarrow> if errors_Is err ErrNotFound then Inl ErrLinkNotFound else Inl (Wrapf ''failed to retrieve link'' err)
      | Inr link \<Rightarrow>
          if After now (lk_ExpiresAt link) then Inl ErrLinkExpired
          else if lk_Status link \<noteq> ''active'' then Inl ErrLinkInvalid
          else if \<not> verifySignature lm token (lk_FilePath link) then Inl ErrLinkInvalid
          else Inr (lk_FilePath link))"

text \<open>The second half: the conditional update, after which the path read before is returned.\<close>

definition consume_link :: "'w LinkManager \<Rightarrow> gotime \<Rightarrow> string \<Rightarrow> string \<Rightarrow> string \<Rightarrow> 'w \<Rightarrow> string result \<times> 'w" where
  "consume_link lm now token userIP filePath w =
     (case st_UpdateSingleUseLink (lm_metadataStore lm) now token ''used'' (Some now) (Some userIP) w of
        (Inl _, w1) \<Rightarrow> (Inl ErrLinkInvalid, w1)
      | (Inr _, w1) \<Rightarrow> (Inr filePath, w1))"

definition ValidateAndInvalidateLink :: "'w LinkManager \<Rightarrow> gotime \<Rightarrow> string \<Rightarrow> string \<Rightarrow> 'w \<Rightarrow> string result \<times> 'w" where
  "ValidateAndInvalidateLink lm now token userIP w =
     (case check_link lm now token w of
        Inl err \<Rightarrow> (Inl err, w)
      | Inr filePath \<Rightarrow> consume_link lm now token userIP filePath w)"

definition TruncateToken :: "string \<Rightarrow> string" where
  "TruncateToken token = (if length token \<le> 8 then token else take 8 token @ ''...'')"

subsection \<open>links/background\_cleanup.go\<close>

definition cleanupExpiredLinks :: "'w store_ops \<Rightarrow> gotime \<Rightarrow> 'w \<Rightarrow> nat result \<times> 'w" where
  "cleanupExpiredLinks ops now w =
     (case st_CleanupExpiredLinks ops now w of
        (Inl err, w1) \<Rightarrow> (Inl (Wrapf ''failed to cleanup expired links'' err), w1)
      | (Inr n, w1) \<Rightarrow> (Inr n, w1))"

definition cleanupUsedLinks :: "'w store_ops \<Rightarrow> gotime \<Rightarrow> 'w \<Rightarrow> nat result \<times> 'w" where
  "cleanupUsedLinks ops now w =
     (let olderThan = now - 24 * 60 * minute in
      case st_CleanupUsedLinks ops olderThan w of
        (Inl err, w1) \<Rightarrow> (Inl (Wrapf ''failed to cleanup used links'' err), w1)
      | (Inr n, w1) \<Rightarrow> (Inr n, w1))"

text \<open>One tick of the worker: both clean-ups, errors only logged.\<close>

definition cleanupLinks :: "'w store_ops \<Rightarrow> gotime \<Rightarrow> 'w \<Rightarrow> 'w" where
  "cleanupLinks ops now w = snd (cleanupUsedLinks ops now (snd (cleanupExpiredLinks ops now w)))"

subsection \<open>server/handlers/links\<close>

record GenerateLinkRequest =
  gr_Path :: string
  gr_ExpirySeconds :: int

record GenerateLinkResponse =
  gl_URL :: string
  gl_Token :: string
  gl_Expires :: gotime

definition V1GenerateLinkHandler ::
  "'w LinkManager \<Rightarrow> string result \<Rightarrow> string \<Rightarrow> gotime \<Rightarrow> string option \<Rightarrow> string + GenerateLinkRequest \<Rightarrow> 'w \<Rightarrow>
   GenerateLinkResponse reply \<times> 'w" where
  "V1GenerateLinkHandler manager rand apiHost now user body w =
     (case user of
        None \<Rightarrow> (SendErrorResponse ErrAuthenticationFailed 401, w)
      | Some userID \<Rightarrow>
        (case body of
           Inl _ \<Rightarrow> (SendErrorResponse (Errorf ''invalid JSON in request body'') 400, w)
         | Inr req \<Rightarrow>
           if gr_Path req = '''' then (SendErrorResponse (Errorf ''path is required'') 400, w)
           else let pathInfo = ParseFilePath (TrimPrefix (gr_Path req) ''/'') in
           if pi_IsInvalid pathInfo then (SendErrorResponse (Errorf ''invalid path'') 400, w)
           else let enginePath = engine_path pathInfo in
           (case Authorize (lm_metadataStore manager) userID enginePath ReadPerm w of
              Inl err \<Rightarrow> (SendErrorResponse err 403, w)
            | Inr _ \<Rightarrow>
                if gr_ExpirySeconds req \<le> 0 \<or> 86400 < gr_ExpirySeconds req
                then (SendErrorResponse (Errorf ''expiry must be between 1 and 86400 seconds'') 400, w)
                else let expiryDuration = gr_ExpirySeconds req * second in
                (case GenerateLink manager rand now enginePath expiryDuration w of
                   (Inl _, w1) \<Rightarrow> (SendErrorResponse (Errorf ''failed to generate download link'') 500, w1)
                 | (Inr token, w1) \<Rightarrow>
                     let sanitizedHost = TrimSpace apiHost in
                     if Contains sanitizedHost ''/'' \<or> Contains sanitizedHost ''://''
                     then (SendErrorResponse (Errorf ''server misconfiguration: invalid external URL'') 500, w1)
                     else (Reply 201 [(''Content-Type'', ''application/json'')]
                             \<lparr>gl_URL = ''https://'' @ sanitizedHost @ ''/download/'' @ token, gl_Token = token,
                              gl_Expires = now + expiryDuration\<rparr>, w1)))))"

text \<open>
  \<^verbatim>\<open>getUserIP\<close>: \<open>SplitHostPort\<close> is Go's, the host of an address or \<^const>\<open>None\<close>. A download answers
  with the reader whose bytes are streamed.
\<close>

definition getUserIP :: "(string \<Rightarrow> string option) \<Rightarrow> string \<Rightarrow> string" where
  "getUserIP SplitHostPort remoteAddr = (case SplitHostPort remoteAddr of None \<Rightarrow> remoteAddr | Some ip \<Rightarrow> ip)"

definition V1DownloadLinkHandler ::
  "'w Engine \<Rightarrow> 'w LinkManager \<Rightarrow> (string \<Rightarrow> string) \<Rightarrow> (string \<Rightarrow> string option) \<Rightarrow> goctx \<Rightarrow> gotime \<Rightarrow> string \<Rightarrow> string \<Rightarrow>
   'w estate \<Rightarrow> reader reply \<times> 'w estate" where
  "V1DownloadLinkHandler e manager PathEscape SplitHostPort ctx now token remoteAddr s =
     (if token = '''' then (SendErrorResponse (Errorf ''missing token'') 400, s)
      else
        (case ValidateAndInvalidateLink manager now token (getUserIP SplitHostPort remoteAddr) (es_world s) of
           (Inl err, w1) \<Rightarrow>
             ((if errors_Is err ErrLinkNotFound then SendErrorResponse err 404
               else if errors_Is err ErrLinkExpired then SendErrorResponse err 410
               else if errors_Is err ErrLinkInvalid then SendErrorResponse err 410
               else SendErrorResponse (Errorf ''link validation failed'') 500), s\<lparr>es_world := w1\<rparr>)
         | (Inr filePath, w1) \<Rightarrow>
             if \<not> is_ok (ValidatePath filePath)
             then (SendErrorResponse (Errorf ''link validation failed'') 500, s\<lparr>es_world := w1\<rparr>)
             else (case GetFile e ctx now filePath (s\<lparr>es_world := w1\<rparr>) of
                     (Inl err, s2) \<Rightarrow> (SendErrorResponse err 500, s2)
                   | (Inr reader, s2) \<Rightarrow>
                       (Reply 200 [(''Content-Type'', ''application/octet-stream''),
                          (''Content-Disposition'', ''attachment; filename*=UTF-8'' @ [CHR 39, CHR 39] @ PathEscape (filepath_Base filePath))]
                          reader, s2))))"

subsection \<open>The link manager over any link store\<close>

text \<open>
  Requests that validate links, interleaved: every request first checks and later, if the check
  succeeded, consumes; ticks of the clean-up worker fall in between. \<open>link_run\<close> executes such a
  schedule and returns the requests that were answered with a path, as pairs of token and path. The
  pending requests hold what their check returned.
\<close>

datatype link_event = CheckLink nat gotime string | ConsumeLink nat gotime string | CleanupTick gotime

type_synonym pending = "nat \<Rightarrow> (string \<times> string) option"

fun link_step :: "'w LinkManager \<Rightarrow> link_event \<Rightarrow> 'w \<times> pending \<Rightarrow> (string \<times> string) list \<times> 'w \<times> pending" where
  "link_step lm (CheckLink i now token) (w, pd) =
     (case check_link lm now token w of
        Inl _ \<Rightarrow> ([], w, pd(i := None))
      | Inr path \<Rightarrow> ([], w, pd(i \<mapsto> (token, path))))"
| "link_step lm (ConsumeLink i now ip) (w, pd) =
     (case pd i of
        None \<Rightarrow> ([], w, pd)
      | Some (token, path) \<Rightarrow>
          (case consume_link lm now token ip path w of
             (Inl _, w1) \<Rightarrow> ([], w1, pd(i := None))
           | (Inr p, w1) \<Rightarrow> ([(token, p)], w1, pd(i := None))))"
| "link_step lm (CleanupTick now) (w, pd) = ([], cleanupLinks (lm_metadataStore lm) now w, pd)"

fun link_run :: "'w LinkManager \<Rightarrow> link_event list \<Rightarrow> 'w \<times> pending \<Rightarrow> (string \<times> string) list \<times> 'w \<times> pending" where
  "link_run lm [] s = ([], s)"
| "link_run lm (ev # evs) s =
     (case link_step lm ev s of (out, s1) \<Rightarrow> case link_run lm evs s1 of (outs, s2) \<Rightarrow> (out @ outs, s2))"

lemma verifySignature_token:
  assumes "CHR ''.'' \<notin> set tokenID"
  shows "verifySignature lm (tokenID @ ''.'' @ sig) path \<longleftrightarrow> sig = lm_mac lm (tokenID @ path)"
proof -
  have "takeWhile (\<lambda>x. x \<noteq> CHR ''.'') (tokenID @ CHR ''.'' # sig) = tokenID"
    using assms by (subst takeWhile_append2) auto
  then show ?thesis by (simp add: verifySignature_def IndexByte_def nat_add_distrib)
qed

context link_cas
begin

definition usable :: "'w \<Rightarrow> string \<Rightarrow> bool" where
  "usable w t = (\<exists>l. links w t = Some l \<and> lk_Status l = ''active'')"

lemma consume_link_cas:
  assumes "linv w" "lm_metadataStore lm = ops" "consume_link lm now t ip path w = (r, w')"
  shows "linv w' \<and> (\<forall>t'. usable w' t' \<longrightarrow> usable w t') \<and> (is_ok r \<longrightarrow> r = Inr path \<and> usable w t \<and> \<not> usable w' t)"
  using assms update_cas [OF assms(1), of now t "''used''" "Some now" "Some ip" _ w']
  by (auto simp: consume_link_def usable_def split: prod.splits sum.splits if_splits)

lemma cleanupLinks_spec:
  assumes "linv w" "lm_metadataStore lm = ops"
  shows "linv (cleanupLinks (lm_metadataStore lm) now w) \<and> links (cleanupLinks (lm_metadataStore lm) now w) \<subseteq>\<^sub>m links w"
proof -
  obtain n w1 where 1: "st_CleanupExpiredLinks ops now w = (n, w1)" by fastforce
  obtain n' w2 where 2: "st_CleanupUsedLinks ops (now - 24 * 60 * minute) w1 = (n', w2)" by fastforce
  have "cleanupLinks ops now w = w2"
    using 1 2 by (simp add: cleanupLinks_def cleanupExpiredLinks_def cleanupUsedLinks_def split: sum.split)
  with expired_only_removes [OF assms(1) 1] show ?thesis
    using used_only_removes [OF _ 2] map_le_trans by (auto simp: assms(2))
qed

lemma link_step_usable:
  assumes "linv w" "lm_metadataStore lm = ops" "link_step lm ev (w, pd) = (out, w', pd')"
  shows "linv w' \<and> (\<forall>t. usable w' t \<longrightarrow> usable w t) \<and> distinct (map fst out) \<and>
    (\<forall>t \<in> fst ` set out. usable w t \<and> \<not> usable w' t)"
proof (cases ev)
  case (CheckLink i now t)
  then show ?thesis using assms by (auto split: sum.splits)
next
  case (ConsumeLink i now ip)
  show ?thesis
  proof (cases "pd i")
    case (Some tp)
    then obtain t path r w1 where tp: "tp = (t, path)" and run: "consume_link lm now t ip path w = (r, w1)"
      by (cases tp) fastforce
    show ?thesis
      using consume_link_cas [OF assms(1,2) run] assms(3)
      by (auto simp: ConsumeLink Some tp run split: sum.splits if_splits)
  qed (use assms ConsumeLink in simp)
next
  case (CleanupTick now)
  then show ?thesis
    using assms cleanupLinks_spec [OF assms(1,2), of now] by (auto simp: usable_def map_le_def dom_def)
qed

lemma link_run_once:
  assumes "linv w" "lm_metadataStore lm = ops" "link_run lm evs (w, pd) = (out, w', pd')"
  shows "distinct (map fst out) \<and> (\<forall>t \<in> fst ` set out. usable w t)"
  using assms(1,3)
proof (induction evs arbitrary: w pd out)
  case (Cons ev evs)
  obtain o1 w1 pd1 where 1: "link_step lm ev (w, pd) = (o1, w1, pd1)" by (metis prod_cases3)
  obtain o2 s2 where 2: "link_run lm evs (w1, pd1) = (o2, s2)" by (metis prod.exhaust)
  have out: "out = o1 @ o2" and s2: "s2 = (w', pd')" using Cons.prems(2) 1 2 by simp_all
  note step = link_step_usable [OF Cons.prems(1) assms(2) 1]
  have "distinct (map fst o2) \<and> (\<forall>t \<in> fst ` set o2. usable w1 t)"
    using Cons.IH step 2 s2 by blast
  moreover have "fst ` set o1 \<inter> fst ` set o2 = {}" using step calculation by blast
  ultimately show ?case using step by (auto simp: out)
qed simp

end

subsection \<open>Properties on a Raft leader\<close>

context link_store
begin

lemma check_link_eq:
  assumes "linv w" "lm_metadataStore lm = ops"
  shows "check_link lm now t w =
    (case links w t of
       None \<Rightarrow> Inl ErrLinkNotFound
     | Some l \<Rightarrow> if lk_ExpiresAt l < now then Inl ErrLinkExpired
                else if lk_Status l = ''active'' \<and> verifySignature lm t (lk_FilePath l) then Inr (lk_FilePath l)
                else Inl ErrLinkInvalid)"
  using assms by (simp add: check_link_def get_link_law After_def split: option.splits)

lemma consume_link_spec:
  assumes "linv w" "lm_metadataStore lm = ops" "consume_link lm now t ip path w = (r, w')"
  shows "linv w' \<and> (\<forall>t'. cas.usable w' t' \<longrightarrow> cas.usable w t' \<and> t' \<noteq> t) \<and>
    (if cas.usable w t then r = Inr path else r = Inl ErrLinkInvalid \<and> links w' = links w) \<and>
    (\<forall>t'. t' \<noteq> t \<longrightarrow> links w' t' = links w t') \<and>
    (\<forall>l. links w t = Some l \<longrightarrow> (\<exists>l'. links w' t = Some l' \<and> lk_Status l' \<noteq> ''active''))"
  using assms update_link_law [OF assms(1), of now t "''used''" "Some now" "Some ip" _ w']
  by (auto simp: consume_link_def cas.usable_def split: prod.splits sum.splits option.splits if_splits)

lemma GenerateLink_spec:
  assumes "linv w" "lm_metadataStore lm = ops" "GenerateLink lm (Inr tokenID) now path d w = (r, w1)"
  defines "token \<equiv> tokenID @ ''.'' @ lm_mac lm (tokenID @ path)"
  shows "linv w1 \<and>
    (if links w token = None
     then r = Inr token \<and> (\<exists>l. links w1 token = Some l \<and> lk_FilePath l = path \<and> lk_Status l = ''active'' \<and>
            lk_ExpiresAt l = now + d)
     else \<not> is_ok r \<and> links w1 = links w)"
proof -
  let ?l = "\<lparr>lk_ID = 0, lk_Token = token, lk_FilePath = path, lk_Status = ''active'',
                      lk_ExpiresAt = now + d, lk_UsedAt = None, lk_UsedByIP = None,
                      lk_HMACSignature = lm_mac lm (tokenID @ path), lk_CreatedAt = now, lk_UpdatedAt = 0\<rparr>"
  obtain u w2 where cr: "st_CreateSingleUseLink ops now ?l w = (u, w2)" by fastforce
  have "w1 = w2" "r = (case u of Inl err \<Rightarrow> Inl (Wrapf ''failed to store link'' err) | Inr _ \<Rightarrow> Inr token)"
    using assms(2,3) cr by (auto simp: GenerateLink_def token_def split: sum.splits)
  with create_link_law [OF assms(1) cr] show ?thesis
    by (auto split: sum.splits if_splits)
qed

end

definition raft_links :: "(string \<Rightarrow> string) \<Rightarrow> ('a node_scheme) LinkManager" where
  "raft_links mac = \<lparr>lm_metadataStore = raft_ops leader_env, lm_mac = mac\<rparr>"

lemma raft_links_store [simp]: "lm_metadataStore (raft_links mac) = raft_ops leader_env"
  by (simp add: raft_links_def)

lemma validate_generated:
  assumes "node_ok w" "CHR ''.'' \<notin> set tokenID"
    and gen: "GenerateLink (raft_links mac) (Inr tokenID) now path d w = (Inr token, w1)"
  shows "now' \<le> now + d \<Longrightarrow> \<exists>w2. ValidateAndInvalidateLink (raft_links mac) now' token ip w1 = (Inr path, w2) \<and>
      (\<forall>now'' ip'. fst (ValidateAndInvalidateLink (raft_links mac) now'' token ip' w2) \<in> {Inl ErrLinkInvalid, Inl ErrLinkExpired} \<and>
          snd (ValidateAndInvalidateLink (raft_links mac) now'' token ip' w2) = w2)"
    and "now + d < now' \<Longrightarrow> ValidateAndInvalidateLink (raft_links mac) now' token ip w1 = (Inl ErrLinkExpired, w1)"
proof -
  let ?lm = "raft_links mac :: ('a node_scheme) LinkManager"
  note spec = raft_link.GenerateLink_spec [OF assms(1) raft_links_store gen]
  then have ok: "node_ok w1" and token: "token = tokenID @ ''.'' @ lm_mac ?lm (tokenID @ path)"
    and "\<exists>l. link_view w1 token = Some l \<and> lk_FilePath l = path \<and> lk_Status l = ''active'' \<and> lk_ExpiresAt l = now + d"
    by (auto split: if_splits)
  then obtain l where l: "link_view w1 token = Some l" "lk_FilePath l = path" "lk_Status l = ''active''" "lk_ExpiresAt l = now + d"
    by blast
  have sig: "verifySignature ?lm token path"
    unfolding token verifySignature_token [OF assms(2)] by simp
  note chk = raft_link.check_link_eq [OF _ raft_links_store]
  show "ValidateAndInvalidateLink ?lm now' token ip w1 = (Inl ErrLinkExpired, w1)" if "now + d < now'"
    using that by (simp add: ValidateAndInvalidateLink_def chk ok l)
  show "\<exists>w2. ValidateAndInvalidateLink ?lm now' token ip w1 = (Inr path, w2) \<and>
      (\<forall>now'' ip'. fst (ValidateAndInvalidateLink ?lm now'' token ip' w2) \<in> {Inl ErrLinkInvalid, Inl ErrLinkExpired} \<and>
          snd (ValidateAndInvalidateLink ?lm now'' token ip' w2) = w2)" if "now' \<le> now + d"
  proof -
    obtain r w2 where run: "consume_link ?lm now' token ip path w1 = (r, w2)" by fastforce
    note cons = raft_link.consume_link_spec [OF ok raft_links_store run]
    have "raft_link.cas.usable w1 token" using l by (simp add: raft_link.cas.usable_def)
    then have r: "r = Inr path" using cons by auto
    obtain l' where l': "link_view w2 token = Some l'" "lk_Status l' \<noteq> ''active''" using cons l(1) by blast
    have ok2: "node_ok w2" using cons by blast
    have first: "ValidateAndInvalidateLink ?lm now' token ip w1 = (Inr path, w2)"
      using that run r by (simp add: ValidateAndInvalidateLink_def chk ok l sig)
    then show ?thesis
      by (intro exI [of _ w2]) (simp add: ValidateAndInvalidateLink_def chk ok2 l')
  qed
qed

text \<open>
  C16: (functional) On a Raft leader, a generated link is redeemable exactly once: the first validation
  up to the expiry returns the path it was generated for, every later one is refused as used or
  expired and changes nothing; a validation after the expiry is refused as expired and leaves the link
  alone. A token that no link has is answered \<^verbatim>\<open>ErrLinkNotFound\<close>. The random part of a token is
  base64, hence without a dot.
\<close>

theorem link_redeemed_exactly_once:
  assumes "node_ok w" "CHR ''.'' \<notin> set tokenID"
    and "GenerateLink (raft_links mac) (Inr tokenID) now path d w = (Inr token, w1)"
  shows "(now' \<le> now + d \<longrightarrow> (\<exists>w2. ValidateAndInvalidateLink (raft_links mac) now' token ip w1 = (Inr path, w2) \<and>
      (\<forall>now'' ip'. fst (ValidateAndInvalidateLink (raft_links mac) now'' token ip' w2) \<in> {Inl ErrLinkInvalid, Inl ErrLinkExpired} \<and>
          snd (ValidateAndInvalidateLink (raft_links mac) now'' token ip' w2) = w2))) \<and>
    (now + d < now' \<longrightarrow> ValidateAndInvalidateLink (raft_links mac) now' token ip w1 = (Inl ErrLinkExpired, w1)) \<and>
    (link_view w1 other = None \<longrightarrow>
      ValidateAndInvalidateLink (raft_links mac) now' other ip w1 = (Inl ErrLinkNotFound, w1))"
proof -
  have ok: "node_ok w1" using raft_link.GenerateLink_spec [OF assms(1) raft_links_store assms(3)] by blast
  have "ValidateAndInvalidateLink (raft_links mac) now' other ip w1 = (Inl ErrLinkNotFound, w1)" if "link_view w1 other = None"
    using that by (simp add: ValidateAndInvalidateLink_def raft_link.check_link_eq [OF ok raft_links_store])
  then show ?thesis using validate_generated [OF assms, of now' ip] by blast
qed

definition empty_node :: node where
  "empty_node = \<lparr>nd_clock = 0, nd_fsm = empty_raft_state\<rparr>"

lemma empty_node_ok [simp]: "node_ok empty_node"
  by (simp add: node_ok_def empty_node_def)

lemma empty_node_links [simp]: "link_view empty_node = Map.empty"
  by (simp add: link_view_def empty_node_def empty_raft_state_def)

lemma demo_generate:
  "\<exists>w1. GenerateLink (raft_links (\<lambda>_. ''sig'')) (Inr ''id'') 10 ''/f'' 5 empty_node = (Inr ''id.sig'', w1)"
proof -
  obtain r w1 where gen: "GenerateLink (raft_links (\<lambda>_. ''sig'')) (Inr ''id'') 10 ''/f'' 5 empty_node = (r, w1)" by fastforce
  have "r = Inr ''id.sig''"
    using raft_link.GenerateLink_spec [OF empty_node_ok raft_links_store gen] by (simp add: raft_links_def)
  with gen show ?thesis by simp
qed

theorem link_redeemed_exactly_once_witness:
  "\<exists>w1 w2. GenerateLink (raft_links (\<lambda>_. ''sig'')) (Inr ''id'') 10 ''/f'' 5 empty_node = (Inr ''id.sig'', w1) \<and>
     ValidateAndInvalidateLink (raft_links (\<lambda>_. ''sig'')) 15 ''id.sig'' ''1.2.3.4'' w1 = (Inr ''/f'', w2) \<and>
     ValidateAndInvalidateLink (raft_links (\<lambda>_. ''sig'')) 16 ''id.sig'' ''1.2.3.4'' w1 = (Inl ErrLinkExpired, w1)"
proof -
  obtain w1 where gen: "GenerateLink (raft_links (\<lambda>_. ''sig'')) (Inr ''id'') 10 ''/f'' 5 empty_node = (Inr ''id.sig'', w1)"
    using demo_generate by blast
  have dot: "CHR ''.'' \<notin> set ''id''" by simp
  show ?thesis
    using gen link_redeemed_exactly_once [OF empty_node_ok dot gen, of 15 "''1.2.3.4''" "''x''"]
      link_redeemed_exactly_once [OF empty_node_ok dot gen, of 16 "''1.2.3.4''" "''x''"] by auto
qed

text \<open>
  C15: (safety) However the checks and consumptions of concurrent download requests and the ticks of the
  clean-up worker interleave on a Raft leader, no token is answered with its path twice, and only
  tokens of links that were active at the start are answered at all.
\<close>

theorem concurrent_downloads_redeem_once:
  assumes "node_ok w" "link_run (raft_links mac) evs (w, pd) = (out, s')"
  shows "distinct (map fst out) \<and> (\<forall>(t, p) \<in> set out. \<exists>l. link_view w t = Some l \<and> lk_Status l = ''active'')"
proof -
  obtain w' pd' where s': "s' = (w', pd')" by (cases s')
  show ?thesis
    using raft_link.cas.link_run_once [OF assms(1) raft_links_store, of mac evs pd out w' pd'] assms(2)
    by (force simp: s' raft_link.cas.usable_def)
qed

theorem concurrent_downloads_redeem_once_witness:
  "\<exists>w1 out s'. GenerateLink (raft_links (\<lambda>_. ''sig'')) (Inr ''id'') 10 ''/f'' 5 empty_node = (Inr ''id.sig'', w1) \<and>
     link_run (raft_links (\<lambda>_. ''sig'')) [CheckLink 1 11 ''id.sig'', CheckLink 2 11 ''id.sig'', ConsumeLink 2 12 ''a'', ConsumeLink 1 12 ''b'']
       (w1, Map.empty) = (out, s') \<and> distinct (map fst out)"
proof -
  obtain w1 where gen: "GenerateLink (raft_links (\<lambda>_. ''sig'')) (Inr ''id'') 10 ''/f'' 5 empty_node = (Inr ''id.sig'', w1)"
    using demo_generate by blast
  have ok: "node_ok w1" using raft_link.GenerateLink_spec [OF empty_node_ok raft_links_store gen] by blast
  obtain out s' where run: "link_run (raft_links (\<lambda>_. ''sig'')) [CheckLink 1 11 ''id.sig'', CheckLink 2 11 ''id.sig'',
      ConsumeLink 2 12 ''a'', ConsumeLink 1 12 ''b''] (w1, Map.empty) = (out, s')" by (metis prod.exhaust)
  from gen run concurrent_downloads_redeem_once [OF ok run] show ?thesis by blast
qed

lemma engine_path_abs:
  assumes "\<not> pi_IsInvalid (ParseFilePath u)"
  shows "engine_path (ParseFilePath u) = ''/'' \<or> IsAbs (engine_path (ParseFilePath u))"
proof (cases "pi_FullPath (ParseFilePath u) = ''/''")
  case False
  obtain c where c: "is_ok (ValidatePath c)"
    "pi_FullPath (ParseFilePath u) = ''/'' @ c @ (if pi_IsDirectory (ParseFilePath u) then ''/'' else '''')"
    using ParseFilePath_cases [OF assms False] by metis
  have "engine_path (ParseFilePath u) = ''/'' @ c"
    by (rule engine_path_directory [OF c(2) ValidatePath_ok(1) [OF c(1)]])
  then show ?thesis by (simp add: IsAbs_def HasPrefix_def)
qed (simp add: engine_path_def)

lemma generate_handler_created:
  assumes "V1GenerateLinkHandler lm (Inr tokenID) host now user (Inr req) w = (Reply 201 hs resp, w1)"
  defines "p \<equiv> engine_path (ParseFilePath (TrimPrefix (gr_Path req) ''/''))"
  shows "\<exists>d. GenerateLink lm (Inr tokenID) now p d w = (Inr (gl_Token resp), w1) \<and> gl_Expires resp = now + d \<and>
    (p = ''/'' \<or> IsAbs p)"
  using assms(1) engine_path_abs unfolding p_def
  by (fastforce simp: V1GenerateLinkHandler_def SendErrorResponse_def Let_def split: option.splits if_splits sum.splits prod.splits)

text \<open>
  C39: (error) A link handed out with status 201 for any path but the root cannot be downloaded: the
  first request before the expiry consumes the link and is answered 500, because the stored path is
  absolute and the handler's second validation rejects absolute paths; every later request is
  answered 410. The engine is never asked for the file.
\<close>

theorem generated_links_never_download:
  fixes s :: "('a node_scheme) estate"
  assumes "node_ok w" "CHR ''.'' \<notin> set tokenID"
    and "V1GenerateLinkHandler (raft_links mac) (Inr tokenID) host now user (Inr req) w = (Reply 201 hs resp, es_world s)"
    and "engine_path (ParseFilePath (TrimPrefix (gr_Path req) ''/'')) \<noteq> ''/''" "now' \<le> gl_Expires resp"
  shows "\<exists>s2. V1DownloadLinkHandler e (raft_links mac) esc split ctx now' (gl_Token resp) addr s =
       (SendErrorResponse (Errorf ''link validation failed'') 500, s2) \<and> es_cache s2 = es_cache s \<and>
     (\<forall>ctx' now'' addr'. status (fst (V1DownloadLinkHandler e (raft_links mac) esc split ctx' now'' (gl_Token resp) addr' s2)) = 410)"
proof -
  let ?lm = "raft_links mac :: ('a node_scheme) LinkManager"
  let ?p = "engine_path (ParseFilePath (TrimPrefix (gr_Path req) ''/''))"
  obtain d where gen: "GenerateLink ?lm (Inr tokenID) now ?p d w = (Inr (gl_Token resp), es_world s)"
    and exp: "gl_Expires resp = now + d" and abs: "IsAbs ?p"
    using generate_handler_created [OF assms(3)] assms(4) by blast
  have tok: "gl_Token resp \<noteq> ''''"
    using raft_link.GenerateLink_spec [OF assms(1) raft_links_store gen] by (auto split: if_splits)
  obtain w2 where first: "ValidateAndInvalidateLink ?lm now' (gl_Token resp) (getUserIP split addr) (es_world s) = (Inr ?p, w2)"
    and later: "\<And>now'' ip'. fst (ValidateAndInvalidateLink ?lm now'' (gl_Token resp) ip' w2) \<in> {Inl ErrLinkInvalid, Inl ErrLinkExpired}"
    using validate_generated(1) [OF assms(1,2) gen, of now' "getUserIP split addr"] assms(5) exp by auto
  have "status (fst (V1DownloadLinkHandler e ?lm esc split ctx' now'' (gl_Token resp) addr' (s\<lparr>es_world := w2\<rparr>))) = 410" for ctx' now'' addr'
    using later [of now'' "getUserIP split addr'"] tok
    by (auto simp: V1DownloadLinkHandler_def SendErrorResponse_status error_class_def split: prod.splits sum.splits)
  then show ?thesis
    using tok first ValidatePath_abs [OF abs assms(4)]
    by (intro exI [of _ "s\<lparr>es_world := w2\<rparr>"]) (simp add: V1DownloadLinkHandler_def)
qed

definition readable_node :: node where
  "readable_node = \<lparr>nd_clock = 0, nd_fsm = empty_raft_state\<lparr>MetadataByPath :=
     [(''/f'', zero_Metadata\<lparr>md_Path := ''/f'', md_Type := ''file'', md_Mode := ''0644''\<rparr>)]\<rparr>\<rparr>"

definition demo_request :: GenerateLinkRequest where
  "demo_request = \<lparr>gr_Path = ''/f'', gr_ExpirySeconds = 60\<rparr>"

lemma readable_node_ok: "node_ok readable_node"
  by (simp add: node_ok_def fsm_ok_def readable_node_def empty_raft_state_def gomap_ok_def)

lemma demo_path: "engine_path (ParseFilePath (TrimPrefix ''/f'' ''/'')) = ''/f''" "\<not> pi_IsInvalid (ParseFilePath (TrimPrefix ''/f'' ''/''))"
  by code_simp+

lemma demo_authorized: "Authorize (raft_ops leader_env) ''api-user-1'' ''/f'' ReadPerm readable_node = Inr ()"
  by code_simp

lemma demo_generated:
  "case fst (V1GenerateLinkHandler (raft_links (\<lambda>_. ''sig'')) (Inr ''id'') ''files.example'' 0 (Some ''api-user-1'') (Inr demo_request)
     readable_node) of Reply st hs resp \<Rightarrow> st = 201 \<and> 0 \<le> gl_Expires resp | ErrorReply _ _ \<Rightarrow> False"
  by code_simp

theorem generated_links_never_download_witness:
  "\<exists>hs resp w1. V1GenerateLinkHandler (raft_links (\<lambda>_. ''sig'')) (Inr ''id'') ''files.example'' 0 (Some ''api-user-1'')
       (Inr demo_request) readable_node = (Reply 201 hs resp, w1) \<and>
     (\<forall>e c. \<exists>s2. V1DownloadLinkHandler e (raft_links (\<lambda>_. ''sig'')) id (\<lambda>_. None) Background 0 (gl_Token resp) ''1.2.3.4''
       \<lparr>es_world = w1, es_cache = c\<rparr> = (SendErrorResponse (Errorf ''link validation failed'') 500, s2))"
proof -
  let ?gen = "V1GenerateLinkHandler (raft_links (\<lambda>_. ''sig'')) (Inr ''id'') ''files.example'' 0 (Some ''api-user-1'')
      (Inr demo_request) readable_node"
  obtain hs resp w1 where run: "?gen = (Reply 201 hs resp, w1)" and exp: "0 \<le> gl_Expires resp"
    using demo_generated by (cases ?gen; cases "fst ?gen") auto
  have path: "engine_path (ParseFilePath (TrimPrefix (gr_Path demo_request) ''/'')) \<noteq> ''/''"
    using demo_path(1) by (simp add: demo_request_def)
  have dot: "CHR ''.'' \<notin> set ''id''" by simp
  have "\<exists>s2. V1DownloadLinkHandler e (raft_links (\<lambda>_. ''sig'')) id (\<lambda>_. None) Background 0 (gl_Token resp) ''1.2.3.4''
      \<lparr>es_world = w1, es_cache = c\<rparr> = (SendErrorResponse (Errorf ''link validation failed'') 500, s2)" for e c
  proof -
    have world: "?gen = (Reply 201 hs resp, es_world \<lparr>es_world = w1, es_cache = c\<rparr>)" by (simp add: run)
    show ?thesis
      using generated_links_never_download [OF readable_node_ok dot world path exp] by blast
  qed
  then show ?thesis using run by blast
qed

end
