(* ===== verification/RateLimit.thy ===== *)
theory RateLimit
  imports Http GoStrings "HOL-Library.Multiset"
begin

section \<open>Rate limiting per client (server/middleware/ratelimit.go)\<close>

text \<open>
  The table of limiters by client address. The token bucket is \<^verbatim>\<open>golang.org/x/time/rate\<close>: its state is
  of an arbitrary type \<open>'l\<close>, and the record \<open>rate_lib\<close> gives its constructor and its method
  \<^verbatim>\<open>Allow\<close>. Rates are whole numbers, as the router sets them. The order in which \<^verbatim>\<open>range\<close> visits the table is the argument \<open>rng\<close>.
\<close>

subsection \<open>net.SplitHostPort\<close>

definition after :: "int \<Rightarrow> string \<Rightarrow> string" where
  "after n s = drop (nat n) s"

text \<open>The host, empty where the function reports an error.\<close>

definition split_host :: "string \<Rightarrow> string" where
  "split_host hostport =
     (let i = LastIndex hostport (CHR '':'') in
      if i < 0 then ''''
      else if hd hostport = CHR ''['' then
        (let end = IndexByte hostport (CHR '']'') in
         if end < 0 \<or> end + 1 \<noteq> i then ''''
         else if 0 \<le> IndexByte (after 1 hostport) (CHR ''['') \<or> 0 \<le> IndexByte (after (end + 1) hostport) (CHR '']'') then ''''
         else after 1 (take (nat end) hostport))
      else
        let host = take (nat i) hostport in
        if 0 \<le> IndexByte host (CHR '':'') \<or> 0 \<le> IndexByte hostport (CHR ''['') \<or> 0 \<le> IndexByte hostport (CHR '']'') then ''''
        else host)"

subsection \<open>The table of limiters\<close>

definition rateLimiterEntryTTL :: duration where
  "rateLimiterEntryTTL = 10 * minute"

definition rateLimiterMaxEntries :: int where
  "rateLimiterMaxEntries = 100000"

record 'l rate_lib =
  rt_NewLimiter :: "int \<Rightarrow> int \<Rightarrow> 'l"
  rt_Allow :: "gotime \<Rightarrow> 'l \<Rightarrow> bool \<times> 'l"

record 'l limiterEntry =
  le_limiter :: 'l
  le_lastSeen :: gotime

record 'l perIPRateLimiter =
  pr_limiters :: "(string, 'l limiterEntry) gomap"
  pr_rate :: int
  pr_burst :: int

definition newPerIPRateLimiter :: "int \<Rightarrow> int \<Rightarrow> 'l perIPRateLimiter" where
  "newPerIPRateLimiter rt burst = \<lparr>pr_limiters = [], pr_rate = rt, pr_burst = burst\<rparr>"

fun oldest :: "(string, 'l limiterEntry) gomap \<Rightarrow> (string \<times> gotime) option \<Rightarrow> (string \<times> gotime) option" where
  "oldest [] acc = acc"
| "oldest ((ip, entry) # m) acc =
     oldest m (case acc of
                 None \<Rightarrow> Some (ip, le_lastSeen entry)
               | Some (oldestIP, oldestTime) \<Rightarrow>
                   if Before (le_lastSeen entry) oldestTime then Some (ip, le_lastSeen entry) else acc)"

definition evictOldest ::
  "((string, 'l limiterEntry) gomap \<Rightarrow> (string, 'l limiterEntry) gomap) \<Rightarrow> 'l perIPRateLimiter \<Rightarrow> 'l perIPRateLimiter" where
  "evictOldest rng p =
     (case oldest (rng (pr_limiters p)) None of
        Some (oldestIP, _) \<Rightarrow> p\<lparr>pr_limiters := AList.delete oldestIP (pr_limiters p)\<rparr>
      | None \<Rightarrow> p)"

definition getLimiter ::
  "'l rate_lib \<Rightarrow> ((string, 'l limiterEntry) gomap \<Rightarrow> (string, 'l limiterEntry) gomap) \<Rightarrow> gotime \<Rightarrow> string \<Rightarrow>
   'l perIPRateLimiter \<Rightarrow> 'l \<times> 'l perIPRateLimiter" where
  "getLimiter lib rng now ip p =
     (case map_of (pr_limiters p) ip of
        Some entry \<Rightarrow> (le_limiter entry, p\<lparr>pr_limiters := AList.update ip (entry\<lparr>le_lastSeen := now\<rparr>) (pr_limiters p)\<rparr>)
      | None \<Rightarrow>
          let p1 = (if rateLimiterMaxEntries \<le> int (length (pr_limiters p)) then evictOldest rng p else p);
              limiter = rt_NewLimiter lib (pr_rate p) (pr_burst p)
          in (limiter, p1\<lparr>pr_limiters := AList.update ip \<lparr>le_limiter = limiter, le_lastSeen = now\<rparr> (pr_limiters p1)\<rparr>))"

text \<open>One round of \<^verbatim>\<open>cleanupLoop\<close>.\<close>

definition limiter_cleanup :: "gotime \<Rightarrow> 'l perIPRateLimiter \<Rightarrow> 'l perIPRateLimiter" where
  "limiter_cleanup now p =
     (let cutoff = now - rateLimiterEntryTTL
      in p\<lparr>pr_limiters := filter (\<lambda>(ip, entry). \<not> Before (le_lastSeen entry) cutoff) (pr_limiters p)\<rparr>)"

text \<open>
  The middleware: the limiter the table returns is shared with the table, so the bucket that
  \<^verbatim>\<open>Allow\<close> empties is the one in the table. \<open>txt\<close> makes a body of a text.
\<close>

definition client_ip :: "string \<Rightarrow> string" where
  "client_ip remoteAddr = (if split_host remoteAddr = '''' then remoteAddr else split_host remoteAddr)"

definition V1RateLimitMiddleware ::
  "'l rate_lib \<Rightarrow> ((string, 'l limiterEntry) gomap \<Rightarrow> (string, 'l limiterEntry) gomap) \<Rightarrow> gotime \<Rightarrow> string \<Rightarrow>
   (bytes \<Rightarrow> 'b) \<Rightarrow> ('s \<Rightarrow> 'b reply \<times> 's) \<Rightarrow> 'l perIPRateLimiter \<times> 's \<Rightarrow> 'b reply \<times> 'l perIPRateLimiter \<times> 's" where
  "V1RateLimitMiddleware lib rng now remoteAddr txt nxt ps =
     (case ps of (p, s) \<Rightarrow>
        let ip = client_ip remoteAddr in
        (case getLimiter lib rng now ip p of
           (limiter, p1) \<Rightarrow>
             (case rt_Allow lib now limiter of
                (allowed, limiter') \<Rightarrow>
                  let p2 = p1\<lparr>pr_limiters := AList.update ip \<lparr>le_limiter = limiter', le_lastSeen = now\<rparr> (pr_limiters p1)\<rparr>
                  in if \<not> allowed
                     then (Reply 429 [(''Content-Type'', ''application/json'')]
                             (txt ''{\"code\":\"RATE_LIMIT_EXCEEDED\",\"message\":\"Rate limit exceeded\"}''), p2, s)
                     else (case nxt s of (rep, s') \<Rightarrow> (rep, p2, s')))))"

subsection \<open>Runs\<close>

datatype limiter_event = Arrive gotime string | Sweep gotime

fun limiter_step ::
  "'l rate_lib \<Rightarrow> ((string, 'l limiterEntry) gomap \<Rightarrow> (string, 'l limiterEntry) gomap) \<Rightarrow> limiter_event \<Rightarrow>
   'l perIPRateLimiter \<Rightarrow> 'l perIPRateLimiter" where
  "limiter_step lib rng (Arrive now addr) p =
     fst (snd (V1RateLimitMiddleware lib rng now addr (\<lambda>x. x) (\<lambda>u. (Reply 200 [] [], u)) (p, ())))"
| "limiter_step lib rng (Sweep now) p = limiter_cleanup now p"

definition limiter_run ::
  "'l rate_lib \<Rightarrow> ((string, 'l limiterEntry) gomap \<Rightarrow> (string, 'l limiterEntry) gomap) \<Rightarrow> int \<Rightarrow> int \<Rightarrow> limiter_event list \<Rightarrow>
   'l perIPRateLimiter" where
  "limiter_run lib rng rt burst evs = fold (limiter_step lib rng) evs (newPerIPRateLimiter rt burst)"

definition limiter_ok :: "int \<Rightarrow> int \<Rightarrow> 'l perIPRateLimiter \<Rightarrow> bool" where
  "limiter_ok rt burst p \<longleftrightarrow> gomap_ok (pr_limiters p) \<and> int (length (pr_limiters p)) \<le> rateLimiterMaxEntries \<and>
     pr_rate p = rt \<and> pr_burst p = burst"

lemma oldest_spec:
  "oldest m acc = Some (ip, t) \<Longrightarrow>
     (acc = Some (ip, t) \<or> (\<exists>e. (ip, e) \<in> set m \<and> le_lastSeen e = t)) \<and>
     (\<forall>kv \<in> set m. t \<le> le_lastSeen (snd kv)) \<and> (\<forall>ip' t'. acc = Some (ip', t') \<longrightarrow> t \<le> t')"
proof (induction m acc rule: oldest.induct)
  case (2 ip' entry m acc)
  show ?case
    using "2.IH" "2.prems" by (cases acc) (force simp: time_simps split: if_splits)+
qed auto

lemma oldest_Some: "m \<noteq> [] \<or> acc \<noteq> None \<Longrightarrow> oldest m acc \<noteq> None"
  by (induction m acc rule: oldest.induct) (auto split: option.splits)

lemma evictOldest_spec:
  assumes rng: "\<And>m. mset (rng m) = mset m" and ok: "gomap_ok (pr_limiters p)" and ne: "pr_limiters p \<noteq> []"
  obtains ip entry where "map_of (pr_limiters p) ip = Some entry"
    "\<And>ip' e'. map_of (pr_limiters p) ip' = Some e' \<Longrightarrow> le_lastSeen entry \<le> le_lastSeen e'"
    "evictOldest rng p = p\<lparr>pr_limiters := AList.delete ip (pr_limiters p)\<rparr>"
proof -
  have st: "set (rng (pr_limiters p)) = set (pr_limiters p)" by (metis rng set_mset_mset)
  then have "rng (pr_limiters p) \<noteq> []" using ne by fastforce
  then obtain ip t where o: "oldest (rng (pr_limiters p)) None = Some (ip, t)"
    using oldest_Some [of "rng (pr_limiters p)" None] by fastforce
  from oldest_spec [OF o] st obtain e where e: "(ip, e) \<in> set (pr_limiters p)" "le_lastSeen e = t"
    "\<forall>kv \<in> set (pr_limiters p). t \<le> le_lastSeen (snd kv)" by auto
  show ?thesis
  proof (rule that)
    show "map_of (pr_limiters p) ip = Some e" using e(1) ok by (simp add: map_of_in_set)
    show "le_lastSeen e \<le> le_lastSeen e'" if "map_of (pr_limiters p) ip' = Some e'" for ip' e'
      using e(2,3) map_of_SomeD [OF that] by fastforce
    show "evictOldest rng p = p\<lparr>pr_limiters := AList.delete ip (pr_limiters p)\<rparr>" by (simp add: evictOldest_def o)
  qed
qed

text \<open>The only other entry a request can touch is the least recently seen one, when the table is full.\<close>

definition others_kept :: "string \<Rightarrow> 'l perIPRateLimiter \<Rightarrow> 'l perIPRateLimiter \<Rightarrow> bool" where
  "others_kept ip p p' \<longleftrightarrow>
     (\<forall>ip'. ip' \<noteq> ip \<longrightarrow> map_of (pr_limiters p') ip' = map_of (pr_limiters p) ip' \<or>
        map_of (pr_limiters p) ip = None \<and> int (length (pr_limiters p)) = rateLimiterMaxEntries \<and>
        (\<exists>e. map_of (pr_limiters p) ip' = Some e \<and>
           (\<forall>ip2 e2. map_of (pr_limiters p) ip2 = Some e2 \<longrightarrow> le_lastSeen e \<le> le_lastSeen e2)))"

definition bucket :: "'l rate_lib \<Rightarrow> string \<Rightarrow> 'l perIPRateLimiter \<Rightarrow> 'l" where
  "bucket lib ip p =
     (case map_of (pr_limiters p) ip of Some e \<Rightarrow> le_limiter e | None \<Rightarrow> rt_NewLimiter lib (pr_rate p) (pr_burst p))"

lemma getLimiter_spec:
  assumes rng: "\<And>m. mset (rng m) = mset m" and ok: "limiter_ok rt burst p"
    and g: "getLimiter lib rng now ip p = (l, p')"
  shows "l = bucket lib ip p \<and> limiter_ok rt burst p' \<and> ip \<in> fst ` set (pr_limiters p') \<and> others_kept ip p p'"
proof (cases "map_of (pr_limiters p) ip")
  case (Some e)
  then have "ip \<in> fst ` set (pr_limiters p)" by (metis map_of_eq_None_iff option.distinct(1))
  then show ?thesis
    using g ok Some length_update_mem [of ip "pr_limiters p" "e\<lparr>le_lastSeen := now\<rparr>"]
    by (auto simp: getLimiter_def bucket_def limiter_ok_def others_kept_def dom_update)
next
  case None
  define p1 where "p1 = (if rateLimiterMaxEntries \<le> int (length (pr_limiters p)) then evictOldest rng p else p)"
  have p': "p' = p1\<lparr>pr_limiters := AList.update ip \<lparr>le_limiter = l, le_lastSeen = now\<rparr> (pr_limiters p1)\<rparr>" "l = bucket lib ip p"
    using g None by (auto simp: getLimiter_def p1_def bucket_def Let_def)
  have "limiter_ok rt burst p1 \<and> int (length (pr_limiters p1)) < rateLimiterMaxEntries \<and> others_kept ip p p1"
  proof (cases "rateLimiterMaxEntries \<le> int (length (pr_limiters p))")
    case True
    then have ne: "pr_limiters p \<noteq> []" and gm: "gomap_ok (pr_limiters p)"
      using ok by (auto simp: rateLimiterMaxEntries_def limiter_ok_def)
    obtain old e where old: "map_of (pr_limiters p) old = Some e"
      "\<And>ip' e'. map_of (pr_limiters p) ip' = Some e' \<Longrightarrow> le_lastSeen e \<le> le_lastSeen e'"
      "evictOldest rng p = p\<lparr>pr_limiters := AList.delete old (pr_limiters p)\<rparr>"
      using evictOldest_spec [OF rng gm ne] by metis
    have "old \<in> fst ` set (pr_limiters p)" using old(1) by (metis map_of_eq_None_iff option.distinct(1))
    then show ?thesis
      using length_delete_mem [of old "pr_limiters p"] True ok old None
      by (auto simp: p1_def limiter_ok_def others_kept_def)
  qed (use ok in \<open>simp add: p1_def others_kept_def\<close>)
  then show ?thesis
    using length_update_le [of ip "\<lparr>le_limiter = l, le_lastSeen = now\<rparr>" "pr_limiters p1"]
    by (auto simp: p' limiter_ok_def others_kept_def dom_update)
qed

lemma middleware_spec:
  assumes rng: "\<And>m. mset (rng m) = mset m" and ok: "limiter_ok rt burst p"
    and m: "V1RateLimitMiddleware lib rng now addr txt nxt (p, s) = (rep, p', s')"
  shows "limiter_ok rt burst p' \<and> others_kept (client_ip addr) p p' \<and>
    bucket lib (client_ip addr) p' = snd (rt_Allow lib now (bucket lib (client_ip addr) p)) \<and>
    (if fst (rt_Allow lib now (bucket lib (client_ip addr) p)) then (rep, s') = nxt s else status rep = 429 \<and> s' = s)"
proof -
  let ?ip = "client_ip addr"
  obtain l p1 where g: "getLimiter lib rng now ?ip p = (l, p1)" by fastforce
  note gs = getLimiter_spec [OF rng ok g]
  obtain a l' where a: "rt_Allow lib now l = (a, l')" by fastforce
  define p2 where "p2 = p1\<lparr>pr_limiters := AList.update ?ip \<lparr>le_limiter = l', le_lastSeen = now\<rparr> (pr_limiters p1)\<rparr>"
  have "p' = p2" "if a then (rep, s') = nxt s else status rep = 429 \<and> s' = s"
    using m by (auto simp: V1RateLimitMiddleware_def g a p2_def Let_def split: if_splits prod.splits)
  moreover have "limiter_ok rt burst p2" "others_kept ?ip p p2" "bucket lib ?ip p2 = l'"
    using gs length_update_mem [of ?ip "pr_limiters p1" "\<lparr>le_limiter = l', le_lastSeen = now\<rparr>"]
    by (simp_all add: limiter_ok_def p2_def others_kept_def bucket_def)
  ultimately show ?thesis using gs a by simp
qed

lemma limiter_step_ok:
  assumes rng: "\<And>m. mset (rng m) = mset m" and ok: "limiter_ok rt burst p"
  shows "limiter_ok rt burst (limiter_step lib rng ev p)"
proof (cases ev)
  case (Arrive now addr)
  obtain rep p' s' where "V1RateLimitMiddleware lib rng now addr (\<lambda>x. x) (\<lambda>u. (Reply 200 [] [], u)) (p, ()) = (rep, p', s')"
    by (metis prod_cases3)
  from middleware_spec [OF rng ok this] this show ?thesis by (simp add: Arrive)
next
  case (Sweep now)
  have "int (length (filter f (pr_limiters p))) \<le> int (length (pr_limiters p))" for f by simp
  from order_trans [OF this] ok show ?thesis by (auto simp: Sweep limiter_cleanup_def limiter_ok_def Let_def)
qed

lemma limiter_run_ok:
  assumes "\<And>m. mset (rng m) = mset m"
  shows "limiter_ok rt burst (limiter_run lib rng rt burst evs)"
proof -
  have "limiter_ok rt burst p \<Longrightarrow> limiter_ok rt burst (fold (limiter_step lib rng) evs p)" for p
    by (induction evs arbitrary: p) (simp_all add: limiter_step_ok [OF assms])
  then show ?thesis by (simp add: limiter_run_def limiter_ok_def newPerIPRateLimiter_def rateLimiterMaxEntries_def)
qed

text \<open>
  C38: (bounds) After any run of requests and clean-ups the table holds at most 100000 clients, and the next
  request is decided by the bucket of its own client alone (a fresh one for a new client): it is
  passed on exactly when that bucket allows it, otherwise it is answered 429 without reaching the
  handler. The buckets of other clients stay as they are, except that a new client may take the place
  of the least recently seen one when the table is full.
\<close>

theorem rate_limit_per_client:
  fixes lib :: "'l rate_lib" and rng rt burst evs now addr
  assumes "\<And>m. mset (rng m) = mset m"
  defines "p \<equiv> limiter_run lib rng rt burst evs"
  assumes "V1RateLimitMiddleware lib rng now addr txt nxt (p, s) = (rep, p', s')"
  defines "decision \<equiv> rt_Allow lib now (case map_of (pr_limiters p) (client_ip addr) of
    Some e \<Rightarrow> le_limiter e | None \<Rightarrow> rt_NewLimiter lib rt burst)"
  shows "length (pr_limiters p) \<le> 100000 \<and> others_kept (client_ip addr) p p' \<and>
    (if fst decision then (rep, s') = nxt s else status rep = 429 \<and> s' = s) \<and>
    map_option le_limiter (map_of (pr_limiters p') (client_ip addr)) = Some (snd decision)"
proof -
  note ok = limiter_run_ok [OF assms(1), of rt burst lib evs, folded p_def]
  have dec: "decision = rt_Allow lib now (bucket lib (client_ip addr) p)"
    using ok by (auto simp: decision_def bucket_def limiter_ok_def)
  note m = middleware_spec [OF assms(1) ok assms(3)]
  have "client_ip addr \<in> fst ` set (pr_limiters p')"
    using assms(3) by (auto simp: V1RateLimitMiddleware_def Let_def dom_update split: prod.splits if_splits)
  then obtain e where "map_of (pr_limiters p') (client_ip addr) = Some e"
    by (metis map_of_eq_None_iff not_None_eq)
  then show ?thesis using m ok by (simp add: dec bucket_def limiter_ok_def rateLimiterMaxEntries_def)
qed

text \<open>A bucket that allows one request at all: the second request of a client is refused.\<close>

definition one_shot :: "bool rate_lib" where
  "one_shot = \<lparr>rt_NewLimiter = (\<lambda>_ _. True), rt_Allow = (\<lambda>_ l. (l, False))\<rparr>"

theorem rate_limit_per_client_witness:
  "status (fst (V1RateLimitMiddleware one_shot (\<lambda>m. m) 2 ''10.0.0.1:99'' (\<lambda>x. x) (\<lambda>u. (Reply 200 [] [], u))
      (limiter_run one_shot (\<lambda>m. m) 10 5 [Arrive 1 ''10.0.0.1:80''], ()))) = 429"
proof -
  let ?p = "limiter_run one_shot (\<lambda>m. m) 10 5 [Arrive 1 ''10.0.0.1:80'']"
  obtain rep p' s' where m: "V1RateLimitMiddleware one_shot (\<lambda>m. m) 2 ''10.0.0.1:99'' (\<lambda>x. x) (\<lambda>u. (Reply 200 [] [], u)) (?p, ()) = (rep, p', s')"
    by (metis prod_cases3)
  have e: "map_of (pr_limiters ?p) (client_ip ''10.0.0.1:99'') = Some \<lparr>le_limiter = False, le_lastSeen = 1\<rparr>" by code_simp
  have "fst (rt_Allow one_shot 2 (case map_of (pr_limiters ?p) (client_ip ''10.0.0.1:99'') of
      Some e \<Rightarrow> le_limiter e | None \<Rightarrow> rt_NewLimiter one_shot 10 5)) = False"
    by (simp only: e option.case) (simp add: one_shot_def)
  with rate_limit_per_client [OF _ m] m show ?thesis by simp
qed

end
