(* ===== verification/Cluster.thy ===== *)
theory Cluster
  imports RaftStore Config
begin

section \<open>Membership of the Raft cluster (metadata/raft/store.go, cmd/main.go)\<close>

text \<open>
  How a store starts, how a node joins: the command line client \<^verbatim>\<open>callfs cluster join\<close>, the leader's endpoint for it and
  \<^verbatim>\<open>Store.AddVoter\<close>. The Raft library is a parameter: the record \<open>raft_lib\<close> has its calls about membership, and \<open>raft_laws\<close> is
  what its documentation says of them: a removed server is gone, an added voter is there with its address, and a call that
  fails (a timeout, a loss of leadership) may have taken effect or not.
\<close>

subsection \<open>The library\<close>

datatype Suffrage = Voter | Nonvoter | Staging

record raft_server =
  rv_ID :: string
  rv_Address :: string
  rv_Suffrage :: Suffrage

record 'w raft_lib =
  rl_IsLeader :: "'w \<Rightarrow> bool"
  rl_LeaderID :: "'w \<Rightarrow> string"
  rl_GetConfiguration :: "'w \<Rightarrow> raft_server list result"
  rl_RemoveServer :: "string \<Rightarrow> 'w \<Rightarrow> unit result \<times> 'w"
  rl_AddVoter :: "string \<Rightarrow> string \<Rightarrow> 'w \<Rightarrow> unit result \<times> 'w"

subsection \<open>NewRaftStore\<close>

record raft_Config =
  rf_NodeID :: string
  rf_BindAddr :: string
  rf_DataDir :: string
  rf_Bootstrap :: bool
  rf_Peers :: "(string, string) gomap"
  rf_APIPeerEndpoints :: "(string, string) gomap"
  rf_ApplyTimeout :: int
  rf_ForwardTimeout :: int
  rf_SnapshotInterval :: int
  rf_SnapshotThreshold :: "64 word"
  rf_RetainSnapshotCount :: int
  rf_InternalAuthToken :: string

text \<open>The calls that open the files, the transport and the node; each may fail. \<open>NewRaft\<close> gets the three settings the code changes.\<close>

record 'w raft_boot =
  rb_MkdirAll :: "string \<Rightarrow> goerr option"
  rb_NewBoltStore :: "string \<Rightarrow> goerr option"
  rb_NewFileSnapshotStore :: "string \<Rightarrow> int \<Rightarrow> goerr option"
  rb_NewTCPTransport :: "string \<Rightarrow> goerr option"
  rb_NewRaft :: "string \<Rightarrow> int \<Rightarrow> 64 word \<Rightarrow> raft_state \<Rightarrow> 'w result"
  rb_BootstrapCluster :: "raft_server list \<Rightarrow> 'w \<Rightarrow> goerr option \<times> 'w"
  rb_ErrCantBootstrap :: goerr

record 'w raft_Store =
  rt_raft :: 'w
  rt_nodeID :: string
  rt_apiPeerEndpoints :: "(string, string) gomap"
  rt_internalAuthToken :: string
  rt_forwardTimeout :: int
  rt_applyTimeout :: int

definition raft_defaults :: "raft_Config \<Rightarrow> raft_Config" where
  "raft_defaults cfg = cfg\<lparr>
     rf_ApplyTimeout := (if rf_ApplyTimeout cfg \<le> 0 then 10 * second else rf_ApplyTimeout cfg),
     rf_ForwardTimeout := (if rf_ForwardTimeout cfg \<le> 0 then 10 * second else rf_ForwardTimeout cfg),
     rf_SnapshotInterval := (if rf_SnapshotInterval cfg \<le> 0 then 60 * second else rf_SnapshotInterval cfg),
     rf_SnapshotThreshold := (if rf_SnapshotThreshold cfg = 0 then 256 else rf_SnapshotThreshold cfg),
     rf_RetainSnapshotCount := (if rf_RetainSnapshotCount cfg \<le> 0 then 2 else rf_RetainSnapshotCount cfg)\<rparr>"

definition NewRaftStore :: "'w raft_boot \<Rightarrow> raft_Config \<Rightarrow> 'w raft_Store result" where
  "NewRaftStore rb cfg0 =
     (if rf_NodeID cfg0 = '''' then Inl (Errorf ''raft node id is required'')
      else if rf_BindAddr cfg0 = '''' then Inl (Errorf ''raft bind address is required'')
      else if rf_DataDir cfg0 = '''' then Inl (Errorf ''raft data_dir is required'')
      else
        let cfg = raft_defaults cfg0 in
        case rb_MkdirAll rb (rf_DataDir cfg) of Some err \<Rightarrow> Inl (Wrapf ''failed to create raft data dir'' err)
      | None \<Rightarrow>
        case rb_NewBoltStore rb (filepath_Join (rf_DataDir cfg) ''raft-log.db'') of Some err \<Rightarrow> Inl (Wrapf ''failed to create raft log store'' err)
      | None \<Rightarrow>
        case rb_NewBoltStore rb (filepath_Join (rf_DataDir cfg) ''raft-stable.db'') of
          Some err \<Rightarrow> Inl (Wrapf ''failed to create raft stable store'' err)
      | None \<Rightarrow>
        case rb_NewFileSnapshotStore rb (rf_DataDir cfg) (rf_RetainSnapshotCount cfg) of
          Some err \<Rightarrow> Inl (Wrapf ''failed to create raft snapshot store'' err)
      | None \<Rightarrow>
        case rb_NewTCPTransport rb (rf_BindAddr cfg) of Some err \<Rightarrow> Inl (Wrapf ''failed to create raft transport'' err)
      | None \<Rightarrow>
        case rb_NewRaft rb (rf_NodeID cfg) (rf_SnapshotInterval cfg) (rf_SnapshotThreshold cfg) empty_raft_state of
          Inl err \<Rightarrow> Inl (Wrapf ''failed to create raft node'' err)
      | Inr node \<Rightarrow>
          let store = (\<lambda>w. \<lparr>rt_raft = w, rt_nodeID = rf_NodeID cfg, rt_apiPeerEndpoints = rf_APIPeerEndpoints cfg,
                 rt_internalAuthToken = rf_InternalAuthToken cfg, rt_forwardTimeout = rf_ForwardTimeout cfg,
                 rt_applyTimeout = rf_ApplyTimeout cfg\<rparr>) in
          if rf_Bootstrap cfg then
            (case rb_BootstrapCluster rb [\<lparr>rv_ID = rf_NodeID cfg, rv_Address = rf_BindAddr cfg, rv_Suffrage = Voter\<rparr>] node of
               (Some err, w) \<Rightarrow>
                 if \<not> errors_Is err (rb_ErrCantBootstrap rb) then Inl (Wrapf ''failed to bootstrap raft cluster'' err) else Inr (store w)
             | (None, w) \<Rightarrow> Inr (store w))
          else Inr (store node))"

subsection \<open>AddVoter\<close>

definition SetAPIPeerEndpoint :: "string \<Rightarrow> string \<Rightarrow> (string, string) gomap \<Rightarrow> (string, string) gomap" where
  "SetAPIPeerEndpoint nodeID0 endpoint0 m =
     (let nodeID = TrimSpace nodeID0; endpoint = TrimSpace endpoint0
      in if nodeID = '''' \<or> endpoint = '''' then m else AList.update nodeID endpoint m)"

definition APIPeerEndpoint :: "string \<Rightarrow> (string, string) gomap \<Rightarrow> string option" where
  "APIPeerEndpoint nodeID m = map_of m nodeID"

text \<open>The loop over the configuration: \<open>Inr True\<close> is the early return for a node that is already a voter with this address.\<close>

fun drop_stale :: "'w raft_lib \<Rightarrow> string \<Rightarrow> string \<Rightarrow> raft_server list \<Rightarrow> 'w \<Rightarrow> bool result \<times> 'w" where
  "drop_stale rl nodeID raftAddr [] w = (Inr False, w)"
| "drop_stale rl nodeID raftAddr (server # rest) w =
     (let serverID = rv_ID server; serverAddr = rv_Address server in
      if serverID = nodeID then
        (if serverAddr = raftAddr \<and> rv_Suffrage server = Voter then (Inr True, w)
         else case rl_RemoveServer rl serverID w of
           (Inl err, w1) \<Rightarrow> (Inl (Wrapf (''failed to remove existing node '' @ nodeID @ '' before rejoin'') err), w1)
         | (Inr _, w1) \<Rightarrow> drop_stale rl nodeID raftAddr rest w1)
      else if serverAddr = raftAddr then
        (case rl_RemoveServer rl serverID w of
           (Inl err, w1) \<Rightarrow> (Inl (Wrapf (''failed to remove stale node '' @ serverID @ '' on address '' @ raftAddr) err), w1)
         | (Inr _, w1) \<Rightarrow> drop_stale rl nodeID raftAddr rest w1)
      else drop_stale rl nodeID raftAddr rest w)"

definition AddVoter ::
  "'w raft_lib \<Rightarrow> goerr option \<Rightarrow> string \<Rightarrow> string \<Rightarrow> string \<Rightarrow> 'w raft_Store \<Rightarrow> unit result \<times> 'w raft_Store" where
  "AddVoter rl ctxErr nodeID0 raftAddr0 apiEndpoint0 s =
     (let nodeID = TrimSpace nodeID0; raftAddr = TrimSpace raftAddr0; apiEndpoint = TrimSpace apiEndpoint0;
          known = rt_apiPeerEndpoints_update (SetAPIPeerEndpoint nodeID apiEndpoint)
      in if nodeID = '''' then (Inl (Errorf ''node_id is required''), s)
         else if raftAddr = '''' then (Inl (Errorf ''raft_addr is required''), s)
         else if \<not> rl_IsLeader rl (rt_raft s) then (Inl (Errorf ''not leader''), s)
         else case rl_GetConfiguration rl (rt_raft s) of
           Inl err \<Rightarrow> (Inl (Wrapf ''failed to get raft configuration'' err), s)
         | Inr servers \<Rightarrow>
             (case drop_stale rl nodeID raftAddr servers (rt_raft s) of
                (Inl err, w1) \<Rightarrow> (Inl err, s\<lparr>rt_raft := w1\<rparr>)
              | (Inr True, w1) \<Rightarrow> (Inr (), known (s\<lparr>rt_raft := w1\<rparr>))
              | (Inr False, w1) \<Rightarrow>
                  (case rl_AddVoter rl nodeID raftAddr w1 of
                     (Inl err, w2) \<Rightarrow> (Inl (Wrapf (''failed to add raft voter '' @ nodeID) err), s\<lparr>rt_raft := w2\<rparr>)
                   | (Inr _, w2) \<Rightarrow>
                       ((case ctxErr of Some err \<Rightarrow> Inl err | None \<Rightarrow> Inr ()), known (s\<lparr>rt_raft := w2\<rparr>)))))"

subsection \<open>The leader's endpoint /v1/internal/raft/join\<close>

record JoinRequest =
  jq_NodeID :: string
  jq_RaftAddr :: string
  jq_APIEndpoint :: string

record JoinResponse =
  jr_Status :: string
  jr_LeaderID :: string
  jr_Error :: string

text \<open>A reply is its status and the encoded response, if there is one. The body of the request is decoded or gives an error.\<close>

definition join_error :: "string \<Rightarrow> string \<Rightarrow> JoinResponse" where
  "join_error leader err = \<lparr>jr_Status = ''error'', jr_LeaderID = leader, jr_Error = err\<rparr>"

definition raft_join_handler ::
  "'w raft_lib \<Rightarrow> string \<Rightarrow> goerr option \<Rightarrow> string \<Rightarrow> string \<Rightarrow> string + JoinRequest \<Rightarrow> 'w raft_Store \<Rightarrow>
   (int \<times> JoinResponse option) \<times> 'w raft_Store" where
  "raft_join_handler rl secret ctxErr method authorization body s =
     (if method \<noteq> ''POST'' then ((405, None), s)
      else
        let authHeader = TrimSpace (TrimPrefix authorization ''Bearer'') in
        if authHeader \<noteq> secret then ((401, Some (join_error '''' ''unauthorized'')), s)
        else if \<not> rl_IsLeader rl (rt_raft s) then ((502, Some (join_error (rl_LeaderID rl (rt_raft s)) ''not leader'')), s)
        else case body of
          Inl err \<Rightarrow> ((400, Some (join_error '''' (''invalid request: '' @ err))), s)
        | Inr req \<Rightarrow>
            (case AddVoter rl ctxErr (jq_NodeID req) (jq_RaftAddr req) (jq_APIEndpoint req) s of
               (Inl err, s1) \<Rightarrow>
                 ((if Contains (ToLower (Error err)) ''required'' then 400 else 502,
                   Some (join_error (rl_LeaderID rl (rt_raft s1)) (Error err))), s1)
             | (Inr _, s1) \<Rightarrow>
                 ((200, Some \<lparr>jr_Status = ''joined'', jr_LeaderID = rl_LeaderID rl (rt_raft s1), jr_Error = ''''\<rparr>), s1)))"

subsection \<open>The command callfs cluster join\<close>

record join_flags =
  jf_LeaderURL :: string
  jf_NodeID :: string
  jf_RaftAddr :: string
  jf_APIEndpoint :: string
  jf_InternalSecret :: string

text \<open>A flag that is blank is taken from the configuration, if that could be loaded; then all are trimmed.\<close>

definition flag_or :: "string \<Rightarrow> AppConfig result \<Rightarrow> (AppConfig \<Rightarrow> string) \<Rightarrow> string" where
  "flag_or flag cfg get =
     (case cfg of
        Inr c \<Rightarrow> TrimSpace (if TrimSpace flag = '''' then TrimSpace (get c) else flag)
      | Inl _ \<Rightarrow> TrimSpace flag)"

text \<open>
  The client sends the request for a URL, a bearer header and a join request, and gives the status of the reply and its decoded
  body.
\<close>

definition runClusterJoin ::
  "AppConfig result \<Rightarrow> (string \<Rightarrow> string \<Rightarrow> JoinRequest \<Rightarrow> 's \<Rightarrow> (int \<times> (string + JoinResponse)) result \<times> 's) \<Rightarrow> join_flags \<Rightarrow> 's \<Rightarrow> unit result \<times> 's" where
  "runClusterJoin cfg client f s =
     (let nodeID = flag_or (jf_NodeID f) cfg (rc_NodeID \<circ> ap_Raft);
          raftAddr = flag_or (jf_RaftAddr f) cfg (rc_BindAddr \<circ> ap_Raft);
          apiEndpoint = flag_or (jf_APIEndpoint f) cfg (sc_ExternalURL \<circ> ap_Server);
          internalSecret = flag_or (jf_InternalSecret f) cfg (ac_InternalProxySecret \<circ> ap_Auth)
      in if nodeID = '''' then (Inl (Errorf ''node id is required (use --node-id or set raft.node_id in config)''), s)
         else if raftAddr = '''' then (Inl (Errorf ''raft address is required (use --raft-addr or set raft.bind_addr in config)''), s)
         else if apiEndpoint = ''''
         then (Inl (Errorf ''api endpoint is required (use --api-endpoint or set server.external_url in config)''), s)
         else if internalSecret = ''''
         then (Inl (Errorf ''internal secret is required (use --internal-secret or set auth.internal_proxy_secret in config)''), s)
         else
           let payload = \<lparr>jq_NodeID = nodeID, jq_RaftAddr = raftAddr, jq_APIEndpoint = apiEndpoint\<rparr>;
               url = TrimRight (jf_LeaderURL f) slash @ ''/v1/internal/raft/join''
           in (case client url (''Bearer '' @ internalSecret) payload s of
                 (Inl err, s1) \<Rightarrow> (Inl (Wrapf ''failed to contact leader'' err), s1)
               | (Inr (st, Inl err), s1) \<Rightarrow> (Inl (Wrapf ''failed to decode join response'' (Errorf err)), s1)
               | (Inr (st, Inr out), s1) \<Rightarrow>
                   if st \<noteq> 200 then
                     (Inl (Errorf (if jr_Error out \<noteq> '''' then ''join failed: '' @ jr_Error out else ''join failed with status '' @ Itoa st)), s1)
                   else (Inr (), s1)))"

subsection \<open>What a join does to the cluster\<close>

definition with_voter :: "string \<Rightarrow> string \<Rightarrow> raft_server list \<Rightarrow> raft_server list" where
  "with_voter i addr cs =
     (let v = \<lparr>rv_ID = i, rv_Address = addr, rv_Suffrage = Voter\<rparr>
      in if i \<in> rv_ID ` set cs then map (\<lambda>c. if rv_ID c = i then v else c) cs else cs @ [v])"

definition without :: "string \<Rightarrow> raft_server list \<Rightarrow> raft_server list" where
  "without i cs = filter (\<lambda>c. rv_ID c \<noteq> i) cs"

text \<open>Two members never share an identifier or an address: the library refuses a configuration where they do.\<close>

definition members_ok :: "raft_server list \<Rightarrow> bool" where
  "members_ok cs \<longleftrightarrow> distinct (map rv_ID cs) \<and> distinct (map rv_Address cs)"

definition raft_laws :: "'w raft_lib \<Rightarrow> ('w \<Rightarrow> raft_server list) \<Rightarrow> bool" where
  "raft_laws rl servers \<longleftrightarrow>
     (\<forall>w cs. rl_GetConfiguration rl w = Inr cs \<longrightarrow> cs = servers w) \<and>
     (\<forall>w i r w'. rl_RemoveServer rl i w = (r, w') \<longrightarrow>
        servers w' = without i (servers w) \<or> \<not> is_ok r \<and> servers w' = servers w) \<and>
     (\<forall>w i addr r w'. rl_AddVoter rl i addr w = (r, w') \<longrightarrow>
        servers w' = with_voter i addr (servers w) \<and> members_ok (servers w') \<or> \<not> is_ok r \<and> servers w' = servers w)"

definition joiner :: "string \<Rightarrow> string \<Rightarrow> raft_server \<Rightarrow> bool" where
  "joiner i addr c \<longleftrightarrow> rv_ID c = i \<or> rv_Address c = addr"

text \<open>The members that a join of \<open>i\<close> at \<open>addr\<close> is not about.\<close>

abbreviation others :: "string \<Rightarrow> string \<Rightarrow> raft_server list \<Rightarrow> raft_server list" where
  "others i addr cs \<equiv> filter (\<lambda>c. \<not> joiner i addr c) cs"

lemma members_ok_filter: "members_ok cs \<Longrightarrow> members_ok (filter P cs)"
  by (simp add: members_ok_def distinct_map_filter)

lemma unique_member: "members_ok cs \<Longrightarrow> c \<in> set cs \<Longrightarrow> c' \<in> set cs \<Longrightarrow> rv_ID c = rv_ID c' \<Longrightarrow> c = c'"
  by (auto simp: members_ok_def distinct_map inj_on_def)

lemma others_without: "joiner i addr c \<Longrightarrow> c \<in> set cs \<Longrightarrow> members_ok cs \<Longrightarrow> others i addr (without (rv_ID c) cs) = others i addr cs"
  unfolding without_def filter_filter by (intro filter_cong refl) (use unique_member in blast)

lemma others_with_voter:
  "others i addr (with_voter i addr cs) = others i addr cs"
proof (cases "i \<in> rv_ID ` set cs")
  case True
  have "others i addr (map (\<lambda>c. if rv_ID c = i then \<lparr>rv_ID = i, rv_Address = addr, rv_Suffrage = Voter\<rparr> else c) cs) = others i addr cs"
    by (induction cs) (auto simp: joiner_def)
  then show ?thesis using True by (simp add: with_voter_def)
qed (simp add: with_voter_def joiner_def)

lemma RemoveServer_members:
  assumes laws: "raft_laws rl servers" and rm: "rl_RemoveServer rl (rv_ID c) w = (r, w1)"
    and ok: "members_ok (servers w)" "c \<in> set (servers w)" "joiner i addr c"
  shows "members_ok (servers w1)" "others i addr (servers w1) = others i addr (servers w)" "set (servers w1) \<subseteq> set (servers w)"
    "c' \<in> set (servers w) \<Longrightarrow> rv_ID c' \<noteq> rv_ID c \<Longrightarrow> c' \<in> set (servers w1)"
proof -
  have "servers w1 = without (rv_ID c) (servers w) \<or> servers w1 = servers w" using laws rm unfolding raft_laws_def by blast
  then show "members_ok (servers w1)" "others i addr (servers w1) = others i addr (servers w)" "set (servers w1) \<subseteq> set (servers w)"
    "c' \<in> set (servers w) \<Longrightarrow> rv_ID c' \<noteq> rv_ID c \<Longrightarrow> c' \<in> set (servers w1)"
    using ok(1) others_without [OF ok(3,2,1)] members_ok_filter [OF ok(1)] by (auto simp: without_def)
qed

text \<open>In every case the others are untouched and nothing is added.\<close>

lemma drop_stale_members:
  assumes laws: "raft_laws rl servers"
  shows "drop_stale rl i addr cs w = (r, w') \<Longrightarrow> members_ok (servers w) \<Longrightarrow> set cs \<subseteq> set (servers w) \<Longrightarrow> distinct (map rv_ID cs) \<Longrightarrow>
    members_ok (servers w') \<and> others i addr (servers w') = others i addr (servers w) \<and> set (servers w') \<subseteq> set (servers w) \<and>
    (r = Inr True \<longrightarrow> \<lparr>rv_ID = i, rv_Address = addr, rv_Suffrage = Voter\<rparr> \<in> set (servers w'))"
proof (induction cs arbitrary: w)
  case (Cons c cs)
  obtain r1 w1 where rm: "rl_RemoveServer rl (rv_ID c) w = (r1, w1)" by fastforce
  have c: "c \<in> set (servers w)" "set cs \<subseteq> set (servers w)" "distinct (map rv_ID cs)" "\<forall>c' \<in> set cs. rv_ID c' \<noteq> rv_ID c"
    using Cons.prems(3,4) by (simp_all, metis image_eqI)
  have "rv_ID c = i \<and> rv_Address c = addr \<and> rv_Suffrage c = Voter \<and> r = Inr True \<and> w' = w \<or>
      joiner i addr c \<and> (r \<noteq> Inr True \<and> w' = w1 \<or> drop_stale rl i addr cs w1 = (r, w')) \<or> drop_stale rl i addr cs w = (r, w')"
    using Cons.prems(1) unfolding drop_stale.simps Let_def joiner_def
    by (cases "rv_ID c = i"; cases "rv_Address c = addr"; cases "rv_Suffrage c = Voter"; cases r1) (auto simp: rm)
  then consider (voter) "rv_ID c = i" "rv_Address c = addr" "rv_Suffrage c = Voter" "r = Inr True" "w' = w"
    | (failed) "joiner i addr c" "r \<noteq> Inr True" "w' = w1"
    | (removed) "joiner i addr c" "drop_stale rl i addr cs w1 = (r, w')"
    | (other) "drop_stale rl i addr cs w = (r, w')"
    by blast
  then show ?case
  proof cases
    case voter
    then have v: "\<lparr>rv_ID = i, rv_Address = addr, rv_Suffrage = Voter\<rparr> = c" by simp
    show ?thesis using voter(5) c(1) Cons.prems(2) by (simp add: v)
  next
    case failed
    then show ?thesis using RemoveServer_members [OF laws rm Cons.prems(2) c(1) failed(1)] by auto
  next
    case removed
    note r = RemoveServer_members [OF laws rm Cons.prems(2) c(1) removed(1)]
    have "set cs \<subseteq> set (servers w1)" using r(4) c(2,4) by blast
    from Cons.IH [OF removed(2) r(1) this c(3)] r(2,3) show ?thesis by auto
  next
    case other
    then show ?thesis using Cons.IH Cons.prems(2) c by blast
  qed
qed auto

definition joined :: "string \<Rightarrow> string \<Rightarrow> raft_server list \<Rightarrow> raft_server list \<Rightarrow> bool" where
  "joined i addr cs cs' \<longleftrightarrow> set cs' = set (others i addr cs) \<union> {\<lparr>rv_ID = i, rv_Address = addr, rv_Suffrage = Voter\<rparr>}"

lemma joined_iff:
  assumes "members_ok cs'" "others i addr cs' = others i addr cs" "\<lparr>rv_ID = i, rv_Address = addr, rv_Suffrage = Voter\<rparr> \<in> set cs'"
  shows "joined i addr cs cs'"
proof -
  let ?v = "\<lparr>rv_ID = i, rv_Address = addr, rv_Suffrage = Voter\<rparr>"
  have "c = ?v" if "c \<in> set cs'" "joiner i addr c" for c
  proof -
    have "rv_ID c = rv_ID ?v \<or> rv_Address c = rv_Address ?v" using that(2) by (simp add: joiner_def)
    then show ?thesis using that(1) assms(1,3) by (meson members_ok_def distinct_map inj_onD)
  qed
  moreover have "set (others i addr cs) \<subseteq> set cs'" by (simp flip: assms(2))
  ultimately show ?thesis unfolding joined_def using assms(3) by (auto simp flip: assms(2))
qed

lemma with_voter_mem: "\<lparr>rv_ID = i, rv_Address = addr, rv_Suffrage = Voter\<rparr> \<in> set (with_voter i addr cs)"
  by (auto simp: with_voter_def Let_def)

lemma AddVoter_members:
  assumes laws: "raft_laws rl servers" and ok: "members_ok (servers (rt_raft s))"
    and add: "AddVoter rl ctxErr nodeID raftAddr apiEndpoint s = (r, s')"
  defines "cs \<equiv> servers (rt_raft s)" and "cs' \<equiv> servers (rt_raft s')" and "i \<equiv> TrimSpace nodeID" and "addr \<equiv> TrimSpace raftAddr"
  shows "members_ok cs'" "others i addr cs' = others i addr cs" "is_ok r \<Longrightarrow> joined i addr cs cs'"
proof -
  have goal: "members_ok cs' \<and> others i addr cs' = others i addr cs \<and> (is_ok r \<longrightarrow> joined i addr cs cs')"
  proof (cases "s' = s \<and> \<not> is_ok r")
    case True
    then show ?thesis using ok by (simp add: cs_def cs'_def)
  next
    case False
    then obtain c0 where g: "rl_GetConfiguration rl (rt_raft s) = Inr c0" and lead: "i \<noteq> ''''" "addr \<noteq> ''''" "rl_IsLeader rl (rt_raft s)"
      using add by (auto simp: AddVoter_def Let_def i_def addr_def is_ok_iff split: if_splits sum.splits)
    have c0: "c0 = cs" using laws g unfolding raft_laws_def cs_def by blast
    obtain q w1 where d: "drop_stale rl i addr cs (rt_raft s) = (q, w1)" by fastforce
    have dist: "distinct (map rv_ID cs)" using ok by (simp add: members_ok_def cs_def)
    from drop_stale_members [OF laws d ok _ dist]
    have m: "members_ok (servers w1)" "others i addr (servers w1) = others i addr cs"
      "q = Inr True \<Longrightarrow> \<lparr>rv_ID = i, rv_Address = addr, rv_Suffrage = Voter\<rparr> \<in> set (servers w1)"
      by (auto simp: cs_def)
    note add' = add [unfolded AddVoter_def Let_def, folded i_def addr_def]
    consider (err) "\<not> is_ok r" "rt_raft s' = w1" | (old) "q = Inr True" "rt_raft s' = w1"
      | (new) "q = Inr False" "\<exists>x. rl_AddVoter rl i addr w1 = (x, rt_raft s') \<and> (is_ok r \<longrightarrow> is_ok x)"
      using add' lead g d by (auto simp: c0 is_ok_iff split: sum.splits bool.splits prod.splits)
    then show ?thesis
    proof cases
      case err
      then show ?thesis using m by (simp add: cs'_def)
    next
      case old
      then show ?thesis using m joined_iff [of "servers w1" i addr cs] by (simp add: cs'_def)
    next
      case new
      then obtain x where x: "rl_AddVoter rl i addr w1 = (x, rt_raft s')" "is_ok r \<longrightarrow> is_ok x" by blast
      then have "cs' = with_voter i addr (servers w1) \<and> members_ok cs' \<or> \<not> is_ok x \<and> cs' = servers w1"
        using laws unfolding raft_laws_def cs'_def by blast
      then show ?thesis
        using m(1,2) x(2) others_with_voter [of i addr "servers w1"] with_voter_mem [of i addr "servers w1"] joined_iff [of cs' i addr cs] by auto
    qed
  qed
  then show "members_ok cs'" "others i addr cs' = others i addr cs" "is_ok r \<Longrightarrow> joined i addr cs cs'" by blast+
qed

lemma AddVoter_endpoint:
  assumes "AddVoter rl ctxErr nodeID raftAddr apiEndpoint s = (Inr (), s')"
  shows "rt_apiPeerEndpoints s' = SetAPIPeerEndpoint (TrimSpace nodeID) (TrimSpace apiEndpoint) (rt_apiPeerEndpoints s)" "TrimSpace nodeID \<noteq> ''''"
  using assms by (auto simp: AddVoter_def Let_def split: if_splits sum.splits prod.splits bool.splits option.splits)

text \<open>The endpoint refuses without effect whoever does not know the secret, and every request while the node is not the leader.\<close>

lemma join_refused:
  assumes "raft_join_handler rl secret ctxErr method authorization body s = (rep, s')"
    and "method \<noteq> ''POST'' \<or> TrimSpace (TrimPrefix authorization ''Bearer'') \<noteq> secret \<or> \<not> rl_IsLeader rl (rt_raft s)"
  shows "s' = s" "fst rep \<noteq> 200"
  using assms by (auto simp: raft_join_handler_def Let_def split: if_splits)

lemma join_members:
  assumes laws: "raft_laws rl servers" and ok: "members_ok (servers (rt_raft s))"
    and h: "raft_join_handler rl secret ctxErr method authorization (Inr req) s = (rep, s')"
  defines "cs \<equiv> servers (rt_raft s)" and "cs' \<equiv> servers (rt_raft s')" and "i \<equiv> TrimSpace (jq_NodeID req)" and "addr \<equiv> TrimSpace (jq_RaftAddr req)"
  shows "members_ok cs'" "others i addr cs' = others i addr cs"
    "fst rep = 200 \<Longrightarrow> joined i addr cs cs' \<and> TrimSpace (TrimPrefix authorization ''Bearer'') = secret \<and>
       rt_apiPeerEndpoints s' = SetAPIPeerEndpoint i (TrimSpace (jq_APIEndpoint req)) (rt_apiPeerEndpoints s)"
proof -
  have "members_ok cs' \<and> others i addr cs' = others i addr cs \<and> (fst rep = 200 \<longrightarrow> joined i addr cs cs' \<and>
      TrimSpace (TrimPrefix authorization ''Bearer'') = secret \<and>
      rt_apiPeerEndpoints s' = SetAPIPeerEndpoint i (TrimSpace (jq_APIEndpoint req)) (rt_apiPeerEndpoints s))"
  proof (cases "method \<noteq> ''POST'' \<or> TrimSpace (TrimPrefix authorization ''Bearer'') \<noteq> secret \<or> \<not> rl_IsLeader rl (rt_raft s)")
    case True
    then show ?thesis using join_refused [OF h True] ok by (simp add: cs_def cs'_def)
  next
    case False
    obtain r s1 where a: "AddVoter rl ctxErr (jq_NodeID req) (jq_RaftAddr req) (jq_APIEndpoint req) s = (r, s1)" by fastforce
    have s1: "s' = s1" "fst rep = 200 \<Longrightarrow> r = Inr ()"
      using h False a by (auto simp: raft_join_handler_def Let_def split: sum.splits if_splits)
    note m = AddVoter_members [OF laws ok a, folded i_def addr_def cs_def]
    show ?thesis
      using m s1 False AddVoter_endpoint(1) [of rl ctxErr "jq_NodeID req" "jq_RaftAddr req" "jq_APIEndpoint req" s s1] a
      by (auto simp: cs'_def i_def is_ok_iff)
  qed
  then show "members_ok cs'" "others i addr cs' = others i addr cs"
    "fst rep = 200 \<Longrightarrow> joined i addr cs cs' \<and> TrimSpace (TrimPrefix authorization ''Bearer'') = secret \<and>
       rt_apiPeerEndpoints s' = SetAPIPeerEndpoint i (TrimSpace (jq_APIEndpoint req)) (rt_apiPeerEndpoints s)"
    by blast+
qed

text \<open>A client whose requests to one URL reach the leader, where each is one call of the handler; the reply may get lost.\<close>

definition reaches_join ::
  "(string \<Rightarrow> string \<Rightarrow> JoinRequest \<Rightarrow> 'w raft_Store \<Rightarrow> (int \<times> (string + JoinResponse)) result \<times> 'w raft_Store) \<Rightarrow> string \<Rightarrow>
   'w raft_lib \<Rightarrow> string \<Rightarrow> goerr option \<Rightarrow> bool" where
  "reaches_join client url rl secret ctxErr \<longleftrightarrow>
     (\<forall>authorization req s res s'. client url authorization req s = (res, s') \<longrightarrow>
        (\<exists>st out. raft_join_handler rl secret ctxErr ''POST'' authorization (Inr req) s = ((st, out), s') \<and>
           (case res of Inl _ \<Rightarrow> True | Inr (st', out') \<Rightarrow> st' = st \<and> (\<forall>x. out' = Inr x \<longrightarrow> out = Some x))))"

text \<open>
  C19: (functional) \<^verbatim>\<open>callfs cluster join\<close>, with its flags completed from the configuration, makes the node a voting member: if the
  command succeeds against a leader, the members of the cluster are exactly those that have neither the node's identifier nor its
  address, and the node as a voter at that address, and the leader knows its API endpoint. If it fails, at whatever point (also when
  the reply is lost or the library gives up half-way), all members with another identifier and address are still there, and no
  two members share an identifier or an address. Without the leader's secret nothing changes.
\<close>

theorem cluster_join_adds_one_voter:
  assumes "raft_laws rl servers" "members_ok (servers (rt_raft s))"
    and "reaches_join client (TrimRight (jf_LeaderURL f) slash @ ''/v1/internal/raft/join'') rl secret ctxErr"
    and "runClusterJoin cfg client f s = (r, s')"
    and "i = flag_or (jf_NodeID f) cfg (rc_NodeID \<circ> ap_Raft)" "addr = flag_or (jf_RaftAddr f) cfg (rc_BindAddr \<circ> ap_Raft)"
  shows "members_ok (servers (rt_raft s')) \<and> others i addr (servers (rt_raft s')) = others i addr (servers (rt_raft s)) \<and>
    (r = Inr () \<longrightarrow> joined i addr (servers (rt_raft s)) (servers (rt_raft s')) \<and>
       APIPeerEndpoint i (rt_apiPeerEndpoints s') = Some (flag_or (jf_APIEndpoint f) cfg (sc_ExternalURL \<circ> ap_Server))) \<and>
    (flag_or (jf_InternalSecret f) cfg (ac_InternalProxySecret \<circ> ap_Auth) \<noteq> secret \<longrightarrow> s' = s \<and> r \<noteq> Inr ())"
proof (cases "s' = s \<and> r \<noteq> Inr ()")
  case True
  then show ?thesis using assms(2) by simp
next
  case False
  let ?sec = "flag_or (jf_InternalSecret f) cfg (ac_InternalProxySecret \<circ> ap_Auth)"
  let ?ep = "flag_or (jf_APIEndpoint f) cfg (sc_ExternalURL \<circ> ap_Server)"
  let ?req = "\<lparr>jq_NodeID = i, jq_RaftAddr = addr, jq_APIEndpoint = ?ep\<rparr>"
  note run = assms(4) [unfolded runClusterJoin_def Let_def, folded assms(5,6)]
  obtain res s1 where c: "client (TrimRight (jf_LeaderURL f) slash @ ''/v1/internal/raft/join'') (''Bearer '' @ ?sec) ?req s = (res, s1)" by fastforce
  have ne: "i \<noteq> ''''" "addr \<noteq> ''''" "?ep \<noteq> ''''" and r: "s' = s1" "r = Inr () \<Longrightarrow> \<exists>out. res = Inr (200, Inr out)"
    using run False c by (auto split: if_splits sum.splits)
  obtain st out where h: "raft_join_handler rl secret ctxErr ''POST'' (''Bearer '' @ ?sec) (Inr ?req) s = ((st, out), s')"
    "r = Inr () \<Longrightarrow> st = 200"
    using assms(3) c r unfolding reaches_join_def by fastforce
  have t: "TrimSpace i = i" "TrimSpace addr = addr" "TrimSpace ?ep = ?ep" "TrimSpace ?sec = ?sec"
    unfolding assms(5,6) by (simp_all add: flag_or_def split: sum.split)
  note m = join_members [OF assms(1,2) h(1), simplified t bearer_token JoinRequest.simps fst_conv]
  have k: "APIPeerEndpoint i (SetAPIPeerEndpoint i ?ep p) = Some ?ep" for p using ne t by (simp add: SetAPIPeerEndpoint_def APIPeerEndpoint_def)
  have "?sec = secret"
  proof (rule ccontr)
    assume "?sec \<noteq> secret"
    then have "s' = s" "st \<noteq> 200" using join_refused [OF h(1)] by (simp_all add: bearer_token t(4) del: append.simps)
    then show False using False h(2) by blast
  qed
  then show ?thesis using m(1,2) m(3) [OF h(2)] k by metis
qed

text \<open>A cluster of three whose second node comes back at the address that the third had.\<close>

definition mem_raft :: "raft_server list raft_lib" where
  "mem_raft = \<lparr>rl_IsLeader = (\<lambda>_. True), rl_LeaderID = (\<lambda>_. ''n1''), rl_GetConfiguration = Inr,
     rl_RemoveServer = (\<lambda>i w. (Inr (), without i w)),
     rl_AddVoter = (\<lambda>i addr w. if members_ok (with_voter i addr w) then (Inr (), with_voter i addr w) else (Inl (Errorf ''duplicate address''), w))\<rparr>"

lemma mem_raft_laws: "raft_laws mem_raft (\<lambda>w. w)"
  by (simp add: raft_laws_def mem_raft_def)

definition three_nodes :: "raft_server list raft_Store" where
  "three_nodes = \<lparr>rt_raft = map (\<lambda>(i, a). \<lparr>rv_ID = i, rv_Address = a, rv_Suffrage = Voter\<rparr>) [(''n1'', ''h1:7000''), (''n2'', ''h2:7000''), (''n3'', ''h3:7000'')],
     rt_nodeID = ''n1'', rt_apiPeerEndpoints = [], rt_internalAuthToken = ''hush'', rt_forwardTimeout = 1, rt_applyTimeout = 1\<rparr>"

definition demo_join_client ::
  "string \<Rightarrow> string \<Rightarrow> JoinRequest \<Rightarrow> raft_server list raft_Store \<Rightarrow> (int \<times> (string + JoinResponse)) result \<times> raft_server list raft_Store" where
  "demo_join_client url authorization req s =
     (case raft_join_handler mem_raft ''hush'' None ''POST'' authorization (Inr req) s of
        ((st, None), s') \<Rightarrow> (Inr (st, Inl ''EOF''), s')
      | ((st, Some out), s') \<Rightarrow> (Inr (st, Inr out), s'))"

definition demo_flags :: join_flags where
  "demo_flags = \<lparr>jf_LeaderURL = ''http://h1:8443'', jf_NodeID = ''n2'', jf_RaftAddr = '' h3:7000'', jf_APIEndpoint = ''http://h3:8443'', jf_InternalSecret = ''hush''\<rparr>"

lemma demo_join: "fst (runClusterJoin (Inl ErrNotFound) demo_join_client demo_flags three_nodes) = Inr ()"
  by code_simp

theorem cluster_join_adds_one_voter_witness:
  "set (rt_raft (snd (runClusterJoin (Inl ErrNotFound) demo_join_client demo_flags three_nodes))) =
     {\<lparr>rv_ID = ''n1'', rv_Address = ''h1:7000'', rv_Suffrage = Voter\<rparr>, \<lparr>rv_ID = ''n2'', rv_Address = ''h3:7000'', rv_Suffrage = Voter\<rparr>}"
proof -
  obtain r s' where run: "runClusterJoin (Inl ErrNotFound) demo_join_client demo_flags three_nodes = (r, s')" by fastforce
  have r: "r = Inr ()" using demo_join run by simp
  have c: "reaches_join demo_join_client url mem_raft ''hush'' None" for url
    unfolding reaches_join_def demo_join_client_def by (auto split: prod.splits option.splits)
  have f: "''n2'' = flag_or (jf_NodeID demo_flags) (Inl ErrNotFound) (rc_NodeID \<circ> ap_Raft)"
    "''h3:7000'' = flag_or (jf_RaftAddr demo_flags) (Inl ErrNotFound) (rc_BindAddr \<circ> ap_Raft)"
    by (simp_all add: flag_or_def, code_simp+)
  have ok: "members_ok (rt_raft three_nodes)" by code_simp
  from cluster_join_adds_one_voter [OF mem_raft_laws ok c run f] r
  have "joined ''n2'' ''h3:7000'' (rt_raft three_nodes) (rt_raft s')" by blast
  moreover have "set (others ''n2'' ''h3:7000'' (rt_raft three_nodes)) = {\<lparr>rv_ID = ''n1'', rv_Address = ''h1:7000'', rv_Suffrage = Voter\<rparr>}"
    by (simp add: three_nodes_def joiner_def)
  ultimately show ?thesis by (auto simp: run joined_def)
qed

end
