(* ===== verification/Router.thy ===== *)
theory Router
  imports InternalProxy Links RateLimit Cluster
begin

section \<open>The whole server (server/router.go, server/middleware, cmd/main.go)\<close>

text \<open>
  Every endpoint of the process behind its middlewares: what \<^verbatim>\<open>NewRouter\<close> registers, and the two multiplexers that
  \<^verbatim>\<open>runServer\<close> puts in front of it for the shards of other instances and for the Raft cluster. Which registered route a request
  belongs to is decided by the router library and is the argument \<open>ax_match\<close>: the theorems hold for every way of matching, since
  they depend only on which middlewares and which handler the code attaches to a route. The multiplexer of \<^verbatim>\<open>net/http\<close> is
  written out. JSON decoders and the Prometheus page are arguments.
\<close>

subsection \<open>Requests, answers and the state\<close>

record http_in =
  hi_Method :: string
  hi_Path :: string
  hi_RawPath :: string
  hi_Header :: "string \<Rightarrow> string"
  hi_Query :: "string \<Rightarrow> string"
  hi_ContentLength :: int
  hi_Body :: reader
  hi_RemoteAddr :: string
  hi_Host :: string
  hi_TLS :: bool
  hi_ws :: ws_conn

datatype answer =
    FileAnswer body
  | SessionAnswer "ws_frame list"
  | NotUpgraded
  | ShardAnswer bytes
  | LinkAnswer GenerateLinkResponse
  | DownloadAnswer reader
  | RaftAnswer "string + ForwardApplyResponse"
  | JoinAnswer "JoinResponse option"
  | TextAnswer bytes

text \<open>The routes of \<^verbatim>\<open>NewRouter\<close>, with what a pattern's wildcard matched; \<open>No\<close> is the reply for what matches none.\<close>

datatype files_route = FilesWs string | FilesOf route string

datatype v1_route_match = ToFiles files_route | ToShards string | ToDirectories string | ToGenerate | NoV1 int

datatype route_match = ToHealth | ToMetrics | ToV1 v1_route_match | ToDownload string | No int

record ('w, 'l) app =
  ax_server :: "'w server"
  ax_links :: "'w LinkManager"
  ax_apiHost :: string
  ax_secret :: string
  ax_shardBackend :: "'w storage_ops option"
  ax_raft :: "('w raft_env \<times> 'w raft_lib) option"
  ax_rate :: "'l rate_lib"
  ax_visit :: "(string, 'l limiterEntry) gomap \<Rightarrow> (string, 'l limiterEntry) gomap"
  ax_match :: "bool \<Rightarrow> string \<Rightarrow> string \<Rightarrow> route_match"
  ax_metrics :: bytes
  ax_decodeLink :: "reader \<Rightarrow> string + GenerateLinkRequest"
  ax_decodeCommand :: "reader \<Rightarrow> string + Command"
  ax_decodeJoin :: "reader \<Rightarrow> string + JoinRequest"
  ax_PathEscape :: "string \<Rightarrow> string"
  ax_SplitHostPort :: "string \<Rightarrow> string option"

record ('w, 'l) app_state =
  as_engine :: "'w estate"
  as_peers :: "(string, string) gomap"
  as_linkLimiter :: "'l perIPRateLimiter"
  as_downloadLimiter :: "'l perIPRateLimiter"

text \<open>What one request draws: the clock, random bytes for the request identifier and for a token, and how its context ends.\<close>

record draw =
  dr_now :: gotime
  dr_requestID :: "bytes result"
  dr_token :: "string result"
  dr_ctxErr :: "goerr option"

definition routed :: "http_in \<Rightarrow> string \<Rightarrow> request" where
  "routed h path = \<lparr>rq_Path = path, rq_UserID = None, rq_ContentLength = hi_ContentLength h, rq_Header = hi_Header h,
     rq_Query = hi_Query h, rq_Body = hi_Body h\<rparr>"

subsection \<open>Middlewares\<close>

definition hex_nibble :: "nat \<Rightarrow> char" where
  "hex_nibble d = ''0123456789abcdef'' ! d"

definition hex_EncodeToString :: "bytes \<Rightarrow> string" where
  "hex_EncodeToString b = concat (map (\<lambda>c. [hex_nibble (of_char c div 16), hex_nibble (of_char c mod 16)]) b)"

definition generateRequestID :: "bytes result \<Rightarrow> string" where
  "generateRequestID rand = (case rand of Inl _ \<Rightarrow> ''0000000000000000'' | Inr b \<Rightarrow> hex_EncodeToString b)"

definition V1RequestIDMiddleware ::
  "bytes result \<Rightarrow> ('s \<Rightarrow> ((string \<times> string) list \<times> 'b reply) \<times> 's) \<Rightarrow> 's \<Rightarrow> ((string \<times> string) list \<times> 'b reply) \<times> 's" where
  "V1RequestIDMiddleware rand nxt s = apfst (apfst (Cons (''X-Request-ID'', generateRequestID rand))) (nxt s)"

definition quoted :: "string \<Rightarrow> string" where
  "quoted x = [CHR 39] @ x @ [CHR 39]"

definition security_headers :: "bool \<Rightarrow> (string \<times> string) list" where
  "security_headers tls =
     [(''Content-Security-Policy'', concat [''default-src '', quoted ''self'', ''; script-src '', quoted ''self'', ''; style-src '', quoted ''self'',
        ''; img-src '', quoted ''self'', '' data:; object-src '', quoted ''none'', ''; base-uri '', quoted ''self'', ''; form-action '', quoted ''self''])] @
     (if tls then [(''Strict-Transport-Security'', ''max-age=31536000; includeSubDomains; preload'')] else []) @
     [(''X-Content-Type-Options'', ''nosniff''), (''X-Frame-Options'', ''DENY''), (''Referrer-Policy'', ''strict-origin-when-cross-origin''),
      (''Permissions-Policy'', ''geolocation=(), microphone=(), camera=(), payment=(), usb=(), magnetometer=(), gyroscope=(), accelerometer=()''),
      (''Cross-Origin-Opener-Policy'', ''same-origin''), (''Cross-Origin-Embedder-Policy'', ''require-corp'')]"

definition V1SecurityHeaders :: "bool \<Rightarrow> ('s \<Rightarrow> ((string \<times> string) list \<times> 'b reply) \<times> 's) \<Rightarrow> 's \<Rightarrow> ((string \<times> string) list \<times> 'b reply) \<times> 's" where
  "V1SecurityHeaders tls nxt s = apfst (apfst (append (security_headers tls))) (nxt s)"

subsection \<open>NewRouter\<close>

definition on_engine :: "('w estate \<Rightarrow> 'b reply \<times> 'w estate) \<Rightarrow> ('w, 'l) app_state \<Rightarrow> 'b reply \<times> ('w, 'l) app_state" where
  "on_engine f s = (case f (as_engine s) of (rep, e) \<Rightarrow> (rep, s\<lparr>as_engine := e\<rparr>))"

definition on_world :: "('w \<Rightarrow> 'b reply \<times> 'w) \<Rightarrow> ('w, 'l) app_state \<Rightarrow> 'b reply \<times> ('w, 'l) app_state" where
  "on_world f s = on_engine (\<lambda>e. case f (es_world e) of (rep, w) \<Rightarrow> (rep, e\<lparr>es_world := w\<rparr>)) s"

definition ws_answer :: "ws_result \<Rightarrow> answer reply" where
  "ws_answer res =
     (case res of
        WsReply rep \<Rightarrow> map_reply (\<lambda>_. FileAnswer NoBody) rep
      | WsNotUpgraded \<Rightarrow> Reply 400 [] NotUpgraded
      | WsSession frames \<Rightarrow> Reply 101 [] (SessionAnswer frames))"

definition v1_endpoint ::
  "('w, 'l) app \<Rightarrow> draw \<Rightarrow> http_in \<Rightarrow> v1_route_match \<Rightarrow> request \<Rightarrow> ('w, 'l) app_state \<Rightarrow> answer reply \<times> ('w, 'l) app_state" where
  "v1_endpoint a d h m r s =
     (let sv = ax_server a; now = dr_now d in
      case m of
        ToFiles (FilesWs p) \<Rightarrow>
          on_engine (\<lambda>e. apfst ws_answer (V1WebSocketTransfer (sv_engine sv) (sv_defaultBackend sv) (sv_ctx sv) now (hi_Host h) (r\<lparr>rq_Path := p\<rparr>) (hi_ws h) e)) s
      | ToFiles (FilesOf rt p) \<Rightarrow> on_engine (\<lambda>e. apfst (map_reply FileAnswer) (handler sv now rt (r\<lparr>rq_Path := p\<rparr>) e)) s
      | ToShards p \<Rightarrow>
          (case sv_erasure sv of
             None \<Rightarrow> (Reply 404 [] (TextAnswer ''404 page not found''), s)
           | Some em \<Rightarrow>
               (map_reply ShardAnswer (V1GetShard em (metadataStore (sv_engine sv)) (sv_ctx sv) p (rq_UserID r) (es_world (as_engine s))), s))
      | ToDirectories p \<Rightarrow> on_engine (\<lambda>e. apfst (map_reply FileAnswer) (handler sv now GetDirectories (r\<lparr>rq_Path := p\<rparr>) e)) s
      | ToGenerate \<Rightarrow>
          (case V1RateLimitMiddleware (ax_rate a) (ax_visit a) now (hi_RemoteAddr h) TextAnswer
             (on_world (\<lambda>w. apfst (map_reply LinkAnswer)
                (V1GenerateLinkHandler (ax_links a) (dr_token d) (ax_apiHost a) now (rq_UserID r) (ax_decodeLink a (hi_Body h)) w)))
             (as_linkLimiter s, s) of
             (rep, l, s') \<Rightarrow> (rep, s'\<lparr>as_linkLimiter := l\<rparr>))
      | NoV1 st \<Rightarrow> (Reply st [] (TextAnswer []), s))"

definition router_endpoint ::
  "('w, 'l) app \<Rightarrow> draw \<Rightarrow> http_in \<Rightarrow> ('w, 'l) app_state \<Rightarrow> answer reply \<times> ('w, 'l) app_state" where
  "router_endpoint a d h s =
     (let sv = ax_server a; keys = sv_authenticator sv in
      case ax_match a (sv_erasure sv \<noteq> None) (hi_Method h) (if hi_RawPath h \<noteq> '''' then hi_RawPath h else hi_Path h) of
        ToHealth \<Rightarrow> (Reply 200 [(''Content-Type'', ''application/json'')] (TextAnswer ''{\"status\":\"ok\"}''), s)
      | ToMetrics \<Rightarrow> V1AuthMiddleware keys (\<lambda>r s. (Reply 200 [] (TextAnswer (ax_metrics a)), s)) (routed h '''') s
      | ToV1 m \<Rightarrow> V1AuthMiddleware keys (v1_endpoint a d h m) (routed h '''') s
      | ToDownload token \<Rightarrow>
          (case V1RateLimitMiddleware (ax_rate a) (ax_visit a) (dr_now d) (hi_RemoteAddr h) TextAnswer
             (on_engine (\<lambda>e. apfst (map_reply DownloadAnswer)
                (V1DownloadLinkHandler (sv_engine sv) (ax_links a) (ax_PathEscape a) (ax_SplitHostPort a) (sv_ctx sv) (dr_now d) token (hi_RemoteAddr h) e)))
             (as_downloadLimiter s, s) of
             (rep, l, s') \<Rightarrow> (rep, s'\<lparr>as_downloadLimiter := l\<rparr>))
      | No st \<Rightarrow> (Reply st [] (TextAnswer []), s))"

definition NewRouter ::
  "('w, 'l) app \<Rightarrow> draw \<Rightarrow> http_in \<Rightarrow> ('w, 'l) app_state \<Rightarrow> ((string \<times> string) list \<times> answer reply) \<times> ('w, 'l) app_state" where
  "NewRouter a d h =
     V1RequestIDMiddleware (dr_requestID d) (V1SecurityHeaders (hi_TLS h) (\<lambda>s. apfst (Pair []) (router_endpoint a d h s)))"

subsection \<open>The multiplexers of runServer\<close>

text \<open>\<^verbatim>\<open>ServeMux\<close> redirects a path that is not clean; the pattern \<^verbatim>\<open>/v1/internal/shards/\<close> takes the path without its slash, too.\<close>

definition mux_cleanPath :: "string \<Rightarrow> string" where
  "mux_cleanPath p0 =
     (if p0 = '''' then ''/''
      else let p = (if HasPrefix p0 ''/'' then p0 else ''/'' @ p0);
               np = filepath_Clean p
           in if HasSuffix p ''/'' \<and> np \<noteq> ''/'' then np @ ''/'' else np)"

definition redirected :: "http_in \<Rightarrow> bool" where
  "redirected h \<longleftrightarrow> hi_Method h \<noteq> ''CONNECT'' \<and> mux_cleanPath (hi_Path h) \<noteq> hi_Path h"

definition moved :: "(string \<times> string) list \<times> answer reply" where
  "moved = ([], Reply 301 [] (TextAnswer []))"

text \<open>\<^verbatim>\<open>recoverMiddleware\<close> passes on what the handler does: the handlers modelled here do not panic.\<close>

definition shard_endpoint ::
  "('w, 'l) app \<Rightarrow> 'w storage_ops \<Rightarrow> http_in \<Rightarrow> ('w, 'l) app_state \<Rightarrow> answer reply \<times> ('w, 'l) app_state" where
  "shard_endpoint a b h s =
     (let ctx = sv_ctx (ax_server a); authorization = hi_Header h ''Authorization'' in
      if hi_Method h = ''PUT'' then
        on_world (\<lambda>w. apfst (map_reply ShardAnswer) (InternalStoreShardHandler b (ax_secret a) ctx (hi_Path h) authorization (hi_Body h) w)) s
      else if hi_Method h = ''GET'' then
        (map_reply ShardAnswer (InternalGetShardHandler b (ax_secret a) ctx (hi_Path h) authorization (es_world (as_engine s))), s)
      else if hi_Method h = ''DELETE'' then
        on_world (\<lambda>w. apfst (map_reply ShardAnswer) (InternalDeleteShardHandler b (ax_secret a) ctx (hi_Path h) authorization w)) s
      else (Reply 405 [] (TextAnswer []), s))"

definition shard_mux ::
  "('w, 'l) app \<Rightarrow> draw \<Rightarrow> http_in \<Rightarrow> ('w, 'l) app_state \<Rightarrow> ((string \<times> string) list \<times> answer reply) \<times> ('w, 'l) app_state" where
  "shard_mux a d h s =
     (case ax_shardBackend a of
        None \<Rightarrow> NewRouter a d h s
      | Some b \<Rightarrow>
          if redirected h \<or> hi_Path h = ''/v1/internal/shards'' then (moved, s)
          else if HasPrefix (hi_Path h) ''/v1/internal/shards/'' then apfst (Pair []) (shard_endpoint a b h s)
          else NewRouter a d h s)"

definition join_endpoint ::
  "('w, 'l) app \<Rightarrow> 'w raft_lib \<Rightarrow> draw \<Rightarrow> http_in \<Rightarrow> ('w, 'l) app_state \<Rightarrow> answer reply \<times> ('w, 'l) app_state" where
  "join_endpoint a rl d h s =
     (case raft_join_handler rl (ax_secret a) (dr_ctxErr d) (hi_Method h) (hi_Header h ''Authorization'') (ax_decodeJoin a (hi_Body h))
        \<lparr>rt_raft = es_world (as_engine s), rt_nodeID = '''', rt_apiPeerEndpoints = as_peers s, rt_internalAuthToken = ax_secret a,
         rt_forwardTimeout = 0, rt_applyTimeout = 0\<rparr> of
        ((st, out), rs) \<Rightarrow>
          (Reply st [] (JoinAnswer out), s\<lparr>as_engine := as_engine s\<lparr>es_world := rt_raft rs\<rparr>, as_peers := rt_apiPeerEndpoints rs\<rparr>))"

definition apply_endpoint ::
  "('w, 'l) app \<Rightarrow> 'w raft_env \<Rightarrow> http_in \<Rightarrow> ('w, 'l) app_state \<Rightarrow> answer reply \<times> ('w, 'l) app_state" where
  "apply_endpoint a env h s =
     on_world (\<lambda>w. case raft_apply_handler env (ax_secret a) (hi_Method h) (hi_Header h ''Authorization'') (ax_decodeCommand a (hi_Body h)) w of
       (rep, w1) \<Rightarrow> (Reply (ar_Status rep) [] (RaftAnswer (ar_Body rep)), w1)) s"

definition rootHandler ::
  "('w, 'l) app \<Rightarrow> draw \<Rightarrow> http_in \<Rightarrow> ('w, 'l) app_state \<Rightarrow> ((string \<times> string) list \<times> answer reply) \<times> ('w, 'l) app_state" where
  "rootHandler a d h s =
     (case ax_raft a of
        None \<Rightarrow> shard_mux a d h s
      | Some (env, rl) \<Rightarrow>
          if redirected h then (moved, s)
          else if hi_Path h = ''/v1/internal/raft/join'' then apfst (Pair []) (join_endpoint a rl d h s)
          else if hi_Path h = ''/v1/internal/raft/metadata/apply'' then apfst (Pair []) (apply_endpoint a env h s)
          else shard_mux a d h s)"

subsection \<open>Requests without credentials\<close>

text \<open>The header carries neither an API key nor the internal secret, in any of the forms in which the endpoints read it.\<close>

definition anonymous :: "('w, 'l) app \<Rightarrow> http_in \<Rightarrow> bool" where
  "anonymous a h \<longleftrightarrow>
     (let authorization = hi_Header h ''Authorization'' in
      \<not> is_ok (Authenticate (sv_authenticator (ax_server a)) authorization) \<and>
      TrimSpace (TrimPrefix authorization ''Bearer'') \<noteq> ax_secret a \<and> TrimSpace (TrimPrefix authorization ''Bearer '') \<noteq> ax_secret a)"

definition redeems_link :: "('w, 'l) app \<Rightarrow> http_in \<Rightarrow> bool" where
  "redeems_link a h \<longleftrightarrow>
     (\<exists>token. ax_match a (sv_erasure (ax_server a) \<noteq> None) (hi_Method h) (if hi_RawPath h \<noteq> '''' then hi_RawPath h else hi_Path h) = ToDownload token)"

text \<open>What anyone may see: the health page, redirections, that a route or a method is unknown, and refusals.\<close>

definition public_reply :: "answer reply \<Rightarrow> bool" where
  "public_reply rep \<longleftrightarrow>
     (case rep of
        ErrorReply st er \<Rightarrow> st = 401 \<and> er = \<lparr>er_Code = ''AUTHENTICATION_FAILED'', er_Message = Error ErrAuthenticationFailed\<rparr>
      | Reply st hs b \<Rightarrow>
          b = TextAnswer [] \<or> st = 200 \<and> b = TextAnswer ''{\"status\":\"ok\"}'' \<or>
          st = 401 \<and> b \<in> {ShardAnswer (''unauthorized'' @ [CHR 10]), JoinAnswer (Some (join_error '''' ''unauthorized'')),
            RaftAnswer (Inr \<lparr>fr_CleanupCount = 0, fr_Error = ''unauthorized''\<rparr>)} \<or>
          st = 405 \<and> b \<in> {JoinAnswer None, RaftAnswer (Inl ''EOF'')})"

lemma auth_refuses:
  assumes "\<not> is_ok (Authenticate keys (rq_Header r ''Authorization''))"
  shows "V1AuthMiddleware keys nxt r s = (sendErrorResponse ErrAuthenticationFailed 401, s)"
  using assms by (auto simp: V1AuthMiddleware_def Let_def is_ok_iff split: sum.splits)

lemma router_anonymous:
  assumes "anonymous a h" "\<not> redeems_link a h"
  shows "\<exists>rep. router_endpoint a d h s = (rep, s) \<and> public_reply rep"
proof -
  have k: "\<not> is_ok (Authenticate (sv_authenticator (ax_server a)) (rq_Header (routed h '''') ''Authorization''))"
    using assms(1) by (simp add: anonymous_def routed_def Let_def)
  show ?thesis
    using assms(2) by (auto simp: router_endpoint_def Let_def redeems_link_def auth_refuses [OF k] sendErrorResponse_def public_reply_def
        split: route_match.splits)
qed

lemma shard_anonymous:
  assumes "anonymous a h"
  shows "\<exists>rep. shard_endpoint a b h s = (rep, s) \<and> public_reply rep"
proof -
  have "\<not> authorizeInternal (hi_Header h ''Authorization'') (ax_secret a)"
    using assms by (simp add: anonymous_def authorizeInternal_def Let_def)
  then show ?thesis
    by (simp add: shard_endpoint_def Let_def on_world_def on_engine_def InternalStoreShardHandler_def InternalGetShardHandler_def
        InternalDeleteShardHandler_def http_Error_def public_reply_def)
qed

lemma raft_anonymous:
  assumes "anonymous a h"
  shows "\<exists>rep. join_endpoint a rl d h s = (rep, s) \<and> public_reply rep" "\<exists>rep. apply_endpoint a env h s = (rep, s) \<and> public_reply rep"
proof -
  have t: "TrimSpace (TrimPrefix (hi_Header h ''Authorization'') ''Bearer'') \<noteq> ax_secret a" using assms by (simp add: anonymous_def Let_def)
  then show "\<exists>rep. join_endpoint a rl d h s = (rep, s) \<and> public_reply rep" "\<exists>rep. apply_endpoint a env h s = (rep, s) \<and> public_reply rep"
    by (simp_all add: join_endpoint_def raft_join_handler_def apply_endpoint_def raft_apply_handler_def Let_def on_world_def on_engine_def public_reply_def)
qed


text \<open>A node that also serves shards, with a request that tries to overwrite one.\<close>

definition demo_app :: "(world, bool) app" where
  "demo_app = \<lparr>ax_server = demo_server, ax_links = \<lparr>lm_metadataStore = raft_ops leader_env, lm_mac = (\<lambda>x. x)\<rparr>, ax_apiHost = ''h'', ax_secret = ''hush'',
     ax_shardBackend = Some (node_backend demo_node), ax_raft = None, ax_rate = one_shot, ax_visit = (\<lambda>m. m),
     ax_match = (\<lambda>_ m p. if HasPrefix p ''/download/'' then ToDownload (drop 10 p) else ToV1 (ToFiles (FilesOf PutFiles p))), ax_metrics = [],
     ax_decodeLink = (\<lambda>_. Inl ''EOF''), ax_decodeCommand = (\<lambda>_. Inl ''EOF''), ax_decodeJoin = (\<lambda>_. Inl ''EOF''), ax_PathEscape = (\<lambda>x. x),
     ax_SplitHostPort = (\<lambda>_. None)\<rparr>"

definition demo_state :: "(world, bool) app_state" where
  "demo_state = \<lparr>as_engine = NewEngine_state demo_world, as_peers = [], as_linkLimiter = newPerIPRateLimiter 100 1,
     as_downloadLimiter = newPerIPRateLimiter 10 5\<rparr>"

definition demo_put :: "string \<Rightarrow> http_in" where
  "demo_put auth = \<lparr>hi_Method = ''PUT'', hi_Path = ''/v1/internal/shards/f/0'', hi_RawPath = '''', hi_Header = (\<lambda>_. auth), hi_Query = (\<lambda>_. ''''),
     hi_ContentLength = 1, hi_Body = NewReader ''x'', hi_RemoteAddr = ''10.0.0.1:99'', hi_Host = ''h'', hi_TLS = True, hi_ws = no_upgrade\<rparr>"

definition demo_draw :: draw where
  "demo_draw = \<lparr>dr_now = 1, dr_requestID = Inr [], dr_token = Inl ErrNotFound, dr_ctxErr = None\<rparr>"


text \<open>Every reply of the router carries the security headers and the request identifier; those of the internal endpoints do not.\<close>

lemma router_headers:
  assumes "NewRouter a d h s = ((hs, rep), s')"
  shows "map_of hs ''X-Request-ID'' = Some (generateRequestID (dr_requestID d))" "map_of hs ''X-Content-Type-Options'' = Some ''nosniff''"
    "map_of hs ''X-Frame-Options'' = Some ''DENY''" "hi_TLS h \<longleftrightarrow> map_of hs ''Strict-Transport-Security'' \<noteq> None"
proof -
  have "hs = (''X-Request-ID'', generateRequestID (dr_requestID d)) # security_headers (hi_TLS h)"
    using assms by (cases "router_endpoint a d h s") (auto simp: NewRouter_def V1RequestIDMiddleware_def V1SecurityHeaders_def)
  then show "map_of hs ''X-Request-ID'' = Some (generateRequestID (dr_requestID d))" "map_of hs ''X-Content-Type-Options'' = Some ''nosniff''"
    "map_of hs ''X-Frame-Options'' = Some ''DENY''" "hi_TLS h \<longleftrightarrow> map_of hs ''Strict-Transport-Security'' \<noteq> None"
    by (simp_all add: security_headers_def)
qed

lemma generateRequestID_length: "length b = 8 \<Longrightarrow> length (generateRequestID (Inr b)) = 16"
  by (simp add: generateRequestID_def hex_EncodeToString_def length_concat comp_def sum_list_triv)

end
