(* ===== verification/ErasureNode.thy ===== *)
theory ErasureNode
  imports Erasure Node
begin

section \<open>Erasure coding on a node\<close>

text \<open>
  The erasure manager as \<^verbatim>\<open>cmd/main.go\<close> wires it: shards in the local backend, the erasure records in
  the Raft store; and a peer reached over HTTP, whose requests run the peer's shard handlers.
\<close>

subsection \<open>Shards in a file backend\<close>

context file_backend
begin

text \<open>Without peers every shard of a successful run is in the local backend, whatever was there before.\<close>

lemma store_shards_local:
  assumes "mg_localBackend m = ops" "mg_peerEndpoints m = []"
    and "store_shards m ctx hp as shards sched infos e w = (infos', None, w')"
    and "binv w" "distinct sched" "\<forall>i \<in> set sched. loc (shard_path hp (int i)) = Some (l i)" "inj_on l (set sched)"
  shows "binv w' \<and> (\<forall>i \<in> set sched. as ! i = mg_instanceID m \<and> store w' (l i) = Some (shards ! i)) \<and>
    (\<forall>x. x \<notin> l ` set sched \<longrightarrow> store w' x = store w x)"
  using assms(3-)
proof (induction sched arbitrary: infos e w)
  case (Cons idx sched)
  obtain r w1 where wr: "write_shard m ctx hp as shards idx w = (r, w1)" by fastforce
  obtain u where r: "r = Inr u"
    using store_shards_ok [OF Cons.prems(1)] Cons.prems(1) wr store_shards_ok
    by (cases r) (fastforce split: if_splits)+
  have here: "as ! idx = mg_instanceID m"
    using wr r assms(2) by (auto simp: write_shard_def storeRemoteShard_def Let_def split: if_splits)
  have w1: "binv w1" "store w1 = (store w)(l idx \<mapsto> shards ! idx)"
    using create_law [of w "shard_path hp (int idx)" "l idx" ctx "NewReader (shards ! idx)" "int (length (shards ! idx))" u w1]
      wr r here Cons.prems assms(1) by (auto simp: write_shard_def Let_def NewReader_def)
  have "store_shards m ctx hp as shards sched (infos[idx := Some (new_ShardInfo m hp as shards idx)]) e w1 = (infos', None, w')"
    using Cons.prems(1) wr r by simp
  from Cons.IH [OF this w1(1)] Cons.prems(3-5)
  have rest: "binv w'" "\<forall>i \<in> set sched. as ! i = mg_instanceID m \<and> store w' (l i) = Some (shards ! i)"
    "\<forall>x. x \<notin> l ` set sched \<longrightarrow> store w' x = store w1 x" by auto
  have "l idx \<notin> l ` set sched" using Cons.prems(3,5) by (auto dest: inj_onD)
  then show ?case using rest here w1(2) by auto
qed simp

lemma readLocalShard_eq:
  assumes "mg_localBackend m = ops" "binv w" "loc p = Some l"
  shows "readLocalShard m ctx p w = Inr b \<longleftrightarrow> store w l = Some b"
proof (cases "store w l")
  case None
  then show ?thesis using open_absent [OF assms(2,3) None, of ctx] assms(1)
    by (auto simp: readLocalShard_def ReadAll_def split: sum.splits option.splits)
next
  case (Some b')
  then show ?thesis using open_law [OF assms(2,3) Some] assms(1) by (auto simp: readLocalShard_def ReadAll_def NewReader_def)
qed

end

subsection \<open>Where the shards of a node lie\<close>

lemma localfs_loc_plain:
  assumes "IsAbs root" "plain_comps (c # cs)" "\<not> HasPrefix c ''..''"
  obtains rs where "plain_comps rs" "filepath_Clean root = abs_path rs"
    "localfs_loc root (JoinWith slash (c # cs)) = Some (abs_path (rs @ c # cs))"
proof -
  obtain rs where rs: "filepath_Clean root = abs_path rs" "plain_comps rs"
    using assms(1) by (rule Clean_rooted_comps)
  have clean: "pathutil_Clean (JoinWith slash (c # cs)) = Inr (abs_path (c # cs))"
    using assms(2) by (intro pathutil_Clean_plain) auto
  have "abs_path (c # cs) \<noteq> ''/''" using abs_path_inj [OF assms(2), of "[]"] by simp
  then have "localfs_loc root (JoinWith slash (c # cs)) = Some (abs_path (rs @ c # cs))"
    unfolding localfs_loc_def clean using assms rs by (simp add: dotdot_head Clean_concat del: JoinWith.simps)
  then show ?thesis using that rs by blast
qed

lemma Itoa_inj: "Itoa (int i) = Itoa (int j) \<longleftrightarrow> i = j"
  by (metis Itoa_def nat_int of_nat_less_0_iff option.inject parse_nat_string)

lemma shard_locs:
  assumes "IsAbs root" "b \<noteq> []"
  obtains l where "\<And>i. localfs_loc root (shard_path (hex_encode b) (int i)) = Some (l i)" "inj l"
proof -
  obtain rs where rs: "plain_comps rs" "filepath_Clean root = abs_path rs"
    using Clean_rooted_comps [OF assms(1)] by metis
  note comps = shard_path_comps [OF assms(2)]
  let ?l = "\<lambda>i. abs_path (rs @ [''.erasure'', hex_encode b, Itoa (int i)])"
  have "localfs_loc root (shard_path (hex_encode b) (int i)) = Some (?l i)" for i
  proof (rule localfs_loc_plain [OF assms(1) comps(2) [of i]])
    fix rs' assume "plain_comps rs'" "filepath_Clean root = abs_path rs'"
      "localfs_loc root (JoinWith slash [''.erasure'', hex_encode b, Itoa (int i)]) =
         Some (abs_path (rs' @ [''.erasure'', hex_encode b, Itoa (int i)]))"
    then show ?thesis unfolding comps(1) using rs abs_path_inj [of rs rs'] by simp
  qed simp
  moreover have "inj ?l"
  proof (rule injI)
    fix i j assume "?l i = ?l j"
    then show "i = j"
      using abs_path_inj [of "rs @ [''.erasure'', hex_encode b, Itoa (int i)]" "rs @ [''.erasure'', hex_encode b, Itoa (int j)]"]
        rs comps(2) Itoa_inj by auto
  qed
  ultimately show ?thesis by (rule that)
qed

subsection \<open>The manager of a single node\<close>

definition no_http :: "'w shard_http" where
  "no_http = \<lparr>hc_Put = (\<lambda>_ _ _ _ w. (Inl (Errorf ''connection refused''), w)), hc_Get = (\<lambda>_ _ _ _. Inl (Errorf ''connection refused'')),
     hc_Delete = (\<lambda>_ _ _ w. (Inl (Errorf ''connection refused''), w))\<rparr>"

definition node_erasure :: "deployment \<Rightarrow> rs_lib \<Rightarrow> (bytes \<Rightarrow> bytes) \<Rightarrow> ErasureConfig \<Rightarrow> world ErasureManager" where
  "node_erasure d rs Sum256 cfg =
     NewManager rs Sum256 no_http (raft_erasure_ops leader_env) (node_backend d) cfg (dp_instance d) [] ''''"

definition shard_bytes :: "deployment \<Rightarrow> StoredFileInfo \<Rightarrow> nat \<Rightarrow> world \<Rightarrow> bytes option" where
  "shard_bytes d info i w = Option.bind (localfs_loc (dp_rootPath d) (si_Path (sf_Shards info ! i))) (contents (w_disk w))"

lemma node_erasure_simps [simp]:
  "mg_rs (node_erasure d rs sha cfg) = rs" "mg_Sum256 (node_erasure d rs sha cfg) = sha"
  "mg_erasureStore (node_erasure d rs sha cfg) = raft_erasure_ops leader_env"
  "mg_localBackend (node_erasure d rs sha cfg) = node_backend d" "mg_peerEndpoints (node_erasure d rs sha cfg) = []"
  "mg_instanceID (node_erasure d rs sha cfg) = dp_instance d" "mg_config (node_erasure d rs sha cfg) = cfg"
  by (simp_all add: node_erasure_def NewManager_def)

lemma node_localFSBackend: "selectBackendByType (single_node d) ''localfs'' = node_backend d"
  by (simp add: selectBackendByType_def single_node_def)

lemma StoreFile_length:
  assumes "StoreFile m sched ctx path data sz opts w = (Inr info, w1)"
  shows "length (sf_Shards info) = nat (ep_DataShards (sf_Profile info) + ep_ParityShards (sf_Profile info))"
proof -
  have keep: "length infos' = length infos" if "store_shards m ctx hp as shards sched infos e w = (infos', None, w')"
    for hp as shards infos e infos' w'
    using store_shards_ok [OF that] by blast
  show ?thesis
    using assms by (auto simp: StoreFile_def Let_def dest!: keep split: if_splits sum.splits prod.splits option.splits)
qed

lemma node_stored:
  assumes ok: "rs_laws rs" "disk_ok d w" "sha data \<noteq> []"
    and store: "StoreFile (node_erasure d rs sha cfg) sched ctx path data sz opts w = (Inr info, w1)"
    and sched: "mset sched = mset [0..<length (sf_Shards info)]"
  obtains S hp as l where "codec_Encode rs data (sf_Profile info) = Inr S" "sf_OriginalSize info = int (length data)"
    "sf_Shards info = map (new_ShardInfo (node_erasure d rs sha cfg) hp as S) [0..<length S]"
    "raft_GetErasureInfo leader_env path w1 = Inr (md_info info)"
    "\<And>i. i < length S \<Longrightarrow> as ! i = dp_instance d"
    "\<And>i. localfs_loc (dp_rootPath d) (shard_path hp (int i)) = Some (l i)"
    "\<And>i. i < length S \<Longrightarrow> contents (w_disk w1) (l i) = Some (S ! i)" "disk_ok d w1" "inj l"
proof -
  let ?m = "node_erasure d rs sha cfg"
  have set: "set sched = {..<nat (ep_DataShards (sf_Profile info) + ep_ParityShards (sf_Profile info))}"
    using mset_eq_setD [OF sched] by (simp add: StoreFile_length [OF store] atLeast0LessThan)
  have dist: "distinct sched" using mset_eq_imp_distinct_iff [OF sched] by simp
  have laws: "rs_laws (mg_rs ?m)" using ok(1) by simp
  obtain S hp as infos w0 where S: "codec_Encode (mg_rs ?m) data (sf_Profile info) = Inr S"
    "length S = nat (ep_DataShards (sf_Profile info) + ep_ParityShards (sf_Profile info))"
    "sf_OriginalSize info = int (length data)" "sf_Shards info = map (new_ShardInfo ?m hp as S) [0..<length S]"
    "hp = hex_encode (take 8 (mg_Sum256 ?m data))"
    and run: "store_shards ?m ctx hp as S sched (replicate (length S) None) None w = (infos, None, w0)"
    and cr: "es_CreateErasureInfo (mg_erasureStore ?m) path (md_info info) w0 = (Inr (), w1)"
    by (rule StoreFile_ok [OF store set laws])
  note S = S [unfolded node_erasure_simps]
  have root: "IsAbs (dp_rootPath d)" using ok(2) by (simp add: disk_ok_def localfs_inv_def)
  have ne: "take 8 (sha data) \<noteq> []" using ok(3) by simp
  obtain l where l: "\<And>i. localfs_loc (dp_rootPath d) (shard_path hp (int i)) = Some (l i)" "inj l"
    using shard_locs [OF root ne] S(5) by metis
  have "inj_on l (set sched)" using l(2) by (rule inj_on_subset) simp
  then have done1: "disk_ok d w0" "\<forall>i \<in> set sched. as ! i = dp_instance d \<and> contents (w_disk w0) (l i) = Some (S ! i)"
    using nd_files.store_shards_local [of ?m d LocalFS ctx hp as S sched "replicate (length S) None" None w infos w0 l]
      run ok(2) dist l(1) by (simp_all add: node_localFSBackend)
  have w1: "contents (w_disk w1) = contents (w_disk w0)" "raft_GetErasureInfo leader_env path w1 = Inr (md_info info)" "disk_ok d w1"
    using cr done1(1)
    by (auto simp: raft_erasure_ops_def store_simps disk_ok_def raft_GetErasureInfo_def split: if_splits)
  show thesis
    by (rule that [OF S(1,3,4) w1(2) _ l(1)]) (use done1(2) set S(2) w1 l(2) in auto)
qed

lemma node_fetch:
  assumes "disk_ok d w" "localfs_loc (dp_rootPath d) (sh_Path si) = Some l" "sh_InstanceID si = dp_instance d"
  shows "fetch_shard (node_erasure d rs sha cfg) ctx si w = Inr b \<longleftrightarrow> contents (w_disk w) l = Some b"
  using nd_files.readLocalShard_eq [of "node_erasure d rs sha cfg" d LocalFS w "sh_Path si" l ctx b] assms
  by (simp add: fetch_shard_def node_localFSBackend)

lemma length_filter_upt: "length (filter P [0..<n]) = card {i. i < n \<and> P i}"
  using length_filter_conv_card [of P "[0..<n]"] by (simp cong: conj_cong)


definition demo_cfg :: ErasureConfig where
  "demo_cfg = \<lparr>ec_Enabled = True, ec_DataShards = 1, ec_ParityShards = 1, ec_MinFileSize = 0, ec_ShardBackend = ''localfs'',
     ec_ShardPath = ''''\<rparr>"

abbreviation demo_erasure :: "world ErasureManager" where
  "demo_erasure \<equiv> node_erasure demo_node copy_rs id demo_cfg"

lemma demo_stored:
  "case fst (StoreFile demo_erasure [1, 0] Background ''/v'' ''hi'' 2 None demo_world) of
     Inl _ \<Rightarrow> False
   | Inr info \<Rightarrow> length (sf_Shards info) = 2 \<and> si_Path (sf_Shards info ! 1) = shard_path (hex_encode ''hi'') 1 \<and>
       si_Path (sf_Shards info ! 0) = shard_path (hex_encode ''hi'') 0 \<and> ep_ParityShards (sf_Profile info) = 1"
  by code_simp


subsection \<open>A peer over HTTP\<close>

text \<open>
  The client of a peer whose server runs the shard handlers on its own backend: a request to a URL
  under the peer's base reaches the handler with the rest as URL path. The status that the client
  sees is that of the reply.
\<close>

definition body_of :: "bytes reply \<Rightarrow> bytes" where
  "body_of r = (case r of Reply st hs b \<Rightarrow> b | ErrorReply st er \<Rightarrow> er_Message er)"

definition peer_http :: "string \<Rightarrow> string \<Rightarrow> 'w storage_ops \<Rightarrow> 'w shard_http" where
  "peer_http base secret localBackend = \<lparr>
     hc_Put = (\<lambda>ctx url auth data w.
       case InternalStoreShardHandler localBackend secret ctx (TrimPrefix url base) auth (NewReader data) w of
         (r, w1) \<Rightarrow> (Inr (status r), w1)),
     hc_Get = (\<lambda>ctx url auth w.
       let r = InternalGetShardHandler localBackend secret ctx (TrimPrefix url base) auth w in Inr (status r, NewReader (body_of r))),
     hc_Delete = (\<lambda>ctx url auth w.
       case InternalDeleteShardHandler localBackend secret ctx (TrimPrefix url base) auth w of (r, w1) \<Rightarrow> (Inr (status r), w1))\<rparr>"

text \<open>A manager that reaches the peer \<open>inst\<close> under a base URL and shares its secret.\<close>

definition reaches_peer :: "'w ErasureManager \<Rightarrow> string \<Rightarrow> string \<Rightarrow> string \<Rightarrow> 'w storage_ops \<Rightarrow> bool" where
  "reaches_peer m inst base secret ops \<longleftrightarrow>
     map_of (mg_peerEndpoints m) inst = Some base \<and> TrimRight base slash = base \<and>
     mg_internalToken m = secret \<and> secret \<noteq> '''' \<and> TrimSpace secret = secret \<and> mg_httpClient m = peer_http base secret ops"

lemma reaches_peer_request:
  assumes "reaches_peer m inst base secret ops" "b \<noteq> []" "int i < 2 ^ 63"
  shows "authorizeInternal (bearer m) secret"
    and "parseShardPath (TrimPrefix (shard_url base (hex_encode b) (int i)) base) = Inr (shard_path (hex_encode b) (int i), int i)"
proof -
  show "authorizeInternal (bearer m) secret"
    using assms(1) by (simp add: authorizeInternal_def bearer_def reaches_peer_def TrimPrefix_def)
  show "parseShardPath (TrimPrefix (shard_url base (hex_encode b) (int i)) base) = Inr (shard_path (hex_encode b) (int i), int i)"
    using assms(1) parse_shard_url [OF assms(2,3)] by (simp only: shard_url_def reaches_peer_def TrimPrefix_append)
qed

context file_backend
begin

lemma peer_put_get:
  assumes peer: "reaches_peer m inst base secret ops" and key: "b \<noteq> []" "int i < 2 ^ 63"
    and loc: "loc (shard_path (hex_encode b) (int i)) = Some l" and inv: "binv w"
    and put: "storeRemoteShard m ctx inst (hex_encode b) (int i) data w = (Inr u, w1)"
  shows "binv w1 \<and> store w1 l = Some data \<and> fetchRemoteShard m ctx2 inst (hex_encode b) (int i) w1 = Inr data"
proof -
  note req = reaches_peer_request [OF peer key]
  have ep: "map_of (mg_peerEndpoints m) inst = Some base" "mg_httpClient m = peer_http base secret ops"
    using peer by (auto simp: reaches_peer_def)
  let ?p = "shard_path (hex_encode b) (int i)"
  obtain r where h: "InternalStoreShardHandler ops secret ctx (TrimPrefix (shard_url base (hex_encode b) (int i)) base)
      (bearer m) (NewReader data) w = (r, w1)" and st: "status r = 200 \<or> status r = 201"
    using put by (auto simp: storeRemoteShard_def ep peer_http_def split: prod.splits if_splits)
  have short: "int (length data) \<le> maxShardBytes"
    using h st req by (auto simp: InternalStoreShardHandler_def read_limited_def NewReader_def http_Error_def split: if_splits)
  obtain c1 v1 where c: "so_Create ops ctx ?p (NewReader data) (int (length data)) w = (c1, v1)" by fastforce
  have w1: "binv w1 \<and> store w1 l = Some data"
  proof (cases c1)
    case (Inr u1)
    then have "w1 = v1"
      using h req c short by (auto simp: InternalStoreShardHandler_def read_limited_def ReadAll_def NewReader_def)
    then show ?thesis using create_law [OF inv loc] c Inr by (auto simp: NewReader_def)
  next
    case (Inl e)
    then have v1: "binv v1" using create_fail [OF inv loc] c by auto
    obtain c2 v2 where c2: "so_Update ops ctx ?p (NewReader data) (int (length data)) v1 = (c2, v2)" by fastforce
    have "w1 = v2" "is_ok c2"
      using h st req c Inl c2 short
      by (auto simp: InternalStoreShardHandler_def read_limited_def ReadAll_def NewReader_def http_Error_def split: sum.splits)
    then show ?thesis using update_law [OF v1 loc] c2 by (auto simp: is_ok_iff NewReader_def)
  qed
  then have "so_Open ops ctx2 ?p w1 = Inr (NewReader data)" using open_law [OF _ loc] by blast
  then have "fetchRemoteShard m ctx2 inst (hex_encode b) (int i) w1 = ReadAll (LimitReader (NewReader data) 268435456)"
    using req by (simp add: fetchRemoteShard_def ep peer_http_def InternalGetShardHandler_def body_of_def NewReader_def)
  then show ?thesis using w1 short by (simp add: LimitReader_def ReadAll_def NewReader_def maxShardBytes_def)
qed

end

text \<open>
  C36: (roundtrip) A shard that the manager puts on a peer is what it later gets from it: if the request to
  the peer's store handler is answered with success, whether the shard was new or replaced an older
  one, then the file at the shard's place on the peer's disk holds exactly the bytes sent, and
  fetching the shard, with the prefix taken from the recorded path, returns them.
\<close>

theorem remote_shard_roundtrip:
  assumes "reaches_peer m inst base secret (localfs_ops env a)" "localfs_inv env a w" "b \<noteq> []" "int i < 2 ^ 63"
    and "storeRemoteShard m ctx inst (hex_encode b) (int i) data w = (Inr u, w1)"
  shows "fetchRemoteShard m ctx2 inst (extractShardPrefix (shard_path (hex_encode b) (int i))) (int i) w1 = Inr data \<and>
    Option.bind (localfs_loc (lf_rootPath a) (shard_path (hex_encode b) (int i))) (contents w1) = Some data"
proof -
  have root: "IsAbs (lf_rootPath a)" using assms(2) by (simp add: localfs_inv_def)
  obtain l where l: "\<And>i. localfs_loc (lf_rootPath a) (shard_path (hex_encode b) (int i)) = Some (l i)"
    using shard_locs [OF root assms(3)] by metis
  show ?thesis
    using localfs.peer_put_get [OF assms(1,3,4) l assms(2,5)] l [of i] by (simp add: extract_shard_path)
qed

definition demo_peer_manager :: "disk ErasureManager" where
  "demo_peer_manager = NewManager copy_rs id (peer_http ''https://n2'' ''s3cret'' (localfs_ops quiet_env \<lparr>lf_rootPath = ''/d''\<rparr>))
     \<lparr>es_CreateErasureInfo = (\<lambda>_ _ w. (Inr (), w)), es_GetErasureInfo = (\<lambda>_ _. Inl ErrNotFound), es_DeleteErasureInfo = (\<lambda>_ w. (Inr (), w))\<rparr>
     noop_ops demo_cfg ''n1'' [(''n2'', ''https://n2'')] ''s3cret''"

lemma demo_put: "fst (storeRemoteShard demo_peer_manager Background ''n2'' (hex_encode ''hi'') (int 3) ''shard'' demo_disk) = Inr ()"
  by code_simp

theorem remote_shard_roundtrip_witness:
  "\<exists>w1. storeRemoteShard demo_peer_manager Background ''n2'' (hex_encode ''hi'') (int 3) ''shard'' demo_disk = (Inr (), w1) \<and>
     fetchRemoteShard demo_peer_manager Background ''n2'' (extractShardPrefix (shard_path (hex_encode ''hi'') (int 3))) (int 3) w1 = Inr ''shard''"
proof -
  obtain w1 where put: "storeRemoteShard demo_peer_manager Background ''n2'' (hex_encode ''hi'') (int 3) ''shard'' demo_disk = (Inr (), w1)"
    using demo_put by (metis prod.collapse)
  have peer: "reaches_peer demo_peer_manager ''n2'' ''https://n2'' ''s3cret'' (localfs_ops quiet_env \<lparr>lf_rootPath = ''/d''\<rparr>)"
    unfolding reaches_peer_def by (simp add: demo_peer_manager_def NewManager_def) code_simp
  have inv: "localfs_inv quiet_env \<lparr>lf_rootPath = ''/d''\<rparr> demo_disk"
    using demo_world_ok(2) by (simp add: disk_ok_def demo_node_def demo_world_def)
  show ?thesis
    using remote_shard_roundtrip [OF peer inv _ _ put, of Background] put by simp
qed

end
