(* ===== verification/Redis.thy ===== *)
theory Redis
  imports Metadata
begin

section \<open>A Redis server\<close>

text \<open>
  The key space of a Redis server as far as the lock manager and the metadata store use it: strings
  with an optional expiry, counters and sets. A command or a script is one step of the server. A
  string holds what \<^verbatim>\<open>encoding/json\<close> wrote, as a document: a metadata or erasure record as such, a link
  as the JSON object it is, because a script of the store looks into it. A key with an expiry is gone
  once the time is past it. A command can fail at the client, before it has an effect: \<open>rs_faults\<close> says
  for the commands to come which of them do (none when the list is used up).
\<close>

datatype json = JNull | JInt int | JStr string | JTime gotime

type_synonym json_object = "(string, json) gomap"

datatype doc =
    Text string
  | Counter int
  | Members "string list"
  | MetaDoc Metadata
  | LinkDoc json_object
  | ErasureDoc ErasureFileInfo

record redis =
  rs_keys :: "(string, doc \<times> gotime option) gomap"
  rs_faults :: "goerr option list"

definition empty_redis :: redis where
  "empty_redis = \<lparr>rs_keys = [], rs_faults = []\<rparr>"

definition rs_live :: "gotime \<Rightarrow> string \<Rightarrow> redis \<Rightarrow> doc option" where
  "rs_live now key w =
     (case map_of (rs_keys w) key of
        None \<Rightarrow> None
      | Some (d, None) \<Rightarrow> Some d
      | Some (d, Some expiry) \<Rightarrow> if expiry < now then None else Some d)"

definition rs_put :: "string \<Rightarrow> doc \<Rightarrow> gotime option \<Rightarrow> redis \<Rightarrow> redis" where
  "rs_put key d expiry w = w\<lparr>rs_keys := AList.update key (d, expiry) (rs_keys w)\<rparr>"

definition rs_del :: "string \<Rightarrow> redis \<Rightarrow> redis" where
  "rs_del key w = w\<lparr>rs_keys := AList.delete key (rs_keys w)\<rparr>"

text \<open>One round trip of the client.\<close>

definition redis_call :: "(redis \<Rightarrow> 'a \<times> redis) \<Rightarrow> redis \<Rightarrow> 'a result \<times> redis" where
  "redis_call f w =
     (case rs_faults w of
        Some err # fs \<Rightarrow> (Inl err, w\<lparr>rs_faults := fs\<rparr>)
      | None # fs \<Rightarrow> apfst Inr (f (w\<lparr>rs_faults := fs\<rparr>))
      | [] \<Rightarrow> apfst Inr (f w))"

subsection \<open>Commands\<close>

definition SETNX :: "gotime \<Rightarrow> string \<Rightarrow> doc \<Rightarrow> duration option \<Rightarrow> redis \<Rightarrow> bool \<times> redis" where
  "SETNX now key d ttl w =
     (if rs_live now key w \<noteq> None then (False, w) else (True, rs_put key d (map_option (\<lambda>t. now + t) ttl) w))"

text \<open>\<^verbatim>\<open>INCR\<close>: a missing counter counts as zero.\<close>

definition INCR :: "gotime \<Rightarrow> string \<Rightarrow> redis \<Rightarrow> int \<times> redis" where
  "INCR now key w =
     (let n = (case rs_live now key w of Some (Counter c) \<Rightarrow> c + 1 | _ \<Rightarrow> 1) in (n, rs_put key (Counter n) None w))"

definition members :: "gotime \<Rightarrow> string \<Rightarrow> redis \<Rightarrow> string list" where
  "members now key w = (case rs_live now key w of Some (Members xs) \<Rightarrow> xs | _ \<Rightarrow> [])"

definition SADD :: "gotime \<Rightarrow> string \<Rightarrow> string \<Rightarrow> redis \<Rightarrow> redis" where
  "SADD now key x w = rs_put key (Members (List.insert x (members now key w))) None w"

text \<open>A set that loses its last member disappears.\<close>

definition SREM :: "gotime \<Rightarrow> string \<Rightarrow> string \<Rightarrow> redis \<Rightarrow> redis" where
  "SREM now key x w =
     (if x \<notin> set (members now key w) then w
      else let xs = removeAll x (members now key w)
           in if xs = [] then rs_del key w else rs_put key (Members xs) None w)"

lemma rs_put_keys [simp]: "map_of (rs_keys (rs_put key d x w)) = (map_of (rs_keys w))(key \<mapsto> (d, x))"
  by (simp add: rs_put_def)

lemma rs_del_keys [simp]: "map_of (rs_keys (rs_del key w)) = (map_of (rs_keys w))(key := None)"
  by (simp add: rs_del_def)

lemma rs_live_put [simp]:
  "rs_live now k (rs_put key d None w) = (if k = key then Some d else rs_live now k w)"
  by (simp add: rs_live_def)

lemma rs_live_del [simp]: "rs_live now k (rs_del key w) = (if k = key then None else rs_live now k w)"
  by (simp add: rs_live_def)

lemma rs_live_faults [simp]: "rs_live now k (w\<lparr>rs_faults := fs\<rparr>) = rs_live now k w"
  by (simp add: rs_live_def)

lemma rs_faults_put [simp]: "rs_faults (rs_put k d x w) = rs_faults w" "rs_faults (rs_del k w) = rs_faults w"
  by (simp_all add: rs_put_def rs_del_def)

text \<open>A round trip either does nothing but use up a fault, or is the command.\<close>

lemma redis_call_cases:
  assumes "redis_call f w = (r, w')"
  obtains (fault) err where "r = Inl err" "rs_keys w' = rs_keys w"
  | (run) w1 x where "rs_keys w1 = rs_keys w" "f w1 = (x, w')" "r = Inr x"
proof (cases "\<exists>err fs. rs_faults w = Some err # fs")
  case True
  then show ?thesis using assms fault by (auto simp: redis_call_def)
next
  case False
  define w1 where "w1 = (if rs_faults w = [] then w else w\<lparr>rs_faults := tl (rs_faults w)\<rparr>)"
  have "redis_call f w = apfst Inr (f w1)"
    using False by (auto simp: redis_call_def w1_def split: list.split option.split)
  then show ?thesis using assms run [of w1] by (cases "f w1") (auto simp: w1_def)
qed

lemma redis_call_ok [simp]: "rs_faults w = [] \<Longrightarrow> redis_call f w = apfst Inr (f w)"
  by (simp add: redis_call_def)

end
