(* ===== verification/RedisLocks.thy ===== *)
theory RedisLocks
  imports Redis Locks
begin

section \<open>The Redis lock manager (locks/redis\_manager.go)\<close>

text \<open>
  Every instance has a manager of its own, with a random owner identifier, on one server. A lock is
  a key with an expiry that holds the owner. Because a release checks the owner, the contract is
  weaker than that of the local manager in one respect, that a release need not end a lease, and
  stronger in another, that nobody ends the lease of somebody else.
\<close>

record RedisManager =
  rm_ttl :: duration
  rm_ownerID :: string

definition redisLockTTL :: duration where
  "redisLockTTL = 30 * second"

definition NewRedisManager :: "string result \<Rightarrow> redis \<Rightarrow> RedisManager result \<times> redis" where
  "NewRedisManager rand w =
     (case redis_call (\<lambda>w. ((), w)) w of
        (Inl err, w1) \<Rightarrow> (Inl (Wrapf ''failed to connect to Redis'' err), w1)
      | (Inr _, w1) \<Rightarrow>
          (case rand of
             Inl err \<Rightarrow> (Inl (Wrapf ''failed to generate owner ID'' err), w1)
           | Inr ownerID \<Rightarrow> (Inr \<lparr>rm_ttl = redisLockTTL, rm_ownerID = ownerID\<rparr>, w1)))"

definition redis_lock_key :: "string \<Rightarrow> string" where
  "redis_lock_key key = ''callfs:lock:'' @ key"

definition redis_Acquire :: "RedisManager \<Rightarrow> goctx \<Rightarrow> gotime \<Rightarrow> string \<Rightarrow> redis \<Rightarrow> bool result \<times> redis" where
  "redis_Acquire m ctx now key w =
     (case redis_call (SETNX now (redis_lock_key key) (Text (rm_ownerID m)) (Some (rm_ttl m))) w of
        (Inl err, w1) \<Rightarrow> (Inl (Wrapf (''failed to acquire lock for key '' @ key) err), w1)
      | (Inr acquired, w1) \<Rightarrow> (Inr acquired, w1))"

text \<open>The script: delete the key if it holds the owner.\<close>

definition release_script :: "gotime \<Rightarrow> string \<Rightarrow> string \<Rightarrow> redis \<Rightarrow> int \<times> redis" where
  "release_script now lockKey ownerID w =
     (if rs_live now lockKey w = Some (Text ownerID) then (1, rs_del lockKey w) else (0, w))"

definition redis_Release :: "RedisManager \<Rightarrow> gotime \<Rightarrow> string \<Rightarrow> redis \<Rightarrow> unit result \<times> redis" where
  "redis_Release m now key w =
     (case redis_call (release_script now (redis_lock_key key) (rm_ownerID m)) w of
        (Inl err, w1) \<Rightarrow> (Inl (Wrapf (''failed to release lock for key '' @ key) err), w1)
      | (Inr deleted, w1) \<Rightarrow> (Inr (), w1))"

definition redis_lock_ops :: "RedisManager \<Rightarrow> redis lock_ops" where
  "redis_lock_ops m = \<lparr>lm_Acquire = redis_Acquire m, lm_Release = redis_Release m\<rparr>"

subsection \<open>The contract of leases with owners\<close>

text \<open>
  \<open>owned w key\<close>: the lease of the key belongs to the client of this manager. What a client may rely
  on beyond \<open>lock_manager\<close> being weakened: its own release ends its own running lease.
\<close>

locale lease_manager =
  fixes ops :: "'w lock_ops"
    and held :: "'w \<Rightarrow> string \<Rightarrow> gotime option"
    and owned :: "'w \<Rightarrow> string \<Rightarrow> bool"
    and ttl :: duration
  assumes lease_pos: "0 < ttl"
    and lease_grant: "lm_Acquire ops ctx now key w = (Inr True, w') \<Longrightarrow>
      held w' = (held w)(key \<mapsto> now + ttl) \<and> owned w' key \<and> (\<forall>t. held w key = Some t \<longrightarrow> t \<le> now)"
    and lease_refuse: "lm_Acquire ops ctx now key w = (r, w') \<Longrightarrow> r \<noteq> Inr True \<Longrightarrow> held w' = held w"
    and lease_busy: "held w key = Some t \<Longrightarrow> now < t \<Longrightarrow> lm_Acquire ops ctx now key w = (r, w') \<Longrightarrow> r \<noteq> Inr True"
    and lease_release: "lm_Release ops now key w = (u, w') \<Longrightarrow>
      (\<forall>k. k \<noteq> key \<longrightarrow> held w' k = held w k) \<and> (held w' key = None \<or> held w' key = held w key)"
    and lease_end: "lm_Release ops now key w = (Inr (), w') \<Longrightarrow> owned w key \<Longrightarrow> held w key = Some t \<Longrightarrow> now \<le> t \<Longrightarrow>
      held w' key = None"
begin

lemma lease_exclusive:
  assumes a: "lm_Acquire ops ctx now key w = (Inr True, w1)" and t: "now' < now + ttl"
  shows "fst (lm_Acquire ops ctx' now' key w1) \<noteq> Inr True"
  using lease_grant [OF a] lease_busy [OF _ t, of w1] by (metis fun_upd_same prod.collapse)

lemma lease_then_release:
  assumes a: "lm_Acquire ops ctx now key w = (Inr True, w1)"
    and r: "lm_Release ops now' key w1 = (Inr (), w2)" and t: "now' \<le> now + ttl"
  shows "held w2 key = None \<and> (\<forall>k. k \<noteq> key \<longrightarrow> held w2 k = held w k)"
  using lease_grant [OF a] lease_release [OF r] lease_end [OF r] t by auto

end

text \<open>A lock manager without owners gives this contract too: every lease counts as owned.\<close>

sublocale lock_manager \<subseteq> lease: lease_manager ops held "\<lambda>_ _. True" ttl
proof unfold_locales
  show "lm_Release ops now key w = (Inr (), w') \<Longrightarrow> True \<Longrightarrow> held w key = Some t \<Longrightarrow> now \<le> t \<Longrightarrow> held w' key = None"
    for now key w w' t
    using release_lease [of now key w "Inr ()" w'] by auto
  show "lm_Release ops now key w = (u, w') \<Longrightarrow>
      (\<forall>k. k \<noteq> key \<longrightarrow> held w' k = held w k) \<and> (held w' key = None \<or> held w' key = held w key)" for now key w u w'
    using release_lease [of now key w u w'] by (auto split: option.splits if_splits)
qed (use ttl_pos acquire_grant acquire_refuse acquire_busy in auto)

subsection \<open>The Redis manager fulfils it\<close>

definition redis_held :: "redis \<Rightarrow> string \<Rightarrow> gotime option" where
  "redis_held w key = (case map_of (rs_keys w) (redis_lock_key key) of Some (_, e) \<Rightarrow> e | None \<Rightarrow> None)"

definition redis_owned :: "string \<Rightarrow> redis \<Rightarrow> string \<Rightarrow> bool" where
  "redis_owned ownerID w key \<longleftrightarrow>
     (\<exists>e. map_of (rs_keys w) (redis_lock_key key) = Some (Text ownerID, e))"

lemma redis_lock_key_inj [simp]: "redis_lock_key a = redis_lock_key b \<longleftrightarrow> a = b"
  by (simp add: redis_lock_key_def)

lemma redis_Acquire_cases:
  assumes "redis_Acquire m ctx now key w = (r, w')"
  shows "(r \<noteq> Inr True \<and> rs_keys w' = rs_keys w) \<or>
    (r = Inr True \<and> rs_live now (redis_lock_key key) w = None \<and>
     map_of (rs_keys w') = (map_of (rs_keys w))(redis_lock_key key \<mapsto> (Text (rm_ownerID m), Some (now + rm_ttl m))))"
proof -
  obtain a w1 where c: "redis_call (SETNX now (redis_lock_key key) (Text (rm_ownerID m)) (Some (rm_ttl m))) w = (a, w1)" by fastforce
  from c show ?thesis
  proof (cases rule: redis_call_cases)
    case (fault err)
    then show ?thesis using assms c by (auto simp: redis_Acquire_def)
  next
    case (run w2 x)
    have "rs_live now (redis_lock_key key) w2 = rs_live now (redis_lock_key key) w" using run(1) by (simp add: rs_live_def)
    then show ?thesis using assms c run by (auto simp: redis_Acquire_def SETNX_def split: if_splits)
  qed
qed

lemma redis_Release_cases:
  assumes "redis_Release m now key w = (u, w')"
  shows "rs_keys w' = rs_keys w \<and> (u = Inr () \<longrightarrow> rs_live now (redis_lock_key key) w \<noteq> Some (Text (rm_ownerID m))) \<or>
    (rs_live now (redis_lock_key key) w = Some (Text (rm_ownerID m)) \<and>
     map_of (rs_keys w') = (map_of (rs_keys w))(redis_lock_key key := None))"
proof -
  obtain a w1 where c: "redis_call (release_script now (redis_lock_key key) (rm_ownerID m)) w = (a, w1)" by fastforce
  from c show ?thesis
  proof (cases rule: redis_call_cases)
    case (fault err)
    then show ?thesis using assms c by (auto simp: redis_Release_def)
  next
    case (run w2 x)
    have "rs_live now (redis_lock_key key) w2 = rs_live now (redis_lock_key key) w" using run(1) by (simp add: rs_live_def)
    then show ?thesis using assms c run by (auto simp: redis_Release_def release_script_def split: if_splits)
  qed
qed

interpretation redis_lock: lease_manager "redis_lock_ops \<lparr>rm_ttl = redisLockTTL, rm_ownerID = ownerID\<rparr>" redis_held
  "redis_owned ownerID" redisLockTTL for ownerID
proof unfold_locales
  let ?m = "\<lparr>rm_ttl = redisLockTTL, rm_ownerID = ownerID\<rparr>"
  show "0 < redisLockTTL" by (simp add: redisLockTTL_def)
  fix ctx now key and w w' :: redis and r u t
  show "redis_held w' = (redis_held w)(key \<mapsto> now + redisLockTTL) \<and> redis_owned ownerID w' key \<and>
      (\<forall>t. redis_held w key = Some t \<longrightarrow> t \<le> now)"
    if a: "lm_Acquire (redis_lock_ops ?m) ctx now key w = (Inr True, w')"
  proof -
    have *: "rs_live now (redis_lock_key key) w = None"
      "map_of (rs_keys w') = (map_of (rs_keys w))(redis_lock_key key \<mapsto> (Text ownerID, Some (now + redisLockTTL)))"
      using redis_Acquire_cases [of ?m ctx now key w "Inr True" w'] a by (auto simp: redis_lock_ops_def)
    then show ?thesis
      by (auto simp: redis_held_def redis_owned_def rs_live_def fun_eq_iff split: option.splits if_splits)
  qed
  show "redis_held w' = redis_held w" if "lm_Acquire (redis_lock_ops ?m) ctx now key w = (r, w')" "r \<noteq> Inr True"
    using redis_Acquire_cases [of ?m ctx now key w r w'] that by (auto simp: redis_lock_ops_def redis_held_def fun_eq_iff)
  show "r \<noteq> Inr True" if "redis_held w key = Some t" "now < t" "lm_Acquire (redis_lock_ops ?m) ctx now key w = (r, w')"
    using redis_Acquire_cases [of ?m ctx now key w r w'] that
    by (auto simp: redis_lock_ops_def redis_held_def rs_live_def split: option.splits if_splits)
  show "(\<forall>k. k \<noteq> key \<longrightarrow> redis_held w' k = redis_held w k) \<and> (redis_held w' key = None \<or> redis_held w' key = redis_held w key)"
    if "lm_Release (redis_lock_ops ?m) now key w = (u, w')"
    using redis_Release_cases [of ?m now key w u w'] that by (auto simp: redis_lock_ops_def redis_held_def)
  show "redis_held w' key = None"
    if "lm_Release (redis_lock_ops ?m) now key w = (Inr (), w')" "redis_owned ownerID w key" "redis_held w key = Some t" "now \<le> t"
    using redis_Release_cases [of ?m now key w "Inr ()" w'] that
    by (auto simp: redis_lock_ops_def redis_held_def redis_owned_def rs_live_def)
qed

subsection \<open>Several instances on one server\<close>

datatype redis_lock_event = TryLock goctx gotime string string | Unlock gotime string string

abbreviation manager :: "string \<Rightarrow> RedisManager" where
  "manager ownerID \<equiv> \<lparr>rm_ttl = redisLockTTL, rm_ownerID = ownerID\<rparr>"

fun redis_lock_step :: "redis_lock_event \<Rightarrow> redis \<Rightarrow> redis" where
  "redis_lock_step (TryLock ctx now ownerID key) w = snd (redis_Acquire (manager ownerID) ctx now key w)"
| "redis_lock_step (Unlock now ownerID key) w = snd (redis_Release (manager ownerID) now key w)"

fun redis_event_time :: "redis_lock_event \<Rightarrow> gotime" where
  "redis_event_time (TryLock _ now _ _) = now"
| "redis_event_time (Unlock now _ _) = now"

definition locked_by :: "string \<Rightarrow> gotime \<Rightarrow> string \<Rightarrow> redis \<Rightarrow> bool" where
  "locked_by ownerID t key w \<longleftrightarrow> map_of (rs_keys w) (redis_lock_key key) = Some (Text ownerID, Some t)"

lemma redis_step_keeps:
  assumes "locked_by ownerID t key w" "redis_event_time ev \<le> t" "\<And>now. ev \<noteq> Unlock now ownerID key"
  shows "locked_by ownerID t key (redis_lock_step ev w)"
proof (cases ev)
  case (TryLock ctx now owner k)
  obtain r w' where "redis_Acquire (manager owner) ctx now k w = (r, w')" by fastforce
  with redis_Acquire_cases [OF this] assms TryLock show ?thesis
    by (auto simp: locked_by_def rs_live_def)
next
  case (Unlock now owner k)
  obtain u w' where "redis_Release (manager owner) now k w = (u, w')" by fastforce
  moreover have "\<not> (owner = ownerID \<and> k = key)" using assms(3) Unlock by blast
  ultimately show ?thesis using redis_Release_cases [of "manager owner" now k w u w'] assms(1,2) Unlock
    by (auto simp: locked_by_def rs_live_def)
qed

lemma redis_run_keeps:
  assumes "locked_by ownerID t key w" "\<forall>ev \<in> set evs. redis_event_time ev \<le> t \<and> (\<forall>now. ev \<noteq> Unlock now ownerID key)"
  shows "locked_by ownerID t key (fold redis_lock_step evs w)"
  using assms by (induction evs arbitrary: w) (auto simp: redis_step_keeps)

text \<open>
  C28: (safety) With the Redis manager the lock of one instance is exclusive against all others: once an
  acquire is granted, no acquire of the key by any instance is granted before the lease of 30 seconds is
  over or the instance itself has released it, whatever acquires and releases of other instances
  (late releases included) and failures of the connection come in between. The release of the
  holder, if it succeeds in time, frees the key.
\<close>

theorem redis_lock_exclusive:
  assumes "redis_Acquire (manager me) ctx now key w = (Inr True, w1)"
    and "\<forall>ev \<in> set evs. redis_event_time ev \<le> now + redisLockTTL \<and> (\<forall>t. ev \<noteq> Unlock t me key)"
  defines "w2 \<equiv> fold redis_lock_step evs w1"
  shows "(\<forall>ctx' now' other. now' \<le> now + redisLockTTL \<longrightarrow> fst (redis_Acquire (manager other) ctx' now' key w2) \<noteq> Inr True) \<and>
    (\<forall>now' w3. now' \<le> now + redisLockTTL \<longrightarrow> redis_Release (manager me) now' key w2 = (Inr (), w3) \<longrightarrow> redis_held w3 key = None)"
proof -
  have "locked_by me (now + redisLockTTL) key w1"
    using redis_Acquire_cases [OF assms(1)] by (auto simp: locked_by_def)
  then have l: "locked_by me (now + redisLockTTL) key w2"
    unfolding w2_def using assms(2) by (rule redis_run_keeps)
  have "fst (redis_Acquire (manager other) ctx' now' key w2) \<noteq> Inr True" if "now' \<le> now + redisLockTTL" for ctx' now' other
  proof -
    obtain r w' where "redis_Acquire (manager other) ctx' now' key w2 = (r, w')" by fastforce
    with redis_Acquire_cases [OF this] l that show ?thesis by (auto simp: locked_by_def rs_live_def)
  qed
  moreover have "redis_held w3 key = None"
    if "now' \<le> now + redisLockTTL" "redis_Release (manager me) now' key w2 = (Inr (), w3)" for now' w3
    using redis_Release_cases [OF that(2)] l that(1) by (auto simp: locked_by_def rs_live_def redis_held_def)
  ultimately show ?thesis by blast
qed

text \<open>A late release by an instance whose lease has run out does not touch the lease of the next one.\<close>

theorem redis_lock_exclusive_witness:
  "\<exists>w1. redis_Acquire (manager ''B'') Background 40000000000 ''f'' (snd (redis_Acquire (manager ''A'') Background 0 ''f'' empty_redis)) = (Inr True, w1) \<and>
     fst (redis_Acquire (manager ''C'') Background 50000000000 ''f'' (fold redis_lock_step [Unlock 41000000000 ''A'' ''f''] w1)) \<noteq> Inr True"
proof -
  let ?w = "snd (redis_Acquire (manager ''A'') Background 0 ''f'' empty_redis)"
  have "fst (redis_Acquire (manager ''B'') Background 40000000000 ''f'' ?w) = Inr True" by code_simp
  then obtain w1 where g: "redis_Acquire (manager ''B'') Background 40000000000 ''f'' ?w = (Inr True, w1)" by (metis prod.collapse)
  have "\<forall>ev \<in> set [Unlock 41000000000 ''A'' ''f'']. redis_event_time ev \<le> 40000000000 + redisLockTTL \<and> (\<forall>t. ev \<noteq> Unlock t ''B'' ''f'')"
    by (simp add: redisLockTTL_def)
  from redis_lock_exclusive [OF g this] g show ?thesis by (auto simp: redisLockTTL_def)
qed

end
