(* ===== verification/RedisStore.thy ===== *)
theory RedisStore
  imports Redis StoreSpec
begin

section \<open>The Redis metadata store (metadata/redis)\<close>

text \<open>
  Every method of the store as a client of the server of theory \<^verbatim>\<open>Redis\<close>; each round trip can fail. A
  metadata record is one string, and the children of a directory are a set of paths that the create
  and delete scripts keep in step. A key of the wrong kind, which no method produces, is reported as
  an error that cannot be decoded. The prefix of the keys contains no character that is special in a
  pattern of \<^verbatim>\<open>SCAN\<close>, and a scan returns in one page the keys that are there when it starts.
\<close>

record RedisStore =
  rt_prefix :: string

definition NewRedisStore :: "string \<Rightarrow> redis \<Rightarrow> RedisStore result \<times> redis" where
  "NewRedisStore prefix0 w =
     (let prefix1 = (if prefix0 = '''' then ''callfs:'' else prefix0) in
      case redis_call (\<lambda>w. ((), w)) w of
        (Inl err, w1) \<Rightarrow> (Inl (Wrapf ''failed to connect to redis metadata store'' err), w1)
      | (Inr _, w1) \<Rightarrow> (Inr \<lparr>rt_prefix = prefix1\<rparr>, w1))"

subsection \<open>Keys and paths\<close>

definition normalizePath :: "string \<Rightarrow> string" where
  "normalizePath path = (if path = '''' then ''/'' else if \<not> HasPrefix path ''/'' then ''/'' @ path else path)"

definition redis_parentPath :: "string \<Rightarrow> string" where
  "redis_parentPath path =
     (if path = ''/'' then ''/''
      else let parent = filepath_Dir path
           in if parent = ''.'' then ''/'' else if \<not> HasPrefix parent ''/'' then ''/'' @ parent else parent)"

definition metadataKey :: "RedisStore \<Rightarrow> string \<Rightarrow> string" where
  "metadataKey s path = rt_prefix s @ ''md:'' @ normalizePath path"

definition childrenKey :: "RedisStore \<Rightarrow> string \<Rightarrow> string" where
  "childrenKey s path = rt_prefix s @ ''children:'' @ normalizePath path"

definition linkKey :: "RedisStore \<Rightarrow> string \<Rightarrow> string" where
  "linkKey s token = rt_prefix s @ ''sul:'' @ token"

definition sequenceKey :: "RedisStore \<Rightarrow> string \<Rightarrow> string" where
  "sequenceKey s name = rt_prefix s @ ''seq:'' @ name"

definition erasureKey :: "RedisStore \<Rightarrow> string \<Rightarrow> string" where
  "erasureKey s filePath = rt_prefix s @ ''erasure:'' @ normalizePath filePath"

definition GET :: "gotime \<Rightarrow> string \<Rightarrow> redis \<Rightarrow> doc option \<times> redis" where
  "GET now key w = (rs_live now key w, w)"

subsection \<open>Metadata\<close>

definition redis_Get :: "RedisStore \<Rightarrow> gotime \<Rightarrow> string \<Rightarrow> redis \<Rightarrow> Metadata result \<times> redis" where
  "redis_Get s now path w =
     (case redis_call (GET now (metadataKey s path)) w of
        (Inl err, w1) \<Rightarrow> (Inl (Wrapf ''failed to get metadata'' err), w1)
      | (Inr None, w1) \<Rightarrow> (Inl ErrNotFound, w1)
      | (Inr (Some (MetaDoc md)), w1) \<Rightarrow> (Inr md, w1)
      | (Inr (Some _), w1) \<Rightarrow> (Inl (Errorf ''failed to decode metadata''), w1))"

definition create_script :: "gotime \<Rightarrow> string \<Rightarrow> string \<Rightarrow> doc \<Rightarrow> string \<Rightarrow> redis \<Rightarrow> (string + unit) \<times> redis" where
  "create_script now mdKey childKey raw path w =
     (case SETNX now mdKey raw None w of
        (stored, w1) \<Rightarrow> if \<not> stored then (Inl ''already_exists'', w1) else (Inr (), SADD now childKey path w1))"

text \<open>An error of a script, or of the connection, is told apart by its text.\<close>

definition eval_err :: "goerr + (string + unit) \<Rightarrow> goerr option" where
  "eval_err r = (case r of Inl err \<Rightarrow> Some err | Inr (Inl msg) \<Rightarrow> Some (Errorf msg) | Inr (Inr _) \<Rightarrow> None)"

definition redis_Create :: "RedisStore \<Rightarrow> gotime \<Rightarrow> Metadata \<Rightarrow> redis \<Rightarrow> Metadata result \<times> redis" where
  "redis_Create s now md0 w =
     (let md1 = stamped now md0 in
      case redis_call (INCR now (sequenceKey s ''inode'')) w of
        (Inl err, w1) \<Rightarrow> (Inl (Wrapf ''failed to allocate metadata id'' err), w1)
      | (Inr ident, w1) \<Rightarrow>
          let md = md1\<lparr>md_ID := ident\<rparr> in
          (case redis_call (create_script now (metadataKey s (md_Path md)) (childrenKey s (redis_parentPath (md_Path md)))
                  (MetaDoc md) (md_Path md)) w1 of
             (res, w2) \<Rightarrow>
               (case eval_err res of
                  None \<Rightarrow> (Inr md, w2)
                | Some err \<Rightarrow>
                    if Contains (Error err) ''already_exists'' then (Inl ErrAlreadyExists, w2)
                    else (Inl (Wrapf ''failed to create metadata'' err), w2))))"

definition redis_Update :: "RedisStore \<Rightarrow> gotime \<Rightarrow> Metadata \<Rightarrow> redis \<Rightarrow> Metadata result \<times> redis" where
  "redis_Update s now md0 w =
     (case redis_Get s now (md_Path md0) w of
        (Inl err, w1) \<Rightarrow> (Inl err, w1)
      | (Inr _, w1) \<Rightarrow>
          let md = md0\<lparr>md_UpdatedAt := now\<rparr> in
          (case redis_call (\<lambda>w. ((), rs_put (metadataKey s (md_Path md)) (MetaDoc md) None w)) w1 of
             (Inl err, w2) \<Rightarrow> (Inl (Wrapf ''failed to update metadata'' err), w2)
           | (Inr _, w2) \<Rightarrow> (Inr md, w2)))"

definition delete_script :: "gotime \<Rightarrow> string \<Rightarrow> string \<Rightarrow> string \<Rightarrow> string \<Rightarrow> redis \<Rightarrow> (string + unit) \<times> redis" where
  "delete_script now mdKey parentChildKey ownChildKey path w =
     (if rs_live now mdKey w = None then (Inl ''not_found'', w)
      else (Inr (), rs_del ownChildKey (SREM now parentChildKey path (rs_del mdKey w))))"

definition redis_Delete :: "RedisStore \<Rightarrow> gotime \<Rightarrow> string \<Rightarrow> redis \<Rightarrow> unit result \<times> redis" where
  "redis_Delete s now path w =
     (case redis_call (delete_script now (metadataKey s path) (childrenKey s (redis_parentPath path)) (childrenKey s path) path) w of
        (res, w1) \<Rightarrow>
          (case eval_err res of
             None \<Rightarrow> (Inr (), w1)
           | Some err \<Rightarrow>
               if Contains (Error err) ''not_found'' then (Inl ErrNotFound, w1)
               else (Inl (Wrapf ''failed to delete metadata'' err), w1)))"

fun collect_children :: "RedisStore \<Rightarrow> gotime \<Rightarrow> string list \<Rightarrow> redis \<Rightarrow> Metadata list result \<times> redis" where
  "collect_children s now [] w = (Inr [], w)"
| "collect_children s now (path # paths) w =
     (case redis_Get s now path w of
        (Inl getErr, w1) \<Rightarrow> if getErr = ErrNotFound then collect_children s now paths w1 else (Inl getErr, w1)
      | (Inr md, w1) \<Rightarrow>
          (case collect_children s now paths w1 of
             (Inl err, w2) \<Rightarrow> (Inl err, w2)
           | (Inr mds, w2) \<Rightarrow> (Inr (md # mds), w2)))"

text \<open>Types in descending, names in ascending order of their lower-case form.\<close>

definition sort_children :: "Metadata list \<Rightarrow> Metadata list" where
  "sort_children mds = (let byName = sort_key (\<lambda>md. ToLower (md_Name md)) mds in rev (sort_key md_Type (rev byName)))"

definition redis_ListChildren :: "RedisStore \<Rightarrow> gotime \<Rightarrow> string \<Rightarrow> redis \<Rightarrow> Metadata list result \<times> redis" where
  "redis_ListChildren s now parentPath w =
     (case redis_call (\<lambda>w. (members now (childrenKey s parentPath) w, w)) w of
        (Inl err, w1) \<Rightarrow> (Inl (Wrapf ''failed to list child paths'' err), w1)
      | (Inr paths, w1) \<Rightarrow>
          (case collect_children s now paths w1 of
             (Inl err, w2) \<Rightarrow> (Inl err, w2)
           | (Inr children, w2) \<Rightarrow> (Inr (sort_children children), w2)))"

subsection \<open>Links\<close>

text \<open>The JSON form of a link, with the keys of the struct tags.\<close>

definition marshal_link :: "SingleUseLink \<Rightarrow> json_object" where
  "marshal_link link =
     [(''id'', JInt (lk_ID link)), (''token'', JStr (lk_Token link)), (''file_path'', JStr (lk_FilePath link)),
      (''status'', JStr (lk_Status link)), (''expires_at'', JTime (lk_ExpiresAt link)),
      (''used_at'', case lk_UsedAt link of Some t \<Rightarrow> JTime t | None \<Rightarrow> JNull),
      (''used_by_ip'', case lk_UsedByIP link of Some ip \<Rightarrow> JStr ip | None \<Rightarrow> JNull),
      (''hmac_signature'', JStr (lk_HMACSignature link)), (''created_at'', JTime (lk_CreatedAt link)),
      (''updated_at'', JTime (lk_UpdatedAt link))]"

text \<open>Decoding: an absent key or \<^verbatim>\<open>null\<close> leaves the zero value, a value of another kind is an error.\<close>

definition json_str :: "json_object \<Rightarrow> string \<Rightarrow> string option" where
  "json_str obj k = (case map_of obj k of None \<Rightarrow> Some '''' | Some JNull \<Rightarrow> Some '''' | Some (JStr s) \<Rightarrow> Some s | _ \<Rightarrow> None)"

definition json_int :: "json_object \<Rightarrow> string \<Rightarrow> int option" where
  "json_int obj k = (case map_of obj k of None \<Rightarrow> Some 0 | Some JNull \<Rightarrow> Some 0 | Some (JInt n) \<Rightarrow> Some n | _ \<Rightarrow> None)"

definition json_time :: "json_object \<Rightarrow> string \<Rightarrow> gotime option" where
  "json_time obj k = (case map_of obj k of None \<Rightarrow> Some 0 | Some JNull \<Rightarrow> Some 0 | Some (JTime t) \<Rightarrow> Some t | _ \<Rightarrow> None)"

definition json_ptr :: "json_object \<Rightarrow> string \<Rightarrow> (json \<Rightarrow> 'a option) \<Rightarrow> 'a option option" where
  "json_ptr obj k conv =
     (case map_of obj k of None \<Rightarrow> Some None | Some JNull \<Rightarrow> Some None | Some j \<Rightarrow> map_option Some (conv j))"

fun json_as_str :: "json \<Rightarrow> string option" where
  "json_as_str (JStr s) = Some s"
| "json_as_str _ = None"

fun json_as_time :: "json \<Rightarrow> gotime option" where
  "json_as_time (JTime t) = Some t"
| "json_as_time _ = None"

definition unmarshal_link :: "json_object \<Rightarrow> SingleUseLink option" where
  "unmarshal_link obj =
     (case (json_int obj ''id'', json_str obj ''token'', json_str obj ''file_path'', json_str obj ''status'', json_time obj ''expires_at'',
            json_ptr obj ''used_at'' json_as_time, json_ptr obj ''used_by_ip'' json_as_str, json_str obj ''hmac_signature'',
            json_time obj ''created_at'', json_time obj ''updated_at'') of
        (Some ident, Some tok, Some fp, Some st, Some ex, Some ua, Some ip, Some hm, Some cr, Some up) \<Rightarrow>
          Some \<lparr>lk_ID = ident, lk_Token = tok, lk_FilePath = fp, lk_Status = st, lk_ExpiresAt = ex, lk_UsedAt = ua, lk_UsedByIP = ip,
                lk_HMACSignature = hm, lk_CreatedAt = cr, lk_UpdatedAt = up\<rparr>
      | _ \<Rightarrow> None)"

definition redis_GetSingleUseLink :: "RedisStore \<Rightarrow> gotime \<Rightarrow> string \<Rightarrow> redis \<Rightarrow> SingleUseLink result \<times> redis" where
  "redis_GetSingleUseLink s now token w =
     (case redis_call (GET now (linkKey s token)) w of
        (Inl err, w1) \<Rightarrow> (Inl (Wrapf ''failed to get single-use link'' err), w1)
      | (Inr None, w1) \<Rightarrow> (Inl ErrNotFound, w1)
      | (Inr (Some (LinkDoc obj)), w1) \<Rightarrow>
          (case unmarshal_link obj of
             Some link \<Rightarrow> (Inr link, w1)
           | None \<Rightarrow> (Inl (Errorf ''failed to decode single-use link''), w1))
      | (Inr (Some _), w1) \<Rightarrow> (Inl (Errorf ''failed to decode single-use link''), w1))"

definition redis_CreateSingleUseLink :: "RedisStore \<Rightarrow> gotime \<Rightarrow> SingleUseLink \<Rightarrow> redis \<Rightarrow> unit result \<times> redis" where
  "redis_CreateSingleUseLink s now link0 w =
     (let link1 = (if IsZero (lk_CreatedAt link0) then link0\<lparr>lk_CreatedAt := now\<rparr> else link0)\<lparr>lk_UpdatedAt := now\<rparr> in
      case redis_call (INCR now (sequenceKey s ''link'')) w of
        (Inl err, w1) \<Rightarrow> (Inl (Wrapf ''failed to allocate single-use link id'' err), w1)
      | (Inr ident, w1) \<Rightarrow>
          let link = link1\<lparr>lk_ID := ident\<rparr> in
          (case redis_call (SETNX now (linkKey s (lk_Token link)) (LinkDoc (marshal_link link)) None) w1 of
             (Inl err, w2) \<Rightarrow> (Inl (Wrapf ''failed to create single-use link'' err), w2)
           | (Inr stored, w2) \<Rightarrow> if \<not> stored then (Inl ErrAlreadyExists, w2) else (Inr (), w2)))"

text \<open>The script of \<^verbatim>\<open>UpdateSingleUseLink\<close>, with the keys it uses: \<^verbatim>\<open>link.Status\<close> and so on.\<close>

definition update_link_script ::
  "gotime \<Rightarrow> string \<Rightarrow> string \<Rightarrow> gotime option \<Rightarrow> string \<Rightarrow> gotime \<Rightarrow> redis \<Rightarrow> (string + unit) \<times> redis" where
  "update_link_script now key status usedAt usedByIPStr updatedAt w =
     (case rs_live now key w of
        None \<Rightarrow> (Inl ''not_found'', w)
      | Some (LinkDoc link) \<Rightarrow>
          if map_of link ''Status'' \<noteq> Some (JStr ''active'') then (Inl ''not_active'', w)
          else
            let link1 = AList.update ''Status'' (JStr status) link;
                link2 = (case usedAt of Some t \<Rightarrow> AList.update ''UsedAt'' (JTime t) link1 | None \<Rightarrow> link1);
                link3 = (if usedByIPStr \<noteq> '''' then AList.update ''UsedByIP'' (JStr usedByIPStr) link2 else link2)
            in (Inr (), rs_put key (LinkDoc (AList.update ''UpdatedAt'' (JTime updatedAt) link3)) None w)
      | Some _ \<Rightarrow> (Inl ''cannot decode'', w))"

definition redis_UpdateSingleUseLink ::
  "RedisStore \<Rightarrow> gotime \<Rightarrow> string \<Rightarrow> string \<Rightarrow> gotime option \<Rightarrow> string option \<Rightarrow> redis \<Rightarrow> unit result \<times> redis" where
  "redis_UpdateSingleUseLink s now token status usedAt usedByIP w =
     (let usedByIPStr = (case usedByIP of Some ip \<Rightarrow> ip | None \<Rightarrow> '''') in
      case redis_call (update_link_script now (linkKey s token) status usedAt usedByIPStr now) w of
        (res, w1) \<Rightarrow>
          (case eval_err res of
             None \<Rightarrow> (Inr (), w1)
           | Some err \<Rightarrow>
               if Contains (Error err) ''not_found'' then (Inl ErrNotFound, w1)
               else if Contains (Error err) ''not_active'' then (Inl ErrNotFound, w1)
               else (Inl (Wrapf ''failed to update single-use link'' err), w1)))"

fun cleanup_loop ::
  "gotime \<Rightarrow> (SingleUseLink \<Rightarrow> bool) \<Rightarrow> string list \<Rightarrow> nat \<Rightarrow> redis \<Rightarrow> nat \<times> redis" where
  "cleanup_loop now stale [] cnt w = (cnt, w)"
| "cleanup_loop now stale (key # keys) cnt w =
     (case redis_call (GET now key) w of
        (Inr (Some (LinkDoc obj)), w1) \<Rightarrow>
          (case unmarshal_link obj of
             None \<Rightarrow> cleanup_loop now stale keys cnt w1
           | Some link \<Rightarrow>
               if stale link then
                 (case redis_call (\<lambda>w. ((), rs_del key w)) w1 of
                    (Inl _, w2) \<Rightarrow> cleanup_loop now stale keys cnt w2
                  | (Inr _, w2) \<Rightarrow> cleanup_loop now stale keys (cnt + 1) w2)
               else cleanup_loop now stale keys cnt w1)
      | (_, w1) \<Rightarrow> cleanup_loop now stale keys cnt w1)"

definition scan_links :: "RedisStore \<Rightarrow> gotime \<Rightarrow> redis \<Rightarrow> string list" where
  "scan_links s now w =
     filter (\<lambda>k. HasPrefix k (linkKey s '''') \<and> rs_live now k w \<noteq> None) (map fst (rs_keys w))"

definition cleanup_links :: "RedisStore \<Rightarrow> gotime \<Rightarrow> (SingleUseLink \<Rightarrow> bool) \<Rightarrow> string \<Rightarrow> redis \<Rightarrow> nat result \<times> redis" where
  "cleanup_links s now stale what w =
     (case redis_call (\<lambda>w. (scan_links s now w, w)) w of
        (Inl err, w1) \<Rightarrow> (Inl (Wrapf what err), w1)
      | (Inr keys, w1) \<Rightarrow> apfst Inr (cleanup_loop now stale keys 0 w1))"

definition redis_CleanupExpiredLinks :: "RedisStore \<Rightarrow> gotime \<Rightarrow> gotime \<Rightarrow> redis \<Rightarrow> nat result \<times> redis" where
  "redis_CleanupExpiredLinks s now before =
     cleanup_links s now (\<lambda>link. Before (lk_ExpiresAt link) before) ''failed to cleanup expired links''"

definition redis_CleanupUsedLinks :: "RedisStore \<Rightarrow> gotime \<Rightarrow> gotime \<Rightarrow> redis \<Rightarrow> nat result \<times> redis" where
  "redis_CleanupUsedLinks s now olderThan =
     cleanup_links s now
       (\<lambda>link. lk_Status link = ''used'' \<and> (case lk_UsedAt link of Some t \<Rightarrow> Before t olderThan | None \<Rightarrow> False))
       ''failed to cleanup used links''"

subsection \<open>Erasure records (metadata/redis/erasure.go)\<close>

definition redis_CreateErasureInfo :: "RedisStore \<Rightarrow> gotime \<Rightarrow> string \<Rightarrow> ErasureFileInfo \<Rightarrow> redis \<Rightarrow> unit result \<times> redis" where
  "redis_CreateErasureInfo s now filePath info w =
     (case redis_call (SETNX now (erasureKey s filePath) (ErasureDoc info) None) w of
        (Inl err, w1) \<Rightarrow> (Inl (Wrapf ''failed to store erasure info'' err), w1)
      | (Inr stored, w1) \<Rightarrow> if \<not> stored then (Inl ErrAlreadyExists, w1) else (Inr (), w1))"

definition redis_GetErasureInfo :: "RedisStore \<Rightarrow> gotime \<Rightarrow> string \<Rightarrow> redis \<Rightarrow> ErasureFileInfo result \<times> redis" where
  "redis_GetErasureInfo s now filePath w =
     (case redis_call (GET now (erasureKey s filePath)) w of
        (Inl err, w1) \<Rightarrow> (Inl (Wrapf ''failed to get erasure info'' err), w1)
      | (Inr None, w1) \<Rightarrow> (Inl ErrNotFound, w1)
      | (Inr (Some (ErasureDoc info)), w1) \<Rightarrow> (Inr info, w1)
      | (Inr (Some _), w1) \<Rightarrow> (Inl (Errorf ''failed to decode erasure info''), w1))"

definition redis_DeleteErasureInfo :: "RedisStore \<Rightarrow> gotime \<Rightarrow> string \<Rightarrow> redis \<Rightarrow> unit result \<times> redis" where
  "redis_DeleteErasureInfo s now filePath w =
     (case redis_call (\<lambda>w. ((), rs_del (erasureKey s filePath) w)) w of
        (Inl err, w1) \<Rightarrow> (Inl (Wrapf ''failed to delete erasure info'' err), w1)
      | (Inr _, w1) \<Rightarrow> (Inr (), w1))"

subsection \<open>The store as a table of metadata\<close>

text \<open>The abstract store: the records by path, and the last identifier handed out.\<close>

fun table_step :: "meta_event \<Rightarrow> (string \<Rightarrow> Metadata option) \<times> int \<Rightarrow> (string \<Rightarrow> Metadata option) \<times> int" where
  "table_step (MkMeta now md) (m, n) =
     (if m (md_Path md) = None then m(md_Path md \<mapsto> (stamped now md)\<lparr>md_ID := n + 1\<rparr>) else m, n + 1)"
| "table_step (UpMeta now md) (m, n) =
     (if m (md_Path md) = None then m else m(md_Path md \<mapsto> md\<lparr>md_UpdatedAt := now\<rparr>), n)"
| "table_step (RmMeta now p) (m, n) = (m(p := None), n)"

fun redis_step :: "RedisStore \<Rightarrow> meta_event \<Rightarrow> redis \<Rightarrow> redis" where
  "redis_step s (MkMeta now md) w = snd (redis_Create s now md w)"
| "redis_step s (UpMeta now md) w = snd (redis_Update s now md w)"
| "redis_step s (RmMeta now p) w = snd (redis_Delete s now p w)"

definition kids :: "(string \<Rightarrow> Metadata option) \<Rightarrow> string \<Rightarrow> string set" where
  "kids m p = {q. m q \<noteq> None \<and> redis_parentPath q = p}"

text \<open>Paths are absolute, and only entries without others below them are deleted, as the engine does it.\<close>

fun admissible :: "meta_event \<Rightarrow> (string \<Rightarrow> Metadata option) \<Rightarrow> bool" where
  "admissible (MkMeta now md) m = HasPrefix (md_Path md) ''/''"
| "admissible (UpMeta now md) m = HasPrefix (md_Path md) ''/''"
| "admissible (RmMeta now p) m = (HasPrefix p ''/'' \<and> kids m p \<subseteq> {p})"

fun admissible_run :: "meta_event list \<Rightarrow> (string \<Rightarrow> Metadata option) \<times> int \<Rightarrow> bool" where
  "admissible_run [] mn = True"
| "admissible_run (ev # evs) mn = (admissible ev (fst mn) \<and> admissible_run evs (table_step ev mn))"

definition counts :: "int \<Rightarrow> (doc \<times> gotime option) option \<Rightarrow> bool" where
  "counts n x \<longleftrightarrow> (x = None \<and> n = 0) \<or> x = Some (Counter n, None)"

definition collects :: "string set \<Rightarrow> (doc \<times> gotime option) option \<Rightarrow> bool" where
  "collects A x \<longleftrightarrow> (x = None \<and> A = {}) \<or> (\<exists>xs. x = Some (Members xs, None) \<and> set xs = A)"

definition represents :: "RedisStore \<Rightarrow> redis \<Rightarrow> (string \<Rightarrow> Metadata option) \<times> int \<Rightarrow> bool" where
  "represents s w mn \<longleftrightarrow> rs_faults w = [] \<and>
     (\<forall>p. HasPrefix p ''/'' \<longrightarrow> map_of (rs_keys w) (metadataKey s p) = map_option (\<lambda>md. (MetaDoc md, None)) (fst mn p)) \<and>
     (\<forall>p. HasPrefix p ''/'' \<longrightarrow> collects (kids (fst mn) p) (map_of (rs_keys w) (childrenKey s p))) \<and>
     counts (snd mn) (map_of (rs_keys w) (sequenceKey s ''inode'')) \<and>
     (\<forall>p md. fst mn p = Some md \<longrightarrow> HasPrefix p ''/'' \<and> md_Path md = p)"

lemma normalizePath_abs [simp]: "HasPrefix p ''/'' \<Longrightarrow> normalizePath p = p"
  by (auto simp: normalizePath_def HasPrefix_def)

lemma redis_keys [simp]:
  "metadataKey s p \<noteq> childrenKey s q" "childrenKey s q \<noteq> metadataKey s p"
  "metadataKey s p \<noteq> sequenceKey s x" "sequenceKey s x \<noteq> metadataKey s p"
  "childrenKey s p \<noteq> sequenceKey s x" "sequenceKey s x \<noteq> childrenKey s p"
  by (simp_all add: metadataKey_def childrenKey_def sequenceKey_def)

lemma redis_keys_inj [simp]:
  "HasPrefix p ''/'' \<Longrightarrow> HasPrefix q ''/'' \<Longrightarrow> metadataKey s p = metadataKey s q \<longleftrightarrow> p = q"
  "HasPrefix p ''/'' \<Longrightarrow> HasPrefix q ''/'' \<Longrightarrow> childrenKey s p = childrenKey s q \<longleftrightarrow> p = q"
  by (simp_all add: metadataKey_def childrenKey_def)

lemma redis_parentPath_abs: "HasPrefix (redis_parentPath p) ''/''"
  by (auto simp: redis_parentPath_def Let_def HasPrefix_def)

lemma INCR_counts:
  "counts n (map_of (rs_keys w) key) \<Longrightarrow> INCR now key w = (n + 1, rs_put key (Counter (n + 1)) None w)"
  by (auto simp: counts_def INCR_def rs_live_def Let_def)

lemma members_collects: "collects A (map_of (rs_keys w) key) \<Longrightarrow> set (members now key w) = A"
  by (auto simp: collects_def members_def rs_live_def)

lemma SREM_collects:
  assumes "collects A (map_of (rs_keys w) key)"
  shows "collects (A - {x}) (map_of (rs_keys (SREM now key x w)) key)"
    and "k \<noteq> key \<Longrightarrow> map_of (rs_keys (SREM now key x w)) k = map_of (rs_keys w) k"
    and "rs_faults (SREM now key x w) = rs_faults w"
proof -
  have all: "removeAll x ys = [] \<Longrightarrow> y \<in> set ys \<Longrightarrow> y = x" for ys :: "string list" and y
    by (metis Diff_iff empty_iff empty_set insertE set_removeAll)
  have "set (members now key w) = A" using members_collects [OF assms] .
  then show "collects (A - {x}) (map_of (rs_keys (SREM now key x w)) key)"
    using assms by (auto simp: SREM_def Let_def collects_def dest: all)
qed (simp_all add: SREM_def Let_def)

lemma eval_err_simps [simp]: "eval_err (Inl e) = Some e" "eval_err (Inr (Inl m)) = Some (Errorf m)" "eval_err (Inr (Inr u)) = None"
  by (simp_all add: eval_err_def)

lemma Contains_self [simp]: "Contains t t"
proof -
  have "t = [] @ t @ []" by simp
  then show ?thesis unfolding Contains_iff by blast
qed

lemma representsD:
  assumes "represents s w (m, n)"
  shows "rs_faults w = []" "HasPrefix p ''/'' \<Longrightarrow> map_of (rs_keys w) (metadataKey s p) = map_option (\<lambda>md. (MetaDoc md, None)) (m p)"
    "HasPrefix p ''/'' \<Longrightarrow> collects (kids m p) (map_of (rs_keys w) (childrenKey s p))"
    "counts n (map_of (rs_keys w) (sequenceKey s ''inode''))" "m p = Some md \<Longrightarrow> HasPrefix p ''/'' \<and> md_Path md = p"
  using assms by (auto simp: represents_def)

lemma live_md:
  assumes "represents s w (m, n)" "HasPrefix p ''/''"
  shows "rs_live now (metadataKey s p) w = map_option MetaDoc (m p)"
  using representsD(2) [OF assms] by (simp add: rs_live_def option.map_comp split: option.split)

lemma redis_Get_table:
  assumes "represents s w (m, n)" "HasPrefix p ''/''"
  shows "redis_Get s now p w = (case m p of Some md \<Rightarrow> Inr md | None \<Rightarrow> Inl ErrNotFound, w)"
  using live_md [OF assms, of now] representsD(1) [OF assms(1)]
  by (simp add: redis_Get_def GET_def split: option.split)

lemma redis_Create_table:
  assumes r: "represents s w (m, n)" and p: "HasPrefix (md_Path md) ''/''"
  shows "represents s (snd (redis_Create s now md w)) (table_step (MkMeta now md) (m, n))"
    and "fst (redis_Create s now md w) =
      (if m (md_Path md) = None then Inr ((stamped now md)\<lparr>md_ID := n + 1\<rparr>) else Inl ErrAlreadyExists)"
proof -
  let ?p = "md_Path md"
  let ?par = "redis_parentPath ?p"
  let ?md = "(stamped now md)\<lparr>md_ID := n + 1\<rparr>"
  define w1 where "w1 = rs_put (sequenceKey s ''inode'') (Counter (n + 1)) None w"
  note rd = representsD [OF r]
  have f1: "rs_faults w1 = []" using rd(1) by (simp add: w1_def)
  have live: "rs_live now (metadataKey s ?p) w1 = map_option MetaDoc (m ?p)"
    using live_md [OF r p, of now] by (simp add: w1_def)
  have inc: "INCR now (sequenceKey s ''inode'') w = (n + 1, w1)" using INCR_counts [OF rd(4)] by (simp add: w1_def)
  have par: "HasPrefix ?par ''/''" by (rule redis_parentPath_abs)
  have "represents s (snd (redis_Create s now md w)) (table_step (MkMeta now md) (m, n)) \<and>
    fst (redis_Create s now md w) = (if m ?p = None then Inr ?md else Inl ErrAlreadyExists)"
  proof (cases "m ?p")
    case (Some x)
    have "represents s w1 (m, n + 1)"
      using r by (auto simp: represents_def w1_def counts_def)
    then show ?thesis
      using Some inc live f1 rd(1)
      by (simp add: redis_Create_def create_script_def SETNX_def Let_def del: Contains.simps)
  next
    case None
    define w2 where "w2 = rs_put (metadataKey s ?p) (MetaDoc ?md) None w1"
    define w3 where "w3 = SADD now (childrenKey s ?par) ?p w2"
    have run: "redis_Create s now md w = (Inr ?md, w3)"
      using None inc live f1 rd(1) by (simp add: redis_Create_def create_script_def SETNX_def Let_def w2_def w3_def)
    have kids': "kids (m(?p \<mapsto> ?md)) q = (if q = ?par then insert ?p (kids m q) else kids m q)" for q
      using None by (auto simp: kids_def)
    have mem: "set (members now (childrenKey s ?par) w2) = kids m ?par"
      using members_collects [of "kids m ?par" w2 "childrenKey s ?par" now] rd(3) [OF par] by (simp add: w2_def w1_def)
    have "represents s w3 (m(?p \<mapsto> ?md), n + 1)"
      unfolding represents_def fst_conv snd_conv
    proof (intro conjI allI impI)
      show "rs_faults w3 = []" using f1 by (simp add: w3_def w2_def SADD_def)
      show "map_of (rs_keys w3) (metadataKey s q) = map_option (\<lambda>md. (MetaDoc md, None)) ((m(?p \<mapsto> ?md)) q)"
        if "HasPrefix q ''/''" for q
        using rd(2) [OF that] that p by (simp add: w3_def w2_def w1_def SADD_def)
      show "collects (kids (m(?p \<mapsto> ?md)) q) (map_of (rs_keys w3) (childrenKey s q))" if "HasPrefix q ''/''" for q
        using rd(3) [OF that] that par mem
        by (auto simp: kids' w3_def w2_def w1_def SADD_def collects_def [of "insert ?p (kids m ?par)"])
      show "counts (n + 1) (map_of (rs_keys w3) (sequenceKey s ''inode''))"
        by (simp add: w3_def w2_def w1_def SADD_def counts_def)
      show "HasPrefix q ''/''" "md_Path x = q" if "(m(?p \<mapsto> ?md)) q = Some x" for q x
        using that p rd(5) [of q x] by (auto split: if_splits)
    qed
    then show ?thesis using None by (simp add: run)
  qed
  then show "represents s (snd (redis_Create s now md w)) (table_step (MkMeta now md) (m, n))"
    "fst (redis_Create s now md w) = (if m ?p = None then Inr ?md else Inl ErrAlreadyExists)" by blast+
qed

lemma redis_Update_table:
  assumes r: "represents s w (m, n)" and p: "HasPrefix (md_Path md) ''/''"
  shows "represents s (snd (redis_Update s now md w)) (table_step (UpMeta now md) (m, n))"
proof (cases "m (md_Path md)")
  case None
  then show ?thesis using redis_Get_table [OF r p, of now] r by (simp add: redis_Update_def)
next
  case (Some x)
  let ?p = "md_Path md"
  let ?md = "md\<lparr>md_UpdatedAt := now\<rparr>"
  note rd = representsD [OF r]
  have run: "snd (redis_Update s now md w) = rs_put (metadataKey s ?p) (MetaDoc ?md) None w"
    using redis_Get_table [OF r p, of now] Some rd(1) by (simp add: redis_Update_def Let_def)
  have kids': "kids (m(?p \<mapsto> ?md)) q = kids m q" for q using Some by (auto simp: kids_def)
  have "represents s (rs_put (metadataKey s ?p) (MetaDoc ?md) None w) (m(?p \<mapsto> ?md), n)"
    unfolding represents_def fst_conv snd_conv kids'
    using rd p by (auto split: if_splits)
  then show ?thesis using Some by (simp add: run)
qed

lemma redis_Delete_table:
  assumes r: "represents s w (m, n)" and p: "HasPrefix p ''/''" and leaf: "kids m p \<subseteq> {p}"
  shows "represents s (snd (redis_Delete s now p w)) (table_step (RmMeta now p) (m, n))"
proof (cases "m p")
  case None
  then have "m(p := None) = m" by auto
  then show ?thesis
    using None live_md [OF r p, of now] representsD(1) [OF r] r by (simp add: redis_Delete_def delete_script_def)
next
  case (Some x)
  let ?par = "redis_parentPath p"
  note rd = representsD [OF r]
  define w1 where "w1 = rs_del (metadataKey s p) w"
  define w2 where "w2 = SREM now (childrenKey s ?par) p w1"
  define w3 where "w3 = rs_del (childrenKey s p) w2"
  have run: "snd (redis_Delete s now p w) = w3"
    using Some live_md [OF r p, of now] rd(1) by (simp add: redis_Delete_def delete_script_def w1_def w2_def w3_def)
  have par: "HasPrefix ?par ''/''" by (rule redis_parentPath_abs)
  have c1: "collects (kids m ?par) (map_of (rs_keys w1) (childrenKey s ?par))" using rd(3) [OF par] by (simp add: w1_def)
  note c2 = SREM_collects [OF c1, where x = p and now = now, folded w2_def]
  have kids': "kids (m(p := None)) q = (if q = ?par then kids m q - {p} else kids m q)" for q
    by (auto simp: kids_def)
  have own: "kids (m(p := None)) p = {}" using leaf by (auto simp: kids_def split: if_splits)
  have "represents s w3 (m(p := None), n)"
    unfolding represents_def fst_conv snd_conv
  proof (intro conjI allI impI)
    show "rs_faults w3 = []" using rd(1) c2(3) by (simp add: w3_def w1_def)
    show "map_of (rs_keys w3) (metadataKey s q) = map_option (\<lambda>md. (MetaDoc md, None)) ((m(p := None)) q)"
      if "HasPrefix q ''/''" for q
      using rd(2) [OF that] that p c2(2) [of "metadataKey s q"] by (simp add: w3_def w1_def)
    show "collects (kids (m(p := None)) q) (map_of (rs_keys w3) (childrenKey s q))" if q: "HasPrefix q ''/''" for q
    proof (cases "q = p")
      case True
      then show ?thesis using own by (simp add: w3_def collects_def)
    next
      case False
      then have k3: "map_of (rs_keys w3) (childrenKey s q) = map_of (rs_keys w2) (childrenKey s q)" using p q by (simp add: w3_def)
      show ?thesis
      proof (cases "q = ?par")
        case True
        then show ?thesis using c2(1) k3 by (simp add: kids')
      next
        case False
        then show ?thesis using k3 c2(2) [of "childrenKey s q"] rd(3) [OF q] q par by (simp add: kids' w1_def)
      qed
    qed
    show "counts n (map_of (rs_keys w3) (sequenceKey s ''inode''))"
      using rd(4) c2(2) [of "sequenceKey s ''inode''"] by (simp add: w3_def w1_def)
    show "HasPrefix q ''/''" "md_Path y = q" if "(m(p := None)) q = Some y" for q y
      using that rd(5) [of q y] by (auto split: if_splits)
  qed
  then show ?thesis by (simp add: run)
qed

lemma collect_children_table:
  assumes r: "represents s w (m, n)"
  shows "\<forall>q \<in> set ps. HasPrefix q ''/'' \<Longrightarrow>
    collect_children s now ps w = (Inr (List.map_filter m ps), w)"
proof (induction ps)
  case (Cons q ps)
  then show ?case
    using redis_Get_table [OF r, of q now] by (simp add: map_filter_simps split: option.split)
qed (simp add: map_filter_simps)

lemma set_sort_children [simp]: "set (sort_children xs) = set xs"
  by (simp add: sort_children_def Let_def)

lemma redis_ListChildren_table:
  assumes r: "represents s w (m, n)" and p: "HasPrefix p ''/''"
  obtains cs where "redis_ListChildren s now p w = (Inr cs, w)"
    "set cs = {md. \<exists>q. m q = Some md \<and> redis_parentPath q = p}"
proof -
  let ?ps = "members now (childrenKey s p) w"
  have ps: "set ?ps = kids m p" using members_collects [OF representsD(3) [OF r p]] .
  have "\<forall>q \<in> set ?ps. HasPrefix q ''/''" using ps representsD(5) [OF r] by (auto simp: kids_def)
  note c = collect_children_table [OF r this, of now]
  have "redis_ListChildren s now p w = (Inr (sort_children (List.map_filter m ?ps)), w)"
    using c representsD(1) [OF r] by (simp add: redis_ListChildren_def)
  moreover have "set (List.map_filter m ?ps) = {md. \<exists>q. m q = Some md \<and> redis_parentPath q = p}"
    using ps by (force simp: List.map_filter_def kids_def)
  ultimately show ?thesis using that by simp
qed

lemma redis_run_table:
  assumes "represents s w mn" "admissible_run evs mn"
  shows "represents s (fold (redis_step s) evs w) (fold table_step evs mn)"
  using assms
proof (induction evs arbitrary: w mn)
  case (Cons ev evs)
  obtain m n where mn: "mn = (m, n)" by (cases mn)
  have "represents s (redis_step s ev w) (table_step ev mn)"
    using Cons.prems redis_Create_table(1) redis_Update_table redis_Delete_table
    by (cases ev) (auto simp: mn simp del: table_step.simps)
  then show ?case using Cons by simp
qed simp

lemma empty_represents: "represents s empty_redis (Map.empty, 0)"
  by (simp add: represents_def empty_redis_def counts_def collects_def kids_def)


definition redis_demo_run :: "meta_event list" where
  "redis_demo_run = [MkMeta 1 (zero_Metadata\<lparr>md_Path := ''/'', md_Type := ''directory''\<rparr>),
     MkMeta 2 (zero_Metadata\<lparr>md_Path := ''/a'', md_Type := ''file''\<rparr>), MkMeta 3 (zero_Metadata\<lparr>md_Path := ''/b''\<rparr>),
     UpMeta 4 (zero_Metadata\<lparr>md_Path := ''/a'', md_Size := 7\<rparr>), RmMeta 5 ''/b'']"


subsection \<open>Links on the Redis store\<close>

text \<open>No link object ever has the key \<^verbatim>\<open>Status\<close> that the script looks at.\<close>

fun lower_keys :: "doc \<Rightarrow> bool" where
  "lower_keys (LinkDoc obj) = (map_of obj ''Status'' = None)"
| "lower_keys _ = True"

definition no_capital_status :: "redis \<Rightarrow> bool" where
  "no_capital_status w \<longleftrightarrow> (\<forall>k d e. map_of (rs_keys w) k = Some (d, e) \<longrightarrow> lower_keys d)"

lemma call_no_capital:
  assumes "no_capital_status w" "\<And>w1. no_capital_status w1 \<Longrightarrow> no_capital_status (snd (f w1))"
  shows "no_capital_status (snd (redis_call f w))"
proof -
  obtain r w' where c: "redis_call f w = (r, w')" by fastforce
  from c show ?thesis
  proof (cases rule: redis_call_cases)
    case (fault err)
    then show ?thesis using assms(1) c by (simp add: no_capital_status_def)
  next
    case (run w1 x)
    then have "no_capital_status w1" using assms(1) by (simp add: no_capital_status_def)
    from assms(2) [OF this] show ?thesis using run c by simp
  qed
qed

lemma put_no_capital [simp]:
  "no_capital_status w \<Longrightarrow> lower_keys d \<Longrightarrow> no_capital_status (rs_put k d x w)"
  "no_capital_status w \<Longrightarrow> no_capital_status (rs_del k w)"
  by (fastforce simp: no_capital_status_def split: if_splits)+

lemma marshal_no_capital [simp]: "map_of (marshal_link link) ''Status'' = None"
  by (simp add: marshal_link_def)

lemma commands_no_capital [simp]:
  "no_capital_status w \<Longrightarrow> no_capital_status (snd (INCR now k w))"
  "no_capital_status w \<Longrightarrow> lower_keys d \<Longrightarrow> no_capital_status (snd (SETNX now k d t w))"
  "no_capital_status w \<Longrightarrow> no_capital_status (snd (GET now k w))"
  by (simp_all add: INCR_def SETNX_def GET_def Let_def)

lemma script_rejects:
  assumes "no_capital_status w"
  shows "snd (update_link_script now key status usedAt ip t w) = w" "\<exists>msg. fst (update_link_script now key status usedAt ip t w) = Inl msg"
proof -
  have "map_of obj ''Status'' = None" if "rs_live now key w = Some (LinkDoc obj)" for obj
    using that assms by (fastforce simp: rs_live_def no_capital_status_def split: option.splits if_splits)
  then show "snd (update_link_script now key status usedAt ip t w) = w" "\<exists>msg. fst (update_link_script now key status usedAt ip t w) = Inl msg"
    by (auto simp: update_link_script_def split: option.splits doc.splits)
qed

lemma create_link_no_capital:
  assumes "no_capital_status w"
  shows "no_capital_status (snd (redis_CreateSingleUseLink s now link w))"
proof -
  obtain r w1 where i: "redis_call (INCR now (sequenceKey s ''link'')) w = (r, w1)" by fastforce
  have w1: "no_capital_status w1" using call_no_capital [OF assms, of "INCR now (sequenceKey s ''link'')"] i by simp
  define link1 where "link1 = (if IsZero (lk_CreatedAt link) then link\<lparr>lk_CreatedAt := now\<rparr> else link)\<lparr>lk_UpdatedAt := now\<rparr>"
  show ?thesis
  proof (cases r)
    case (Inl err)
    then show ?thesis using w1 by (simp add: redis_CreateSingleUseLink_def Let_def i)
  next
    case (Inr ident)
    let ?l = "link1\<lparr>lk_ID := ident\<rparr>"
    obtain u w2 where d: "redis_call (SETNX now (linkKey s (lk_Token ?l)) (LinkDoc (marshal_link ?l)) None) w1 = (u, w2)" by fastforce
    have "no_capital_status (snd (redis_call (SETNX now (linkKey s (lk_Token ?l)) (LinkDoc (marshal_link ?l)) None) w1))"
      by (rule call_no_capital [OF w1]) (simp add: commands_no_capital(2))
    then have "no_capital_status w2" by (simp only: d snd_conv)
    then show ?thesis
      unfolding redis_CreateSingleUseLink_def link1_def [symmetric] Let_def i Inr prod.case sum.case d by (simp split: sum.split)
  qed
qed

lemma update_link_no_capital:
  assumes "no_capital_status w"
  shows "no_capital_status (snd (redis_UpdateSingleUseLink s now token status usedAt ip w))"
    and "fst (redis_UpdateSingleUseLink s now token status usedAt ip w) \<noteq> Inr ()"
proof -
  let ?f = "update_link_script now (linkKey s token) status usedAt (case ip of Some x \<Rightarrow> x | None \<Rightarrow> '''') now"
  obtain r w1 where c: "redis_call ?f w = (r, w1)" by fastforce
  have "no_capital_status w1 \<and> eval_err r \<noteq> None"
    using c
  proof (cases rule: redis_call_cases)
    case (fault err)
    then show ?thesis using assms by (simp add: no_capital_status_def)
  next
    case (run w2 x)
    then have "no_capital_status w2" using assms by (simp add: no_capital_status_def)
    from script_rejects [OF this, of now "linkKey s token" status usedAt "case ip of Some x \<Rightarrow> x | None \<Rightarrow> ''''" now] this run(2,3)
    show ?thesis by auto
  qed
  then show "no_capital_status (snd (redis_UpdateSingleUseLink s now token status usedAt ip w))"
    "fst (redis_UpdateSingleUseLink s now token status usedAt ip w) \<noteq> Inr ()"
    using c by (auto simp: redis_UpdateSingleUseLink_def Let_def split: option.split)
qed

lemma cleanup_loop_no_capital:
  "no_capital_status w \<Longrightarrow> no_capital_status (snd (cleanup_loop now stale keys n w))"
proof (induction now stale keys n w rule: cleanup_loop.induct)
  case (2 now stale key keys cnt w)
  obtain r w1 where g: "redis_call (GET now key) w = (r, w1)" by fastforce
  have w1: "no_capital_status w1" using call_no_capital [OF "2.prems", of "GET now key"] g by simp
  obtain u w2 where d: "redis_call (\<lambda>w. ((), rs_del key w)) w1 = (u, w2)" by fastforce
  have w2: "no_capital_status w2" using call_no_capital [OF w1, of "\<lambda>w. ((), rs_del key w)"] d by simp
  show ?case
    using "2.IH" w1 w2 by (auto simp: g d split: sum.splits option.splits doc.splits if_splits)
qed simp

datatype redis_link_event =
    MkLink gotime SingleUseLink
  | UseLink gotime string string "gotime option" "string option"
  | SweepExpired gotime gotime
  | SweepUsed gotime gotime

fun redis_link_step :: "RedisStore \<Rightarrow> redis_link_event \<Rightarrow> redis \<Rightarrow> redis" where
  "redis_link_step s (MkLink now link) w = snd (redis_CreateSingleUseLink s now link w)"
| "redis_link_step s (UseLink now token status usedAt ip) w = snd (redis_UpdateSingleUseLink s now token status usedAt ip w)"
| "redis_link_step s (SweepExpired now before) w = snd (redis_CleanupExpiredLinks s now before w)"
| "redis_link_step s (SweepUsed now olderThan) w = snd (redis_CleanupUsedLinks s now olderThan w)"

lemma cleanup_no_capital:
  assumes "no_capital_status w"
  shows "no_capital_status (snd (cleanup_links s now stale what w))"
proof -
  obtain r w1 where c: "redis_call (\<lambda>w. (scan_links s now w, w)) w = (r, w1)" by fastforce
  have "no_capital_status w1" using call_no_capital [OF assms, of "\<lambda>w. (scan_links s now w, w)"] c by simp
  then show ?thesis
    using cleanup_loop_no_capital [of w1 now stale _ 0] by (simp add: cleanup_links_def c split: sum.split)
qed

lemma link_step_no_capital: "no_capital_status w \<Longrightarrow> no_capital_status (redis_link_step s ev w)"
  by (cases ev) (simp_all add: create_link_no_capital update_link_no_capital(1) cleanup_no_capital
      redis_CleanupExpiredLinks_def redis_CleanupUsedLinks_def)

lemma link_run_no_capital: "no_capital_status w \<Longrightarrow> no_capital_status (fold (redis_link_step s) evs w)"
  by (induction evs arbitrary: w) (simp_all add: link_step_no_capital)

lemma redis_link_roundtrip: "unmarshal_link (marshal_link link) = Some link"
  by (cases link) (simp add: unmarshal_link_def marshal_link_def json_int_def json_str_def json_time_def json_ptr_def split: option.split)

text \<open>
  C21: (error) On the Redis store no link can ever be redeemed: a link that has been created is read back as
  it was stored, but after any run of link operations, with any failures of the connection, every
  call of \<^verbatim>\<open>UpdateSingleUseLink\<close> fails, because its script asks for the field \<^verbatim>\<open>Status\<close> of an object whose key
  is \<^verbatim>\<open>status\<close>.
\<close>

theorem redis_links_never_redeemed:
  fixes s :: RedisStore and evs :: "redis_link_event list"
  assumes "rs_keys w0 = []"
  defines "w \<equiv> fold (redis_link_step s) evs w0"
  shows "fst (redis_UpdateSingleUseLink s now token status usedAt ip w) \<noteq> Inr () \<and>
    (rs_faults w = [] \<longrightarrow> rs_live now (linkKey s token) w = Some (LinkDoc (marshal_link link)) \<longrightarrow>
       fst (redis_GetSingleUseLink s now token w) = Inr link \<and>
       redis_UpdateSingleUseLink s now token status usedAt ip w = (Inl ErrNotFound, w))"
proof -
  have w: "no_capital_status w"
    unfolding w_def by (rule link_run_no_capital) (simp add: no_capital_status_def assms(1))
  have "fst (redis_GetSingleUseLink s now token w) = Inr link \<and>
      redis_UpdateSingleUseLink s now token status usedAt ip w = (Inl ErrNotFound, w)"
    if "rs_faults w = []" "rs_live now (linkKey s token) w = Some (LinkDoc (marshal_link link))"
    using that
    by (simp add: redis_GetSingleUseLink_def GET_def redis_link_roundtrip redis_UpdateSingleUseLink_def update_link_script_def Let_def
        del: Contains.simps)
  then show ?thesis using update_link_no_capital(2) [OF w] by blast
qed

definition redis_demo_link :: SingleUseLink where
  "redis_demo_link = \<lparr>lk_ID = 0, lk_Token = ''t'', lk_FilePath = ''/f'', lk_Status = ''active'', lk_ExpiresAt = 100, lk_UsedAt = None,
     lk_UsedByIP = None, lk_HMACSignature = ''h'', lk_CreatedAt = 0, lk_UpdatedAt = 0\<rparr>"

theorem redis_links_never_redeemed_witness:
  "redis_UpdateSingleUseLink \<lparr>rt_prefix = ''p:''\<rparr> 2 ''t'' ''used'' (Some 2) None
     (fold (redis_link_step \<lparr>rt_prefix = ''p:''\<rparr>) [MkLink 1 redis_demo_link] empty_redis) =
   (Inl ErrNotFound, fold (redis_link_step \<lparr>rt_prefix = ''p:''\<rparr>) [MkLink 1 redis_demo_link] empty_redis)"
proof -
  let ?s = "\<lparr>rt_prefix = ''p:''\<rparr>"
  let ?w = "fold (redis_link_step ?s) [MkLink 1 redis_demo_link] empty_redis"
  let ?l = "redis_demo_link\<lparr>lk_ID := 1, lk_CreatedAt := 1, lk_UpdatedAt := 1\<rparr>"
  have "rs_keys empty_redis = []" "rs_faults ?w = []" "rs_live 2 (linkKey ?s ''t'') ?w = Some (LinkDoc (marshal_link ?l))"
    by (simp add: empty_redis_def, code_simp+)
  from redis_links_never_redeemed [OF this(1), where s = ?s and evs = "[MkLink 1 redis_demo_link]" and now = 2 and token = "''t''"
      and status = "''used''" and usedAt = "Some 2" and ip = None and link = ?l] this(2,3)
  show ?thesis by simp
qed

end
