(* ===== verification/Sql.thy ===== *)
theory Sql
  imports StoreSpec
begin

section \<open>SQL tables\<close>

text \<open>
  What the two SQL stores share: the rows of their tables, a database whose statements may fail, the
  meaning of the statements the program writes, and \<^verbatim>\<open>LIKE\<close>. A column that holds a time has a type of
  its own, because SQLite keeps texts and PostgreSQL numbers. A statement of the client can fail
  before it has an effect, or have its effect and lose the answer: \<open>db_faults\<close> says so for the statements to
  come (all of them work when the list is used up). A violated constraint is an error that names it.
\<close>

record 't inode_row =
  in_id :: int
  in_parent_id :: "int option"
  in_name :: string
  in_path :: string
  in_type :: string
  in_size :: int
  in_mode :: string
  in_uid :: int
  in_gid :: int
  in_atime :: 't
  in_mtime :: 't
  in_ctime :: 't
  in_backend_type :: string
  in_callfs_instance_id :: "string option"
  in_symlink_target :: "string option"
  in_created_at :: 't
  in_updated_at :: 't

record 't link_row =
  lr_id :: int
  lr_token :: string
  lr_file_path :: string
  lr_status :: string
  lr_expires_at :: 't
  lr_used_at :: "'t option"
  lr_used_by_ip :: "string option"
  lr_hmac_signature :: string
  lr_created_at :: 't
  lr_updated_at :: 't

record profile_row =
  pr_file_path :: string
  pr_data_shards :: int
  pr_parity_shards :: int
  pr_shard_size :: int
  pr_original_size :: int

record shard_row =
  sr_file_path :: string
  sr_shard_index :: int
  sr_instance_id :: string
  sr_backend_type :: string
  sr_shard_path :: string
  sr_shard_size :: int
  sr_checksum :: string

record 't sqldb =
  db_inodes :: "'t inode_row list"
  db_inode_seq :: int
  db_links :: "'t link_row list"
  db_link_seq :: int
  db_profiles :: "profile_row list"
  db_shards :: "shard_row list"
  db_faults :: "fault list"

definition empty_db :: "'t sqldb" where
  "empty_db = \<lparr>db_inodes = [], db_inode_seq = 0, db_links = [], db_link_seq = 0, db_profiles = [], db_shards = [], db_faults = []\<rparr>"

subsection \<open>Statements and transactions\<close>

datatype sql_error = UniqueViolation string | CheckViolation string | SqlError goerr

type_synonym ('t, 'a) statement = "'t sqldb \<Rightarrow> (sql_error + 'a) \<times> 't sqldb"

definition sql_call :: "('t, 'a) statement \<Rightarrow> ('t, 'a) statement" where
  "sql_call f w =
     (case db_faults w of
        [] \<Rightarrow> f w
      | Works # fs \<Rightarrow> f (w\<lparr>db_faults := fs\<rparr>)
      | Fails err # fs \<Rightarrow> (Inl (SqlError err), w\<lparr>db_faults := fs\<rparr>)
      | LosesAnswer err # fs \<Rightarrow> (Inl (SqlError err), snd (f (w\<lparr>db_faults := fs\<rparr>))))"

text \<open>A statement that does not look at the tables: \<^verbatim>\<open>Ping\<close>, \<^verbatim>\<open>BEGIN\<close>.\<close>

definition no_op :: "('t, unit) statement" where
  "no_op w = (Inr (), w)"

text \<open>
  A transaction: what its statements did is dropped when one of them fails, and takes effect as a whole
  when the commit does.
\<close>

definition sql_tx ::
  "(sql_error \<Rightarrow> goerr) \<Rightarrow> (sql_error \<Rightarrow> goerr) \<Rightarrow> ('t sqldb \<Rightarrow> 'a result \<times> 't sqldb) \<Rightarrow> 't sqldb \<Rightarrow> 'a result \<times> 't sqldb" where
  "sql_tx begin_err commit_err body w =
     (case sql_call no_op w of
        (Inl e, w1) \<Rightarrow> (Inl (begin_err e), w1)
      | (Inr _, w1) \<Rightarrow>
          (case body w1 of
             (Inl err, w2) \<Rightarrow> (Inl err, w1\<lparr>db_faults := db_faults w2\<rparr>)
           | (Inr x, w2) \<Rightarrow>
               (case sql_call (\<lambda>w. (Inr (), w2\<lparr>db_faults := db_faults w\<rparr>)) (w1\<lparr>db_faults := db_faults w2\<rparr>) of
                  (Inl e, w3) \<Rightarrow> (Inl (commit_err e), w3)
                | (Inr _, w3) \<Rightarrow> (Inr x, w3))))"

lemma sql_call_ok [simp]: "db_faults w = [] \<Longrightarrow> sql_call f w = f w"
  by (simp add: sql_call_def)

lemma sql_call_cases:
  assumes "sql_call f w = (r, w')"
  obtains (skipped) err fs where "r = Inl (SqlError err)" "w' = w\<lparr>db_faults := fs\<rparr>"
  | (ran) fs where "f (w\<lparr>db_faults := fs\<rparr>) = (r, w')"
  | (lost) err fs x where "r = Inl (SqlError err)" "f (w\<lparr>db_faults := fs\<rparr>) = (x, w')"
proof (cases "db_faults w")
  case Nil
  have w: "w\<lparr>db_faults := []\<rparr> = w" using Nil by (cases w) simp
  show ?thesis by (rule ran [of "[]"], unfold w) (use assms Nil in \<open>simp add: sql_call_def\<close>)
next
  case (Cons fl fs)
  obtain x w2 where f: "f (w\<lparr>db_faults := fs\<rparr>) = (x, w2)" by fastforce
  show ?thesis
  proof (cases fl)
    case Works
    show ?thesis by (rule ran [of fs]) (use assms Cons Works in \<open>simp add: sql_call_def\<close>)
  next
    case (Fails err)
    show ?thesis by (rule skipped [of err fs]) (use assms Cons Fails in \<open>simp_all add: sql_call_def\<close>)
  next
    case (LosesAnswer err)
    show ?thesis by (rule lost [of err fs x]) (use assms Cons LosesAnswer f in \<open>simp_all add: sql_call_def\<close>)
  qed
qed

subsection \<open>LIKE\<close>

text \<open>
  \<^verbatim>\<open>_\<close> stands for one character, which is one byte or a UTF-8 sequence, \<^verbatim>\<open>%\<close> for any number of them; the
  character after the escape character, if there is one, stands for itself. Characters are compared
  after \<open>fd\<close>: the identity in PostgreSQL, the lower case of ASCII letters in SQLite.
\<close>

definition skip_char :: "string \<Rightarrow> string" where
  "skip_char s =
     (case s of
        [] \<Rightarrow> []
      | c # cs \<Rightarrow> if (192::nat) \<le> of_char c then dropWhile (\<lambda>d. (128::nat) \<le> of_char d \<and> of_char d < (192::nat)) cs else cs)"

lemma skip_char_less [simp]: "s \<noteq> [] \<Longrightarrow> length (skip_char s) < length s"
  by (cases s) (auto simp: skip_char_def less_Suc_eq_le length_dropWhile_le)

lemma skip_char_le [simp]: "length (skip_char s) < Suc (length s)"
  using skip_char_less [of s] by (cases "s = []") (simp add: skip_char_def, linarith)

function (sequential) like :: "char option \<Rightarrow> (char \<Rightarrow> char) \<Rightarrow> string \<Rightarrow> string \<Rightarrow> bool" where
  "like esc fd [] s = (s = [])"
| "like esc fd (c # p) s =
     (if esc = Some c then
        (case p of [] \<Rightarrow> False | d # p1 \<Rightarrow> s \<noteq> [] \<and> fd d = fd (hd s) \<and> like esc fd p1 (tl s))
      else if c = CHR ''%'' then like esc fd p s \<or> (if s = [] then False else like esc fd (c # p) (skip_char s))
      else if c = CHR ''_'' then s \<noteq> [] \<and> like esc fd p (skip_char s)
      else s \<noteq> [] \<and> fd c = fd (hd s) \<and> like esc fd p (tl s))"
  by pat_completeness auto
termination
  by (relation "measure (\<lambda>(esc, fd, p, s). length p + length s)") auto

declare like.simps(2) [simp del]

text \<open>\<^verbatim>\<open>strings.ReplaceAll\<close> of a single character.\<close>

definition ReplaceChar :: "char \<Rightarrow> string \<Rightarrow> string \<Rightarrow> string" where
  "ReplaceChar c new s = concat (map (\<lambda>x. if x = c then new else [x]) s)"

lemma ReplaceChar_absent: "c \<notin> set s \<Longrightarrow> ReplaceChar c new s = s"
  by (induction s) (auto simp: ReplaceChar_def)

lemma ReplaceChar_Cons: "ReplaceChar c new (x # s) = (if x = c then new else [x]) @ ReplaceChar c new s"
  by (simp add: ReplaceChar_def)

lemma ReplaceChar_append: "ReplaceChar c new (s @ t) = ReplaceChar c new s @ ReplaceChar c new t"
  by (simp add: ReplaceChar_def)

definition wildcard :: "char \<Rightarrow> bool" where
  "wildcard c = (c = CHR ''%'' \<or> c = CHR ''_'')"

lemma like_plain [simp]:
  "\<not> wildcard c \<Longrightarrow> esc \<noteq> Some c \<Longrightarrow> like esc fd (c # p) s \<longleftrightarrow> s \<noteq> [] \<and> fd c = fd (hd s) \<and> like esc fd p (tl s)"
  by (subst like.simps(2)) (simp add: wildcard_def)

lemma like_escaped [simp]:
  "like (Some e) fd (e # d # p) s \<longleftrightarrow> s \<noteq> [] \<and> fd d = fd (hd s) \<and> like (Some e) fd p (tl s)"
  by (subst like.simps(2)) simp

lemma like_percent:
  "esc \<noteq> Some (CHR ''%'') \<Longrightarrow>
   like esc fd (CHR ''%'' # p) s \<longleftrightarrow> like esc fd p s \<or> (s \<noteq> [] \<and> like esc fd (CHR ''%'' # p) (skip_char s))"
  by (subst like.simps(2)) simp

lemma wildcard_simps [simp]: "wildcard (CHR ''%'')" "wildcard (CHR ''_'')" "\<not> wildcard (CHR ''/'')"
  by (simp_all add: wildcard_def)

lemma like_literal:
  "\<forall>c \<in> set lit. \<not> wildcard c \<and> esc \<noteq> Some c \<Longrightarrow>
   like esc fd (lit @ p) s \<longleftrightarrow> (\<exists>t u. s = t @ u \<and> map fd t = map fd lit \<and> like esc fd p u)"
proof (induction lit arbitrary: s)
  case (Cons c lit)
  have "like esc fd ((c # lit) @ p) s \<longleftrightarrow>
      s \<noteq> [] \<and> fd c = fd (hd s) \<and> (\<exists>t u. tl s = t @ u \<and> map fd t = map fd lit \<and> like esc fd p u)"
    using Cons by simp
  also have "\<dots> \<longleftrightarrow> (\<exists>t u. s = t @ u \<and> map fd t = map fd (c # lit) \<and> like esc fd p u)"
  proof (cases s)
    case (Cons d ds)
    then show ?thesis
      by (auto simp: Cons_eq_append_conv map_eq_Cons_conv) (metis append_Cons list.simps(9))
  qed simp
  finally show ?case .
qed simp

lemma like_any [simp]:
  assumes "esc \<noteq> Some (CHR ''%'')"
  shows "like esc fd ''%'' s"
proof (induction s rule: length_induct)
  case (1 s)
  then show ?case using assms by (subst like_percent) auto
qed

lemma skip_char_slash: "CHR ''/'' \<in> set (skip_char s) \<Longrightarrow> CHR ''/'' \<in> set s"
  by (cases s) (auto simp: skip_char_def dest: set_dropWhileD split: if_splits)

lemma slash_skip_char: "CHR ''/'' \<in> set s \<Longrightarrow> hd s \<noteq> CHR ''/'' \<Longrightarrow> CHR ''/'' \<in> set (skip_char s)"
proof -
  have "CHR ''/'' \<in> set cs \<Longrightarrow> CHR ''/'' \<in> set (dropWhile (\<lambda>d. (128::nat) \<le> of_char d \<and> of_char d < (192::nat)) cs)" for cs :: string
    by (induction cs) auto
  then show "CHR ''/'' \<in> set s \<Longrightarrow> hd s \<noteq> CHR ''/'' \<Longrightarrow> CHR ''/'' \<in> set (skip_char s)"
    by (cases s) (auto simp: skip_char_def)
qed

text \<open>A further slash somewhere.\<close>

lemma like_slash:
  assumes "esc \<noteq> Some (CHR ''%'')" "esc \<noteq> Some (CHR ''/'')" "\<And>c. fd c = fd (CHR ''/'') \<longleftrightarrow> c = CHR ''/''"
  shows "like esc fd ''%/%'' s \<longleftrightarrow> CHR ''/'' \<in> set s"
proof (induction s rule: length_induct)
  case (1 s)
  show ?case
  proof (cases s)
    case (Cons c cs)
    have lit: "like esc fd ''/%'' s \<longleftrightarrow> c = CHR ''/''"
      using assms(1,2) assms(3) [of c] by (auto simp: Cons)
    have "like esc fd ''%/%'' s \<longleftrightarrow> c = CHR ''/'' \<or> CHR ''/'' \<in> set (skip_char s)"
      using 1 assms(1) lit skip_char_less [of s] by (subst like_percent) (simp_all add: Cons)
    then show ?thesis using skip_char_slash [of s] slash_skip_char [of s] by (auto simp: Cons)
  next
    case Nil
    have "like esc fd ''%/%'' [] \<longleftrightarrow> like esc fd ''/%'' []" using assms(1) by (subst like_percent) simp_all
    then show ?thesis using assms(2) by (simp add: Nil)
  qed
qed

subsection \<open>The statements of the stores\<close>

text \<open>
  A constraint on the values of a row is checked before uniqueness. \<open>touch\<close> is the part of an update that
  the columns of its \<^verbatim>\<open>SET\<close> describe. The number of rows is what \<^verbatim>\<open>RowsAffected\<close> returns.
\<close>

definition select_inodes :: "('t inode_row \<Rightarrow> bool) \<Rightarrow> ('t, 't inode_row list) statement" where
  "select_inodes P w = (Inr (filter P (db_inodes w)), w)"

definition update_inodes :: "('t inode_row \<Rightarrow> bool) \<Rightarrow> ('t inode_row \<Rightarrow> 't inode_row) \<Rightarrow> ('t, nat) statement" where
  "update_inodes P touch w =
     (Inr (length (filter P (db_inodes w))), w\<lparr>db_inodes := map (\<lambda>r. if P r then touch r else r) (db_inodes w)\<rparr>)"

definition delete_inodes :: "('t inode_row \<Rightarrow> bool) \<Rightarrow> ('t, nat) statement" where
  "delete_inodes P w = (Inr (length (filter P (db_inodes w))), w\<lparr>db_inodes := filter (\<lambda>r. \<not> P r) (db_inodes w)\<rparr>)"

definition select_links :: "('t link_row \<Rightarrow> bool) \<Rightarrow> ('t, 't link_row list) statement" where
  "select_links P w = (Inr (filter P (db_links w)), w)"

definition update_links :: "('t link_row \<Rightarrow> bool) \<Rightarrow> ('t link_row \<Rightarrow> 't link_row) \<Rightarrow> ('t, nat) statement" where
  "update_links P touch w =
     (Inr (length (filter P (db_links w))), w\<lparr>db_links := map (\<lambda>r. if P r then touch r else r) (db_links w)\<rparr>)"

definition delete_links :: "('t link_row \<Rightarrow> bool) \<Rightarrow> ('t, nat) statement" where
  "delete_links P w = (Inr (length (filter P (db_links w))), w\<lparr>db_links := filter (\<lambda>r. \<not> P r) (db_links w)\<rparr>)"

definition insert_profile :: "(profile_row \<Rightarrow> bool) \<Rightarrow> profile_row \<Rightarrow> ('t, unit) statement" where
  "insert_profile pfits row w =
     (if \<not> pfits row then (Inl (CheckViolation ''erasure_profiles''), w)
      else if pr_file_path row \<in> pr_file_path ` set (db_profiles w) then (Inl (UniqueViolation ''erasure_profiles.file_path''), w)
      else (Inr (), w\<lparr>db_profiles := db_profiles w @ [row]\<rparr>))"

definition insert_shard :: "(shard_row \<Rightarrow> bool) \<Rightarrow> shard_row \<Rightarrow> ('t, unit) statement" where
  "insert_shard sfits row w =
     (if \<not> sfits row then (Inl (CheckViolation ''erasure_shards''), w)
      else if \<exists>r \<in> set (db_shards w). sr_file_path r = sr_file_path row \<and> sr_shard_index r = sr_shard_index row
      then (Inl (UniqueViolation ''erasure_shards.file_path, erasure_shards.shard_index''), w)
      else (Inr (), w\<lparr>db_shards := db_shards w @ [row]\<rparr>))"

text \<open>\<^verbatim>\<open>ORDER BY type DESC, name ASC\<close> over a given order of the names.\<close>

definition order_rows :: "(string \<Rightarrow> 'k::linorder) \<Rightarrow> 't inode_row list \<Rightarrow> 't inode_row list" where
  "order_rows collate rows = rev (sort_key in_type (rev (sort_key (\<lambda>r. collate (in_name r)) rows)))"

lemma set_order_rows [simp]: "set (order_rows collate rows) = set rows"
  by (simp add: order_rows_def)

lemmas sql_statements = select_inodes_def update_inodes_def delete_inodes_def select_links_def update_links_def delete_links_def

definition wrap_error :: "(sql_error \<Rightarrow> goerr) \<Rightarrow> string \<Rightarrow> (sql_error + 'a) \<Rightarrow> 'a result" where
  "wrap_error ge what r = (case r of Inl e \<Rightarrow> Inl (Wrapf what (ge e)) | Inr x \<Rightarrow> Inr x)"

subsection \<open>Erasure records\<close>

text \<open>
  The two stores have the same code here, up to the values that the columns of PostgreSQL admit (\<open>pfits\<close>, \<open>sfits\<close>) and
  the Go error that an error of the database becomes (\<open>ge\<close>).
\<close>

definition profile_of :: "string \<Rightarrow> ErasureFileInfo \<Rightarrow> profile_row" where
  "profile_of filePath info =
     \<lparr>pr_file_path = filePath, pr_data_shards = ei_DataShards info, pr_parity_shards = ei_ParityShards info,
      pr_shard_size = ei_ShardSize info, pr_original_size = ei_OriginalSize info\<rparr>"

definition shard_of :: "string \<Rightarrow> ErasureShardInfo \<Rightarrow> shard_row" where
  "shard_of filePath shard =
     \<lparr>sr_file_path = filePath, sr_shard_index = sh_Index shard, sr_instance_id = sh_InstanceID shard,
      sr_backend_type = sh_BackendType shard, sr_shard_path = sh_Path shard, sr_shard_size = sh_Size shard,
      sr_checksum = sh_Checksum shard\<rparr>"

fun insert_shards :: "(sql_error \<Rightarrow> goerr) \<Rightarrow> (shard_row \<Rightarrow> bool) \<Rightarrow> string \<Rightarrow> ErasureShardInfo list \<Rightarrow> 't sqldb \<Rightarrow> unit result \<times> 't sqldb" where
  "insert_shards ge sfits filePath [] w = (Inr (), w)"
| "insert_shards ge sfits filePath (shard # shards) w =
     (case sql_call (insert_shard sfits (shard_of filePath shard)) w of
        (Inl e, w1) \<Rightarrow> (Inl (Wrapf (''failed to insert erasure shard '' @ Itoa (sh_Index shard)) (ge e)), w1)
      | (Inr _, w1) \<Rightarrow> insert_shards ge sfits filePath shards w1)"

definition sql_CreateErasureInfo ::
  "(sql_error \<Rightarrow> goerr) \<Rightarrow> (profile_row \<Rightarrow> bool) \<Rightarrow> (shard_row \<Rightarrow> bool) \<Rightarrow> string \<Rightarrow> ErasureFileInfo \<Rightarrow> 't sqldb \<Rightarrow> unit result \<times> 't sqldb" where
  "sql_CreateErasureInfo ge pfits sfits filePath info =
     sql_tx (\<lambda>e. Wrapf ''failed to begin transaction'' (ge e)) ge
       (\<lambda>w. case sql_call (insert_profile pfits (profile_of filePath info)) w of
              (Inl e, w1) \<Rightarrow> (Inl (Wrapf ''failed to insert erasure profile'' (ge e)), w1)
            | (Inr _, w1) \<Rightarrow> insert_shards ge sfits filePath (ei_Shards info) w1)"

definition scan_shard :: "shard_row \<Rightarrow> ErasureShardInfo" where
  "scan_shard r =
     \<lparr>sh_Index = sr_shard_index r, sh_InstanceID = sr_instance_id r, sh_BackendType = sr_backend_type r,
      sh_Path = sr_shard_path r, sh_Size = sr_shard_size r, sh_Checksum = sr_checksum r\<rparr>"

definition sql_GetErasureInfo :: "(sql_error \<Rightarrow> goerr) \<Rightarrow> string \<Rightarrow> 't sqldb \<Rightarrow> ErasureFileInfo result \<times> 't sqldb" where
  "sql_GetErasureInfo ge filePath w =
     (case sql_call (\<lambda>w. (Inr (filter (\<lambda>r. pr_file_path r = filePath) (db_profiles w)), w)) w of
        (Inl e, w1) \<Rightarrow> (Inl (Wrapf ''failed to get erasure profile'' (ge e)), w1)
      | (Inr [], w1) \<Rightarrow> (Inl ErrNotFound, w1)
      | (Inr (p # _), w1) \<Rightarrow>
          (case sql_call (\<lambda>w. (Inr (sort_key sr_shard_index (filter (\<lambda>r. sr_file_path r = filePath) (db_shards w))), w)) w1 of
             (Inl e, w2) \<Rightarrow> (Inl (Wrapf ''failed to query erasure shards'' (ge e)), w2)
           | (Inr rows, w2) \<Rightarrow>
               (case sql_call no_op w2 of
                  (Inl e, w3) \<Rightarrow> (Inl (Wrapf ''failed to iterate erasure shards'' (ge e)), w3)
                | (Inr _, w3) \<Rightarrow>
                    (Inr \<lparr>ei_FilePath = pr_file_path p, ei_OriginalSize = pr_original_size p, ei_DataShards = pr_data_shards p,
                          ei_ParityShards = pr_parity_shards p, ei_ShardSize = pr_shard_size p, ei_Shards = map scan_shard rows\<rparr>, w3))))"

definition sql_DeleteErasureInfo :: "(sql_error \<Rightarrow> goerr) \<Rightarrow> string \<Rightarrow> 't sqldb \<Rightarrow> unit result \<times> 't sqldb" where
  "sql_DeleteErasureInfo ge filePath =
     sql_tx (\<lambda>e. Wrapf ''failed to begin transaction'' (ge e)) ge
       (\<lambda>w. case sql_call (\<lambda>w. (Inr (), w\<lparr>db_shards := filter (\<lambda>r. sr_file_path r \<noteq> filePath) (db_shards w)\<rparr>)) w of
              (Inl e, w1) \<Rightarrow> (Inl (Wrapf ''failed to delete erasure shards'' (ge e)), w1)
            | (Inr _, w1) \<Rightarrow>
                apfst (wrap_error ge ''failed to delete erasure profile'')
                  (sql_call (\<lambda>w. (Inr (), w\<lparr>db_profiles := filter (\<lambda>r. pr_file_path r \<noteq> filePath) (db_profiles w)\<rparr>)) w1))"

subsection \<open>Tables as maps\<close>

text \<open>The two tables as maps, by path and by token.\<close>

definition row_at :: "'t sqldb \<Rightarrow> string \<Rightarrow> 't inode_row option" where
  "row_at w p = List.find (\<lambda>r. in_path r = p) (db_inodes w)"

definition link_at :: "'t sqldb \<Rightarrow> string \<Rightarrow> 't link_row option" where
  "link_at w t = List.find (\<lambda>r. lr_token r = t) (db_links w)"

lemma find_filter: "List.find P xs = (case filter P xs of [] \<Rightarrow> None | x # _ \<Rightarrow> Some x)"
  by (induction xs) auto

lemma find_map_if:
  assumes "\<And>r. k (touch r) = k r"
  shows "List.find (\<lambda>r. k r = x) (map (\<lambda>r. if P r then touch r else r) rows) =
    map_option (\<lambda>r. if P r then touch r else r) (List.find (\<lambda>r. k r = x) rows)"
  by (induction rows) (auto simp: assms)

lemma find_filter_key:
  assumes "distinct (map k rows)"
  shows "List.find (\<lambda>r. k r = x) (filter P rows) =
    (case List.find (\<lambda>r. k r = x) rows of Some r \<Rightarrow> if P r then Some r else None | None \<Rightarrow> None)"
  using assms
proof (induction rows)
  case (Cons r rows)
  have "List.find (\<lambda>r. k r = x) rows = None" if "x = k r"
    using Cons.prems that by (auto simp: find_None_iff image_iff)
  then show ?case using Cons by auto
qed simp

lemma find_append: "List.find P (xs @ ys) = (case List.find P xs of Some x \<Rightarrow> Some x | None \<Rightarrow> List.find P ys)"
  by (induction xs) auto

lemma find_key_iff:
  assumes "distinct (map k rows)"
  shows "List.find (\<lambda>r. k r = x) rows = Some r \<longleftrightarrow> r \<in> set rows \<and> k r = x"
  using assms by (induction rows) (auto simp: image_iff)

lemma row_at_None: "row_at w p = None \<longleftrightarrow> (\<forall>r \<in> set (db_inodes w). in_path r \<noteq> p)"
  by (auto simp: row_at_def find_None_iff)

lemma row_at_path: "row_at w p = Some r \<Longrightarrow> in_path r = p"
  by (auto simp: row_at_def find_Some_iff)

lemma filter_path_Nil: "filter (\<lambda>r. in_path r = p) (db_inodes w) = [] \<longleftrightarrow> row_at w p = None"
  by (auto simp: row_at_None filter_empty_conv)

lemma map_if_same: "(\<And>r. k (touch r) = k r) \<Longrightarrow> map (k \<circ> (\<lambda>r. if P r then touch r else r)) rows = map k rows"
  by (induction rows) auto

end
