(* ===== verification/SqliteStore.thy ===== *)
theory SqliteStore
  imports Sql
begin

section \<open>The SQLite metadata store (metadata/sqlite)\<close>

text \<open>
  Every method of the store as a client of the tables of theory \<^verbatim>\<open>Sql\<close>. SQLite has no type for times: the store
  writes them as texts in the format \<^verbatim>\<open>RFC3339Nano\<close>, and compares the texts. Such a text is modelled as the
  part down to the second, which has a fixed width for the years 1 to 9999 so that its order is that of
  the seconds, and the rest: an optional fraction without trailing zeros, and \<^verbatim>\<open>Z\<close>.
  The library reports a violated constraint by its message.
\<close>

subsection \<open>Times as texts\<close>

type_synonym timestamp = "int \<times> string"

type_synonym sqlite = "timestamp sqldb"

definition nine_digits :: "nat \<Rightarrow> string" where
  "nine_digits n = (let ds = nat_string n in replicate (9 - length ds) (CHR ''0'') @ ds)"

definition RFC3339Nano :: "gotime \<Rightarrow> timestamp" where
  "RFC3339Nano t =
     (t div second,
      let digits = rev (dropWhile (\<lambda>c. c = CHR ''0'') (rev (nine_digits (nat (t mod second)))))
      in if digits = [] then ''Z'' else CHR ''.'' # digits @ ''Z'')"

definition parseTimestamp :: "timestamp \<Rightarrow> gotime" where
  "parseTimestamp ts =
     (case ts of (secs, rest) \<Rightarrow>
        if rest = ''Z'' then secs * second
        else if HasPrefix rest ''.'' \<and> HasSuffix rest ''Z'' then
          (let digits = butlast (tl rest) in
           if digits = [] \<or> 9 < length digits then 0
           else case parse_digits 10 0 (digits @ replicate (9 - length digits) (CHR ''0'')) of
                  Some ns \<Rightarrow> secs * second + int ns
                | None \<Rightarrow> 0)
        else 0)"

text \<open>\<^verbatim>\<open><\<close> on two such texts.\<close>

definition text_less :: "timestamp \<Rightarrow> timestamp \<Rightarrow> bool" where
  "text_less a b = (fst a < fst b \<or> (fst a = fst b \<and> snd a < snd b))"

subsection \<open>Set-up and metadata\<close>

definition sqlite_error :: "sql_error \<Rightarrow> goerr" where
  "sqlite_error e =
     (case e of
        UniqueViolation c \<Rightarrow> Errorf (''UNIQUE constraint failed: '' @ c)
      | CheckViolation c \<Rightarrow> Errorf (''CHECK constraint failed: '' @ c)
      | SqlError err \<Rightarrow> err)"

abbreviation wrap_sqlite :: "string \<Rightarrow> (sql_error + 'a) \<Rightarrow> 'a result" where
  "wrap_sqlite \<equiv> wrap_error sqlite_error"

text \<open>The two schemas only create what is missing.\<close>

definition NewSQLiteStore :: "unit result \<Rightarrow> sqlite \<Rightarrow> unit result \<times> sqlite" where
  "NewSQLiteStore opened w =
     (case opened of
        Inl err \<Rightarrow> (Inl (Wrapf ''failed to open sqlite database'' err), w)
      | Inr _ \<Rightarrow>
          (case apfst (wrap_sqlite ''failed to ping sqlite database'') (sql_call no_op w) of
             (Inl err, w1) \<Rightarrow> (Inl err, w1)
           | (Inr _, w1) \<Rightarrow>
               (case apfst (wrap_sqlite ''failed to initialize sqlite schema'') (sql_call no_op w1) of
                  (Inl err, w2) \<Rightarrow> (Inl err, w2)
                | (Inr _, w2) \<Rightarrow> apfst (wrap_sqlite ''failed to initialize erasure schema'') (sql_call no_op w2))))"

definition scanMetadataRow :: "timestamp inode_row \<Rightarrow> Metadata" where
  "scanMetadataRow r =
     \<lparr>md_ID = in_id r, md_ParentID = in_parent_id r, md_Name = in_name r, md_Path = in_path r, md_Type = in_type r,
      md_Size = in_size r, md_Mode = in_mode r, md_UID = in_uid r, md_GID = in_gid r, md_ATime = parseTimestamp (in_atime r),
      md_MTime = parseTimestamp (in_mtime r), md_CTime = parseTimestamp (in_ctime r), md_BackendType = in_backend_type r,
      md_ErasureCoded = False, md_CallFSInstanceID = in_callfs_instance_id r, md_SymlinkTarget = in_symlink_target r,
      md_CreatedAt = parseTimestamp (in_created_at r), md_UpdatedAt = parseTimestamp (in_updated_at r)\<rparr>"

definition sqlite_Get :: "string \<Rightarrow> sqlite \<Rightarrow> Metadata result \<times> sqlite" where
  "sqlite_Get path w =
     (case sql_call (select_inodes (\<lambda>r. in_path r = path)) w of
        (Inl e, w1) \<Rightarrow> (Inl (Wrapf ''failed to get metadata'' (sqlite_error e)), w1)
      | (Inr [], w1) \<Rightarrow> (Inl ErrNotFound, w1)
      | (Inr (r # _), w1) \<Rightarrow> (Inr (scanMetadataRow r), w1))"

text \<open>The statement of \<^verbatim>\<open>Create\<close>, with the constraints of \<^verbatim>\<open>initSchema\<close>; a failed insert uses no identifier.\<close>

definition sqlite_insert_inode :: "timestamp inode_row \<Rightarrow> (timestamp, int) statement" where
  "sqlite_insert_inode row w =
     (if in_type row \<noteq> ''file'' \<and> in_type row \<noteq> ''directory'' then (Inl (CheckViolation ''type''), w)
      else if \<exists>r \<in> set (db_inodes w). in_path r = in_path row then (Inl (UniqueViolation ''inodes.path''), w)
      else let ident = db_inode_seq w + 1
           in (Inr ident, w\<lparr>db_inodes := db_inodes w @ [row\<lparr>in_id := ident\<rparr>], db_inode_seq := ident\<rparr>))"

definition sqlite_row :: "Metadata \<Rightarrow> timestamp inode_row" where
  "sqlite_row md =
     \<lparr>in_id = 0, in_parent_id = md_ParentID md, in_name = md_Name md, in_path = md_Path md, in_type = md_Type md,
      in_size = md_Size md, in_mode = md_Mode md, in_uid = md_UID md, in_gid = md_GID md, in_atime = RFC3339Nano (md_ATime md),
      in_mtime = RFC3339Nano (md_MTime md), in_ctime = RFC3339Nano (md_CTime md), in_backend_type = md_BackendType md,
      in_callfs_instance_id = md_CallFSInstanceID md, in_symlink_target = md_SymlinkTarget md,
      in_created_at = RFC3339Nano (md_CreatedAt md), in_updated_at = RFC3339Nano (md_UpdatedAt md)\<rparr>"

definition sqlite_Create :: "gotime \<Rightarrow> Metadata \<Rightarrow> sqlite \<Rightarrow> Metadata result \<times> sqlite" where
  "sqlite_Create now md0 w =
     (let md = stamped now md0 in
      case sql_call (sqlite_insert_inode (sqlite_row md)) w of
        (Inl e, w1) \<Rightarrow>
          if Contains (Error (sqlite_error e)) ''UNIQUE constraint failed: inodes.path'' then (Inl ErrAlreadyExists, w1)
          else (Inl (Wrapf ''failed to create metadata'' (sqlite_error e)), w1)
      | (Inr ident, w1) \<Rightarrow> (Inr (md\<lparr>md_ID := ident\<rparr>), w1))"

text \<open>The columns that \<^verbatim>\<open>Update\<close> sets.\<close>

definition sqlite_touch :: "Metadata \<Rightarrow> timestamp inode_row \<Rightarrow> timestamp inode_row" where
  "sqlite_touch md r =
     r\<lparr>in_size := md_Size md, in_mode := md_Mode md, in_uid := md_UID md, in_gid := md_GID md,
       in_atime := RFC3339Nano (md_ATime md), in_mtime := RFC3339Nano (md_MTime md), in_ctime := RFC3339Nano (md_CTime md),
       in_backend_type := md_BackendType md, in_callfs_instance_id := md_CallFSInstanceID md,
       in_symlink_target := md_SymlinkTarget md, in_updated_at := RFC3339Nano (md_UpdatedAt md)\<rparr>"

definition sqlite_Update :: "gotime \<Rightarrow> Metadata \<Rightarrow> sqlite \<Rightarrow> Metadata result \<times> sqlite" where
  "sqlite_Update now md0 w =
     (let md = md0\<lparr>md_UpdatedAt := now\<rparr> in
      case sql_call (update_inodes (\<lambda>r. in_path r = md_Path md) (sqlite_touch md)) w of
        (Inl e, w1) \<Rightarrow> (Inl (Wrapf ''failed to update metadata'' (sqlite_error e)), w1)
      | (Inr rowsAffected, w1) \<Rightarrow> if rowsAffected = 0 then (Inl ErrNotFound, w1) else (Inr md, w1))"

definition sqlite_Delete :: "string \<Rightarrow> sqlite \<Rightarrow> unit result \<times> sqlite" where
  "sqlite_Delete path w =
     (case sql_call (delete_inodes (\<lambda>r. in_path r = path)) w of
        (Inl e, w1) \<Rightarrow> (Inl (Wrapf ''failed to delete metadata'' (sqlite_error e)), w1)
      | (Inr rowsAffected, w1) \<Rightarrow> if rowsAffected = 0 then (Inl ErrNotFound, w1) else (Inr (), w1))"

text \<open>The second replacement does not see what the first inserts, because it looks for another character.\<close>

definition escapeLikePattern :: "string \<Rightarrow> string" where
  "escapeLikePattern s = ReplaceChar (CHR ''_'') [CHR 92, CHR ''_''] (ReplaceChar (CHR ''%'') [CHR 92, CHR ''%''] s)"

text \<open>SQLite folds ASCII letters and has no escape character unless the query names one.\<close>

definition ascii_fold :: "char \<Rightarrow> char" where
  "ascii_fold c = hd (ToLower [c])"

abbreviation sqlite_like :: "string \<Rightarrow> string \<Rightarrow> bool" where
  "sqlite_like \<equiv> like None ascii_fold"

definition sqlite_children :: "string \<Rightarrow> timestamp inode_row \<Rightarrow> bool" where
  "sqlite_children parentPath r =
     (if parentPath = ''/''
      then sqlite_like ''/%'' (in_path r) \<and> CHR ''/'' \<notin> set (drop 1 (in_path r)) \<and> in_path r \<noteq> ''/''
      else let escapedPath = escapeLikePattern parentPath
           in sqlite_like (escapedPath @ ''/%'') (in_path r) \<and> \<not> sqlite_like (escapedPath @ ''/%/%'') (in_path r))"

definition sqlite_ListChildren :: "string \<Rightarrow> sqlite \<Rightarrow> Metadata list result \<times> sqlite" where
  "sqlite_ListChildren parentPath w =
     (case sql_call (select_inodes (sqlite_children parentPath)) w of
        (Inl e, w1) \<Rightarrow> (Inl (Wrapf ''failed to list children'' (sqlite_error e)), w1)
      | (Inr rows, w1) \<Rightarrow>
          (case sql_call no_op w1 of
             (Inl e, w2) \<Rightarrow> (Inl (Wrapf ''failed to iterate rows'' (sqlite_error e)), w2)
           | (Inr _, w2) \<Rightarrow> (Inr (map scanMetadataRow (order_rows (\<lambda>name. name) rows)), w2)))"

subsection \<open>Links\<close>

definition scan_link :: "timestamp link_row \<Rightarrow> SingleUseLink" where
  "scan_link r =
     \<lparr>lk_ID = lr_id r, lk_Token = lr_token r, lk_FilePath = lr_file_path r, lk_Status = lr_status r,
      lk_ExpiresAt = parseTimestamp (lr_expires_at r), lk_UsedAt = map_option parseTimestamp (lr_used_at r),
      lk_UsedByIP = lr_used_by_ip r, lk_HMACSignature = lr_hmac_signature r, lk_CreatedAt = parseTimestamp (lr_created_at r),
      lk_UpdatedAt = parseTimestamp (lr_updated_at r)\<rparr>"

definition sqlite_GetSingleUseLink :: "string \<Rightarrow> sqlite \<Rightarrow> SingleUseLink result \<times> sqlite" where
  "sqlite_GetSingleUseLink token w =
     (case sql_call (select_links (\<lambda>r. lr_token r = token)) w of
        (Inl e, w1) \<Rightarrow> (Inl (Wrapf ''failed to get single-use link'' (sqlite_error e)), w1)
      | (Inr [], w1) \<Rightarrow> (Inl ErrNotFound, w1)
      | (Inr (r # _), w1) \<Rightarrow> (Inr (scan_link r), w1))"

definition sqlite_link_row :: "SingleUseLink \<Rightarrow> timestamp link_row" where
  "sqlite_link_row link =
     \<lparr>lr_id = 0, lr_token = lk_Token link, lr_file_path = lk_FilePath link, lr_status = lk_Status link,
      lr_expires_at = RFC3339Nano (lk_ExpiresAt link), lr_used_at = map_option RFC3339Nano (lk_UsedAt link),
      lr_used_by_ip = lk_UsedByIP link, lr_hmac_signature = lk_HMACSignature link,
      lr_created_at = RFC3339Nano (lk_CreatedAt link), lr_updated_at = RFC3339Nano (lk_UpdatedAt link)\<rparr>"

definition sqlite_insert_link :: "timestamp link_row \<Rightarrow> (timestamp, int) statement" where
  "sqlite_insert_link row w =
     (if \<exists>r \<in> set (db_links w). lr_token r = lr_token row then (Inl (UniqueViolation ''single_use_links.token''), w)
      else let ident = db_link_seq w + 1
           in (Inr ident, w\<lparr>db_links := db_links w @ [row\<lparr>lr_id := ident\<rparr>], db_link_seq := ident\<rparr>))"

definition sqlite_CreateSingleUseLink :: "gotime \<Rightarrow> SingleUseLink \<Rightarrow> sqlite \<Rightarrow> unit result \<times> sqlite" where
  "sqlite_CreateSingleUseLink now link0 w =
     (let link1 = (if IsZero (lk_CreatedAt link0) then link0\<lparr>lk_CreatedAt := now\<rparr> else link0);
          link = link1\<lparr>lk_UpdatedAt := now\<rparr> in
      case sql_call (sqlite_insert_link (sqlite_link_row link)) w of
        (Inl e, w1) \<Rightarrow> (Inl (Wrapf ''failed to create single-use link'' (sqlite_error e)), w1)
      | (Inr ident, w1) \<Rightarrow> (Inr (), w1))"

definition sqlite_touch_link :: "gotime \<Rightarrow> string \<Rightarrow> gotime option \<Rightarrow> string option \<Rightarrow> timestamp link_row \<Rightarrow> timestamp link_row" where
  "sqlite_touch_link now status usedAt usedByIP r =
     r\<lparr>lr_status := status, lr_used_at := map_option RFC3339Nano usedAt, lr_used_by_ip := usedByIP, lr_updated_at := RFC3339Nano now\<rparr>"

definition sqlite_UpdateSingleUseLink ::
  "gotime \<Rightarrow> string \<Rightarrow> string \<Rightarrow> gotime option \<Rightarrow> string option \<Rightarrow> sqlite \<Rightarrow> unit result \<times> sqlite" where
  "sqlite_UpdateSingleUseLink now token status usedAt usedByIP w =
     (case sql_call (update_links (\<lambda>r. lr_token r = token \<and> lr_status r = ''active'')
               (sqlite_touch_link now status usedAt usedByIP)) w of
        (Inl e, w1) \<Rightarrow> (Inl (Wrapf ''failed to update single-use link'' (sqlite_error e)), w1)
      | (Inr rowsAffected, w1) \<Rightarrow> if rowsAffected = 0 then (Inl ErrNotFound, w1) else (Inr (), w1))"

definition sqlite_CleanupExpiredLinks :: "gotime \<Rightarrow> sqlite \<Rightarrow> nat result \<times> sqlite" where
  "sqlite_CleanupExpiredLinks before w =
     apfst (wrap_sqlite ''failed to cleanup expired links'')
       (sql_call (delete_links (\<lambda>r. lr_status r = ''active'' \<and> text_less (lr_expires_at r) (RFC3339Nano before))) w)"

text \<open>A comparison with \<^verbatim>\<open>NULL\<close> is not true.\<close>

definition sqlite_CleanupUsedLinks :: "gotime \<Rightarrow> sqlite \<Rightarrow> nat result \<times> sqlite" where
  "sqlite_CleanupUsedLinks olderThan w =
     apfst (wrap_sqlite ''failed to cleanup used links'')
       (sql_call (delete_links (\<lambda>r. lr_status r = ''used'' \<and>
          (case lr_used_at r of Some t \<Rightarrow> text_less t (RFC3339Nano olderThan) | None \<Rightarrow> False))) w)"

subsection \<open>Erasure records (metadata/sqlite/erasure.go)\<close>

definition sqlite_CreateErasureInfo :: "string \<Rightarrow> ErasureFileInfo \<Rightarrow> sqlite \<Rightarrow> unit result \<times> sqlite" where
  "sqlite_CreateErasureInfo = sql_CreateErasureInfo sqlite_error (\<lambda>_. True) (\<lambda>_. True)"

definition sqlite_GetErasureInfo :: "string \<Rightarrow> sqlite \<Rightarrow> ErasureFileInfo result \<times> sqlite" where
  "sqlite_GetErasureInfo = sql_GetErasureInfo sqlite_error"

definition sqlite_DeleteErasureInfo :: "string \<Rightarrow> sqlite \<Rightarrow> unit result \<times> sqlite" where
  "sqlite_DeleteErasureInfo = sql_DeleteErasureInfo sqlite_error"

subsection \<open>Times survive the format\<close>

lemma nat_string_length: "n < 10 ^ Suc k \<Longrightarrow> length (nat_string n) \<le> Suc k"
proof (induction k arbitrary: n)
  case (Suc k)
  show ?case
  proof (cases "n < 10")
    case False
    have "n div 10 < 10 ^ Suc k" using Suc.prems by (simp add: less_mult_imp_div_less)
    then show ?thesis using Suc.IH [of "n div 10"] False by (simp add: nat_string.simps [of n])
  qed (simp add: nat_string.simps [of n])
qed (simp add: nat_string.simps)

lemma parse_leading_zeros: "parse_digits 10 0 (replicate k (CHR ''0'') @ s) = parse_digits 10 0 s"
  by (induction k) (simp_all add: digit_val_def)

lemma nine_digits:
  assumes "n < 1000000000"
  shows "length (nine_digits n) = 9" "parse_digits 10 0 (nine_digits n) = Some n"
  using nat_string_length [of n 8] assms
  by (simp_all add: nine_digits_def Let_def parse_leading_zeros parse_nat_string)

lemma trim_and_pad:
  assumes "length ds = n"
  defines "d \<equiv> rev (dropWhile (\<lambda>c. c = CHR ''0'') (rev ds))"
  shows "d @ replicate (n - length d) (CHR ''0'') = ds" "length d \<le> n"
proof -
  have "ds = d @ rev (takeWhile (\<lambda>c. c = CHR ''0'') (rev ds))"
    unfolding d_def by (metis rev_append rev_rev_ident takeWhile_dropWhile_id)
  moreover have "rev (takeWhile (\<lambda>c. c = CHR ''0'') (rev ds)) = replicate (length (takeWhile (\<lambda>c. c = CHR ''0'') (rev ds))) (CHR ''0'')"
    by (rule replicate_eqI) (auto dest: set_takeWhileD)
  ultimately obtain k where "ds = d @ replicate k (CHR ''0'')" by metis
  then show "d @ replicate (n - length d) (CHR ''0'') = ds" "length d \<le> n" using assms(1) by auto
qed

lemma HasSuffix_Z: "HasSuffix (c # d @ ''Z'') ''Z''"
  using HasSuffix_append [of "c # d" "''Z''"] by simp

lemma parse_format [simp]: "parseTimestamp (RFC3339Nano t) = t"
proof -
  define n where "n = nat (t mod second)"
  define d where "d = rev (dropWhile (\<lambda>c. c = CHR ''0'') (rev (nine_digits n)))"
  have n: "n < 1000000000" unfolding n_def by simp
  note pad = trim_and_pad [OF nine_digits(1) [OF n], folded d_def]
  have t: "t div second * second + int n = t" unfolding n_def by (simp add: div_mult_mod_eq)
  have fmt: "RFC3339Nano t = (t div second, if d = [] then ''Z'' else CHR ''.'' # d @ ''Z'')"
    by (simp add: RFC3339Nano_def d_def n_def Let_def)
  show ?thesis
  proof (cases "d = []")
    case True
    then have "nine_digits n = replicate 9 (CHR ''0'')" using pad(1) by simp
    then have "parse_digits 10 0 (replicate 9 (CHR ''0'')) = Some n" using nine_digits(2) [OF n] by metis
    then have "n = 0" using parse_leading_zeros [of 9 "[]"] by simp
    then show ?thesis using t by (simp add: fmt True parseTimestamp_def)
  next
    case False
    then show ?thesis
      using t pad nine_digits(2) [OF n] HasSuffix_Z by (simp add: fmt parseTimestamp_def Let_def butlast_append)
  qed
qed

subsection \<open>The store as a table of metadata\<close>

text \<open>What an update keeps: the identifier, the parent, the name, the type and the creation time.\<close>

definition sqlite_merge :: "gotime \<Rightarrow> Metadata \<Rightarrow> Metadata \<Rightarrow> Metadata" where
  "sqlite_merge now md old =
     md\<lparr>md_ID := md_ID old, md_ParentID := md_ParentID old, md_Name := md_Name old, md_Path := md_Path old, md_Type := md_Type old,
        md_ErasureCoded := False, md_CreatedAt := md_CreatedAt old, md_UpdatedAt := now\<rparr>"

fun sqlite_table_step :: "meta_event \<Rightarrow> (string \<Rightarrow> Metadata option) \<times> int \<Rightarrow> (string \<Rightarrow> Metadata option) \<times> int" where
  "sqlite_table_step (MkMeta now md) (m, n) =
     (if (md_Type md = ''file'' \<or> md_Type md = ''directory'') \<and> m (md_Path md) = None
      then (m(md_Path md \<mapsto> (stamped now md)\<lparr>md_ID := n + 1, md_ErasureCoded := False\<rparr>), n + 1) else (m, n))"
| "sqlite_table_step (UpMeta now md) (m, n) =
     (case m (md_Path md) of None \<Rightarrow> (m, n) | Some old \<Rightarrow> (m(md_Path md \<mapsto> sqlite_merge now md old), n))"
| "sqlite_table_step (RmMeta now p) (m, n) = (m(p := None), n)"

fun sqlite_step :: "meta_event \<Rightarrow> sqlite \<Rightarrow> sqlite" where
  "sqlite_step (MkMeta now md) w = snd (sqlite_Create now md w)"
| "sqlite_step (UpMeta now md) w = snd (sqlite_Update now md w)"
| "sqlite_step (RmMeta now p) w = snd (sqlite_Delete p w)"

definition sqlite_view :: "sqlite \<Rightarrow> string \<Rightarrow> Metadata option" where
  "sqlite_view w p = map_option scanMetadataRow (row_at w p)"

definition sqlite_ok :: "sqlite \<Rightarrow> bool" where
  "sqlite_ok w \<longleftrightarrow> db_faults w = [] \<and> distinct (map in_path (db_inodes w)) \<and> distinct (map lr_token (db_links w))"

lemma scan_path [simp]: "md_Path (scanMetadataRow r) = in_path r"
  by (simp add: scanMetadataRow_def)

lemma sqlite_Get_view:
  assumes "db_faults w = []"
  shows "sqlite_Get p w = (case sqlite_view w p of Some md \<Rightarrow> Inr md | None \<Rightarrow> Inl ErrNotFound, w)"
  using assms by (simp add: sqlite_Get_def sql_statements sqlite_view_def row_at_def find_filter split: list.split)

lemma scan_sqlite_row: "scanMetadataRow ((sqlite_row md)\<lparr>in_id := n\<rparr>) = md\<lparr>md_ID := n, md_ErasureCoded := False\<rparr>"
  by (simp add: scanMetadataRow_def sqlite_row_def)

lemma scan_touch: "scanMetadataRow (sqlite_touch (md\<lparr>md_UpdatedAt := now\<rparr>) r) = sqlite_merge now md (scanMetadataRow r)"
  by (cases md) (simp add: scanMetadataRow_def sqlite_touch_def sqlite_merge_def)

lemma stamped_type [simp]: "md_Type (stamped now md) = md_Type md"
  by (simp add: stamped_def Let_def)

lemma sqlite_row_simps [simp]: "in_path (sqlite_row md) = md_Path md" "in_type (sqlite_row md) = md_Type md"
  by (simp_all add: sqlite_row_def)

lemma sqlite_Create_table:
  assumes "sqlite_ok w"
  shows "sqlite_ok (snd (sqlite_Create now md w))"
    and "(sqlite_view (snd (sqlite_Create now md w)), db_inode_seq (snd (sqlite_Create now md w))) =
      sqlite_table_step (MkMeta now md) (sqlite_view w, db_inode_seq w)"
    and "md_Type md \<in> {''file'', ''directory''} \<Longrightarrow> fst (sqlite_Create now md w) =
      (if sqlite_view w (md_Path md) = None then Inr ((stamped now md)\<lparr>md_ID := db_inode_seq w + 1\<rparr>) else Inl ErrAlreadyExists)"
proof -
  let ?row = "sqlite_row (stamped now md)"
  have none: "sqlite_view w (md_Path md) = None \<longleftrightarrow> (\<forall>r \<in> set (db_inodes w). in_path r \<noteq> md_Path md)"
    by (simp add: sqlite_view_def row_at_None)
  have ins: "sqlite_insert_inode ?row w =
      (if md_Type md \<noteq> ''file'' \<and> md_Type md \<noteq> ''directory'' then (Inl (CheckViolation ''type''), w)
       else if sqlite_view w (md_Path md) \<noteq> None then (Inl (UniqueViolation ''inodes.path''), w)
       else (Inr (db_inode_seq w + 1), w\<lparr>db_inodes := db_inodes w @ [?row\<lparr>in_id := db_inode_seq w + 1\<rparr>], db_inode_seq := db_inode_seq w + 1\<rparr>))"
    unfolding none by (auto simp: sqlite_insert_inode_def Let_def)
  have faults: "db_faults w = []" using assms by (simp add: sqlite_ok_def)
  show "sqlite_ok (snd (sqlite_Create now md w))"
    using assms none by (auto simp: sqlite_Create_def Let_def ins faults sqlite_ok_def)
  show "md_Type md \<in> {''file'', ''directory''} \<Longrightarrow> fst (sqlite_Create now md w) =
      (if sqlite_view w (md_Path md) = None then Inr ((stamped now md)\<lparr>md_ID := db_inode_seq w + 1\<rparr>) else Inl ErrAlreadyExists)"
    by (auto simp: sqlite_Create_def Let_def ins faults sqlite_error_def Contains_iff simp del: Contains.simps)
  show "(sqlite_view (snd (sqlite_Create now md w)), db_inode_seq (snd (sqlite_Create now md w))) =
      sqlite_table_step (MkMeta now md) (sqlite_view w, db_inode_seq w)"
    using none
    by (auto simp: sqlite_Create_def Let_def ins faults sqlite_view_def row_at_def find_append scan_sqlite_row fun_eq_iff split: option.split)
qed

lemma sqlite_touch_path [simp]: "in_path (sqlite_touch md r) = in_path r"
  by (simp add: sqlite_touch_def)

lemma sqlite_Update_table:
  assumes "sqlite_ok w"
  shows "sqlite_ok (snd (sqlite_Update now md w))"
    and "(sqlite_view (snd (sqlite_Update now md w)), db_inode_seq (snd (sqlite_Update now md w))) =
      sqlite_table_step (UpMeta now md) (sqlite_view w, db_inode_seq w)"
    and "fst (sqlite_Update now md w) = (if sqlite_view w (md_Path md) = None then Inl ErrNotFound else Inr (md\<lparr>md_UpdatedAt := now\<rparr>))"
proof -
  let ?P = "\<lambda>r. in_path r = md_Path md"
  let ?w = "w\<lparr>db_inodes := map (\<lambda>r. if ?P r then sqlite_touch (md\<lparr>md_UpdatedAt := now\<rparr>) r else r) (db_inodes w)\<rparr>"
  have faults: "db_faults w = []" using assms by (simp add: sqlite_ok_def)
  have upd: "sqlite_Update now md w = (if sqlite_view w (md_Path md) = None then Inl ErrNotFound else Inr (md\<lparr>md_UpdatedAt := now\<rparr>), ?w)"
    by (simp add: sqlite_Update_def Let_def sql_statements faults sqlite_view_def filter_path_Nil)
  show "sqlite_ok (snd (sqlite_Update now md w))"
    using assms by (simp add: upd sqlite_ok_def map_if_same)
  show "(sqlite_view (snd (sqlite_Update now md w)), db_inode_seq (snd (sqlite_Update now md w))) =
      sqlite_table_step (UpMeta now md) (sqlite_view w, db_inode_seq w)"
  proof -
    have "sqlite_view ?w q = (if q = md_Path md then map_option (sqlite_merge now md) (sqlite_view w q) else sqlite_view w q)" for q
      using row_at_path [of w q] by (cases "row_at w q") (auto simp: sqlite_view_def row_at_def find_map_if scan_touch)
    then show ?thesis by (auto simp: upd fun_eq_iff split: option.split)
  qed
  show "fst (sqlite_Update now md w) = (if sqlite_view w (md_Path md) = None then Inl ErrNotFound else Inr (md\<lparr>md_UpdatedAt := now\<rparr>))"
    by (simp add: upd)
qed

lemma sqlite_Delete_table:
  assumes "sqlite_ok w"
  shows "sqlite_ok (snd (sqlite_Delete p w))"
    and "(sqlite_view (snd (sqlite_Delete p w)), db_inode_seq (snd (sqlite_Delete p w))) =
      sqlite_table_step (RmMeta now p) (sqlite_view w, db_inode_seq w)"
    and "fst (sqlite_Delete p w) = (if sqlite_view w p = None then Inl ErrNotFound else Inr ())"
proof -
  have faults: "db_faults w = []" and dist: "distinct (map in_path (db_inodes w))" using assms by (simp_all add: sqlite_ok_def)
  have del: "sqlite_Delete p w =
      (if sqlite_view w p = None then Inl ErrNotFound else Inr (), w\<lparr>db_inodes := filter (\<lambda>r. in_path r \<noteq> p) (db_inodes w)\<rparr>)"
    by (simp add: sqlite_Delete_def sql_statements faults sqlite_view_def filter_path_Nil)
  show "sqlite_ok (snd (sqlite_Delete p w))" using assms by (simp add: del sqlite_ok_def distinct_map_filter)
  show "(sqlite_view (snd (sqlite_Delete p w)), db_inode_seq (snd (sqlite_Delete p w))) =
      sqlite_table_step (RmMeta now p) (sqlite_view w, db_inode_seq w)"
  proof -
    have "sqlite_view (snd (sqlite_Delete p w)) q = (if q = p then None else sqlite_view w q)" for q
      using row_at_path [of w q]
      by (cases "row_at w q") (auto simp: del sqlite_view_def row_at_def find_filter_key [OF dist])
    then show ?thesis by (auto simp: del fun_eq_iff)
  qed
  show "fst (sqlite_Delete p w) = (if sqlite_view w p = None then Inl ErrNotFound else Inr ())" by (simp add: del)
qed

lemma sqlite_step_table:
  assumes "sqlite_ok w"
  shows "sqlite_ok (sqlite_step ev w)"
    and "(sqlite_view (sqlite_step ev w), db_inode_seq (sqlite_step ev w)) = sqlite_table_step ev (sqlite_view w, db_inode_seq w)"
  using sqlite_Create_table(1,2) [OF assms] sqlite_Update_table(1,2) [OF assms] sqlite_Delete_table(1,2) [OF assms]
  by (cases ev; simp del: sqlite_table_step.simps)+

lemma sqlite_run_table:
  assumes "sqlite_ok w"
  shows "sqlite_ok (fold sqlite_step evs w)"
    and "(sqlite_view (fold sqlite_step evs w), db_inode_seq (fold sqlite_step evs w)) =
      fold sqlite_table_step evs (sqlite_view w, db_inode_seq w)"
  using assms by (induction evs arbitrary: w) (simp_all add: sqlite_step_table)

lemma empty_sqlite [simp]: "sqlite_ok empty_db" "sqlite_view empty_db = Map.empty" "db_inode_seq empty_db = 0"
  by (auto simp: sqlite_ok_def empty_db_def sqlite_view_def row_at_def)

text \<open>
  C22: (refinement) The SQLite store behaves as a table of records by path: after any run of creates, updates and
  deletes on a new database, reading a path gives the record of the table, and the next create, update or delete
  is answered as the table says. The table says what is lost: the flag of an erasure-coded file is always
  read back as false, an update changes neither name nor type, and a record that is neither file nor
  directory is not stored.
\<close>

theorem sqlite_store_is_table:
  fixes evs :: "meta_event list"
  defines "w \<equiv> fold sqlite_step evs empty_db" and "m \<equiv> fst (fold sqlite_table_step evs (Map.empty, 0))"
    and "n \<equiv> snd (fold sqlite_table_step evs (Map.empty, 0))"
  shows "sqlite_Get p w = (case m p of Some md \<Rightarrow> Inr md | None \<Rightarrow> Inl ErrNotFound, w) \<and>
    fst (sqlite_Update now md w) = (if m (md_Path md) = None then Inl ErrNotFound else Inr (md\<lparr>md_UpdatedAt := now\<rparr>)) \<and>
    fst (sqlite_Delete p w) = (if m p = None then Inl ErrNotFound else Inr ()) \<and>
    (md_Type md \<in> {''file'', ''directory''} \<longrightarrow> fst (sqlite_Create now md w) =
      (if m (md_Path md) = None then Inr ((stamped now md)\<lparr>md_ID := n + 1\<rparr>) else Inl ErrAlreadyExists))"
proof -
  have ok: "sqlite_ok w" and mn: "sqlite_view w = m" "db_inode_seq w = n"
    using sqlite_run_table [OF empty_sqlite(1), of evs] by (simp_all add: w_def m_def n_def flip: prod.inject) (metis fst_conv snd_conv)+
  show ?thesis
    using sqlite_Create_table(3) [OF ok] sqlite_Update_table(3) [OF ok] sqlite_Delete_table(3) [OF ok] sqlite_Get_view ok
    by (simp add: mn sqlite_ok_def)
qed

definition sqlite_demo_run :: "meta_event list" where
  "sqlite_demo_run = [MkMeta 1 (zero_Metadata\<lparr>md_Path := ''/a'', md_Type := ''file'', md_ErasureCoded := True\<rparr>),
     UpMeta 4 (zero_Metadata\<lparr>md_Path := ''/a'', md_Size := 7\<rparr>)]"

theorem sqlite_store_is_table_witness:
  "fst (sqlite_Create 9 (zero_Metadata\<lparr>md_Path := ''/a'', md_Type := ''file''\<rparr>) (fold sqlite_step sqlite_demo_run empty_db)) = Inl ErrAlreadyExists"
  using sqlite_store_is_table [where evs = sqlite_demo_run and now = 9 and md = "zero_Metadata\<lparr>md_Path := ''/a'', md_Type := ''file''\<rparr>"]
  by (auto simp: sqlite_demo_run_def zero_Metadata_def)

subsection \<open>Listing a directory\<close>

lemma ascii_fold_plain: "\<not> ((65::nat) \<le> of_char c \<and> of_char c \<le> (90::nat)) \<Longrightarrow> ascii_fold c = c"
  by (auto simp: ascii_fold_def ToLower_def)

lemma ascii_fold_letter: "(65::nat) \<le> of_char c \<Longrightarrow> of_char c \<le> (90::nat) \<Longrightarrow> (97::nat) \<le> of_char (ascii_fold c)"
  by (simp add: ascii_fold_def ToLower_def)

lemma ascii_fold_cases: "ascii_fold c = c \<or> (97::nat) \<le> of_char (ascii_fold c) \<and> of_char c \<le> (90::nat)"
  using ascii_fold_plain ascii_fold_letter by blast

text \<open>Characters that are not letters are only equal to themselves.\<close>

lemma ascii_fold_eq:
  assumes "of_char d < (65::nat) \<or> ((90::nat) < of_char d \<and> of_char d < (97::nat))"
  shows "ascii_fold c = ascii_fold d \<longleftrightarrow> c = d"
proof -
  have d: "ascii_fold d = d" using assms by (intro ascii_fold_plain) auto
  show ?thesis using ascii_fold_cases [of c] assms by (auto simp: d)
qed

lemma ascii_fold_slash: "ascii_fold c = ascii_fold (CHR ''/'') \<longleftrightarrow> c = CHR ''/''" "ascii_fold (CHR ''/'') = ascii_fold c \<longleftrightarrow> c = CHR ''/''"
  using ascii_fold_eq [of "CHR ''/''" c] by auto

definition same_letters :: "string \<Rightarrow> string \<Rightarrow> bool" where
  "same_letters p q \<longleftrightarrow> map ascii_fold p = map ascii_fold q"

lemma escapeLike_plain: "\<forall>c \<in> set p. \<not> wildcard c \<Longrightarrow> escapeLikePattern p = p"
  by (metis ReplaceChar_absent escapeLikePattern_def wildcard_simps(1,2))

lemma sqlite_children_plain:
  assumes "p \<noteq> ''/''" "\<forall>c \<in> set p. \<not> wildcard c"
  shows "sqlite_children p r \<longleftrightarrow> (\<exists>t u. in_path r = t @ ''/'' @ u \<and> same_letters t p \<and> CHR ''/'' \<notin> set u)"
proof -
  have lit: "\<forall>c \<in> set (p @ ''/''). \<not> wildcard c \<and> None \<noteq> Some c" using assms(2) by auto
  have split: "map ascii_fold t = map ascii_fold (p @ ''/'') \<longleftrightarrow> (\<exists>t'. t = t' @ ''/'' \<and> same_letters t' p)" for t
  proof
    assume "map ascii_fold t = map ascii_fold (p @ ''/'')"
    then obtain t' z where "t = t' @ [z]" "map ascii_fold t' = map ascii_fold p" "ascii_fold z = ascii_fold (CHR ''/'')"
      by (auto simp: map_eq_append_conv)
    then show "\<exists>t'. t = t' @ ''/'' \<and> same_letters t' p" using ascii_fold_slash by (simp add: same_letters_def)
  qed (auto simp: same_letters_def)
  have below: "like None ascii_fold ((p @ ''/'') @ pat) q \<longleftrightarrow> (\<exists>t u. q = t @ ''/'' @ u \<and> same_letters t p \<and> sqlite_like pat u)" for pat q
    unfolding like_literal [OF lit] split by (metis append_assoc)
  have uniq: "u = u'" if "t @ ''/'' @ u = t' @ ''/'' @ u'" "same_letters t p" "same_letters t' p" for t t' u u'
    using that unfolding same_letters_def by (metis append_eq_append_conv length_map)
  have "like None ascii_fold ''%/%'' u \<longleftrightarrow> CHR ''/'' \<in> set u" for u
    by (rule like_slash) (simp_all add: ascii_fold_slash)
  then have "sqlite_children p r \<longleftrightarrow>
      (\<exists>t u. in_path r = t @ ''/'' @ u \<and> same_letters t p) \<and>
      \<not> (\<exists>t u. in_path r = t @ ''/'' @ u \<and> same_letters t p \<and> CHR ''/'' \<in> set u)"
    using below [of "''%''" "in_path r"] below [of "''%/%''" "in_path r"] assms(1)
    by (simp add: sqlite_children_def escapeLike_plain [OF assms(2)])
  then show ?thesis using uniq by metis
qed

lemma sqlite_children_root:
  "sqlite_children ''/'' r \<longleftrightarrow> (\<exists>u. in_path r = ''/'' @ u \<and> u \<noteq> '''' \<and> CHR ''/'' \<notin> set u)"
  by (cases "in_path r") (auto simp: sqlite_children_def ascii_fold_slash)

lemma sqlite_children_wild:
  assumes "\<exists>c \<in> set p. wildcard c" "sqlite_children p r"
  shows "\<not> HasPrefix (in_path r) p"
proof
  assume "HasPrefix (in_path r) p"
  then obtain v where v: "in_path r = p @ v" unfolding HasPrefix_iff by blast
  obtain a x b where p: "p = a @ x # b" and a: "\<forall>c \<in> set a. \<not> wildcard c" and x: "wildcard x"
    using assms(1) by (metis split_list_first_prop)
  have esc: "escapeLikePattern p = (a @ [CHR 92]) @ x # escapeLikePattern b"
    using escapeLike_plain [OF a] x unfolding p wildcard_def by (auto simp: escapeLikePattern_def ReplaceChar_def)
  have lit: "\<forall>c \<in> set (a @ [CHR 92]). \<not> wildcard c \<and> None \<noteq> Some c" using a by (auto simp: wildcard_def)
  have "p \<noteq> ''/''" using assms(1) by auto
  then have "sqlite_like ((a @ [CHR 92]) @ x # escapeLikePattern b @ ''/%'') (in_path r)"
    using assms(2) by (simp add: sqlite_children_def Let_def esc)
  then obtain t u where "in_path r = t @ u" "map ascii_fold t = map ascii_fold (a @ [CHR 92])"
    unfolding like_literal [OF lit] by blast
  then have "ascii_fold (in_path r ! length a) = ascii_fold (CHR 92)"
    by (metis length_map length_append_singleton lessI nth_append nth_append_length nth_map)
  then have "ascii_fold x = ascii_fold (CHR 92)" by (simp add: v p nth_append)
  then show False using x ascii_fold_eq [of "CHR 92" x] by (auto simp: wildcard_def)
qed

lemma sqlite_children_listed:
  assumes "\<forall>c \<in> set p. \<not> wildcard c"
  shows "sqlite_children p r \<longleftrightarrow> (\<exists>t u. in_path r = t @ ''/'' @ u \<and> same_letters t (if p = ''/'' then '''' else p) \<and>
      CHR ''/'' \<notin> set u \<and> (p = ''/'' \<longrightarrow> u \<noteq> ''''))"
  using sqlite_children_plain [OF _ assms] sqlite_children_root by (auto simp: same_letters_def)

lemma sqlite_ListChildren_ok:
  assumes "sqlite_ok w"
  obtains cs where "sqlite_ListChildren p w = (Inr cs, w)"
    "set cs = {md. \<exists>q r. sqlite_view w q = Some md \<and> row_at w q = Some r \<and> sqlite_children p r}"
proof -
  have dist: "distinct (map in_path (db_inodes w))" and faults: "db_faults w = []" using assms by (simp_all add: sqlite_ok_def)
  have at: "row_at w q = Some r \<longleftrightarrow> r \<in> set (db_inodes w) \<and> in_path r = q" for q r
    unfolding row_at_def by (rule find_key_iff [OF dist])
  have "(\<exists>q r. sqlite_view w q = Some md \<and> row_at w q = Some r \<and> sqlite_children p r) \<longleftrightarrow>
      (\<exists>q r. row_at w q = Some r \<and> sqlite_children p r \<and> md = scanMetadataRow r)" for md
    by (auto simp: sqlite_view_def) blast+
  then have "scanMetadataRow ` set (filter (sqlite_children p) (db_inodes w)) =
      {md. \<exists>q r. sqlite_view w q = Some md \<and> row_at w q = Some r \<and> sqlite_children p r}"
    by (auto simp: at)
  then show ?thesis
    using that by (simp add: sqlite_ListChildren_def sql_statements faults no_op_def)
qed

text \<open>
  C23: (functional) What a listing on the SQLite store contains, after any run on a new database. For a directory whose
  path has no wildcard it is exactly the entries directly below it, and those directly below
  directories whose path differs only in the case of letters, since \<^verbatim>\<open>LIKE\<close> ignores it. For a directory
  whose path contains \<^verbatim>\<open>%\<close> or \<^verbatim>\<open>_\<close> it contains no entry below it at all, since the query names no escape character:
  such a directory looks empty.
\<close>

theorem sqlite_listing:
  fixes evs :: "meta_event list" and p :: string
  defines "w \<equiv> fold sqlite_step evs empty_db" and "m \<equiv> fst (fold sqlite_table_step evs (Map.empty, 0))"
  shows "\<exists>cs. sqlite_ListChildren p w = (Inr cs, w) \<and>
    ((\<forall>c \<in> set p. \<not> wildcard c) \<longrightarrow> set cs = {md. \<exists>t u. m (t @ ''/'' @ u) = Some md \<and>
       same_letters t (if p = ''/'' then '''' else p) \<and> CHR ''/'' \<notin> set u \<and> (p = ''/'' \<longrightarrow> u \<noteq> '''')}) \<and>
    ((\<exists>c \<in> set p. wildcard c) \<longrightarrow> (\<forall>md \<in> set cs. \<not> HasPrefix (md_Path md) p))"
proof -
  have ok: "sqlite_ok w" and m: "sqlite_view w = m"
    using sqlite_run_table [OF empty_sqlite(1), of evs] by (simp_all add: w_def m_def flip: prod.inject) (metis fst_conv)
  obtain cs where cs: "sqlite_ListChildren p w = (Inr cs, w)"
    "set cs = {md. \<exists>q r. m q = Some md \<and> row_at w q = Some r \<and> sqlite_children p r}"
    by (rule sqlite_ListChildren_ok [OF ok, of p]) (simp add: m)
  have "set cs = {md. \<exists>t u. m (t @ ''/'' @ u) = Some md \<and>
       same_letters t (if p = ''/'' then '''' else p) \<and> CHR ''/'' \<notin> set u \<and> (p = ''/'' \<longrightarrow> u \<noteq> '''')}"
    if "\<forall>c \<in> set p. \<not> wildcard c"
    unfolding cs(2) sqlite_children_listed [OF that] using row_at_path [of w]
    by (fastforce simp: sqlite_view_def simp flip: m)
  moreover have "\<not> HasPrefix (md_Path md) p" if "\<exists>c \<in> set p. wildcard c" "md \<in> set cs" for md
    using that cs(2) sqlite_children_wild [OF that(1)] row_at_path by (auto simp: sqlite_view_def simp flip: m)
  ultimately show ?thesis using cs(1) by blast
qed

definition sqlite_demo_dirs :: "meta_event list" where
  "sqlite_demo_dirs = [MkMeta 1 (zero_Metadata\<lparr>md_Path := ''/a_b/f'', md_Name := ''f'', md_Type := ''file''\<rparr>),
     MkMeta 2 (zero_Metadata\<lparr>md_Path := ''/D/g'', md_Name := ''g'', md_Type := ''file''\<rparr>)]"

theorem sqlite_listing_witness:
  "\<exists>cs ds. fst (sqlite_ListChildren ''/a_b'' (fold sqlite_step sqlite_demo_dirs empty_db)) = Inr cs \<and> (\<forall>md \<in> set cs. \<not> HasPrefix (md_Path md) ''/a_b'') \<and>
     fst (sqlite_ListChildren ''/d'' (fold sqlite_step sqlite_demo_dirs empty_db)) = Inr ds \<and>
     set ds = {md. \<exists>t u. fst (fold sqlite_table_step sqlite_demo_dirs (Map.empty, 0)) (t @ ''/'' @ u) = Some md \<and>
       same_letters t ''/d'' \<and> CHR ''/'' \<notin> set u}"
proof -
  have wild: "\<exists>c \<in> set ''/a_b''. wildcard c" and plain: "\<forall>c \<in> set ''/d''. \<not> wildcard c" "''/d'' \<noteq> ''/''"
    by (simp_all add: wildcard_def)
  obtain cs where cs: "sqlite_ListChildren ''/a_b'' (fold sqlite_step sqlite_demo_dirs empty_db) = (Inr cs, fold sqlite_step sqlite_demo_dirs empty_db)"
    "\<forall>md \<in> set cs. \<not> HasPrefix (md_Path md) ''/a_b''"
    using sqlite_listing [of "''/a_b''" sqlite_demo_dirs] wild by blast
  obtain ds where ds: "sqlite_ListChildren ''/d'' (fold sqlite_step sqlite_demo_dirs empty_db) = (Inr ds, fold sqlite_step sqlite_demo_dirs empty_db)"
    "set ds = {md. \<exists>t u. fst (fold sqlite_table_step sqlite_demo_dirs (Map.empty, 0)) (t @ ''/'' @ u) = Some md \<and>
       same_letters t (if ''/d'' = ''/'' then '''' else ''/d'') \<and> CHR ''/'' \<notin> set u \<and> (''/d'' = ''/'' \<longrightarrow> u \<noteq> '''')}"
    using sqlite_listing [of "''/d''" sqlite_demo_dirs] plain(1) by blast
  show ?thesis using cs ds(2) unfolding ds(1) by (intro exI [of _ cs] exI [of _ ds]) simp
qed

end
