(* ===== verification/PostgresStore.thy ===== *)
theory PostgresStore
  imports Sql
begin

section \<open>The PostgreSQL metadata store (metadata/postgres, metadata/schema)\<close>

text \<open>
  Every method of the store as a client of the tables of theory \<^verbatim>\<open>Sql\<close>, with the constraints, defaults and
  triggers of the migrations. What the server decides by its own rules is a parameter: the rounding of
  a time to microseconds, the texts it accepts as an address and how it prints them, and the collation of names.
  Identifiers come from a sequence, which an insert advances whether it succeeds or not. Strings are
  valid in the encoding of the database, and a value is not too long only by blanks at its end (the server would
  cut those).
\<close>

record pg_env =
  pg_round :: "gotime \<Rightarrow> gotime"
  pg_inet :: "string \<Rightarrow> string option"
  pg_key :: "string \<Rightarrow> string"

type_synonym pg = "gotime sqldb"

definition pq_error :: "sql_error \<Rightarrow> goerr" where
  "pq_error e =
     (case e of
        UniqueViolation c \<Rightarrow> Errorf (''pq: duplicate key value violates unique constraint '' @ c)
      | CheckViolation c \<Rightarrow> Errorf (''pq: new row violates constraint '' @ c)
      | SqlError err \<Rightarrow> err)"

text \<open>SQLSTATE 23505.\<close>

definition unique_violation :: "sql_error \<Rightarrow> bool" where
  "unique_violation e = (case e of UniqueViolation _ \<Rightarrow> True | _ \<Rightarrow> False)"

subsection \<open>Migrations and set-up\<close>

text \<open>
  The row that \<^verbatim>\<open>001_initial_schema.up.sql\<close> inserts. It names its identifier, so the sequence still stands at its start.
\<close>

definition pg_root_row :: "pg_env \<Rightarrow> gotime \<Rightarrow> gotime inode_row" where
  "pg_root_row env now =
     \<lparr>in_id = 1, in_parent_id = None, in_name = '''', in_path = ''/'', in_type = ''directory'', in_size = 0, in_mode = ''0755'',
      in_uid = 0, in_gid = 0, in_atime = pg_round env now, in_mtime = pg_round env now, in_ctime = pg_round env now,
      in_backend_type = ''localfs'', in_callfs_instance_id = Some ''root'', in_symlink_target = None,
      in_created_at = pg_round env now, in_updated_at = pg_round env now\<rparr>"

definition migrated_db :: "pg_env \<Rightarrow> gotime \<Rightarrow> pg" where
  "migrated_db env now = empty_db\<lparr>db_inodes := [pg_root_row env now]\<rparr>"

text \<open>\<^verbatim>\<open>RunMigrations\<close>: the results of the library calls it makes, and \<open>up\<close>, which runs the pending migrations.\<close>

datatype migration = Migrated | NoChange | MigrationFailed goerr

definition RunMigrations ::
  "unit result \<Rightarrow> unit result \<Rightarrow> unit result \<Rightarrow> unit result \<Rightarrow> unit result \<Rightarrow> ('w \<Rightarrow> migration \<times> 'w) \<Rightarrow> 'w \<Rightarrow> unit result \<times> 'w" where
  "RunMigrations opened ping source driver migrator up w =
     (case opened of Inl err \<Rightarrow> (Inl (Wrapf ''failed to open database'' err), w)
      | Inr _ \<Rightarrow> case ping of Inl err \<Rightarrow> (Inl (Wrapf ''failed to ping database'' err), w)
      | Inr _ \<Rightarrow> case source of Inl err \<Rightarrow> (Inl (Wrapf ''failed to open migration source'' err), w)
      | Inr _ \<Rightarrow> case driver of Inl err \<Rightarrow> (Inl (Wrapf ''failed to create database driver'' err), w)
      | Inr _ \<Rightarrow> case migrator of Inl err \<Rightarrow> (Inl (Wrapf ''failed to create migrator'' err), w)
      | Inr _ \<Rightarrow>
          (case up w of
             (MigrationFailed err, w1) \<Rightarrow> (Inl (Wrapf ''failed to run migrations'' err), w1)
           | (_, w1) \<Rightarrow> (Inr (), w1)))"

definition NewPostgresStore :: "unit result \<Rightarrow> pg \<Rightarrow> unit result \<times> pg" where
  "NewPostgresStore opened w =
     (case opened of
        Inl err \<Rightarrow> (Inl (Wrapf ''failed to open database'' err), w)
      | Inr _ \<Rightarrow> apfst (wrap_error pq_error ''failed to ping database'') (sql_call no_op w))"

subsection \<open>Metadata\<close>

definition pg_scan :: "gotime inode_row \<Rightarrow> Metadata" where
  "pg_scan r =
     \<lparr>md_ID = in_id r, md_ParentID = in_parent_id r, md_Name = in_name r, md_Path = in_path r, md_Type = in_type r,
      md_Size = in_size r, md_Mode = in_mode r, md_UID = in_uid r, md_GID = in_gid r, md_ATime = in_atime r,
      md_MTime = in_mtime r, md_CTime = in_ctime r, md_BackendType = in_backend_type r,
      md_ErasureCoded = False, md_CallFSInstanceID = in_callfs_instance_id r, md_SymlinkTarget = in_symlink_target r,
      md_CreatedAt = in_created_at r, md_UpdatedAt = in_updated_at r\<rparr>"

definition pg_Get :: "string \<Rightarrow> pg \<Rightarrow> Metadata result \<times> pg" where
  "pg_Get path w =
     (case sql_call (select_inodes (\<lambda>r. in_path r = path)) w of
        (Inl e, w1) \<Rightarrow> (Inl (Wrapf ''failed to get metadata'' (pq_error e)), w1)
      | (Inr [], w1) \<Rightarrow> (Inl ErrNotFound, w1)
      | (Inr (r # _), w1) \<Rightarrow> (Inr (pg_scan r), w1))"

text \<open>Lengths count characters.\<close>

definition varchar :: "nat \<Rightarrow> string \<Rightarrow> bool" where
  "varchar n s = (length (runes s) \<le> n)"

definition int4 :: "int \<Rightarrow> bool" where
  "int4 i = (- (2 ^ 31) \<le> i \<and> i < 2 ^ 31)"

definition pg_row_ok :: "gotime inode_row \<Rightarrow> bool" where
  "pg_row_ok r \<longleftrightarrow>
     varchar 255 (in_name r) \<and> (in_type r = ''file'' \<or> in_type r = ''directory'') \<and> varchar 10 (in_mode r) \<and>
     int4 (in_uid r) \<and> int4 (in_gid r) \<and> (in_backend_type r = ''localfs'' \<or> in_backend_type r = ''s3'') \<and>
     (case in_callfs_instance_id r of None \<Rightarrow> True | Some i \<Rightarrow> varchar 100 i)"

definition SQL_CREATE_INODE :: "gotime inode_row \<Rightarrow> (gotime, int) statement" where
  "SQL_CREATE_INODE row w0 =
     (let ident = db_inode_seq w0 + 1; w = w0\<lparr>db_inode_seq := ident\<rparr> in
      if \<not> pg_row_ok row then (Inl (CheckViolation ''inodes''), w)
      else if \<exists>r \<in> set (db_inodes w). in_id r = ident then (Inl (UniqueViolation ''inodes_pkey''), w)
      else if \<exists>r \<in> set (db_inodes w). in_path r = in_path row then (Inl (UniqueViolation ''inodes_path_key''), w)
      else if (case in_parent_id row of None \<Rightarrow> False | Some i \<Rightarrow> i \<noteq> ident \<and> i \<notin> in_id ` set (db_inodes w))
      then (Inl (CheckViolation ''inodes_parent_id_fkey''), w)
      else (Inr ident, w\<lparr>db_inodes := db_inodes w @ [row\<lparr>in_id := ident\<rparr>]\<rparr>))"

definition pg_row :: "pg_env \<Rightarrow> gotime \<Rightarrow> Metadata \<Rightarrow> gotime inode_row" where
  "pg_row env now md =
     \<lparr>in_id = 0, in_parent_id = md_ParentID md, in_name = md_Name md, in_path = md_Path md, in_type = md_Type md,
      in_size = md_Size md, in_mode = md_Mode md, in_uid = md_UID md, in_gid = md_GID md, in_atime = pg_round env (md_ATime md),
      in_mtime = pg_round env (md_MTime md), in_ctime = pg_round env (md_CTime md), in_backend_type = md_BackendType md,
      in_callfs_instance_id = md_CallFSInstanceID md, in_symlink_target = md_SymlinkTarget md,
      in_created_at = pg_round env now, in_updated_at = pg_round env now\<rparr>"

definition pg_Create :: "pg_env \<Rightarrow> gotime \<Rightarrow> Metadata \<Rightarrow> pg \<Rightarrow> Metadata result \<times> pg" where
  "pg_Create env now md w =
     (case sql_call (SQL_CREATE_INODE (pg_row env now md)) w of
        (Inl e, w1) \<Rightarrow>
          if unique_violation e then (Inl ErrAlreadyExists, w1)
          else (Inl (Wrapf ''failed to create metadata'' (pq_error e)), w1)
      | (Inr ident, w1) \<Rightarrow>
          (Inr (md\<lparr>md_ID := ident, md_CreatedAt := pg_round env now, md_UpdatedAt := pg_round env now\<rparr>), w1))"

text \<open>The columns that \<^verbatim>\<open>Update\<close> sets, and the trigger \<^verbatim>\<open>update_inodes_updated_at\<close>.\<close>

definition pg_touch :: "pg_env \<Rightarrow> gotime \<Rightarrow> Metadata \<Rightarrow> gotime inode_row \<Rightarrow> gotime inode_row" where
  "pg_touch env now md r =
     r\<lparr>in_size := md_Size md, in_mode := md_Mode md, in_uid := md_UID md, in_gid := md_GID md,
       in_atime := pg_round env (md_ATime md), in_mtime := pg_round env (md_MTime md), in_ctime := pg_round env (md_CTime md),
       in_backend_type := md_BackendType md, in_callfs_instance_id := md_CallFSInstanceID md,
       in_symlink_target := md_SymlinkTarget md, in_updated_at := pg_round env now\<rparr>"

definition SQL_UPDATE_INODE :: "pg_env \<Rightarrow> gotime \<Rightarrow> Metadata \<Rightarrow> (gotime, nat) statement" where
  "SQL_UPDATE_INODE env now md w =
     (if \<not> int4 (md_UID md) \<or> \<not> int4 (md_GID md) then (Inl (CheckViolation ''integer out of range''), w)
      else if \<exists>r \<in> set (db_inodes w). in_path r = md_Path md \<and> \<not> pg_row_ok (pg_touch env now md r)
      then (Inl (CheckViolation ''inodes''), w)
      else update_inodes (\<lambda>r. in_path r = md_Path md) (pg_touch env now md) w)"

definition pg_Update :: "pg_env \<Rightarrow> gotime \<Rightarrow> Metadata \<Rightarrow> pg \<Rightarrow> Metadata result \<times> pg" where
  "pg_Update env now md w =
     (case sql_call (SQL_UPDATE_INODE env now md) w of
        (Inl e, w1) \<Rightarrow> (Inl (Wrapf ''failed to update metadata'' (pq_error e)), w1)
      | (Inr rowsAffected, w1) \<Rightarrow> if rowsAffected = 0 then (Inl ErrNotFound, w1) else (Inr md, w1))"

text \<open>\<^verbatim>\<open>ON DELETE CASCADE\<close>: rows whose parent is gone go with it.\<close>

function cascade :: "int list \<Rightarrow> 't inode_row list \<Rightarrow> 't inode_row list" where
  "cascade dead rows =
     (let orphan = (\<lambda>r. case in_parent_id r of None \<Rightarrow> False | Some i \<Rightarrow> i \<in> set dead)
      in if filter orphan rows = [] then rows
         else cascade (map in_id (filter orphan rows)) (filter (\<lambda>r. \<not> orphan r) rows))"
  by pat_completeness auto
termination
  by (relation "measure (\<lambda>(dead, rows). length rows)")
     (auto simp: filter_empty_conv intro!: length_filter_less)

declare cascade.simps [simp del]

definition pg_delete_inodes :: "string \<Rightarrow> (gotime, nat) statement" where
  "pg_delete_inodes path w =
     (let gone = filter (\<lambda>r. in_path r = path) (db_inodes w);
          kept = filter (\<lambda>r. in_path r \<noteq> path) (db_inodes w)
      in (Inr (length gone), w\<lparr>db_inodes := cascade (map in_id gone) kept\<rparr>))"

definition pg_Delete :: "string \<Rightarrow> pg \<Rightarrow> unit result \<times> pg" where
  "pg_Delete path w =
     (case sql_call (pg_delete_inodes path) w of
        (Inl e, w1) \<Rightarrow> (Inl (Wrapf ''failed to delete metadata'' (pq_error e)), w1)
      | (Inr rowsAffected, w1) \<Rightarrow> if rowsAffected = 0 then (Inl ErrNotFound, w1) else (Inr (), w1))"

definition pg_escapeLikePattern :: "string \<Rightarrow> string" where
  "pg_escapeLikePattern s = ReplaceChar (CHR ''_'') [CHR 92, CHR ''_''] (ReplaceChar (CHR ''%'') [CHR 92, CHR ''%''] s)"

abbreviation pg_like :: "string \<Rightarrow> string \<Rightarrow> bool" where
  "pg_like \<equiv> like (Some (CHR 92)) (\<lambda>c. c)"

definition pg_children :: "string \<Rightarrow> gotime inode_row \<Rightarrow> bool" where
  "pg_children parentPath r =
     (if parentPath = ''/''
      then pg_like ''/%'' (in_path r) \<and> \<not> pg_like ''/%/%'' (in_path r) \<and> in_path r \<noteq> ''/''
      else let escapedPath = pg_escapeLikePattern parentPath
           in pg_like (escapedPath @ ''/%'') (in_path r) \<and> \<not> pg_like (escapedPath @ ''/%/%'') (in_path r))"

definition pg_ListChildren :: "pg_env \<Rightarrow> string \<Rightarrow> pg \<Rightarrow> Metadata list result \<times> pg" where
  "pg_ListChildren env parentPath w =
     (case sql_call (select_inodes (pg_children parentPath)) w of
        (Inl e, w1) \<Rightarrow> (Inl (Wrapf ''failed to list children'' (pq_error e)), w1)
      | (Inr rows, w1) \<Rightarrow>
          (case sql_call no_op w1 of
             (Inl e, w2) \<Rightarrow> (Inl (Wrapf ''failed to iterate rows'' (pq_error e)), w2)
           | (Inr _, w2) \<Rightarrow> (Inr (map pg_scan (order_rows (pg_key env) rows)), w2)))"

subsection \<open>Links\<close>

text \<open>The query selects neither the identifier nor \<^verbatim>\<open>updated_at\<close>.\<close>

definition pg_scan_link :: "gotime link_row \<Rightarrow> SingleUseLink" where
  "pg_scan_link r =
     \<lparr>lk_ID = 0, lk_Token = lr_token r, lk_FilePath = lr_file_path r, lk_Status = lr_status r,
      lk_ExpiresAt = lr_expires_at r, lk_UsedAt = lr_used_at r, lk_UsedByIP = lr_used_by_ip r,
      lk_HMACSignature = lr_hmac_signature r, lk_CreatedAt = lr_created_at r, lk_UpdatedAt = 0\<rparr>"

definition pg_GetSingleUseLink :: "string \<Rightarrow> pg \<Rightarrow> SingleUseLink result \<times> pg" where
  "pg_GetSingleUseLink token w =
     (case sql_call (select_links (\<lambda>r. lr_token r = token)) w of
        (Inl e, w1) \<Rightarrow> (Inl (Wrapf ''failed to get single-use link'' (pq_error e)), w1)
      | (Inr [], w1) \<Rightarrow> (Inl ErrNotFound, w1)
      | (Inr (r # _), w1) \<Rightarrow> (Inr (pg_scan_link r), w1))"

definition pg_status_ok :: "string \<Rightarrow> bool" where
  "pg_status_ok s = (s = ''active'' \<or> s = ''used'' \<or> s = ''expired'')"

definition pg_insert_link :: "pg_env \<Rightarrow> gotime \<Rightarrow> SingleUseLink \<Rightarrow> (gotime, unit) statement" where
  "pg_insert_link env now link w0 =
     (let ident = db_link_seq w0 + 1; w = w0\<lparr>db_link_seq := ident\<rparr> in
      if \<not> varchar 255 (lk_Token link) \<or> \<not> pg_status_ok (lk_Status link) \<or> \<not> varchar 512 (lk_HMACSignature link)
      then (Inl (CheckViolation ''single_use_links''), w)
      else if \<exists>r \<in> set (db_links w). lr_id r = ident then (Inl (UniqueViolation ''single_use_links_pkey''), w)
      else if \<exists>r \<in> set (db_links w). lr_token r = lk_Token link then (Inl (UniqueViolation ''single_use_links_token_key''), w)
      else (Inr (), w\<lparr>db_links := db_links w @
        [\<lparr>lr_id = ident, lr_token = lk_Token link, lr_file_path = lk_FilePath link, lr_status = lk_Status link,
          lr_expires_at = pg_round env (lk_ExpiresAt link), lr_used_at = None, lr_used_by_ip = None,
          lr_hmac_signature = lk_HMACSignature link, lr_created_at = pg_round env (lk_CreatedAt link),
          lr_updated_at = pg_round env now\<rparr>]\<rparr>))"

definition pg_CreateSingleUseLink :: "pg_env \<Rightarrow> gotime \<Rightarrow> SingleUseLink \<Rightarrow> pg \<Rightarrow> unit result \<times> pg" where
  "pg_CreateSingleUseLink env now link w =
     apfst (wrap_error pq_error ''failed to create single-use link'') (sql_call (pg_insert_link env now link) w)"

definition SQL_UPDATE_SINGLE_USE_LINK ::
  "pg_env \<Rightarrow> gotime \<Rightarrow> string \<Rightarrow> string \<Rightarrow> gotime option \<Rightarrow> string option \<Rightarrow> (gotime, nat) statement" where
  "SQL_UPDATE_SINGLE_USE_LINK env now token status usedAt usedByIP w =
     (let hit = (\<lambda>r. lr_token r = token \<and> lr_status r = ''active'') in
      case (case usedByIP of None \<Rightarrow> Some None | Some ip \<Rightarrow> map_option Some (pg_inet env ip)) of
        None \<Rightarrow> (Inl (CheckViolation ''inet''), w)
      | Some ip \<Rightarrow>
          if (\<exists>r \<in> set (db_links w). hit r) \<and> \<not> pg_status_ok status then (Inl (CheckViolation ''single_use_links_status_check''), w)
          else update_links hit
            (\<lambda>r. r\<lparr>lr_status := status, lr_used_at := map_option (pg_round env) usedAt, lr_used_by_ip := ip,
                   lr_updated_at := pg_round env now\<rparr>) w)"

definition pg_UpdateSingleUseLink ::
  "pg_env \<Rightarrow> gotime \<Rightarrow> string \<Rightarrow> string \<Rightarrow> gotime option \<Rightarrow> string option \<Rightarrow> pg \<Rightarrow> unit result \<times> pg" where
  "pg_UpdateSingleUseLink env now token status usedAt usedByIP w =
     (case sql_call (SQL_UPDATE_SINGLE_USE_LINK env now token status usedAt usedByIP) w of
        (Inl e, w1) \<Rightarrow> (Inl (Wrapf ''failed to update single-use link'' (pq_error e)), w1)
      | (Inr rowsAffected, w1) \<Rightarrow> if rowsAffected = 0 then (Inl ErrNotFound, w1) else (Inr (), w1))"

text \<open>Expired links of every status are removed.\<close>

definition pg_CleanupExpiredLinks :: "pg_env \<Rightarrow> gotime \<Rightarrow> pg \<Rightarrow> nat result \<times> pg" where
  "pg_CleanupExpiredLinks env before w =
     apfst (wrap_error pq_error ''failed to cleanup expired links'')
       (sql_call (delete_links (\<lambda>r. lr_expires_at r < pg_round env before)) w)"

definition pg_CleanupUsedLinks :: "pg_env \<Rightarrow> gotime \<Rightarrow> pg \<Rightarrow> nat result \<times> pg" where
  "pg_CleanupUsedLinks env olderThan w =
     apfst (wrap_error pq_error ''failed to cleanup used links'')
       (sql_call (delete_links (\<lambda>r. lr_status r = ''used'' \<and>
          (case lr_used_at r of Some t \<Rightarrow> t < pg_round env olderThan | None \<Rightarrow> False))) w)"

subsection \<open>Erasure records (metadata/postgres/erasure.go)\<close>

definition pg_profile_ok :: "profile_row \<Rightarrow> bool" where
  "pg_profile_ok r \<longleftrightarrow> int4 (pr_data_shards r) \<and> int4 (pr_parity_shards r)"

definition pg_shard_ok :: "shard_row \<Rightarrow> bool" where
  "pg_shard_ok r \<longleftrightarrow>
     int4 (sr_shard_index r) \<and> varchar 100 (sr_instance_id r) \<and> varchar 50 (sr_backend_type r) \<and> varchar 64 (sr_checksum r)"

definition pg_CreateErasureInfo :: "string \<Rightarrow> ErasureFileInfo \<Rightarrow> pg \<Rightarrow> unit result \<times> pg" where
  "pg_CreateErasureInfo = sql_CreateErasureInfo pq_error pg_profile_ok pg_shard_ok"

definition pg_GetErasureInfo :: "string \<Rightarrow> pg \<Rightarrow> ErasureFileInfo result \<times> pg" where
  "pg_GetErasureInfo = sql_GetErasureInfo pq_error"

definition pg_DeleteErasureInfo :: "string \<Rightarrow> pg \<Rightarrow> unit result \<times> pg" where
  "pg_DeleteErasureInfo = sql_DeleteErasureInfo pq_error"

subsection \<open>The store as a table of metadata\<close>

definition pg_md_ok :: "Metadata \<Rightarrow> bool" where
  "pg_md_ok md \<longleftrightarrow> varchar 10 (md_Mode md) \<and> int4 (md_UID md) \<and> int4 (md_GID md) \<and>
     (md_BackendType md = ''localfs'' \<or> md_BackendType md = ''s3'') \<and>
     (case md_CallFSInstanceID md of None \<Rightarrow> True | Some i \<Rightarrow> varchar 100 i)"

definition pg_new :: "pg_env \<Rightarrow> gotime \<Rightarrow> int \<Rightarrow> Metadata \<Rightarrow> Metadata" where
  "pg_new env now n md =
     md\<lparr>md_ID := n, md_ATime := pg_round env (md_ATime md), md_MTime := pg_round env (md_MTime md), md_CTime := pg_round env (md_CTime md),
        md_ErasureCoded := False, md_CreatedAt := pg_round env now, md_UpdatedAt := pg_round env now\<rparr>"

definition pg_merge :: "pg_env \<Rightarrow> gotime \<Rightarrow> Metadata \<Rightarrow> Metadata \<Rightarrow> Metadata" where
  "pg_merge env now md old =
     (pg_new env now (md_ID old) md)\<lparr>md_ParentID := md_ParentID old, md_Name := md_Name old, md_Path := md_Path old,
        md_Type := md_Type old, md_CreatedAt := md_CreatedAt old\<rparr>"

fun pg_table_step :: "pg_env \<Rightarrow> meta_event \<Rightarrow> (string \<Rightarrow> Metadata option) \<times> int \<Rightarrow> (string \<Rightarrow> Metadata option) \<times> int" where
  "pg_table_step env (MkMeta now md) (m, n) =
     (if pg_md_ok md \<and> varchar 255 (md_Name md) \<and> (md_Type md = ''file'' \<or> md_Type md = ''directory'') \<and>
         (n = 0 \<longrightarrow> m ''/'' = None) \<and> m (md_Path md) = None
      then m(md_Path md \<mapsto> pg_new env now (n + 1) md) else m, n + 1)"
| "pg_table_step env (UpMeta now md) (m, n) =
     (case m (md_Path md) of
        None \<Rightarrow> (m, n)
      | Some old \<Rightarrow> (if pg_md_ok md then m(md_Path md \<mapsto> pg_merge env now md old) else m, n))"
| "pg_table_step env (RmMeta now p) (m, n) = (m(p := None), n)"

fun pg_step :: "pg_env \<Rightarrow> meta_event \<Rightarrow> pg \<Rightarrow> pg" where
  "pg_step env (MkMeta now md) w = snd (pg_Create env now md w)"
| "pg_step env (UpMeta now md) w = snd (pg_Update env now md w)"
| "pg_step env (RmMeta now p) w = snd (pg_Delete p w)"

definition pg_view :: "pg \<Rightarrow> string \<Rightarrow> Metadata option" where
  "pg_view w p = map_option pg_scan (row_at w p)"

definition pg_ok :: "pg \<Rightarrow> bool" where
  "pg_ok w \<longleftrightarrow> db_faults w = [] \<and> distinct (map in_path (db_inodes w)) \<and> 0 \<le> db_inode_seq w \<and>
     (\<forall>r \<in> set (db_inodes w). pg_row_ok r \<and> in_parent_id r = None \<and>
        (if db_inode_seq w = 0 then in_id r = 1 \<and> in_path r = ''/'' else in_id r \<le> db_inode_seq w))"

lemma pg_row_simps [simp]:
  "in_path (pg_row env now md) = md_Path md" "in_parent_id (pg_row env now md) = md_ParentID md" "in_path (pg_touch env now md r) = in_path r"
  "in_parent_id (pg_touch env now md r) = in_parent_id r" "in_id (pg_touch env now md r) = in_id r"
  "pg_row_ok (pg_row env now md) \<longleftrightarrow> pg_md_ok md \<and> varchar 255 (md_Name md) \<and> (md_Type md = ''file'' \<or> md_Type md = ''directory'')"
  "pg_row_ok (r\<lparr>in_id := n\<rparr>) = pg_row_ok r"
  by (auto simp: pg_row_def pg_touch_def pg_row_ok_def pg_md_ok_def)

lemma pg_row_ok_touch: "pg_row_ok r \<Longrightarrow> pg_row_ok (pg_touch env now md r) \<longleftrightarrow> pg_md_ok md"
  by (auto simp: pg_touch_def pg_row_ok_def pg_md_ok_def)

lemma pg_scan_simps:
  "pg_scan ((pg_row env now md)\<lparr>in_id := n\<rparr>) = pg_new env now n md"
  "pg_scan (pg_touch env now md r) = pg_merge env now md (pg_scan r)"
  by (cases md; simp add: pg_scan_def pg_row_def pg_new_def pg_touch_def pg_merge_def)+

lemma pg_Get_view:
  assumes "db_faults w = []"
  shows "pg_Get p w = (case pg_view w p of Some md \<Rightarrow> Inr md | None \<Rightarrow> Inl ErrNotFound, w)"
  using assms by (simp add: pg_Get_def sql_statements pg_view_def row_at_def find_filter split: list.split)

lemma pg_Create_table:
  assumes ok: "pg_ok w" and par: "md_ParentID md = None"
  defines "good \<equiv> pg_md_ok md \<and> varchar 255 (md_Name md) \<and> (md_Type md = ''file'' \<or> md_Type md = ''directory'')"
    and "clash \<equiv> db_inode_seq w = 0 \<and> pg_view w ''/'' \<noteq> None \<or> pg_view w (md_Path md) \<noteq> None"
  shows "pg_ok (snd (pg_Create env now md w))"
    and "(pg_view (snd (pg_Create env now md w)), db_inode_seq (snd (pg_Create env now md w))) =
      pg_table_step env (MkMeta now md) (pg_view w, db_inode_seq w)"
    and "fst (pg_Create env now md w) =
      (if \<not> good then Inl (Wrapf ''failed to create metadata'' (pq_error (CheckViolation ''inodes'')))
       else if clash then Inl ErrAlreadyExists
       else Inr (md\<lparr>md_ID := db_inode_seq w + 1, md_CreatedAt := pg_round env now, md_UpdatedAt := pg_round env now\<rparr>))"
proof -
  let ?row = "pg_row env now md" and ?n = "db_inode_seq w + 1"
  have faults: "db_faults w = []" using ok by (simp add: pg_ok_def)
  have ids: "(\<exists>r \<in> set (db_inodes w). in_id r = ?n) \<longleftrightarrow> db_inode_seq w = 0 \<and> pg_view w ''/'' \<noteq> None"
  proof (cases "db_inode_seq w = 0")
    case True
    then show ?thesis using ok by (auto simp: pg_ok_def pg_view_def row_at_None) (meson hd_in_set)
  next
    case False
    then have "in_id r < ?n" if "r \<in> set (db_inodes w)" for r using ok that by (fastforce simp: pg_ok_def)
    then show ?thesis using False by force
  qed
  have paths: "(\<exists>r \<in> set (db_inodes w). in_path r = md_Path md) \<longleftrightarrow> pg_view w (md_Path md) \<noteq> None"
    by (simp add: pg_view_def row_at_None)
  have ins: "pg_Create env now md w =
      (if \<not> good then Inl (Wrapf ''failed to create metadata'' (pq_error (CheckViolation ''inodes'')))
       else if clash then Inl ErrAlreadyExists
       else Inr (md\<lparr>md_ID := ?n, md_CreatedAt := pg_round env now, md_UpdatedAt := pg_round env now\<rparr>),
       if good \<and> \<not> clash then w\<lparr>db_inode_seq := ?n, db_inodes := db_inodes w @ [?row\<lparr>in_id := ?n\<rparr>]\<rparr> else w\<lparr>db_inode_seq := ?n\<rparr>)"
    using ids paths par faults
    by (auto simp: pg_Create_def SQL_CREATE_INODE_def Let_def unique_violation_def good_def clash_def)
  show "pg_ok (snd (pg_Create env now md w))"
    using ok par paths by (auto simp: ins pg_ok_def good_def clash_def split: if_splits)
  show "(pg_view (snd (pg_Create env now md w)), db_inode_seq (snd (pg_Create env now md w))) =
      pg_table_step env (MkMeta now md) (pg_view w, db_inode_seq w)"
    using paths
    by (auto simp: ins good_def clash_def pg_view_def row_at_def find_append pg_scan_simps fun_eq_iff split: option.split)
  show "fst (pg_Create env now md w) =
      (if \<not> good then Inl (Wrapf ''failed to create metadata'' (pq_error (CheckViolation ''inodes'')))
       else if clash then Inl ErrAlreadyExists
       else Inr (md\<lparr>md_ID := ?n, md_CreatedAt := pg_round env now, md_UpdatedAt := pg_round env now\<rparr>))"
    by (simp add: ins)
qed


lemma pg_Update_table:
  assumes ok: "pg_ok w"
  shows "pg_ok (snd (pg_Update env now md w))"
    and "(pg_view (snd (pg_Update env now md w)), db_inode_seq (snd (pg_Update env now md w))) =
      pg_table_step env (UpMeta now md) (pg_view w, db_inode_seq w)"
    and "pg_md_ok md \<Longrightarrow> fst (pg_Update env now md w) = (if pg_view w (md_Path md) = None then Inl ErrNotFound else Inr md)"
proof -
  let ?P = "\<lambda>r. in_path r = md_Path md"
  let ?w = "w\<lparr>db_inodes := map (\<lambda>r. if ?P r then pg_touch env now md r else r) (db_inodes w)\<rparr>"
  have faults: "db_faults w = []" using ok by (simp add: pg_ok_def)
  have bad: "(\<exists>r \<in> set (db_inodes w). ?P r \<and> \<not> pg_row_ok (pg_touch env now md r)) \<longleftrightarrow> \<not> pg_md_ok md \<and> pg_view w (md_Path md) \<noteq> None"
    using ok by (auto simp: pg_ok_def pg_row_ok_touch pg_view_def row_at_None)
  have upd: "snd (pg_Update env now md w) = (if pg_md_ok md then ?w else w)"
    "pg_md_ok md \<Longrightarrow> fst (pg_Update env now md w) = (if pg_view w (md_Path md) = None then Inl ErrNotFound else Inr md)"
    using bad by (auto simp: pg_Update_def SQL_UPDATE_INODE_def sql_statements faults pg_view_def filter_path_Nil row_at_None pg_md_ok_def
        intro!: sqldb.equality map_idI)
  show "pg_ok (snd (pg_Update env now md w))"
    using ok by (auto simp: upd pg_ok_def map_if_same pg_row_ok_touch split: if_splits)
  show "(pg_view (snd (pg_Update env now md w)), db_inode_seq (snd (pg_Update env now md w))) =
      pg_table_step env (UpMeta now md) (pg_view w, db_inode_seq w)"
  proof -
    have "pg_view ?w q = (if q = md_Path md then map_option (pg_merge env now md) (pg_view w q) else pg_view w q)" for q
      using row_at_path [of w q] by (cases "row_at w q") (auto simp: pg_view_def row_at_def find_map_if pg_scan_simps)
    then show ?thesis by (auto simp: upd(1) fun_eq_iff split: option.split)
  qed
  show "pg_md_ok md \<Longrightarrow> fst (pg_Update env now md w) = (if pg_view w (md_Path md) = None then Inl ErrNotFound else Inr md)"
    by (rule upd(2))
qed

lemma cascade_none: "\<forall>r \<in> set rows. in_parent_id r = None \<Longrightarrow> cascade dead rows = rows"
  by (simp add: cascade.simps filter_empty_conv)

lemma pg_Delete_table:
  assumes ok: "pg_ok w"
  shows "pg_ok (snd (pg_Delete p w))"
    and "(pg_view (snd (pg_Delete p w)), db_inode_seq (snd (pg_Delete p w))) = pg_table_step env (RmMeta now p) (pg_view w, db_inode_seq w)"
    and "fst (pg_Delete p w) = (if pg_view w p = None then Inl ErrNotFound else Inr ())"
proof -
  have faults: "db_faults w = []" and dist: "distinct (map in_path (db_inodes w))" using ok by (simp_all add: pg_ok_def)
  have "cascade dead (filter (\<lambda>r. in_path r \<noteq> p) (db_inodes w)) = filter (\<lambda>r. in_path r \<noteq> p) (db_inodes w)" for dead
    using ok by (intro cascade_none) (auto simp: pg_ok_def)
  then have del: "pg_Delete p w =
      (if pg_view w p = None then Inl ErrNotFound else Inr (), w\<lparr>db_inodes := filter (\<lambda>r. in_path r \<noteq> p) (db_inodes w)\<rparr>)"
    by (simp add: pg_Delete_def pg_delete_inodes_def Let_def faults pg_view_def filter_path_Nil)
  show "pg_ok (snd (pg_Delete p w))" using ok by (auto simp: del pg_ok_def distinct_map_filter)
  show "(pg_view (snd (pg_Delete p w)), db_inode_seq (snd (pg_Delete p w))) = pg_table_step env (RmMeta now p) (pg_view w, db_inode_seq w)"
  proof -
    have "pg_view (snd (pg_Delete p w)) q = (if q = p then None else pg_view w q)" for q
      using row_at_path [of w q]
      by (cases "row_at w q") (auto simp: del pg_view_def row_at_def find_filter_key [OF dist])
    then show ?thesis by (auto simp: del fun_eq_iff)
  qed
  show "fst (pg_Delete p w) = (if pg_view w p = None then Inl ErrNotFound else Inr ())" by (simp add: del)
qed


text \<open>The program never sets the parent of a record.\<close>

definition no_parents :: "meta_event list \<Rightarrow> bool" where
  "no_parents evs \<longleftrightarrow> (\<forall>now md. MkMeta now md \<in> set evs \<longrightarrow> md_ParentID md = None)"

lemma pg_step_table:
  assumes "pg_ok w" "no_parents [ev]"
  shows "pg_ok (pg_step env ev w)"
    and "(pg_view (pg_step env ev w), db_inode_seq (pg_step env ev w)) = pg_table_step env ev (pg_view w, db_inode_seq w)"
  using pg_Create_table(1,2) [OF assms(1)] pg_Update_table(1,2) [OF assms(1)] pg_Delete_table(1,2) [OF assms(1)] assms(2)
  by (cases ev; simp add: no_parents_def del: pg_table_step.simps)+

lemma pg_run_table:
  assumes "pg_ok w" "no_parents evs"
  shows "pg_ok (fold (pg_step env) evs w)"
    and "(pg_view (fold (pg_step env) evs w), db_inode_seq (fold (pg_step env) evs w)) =
      fold (pg_table_step env) evs (pg_view w, db_inode_seq w)"
proof -
  have "pg_ok (fold (pg_step env) evs w) \<and> (pg_view (fold (pg_step env) evs w), db_inode_seq (fold (pg_step env) evs w)) =
      fold (pg_table_step env) evs (pg_view w, db_inode_seq w)"
    using assms
  proof (induction evs arbitrary: w)
    case (Cons ev evs)
    then have "no_parents [ev]" "no_parents evs" by (auto simp: no_parents_def)
    then show ?case using Cons.IH [of "pg_step env ev w"] pg_step_table [OF Cons.prems(1), of ev env] by simp
  qed simp
  then show "pg_ok (fold (pg_step env) evs w)"
    "(pg_view (fold (pg_step env) evs w), db_inode_seq (fold (pg_step env) evs w)) =
      fold (pg_table_step env) evs (pg_view w, db_inode_seq w)" by auto
qed

definition pg_root :: "pg_env \<Rightarrow> gotime \<Rightarrow> Metadata" where
  "pg_root env start = pg_scan (pg_root_row env start)"

lemma migrated_ok: "pg_ok (migrated_db env start)" "pg_view (migrated_db env start) = [''/'' \<mapsto> pg_root env start]" "db_inode_seq (migrated_db env start) = 0"
  by (auto simp: pg_ok_def migrated_db_def empty_db_def pg_root_row_def pg_row_ok_def varchar_def int4_def runes_ascii_string
      pg_view_def row_at_def pg_root_def fun_eq_iff)

text \<open>
  C24: (refinement) The PostgreSQL store behaves as a table of records by path that at first holds the root of
  the migration: after any run of creates, updates and deletes, reading a path gives the record of the
  table, and the next call is answered as the table says. The table says what is lost: times are
  rounded, the flag of an erasure-coded file is read back as false, and a record of another backend than
  \<^verbatim>\<open>localfs\<close> and \<^verbatim>\<open>s3\<close> is refused.
\<close>

theorem pg_store_is_table:
  fixes env :: pg_env and evs :: "meta_event list" and start :: gotime
  assumes "no_parents evs" "md_ParentID md = None"
  defines "w \<equiv> fold (pg_step env) evs (migrated_db env start)"
    and "m \<equiv> fst (fold (pg_table_step env) evs ([''/'' \<mapsto> pg_root env start], 0))"
    and "n \<equiv> snd (fold (pg_table_step env) evs ([''/'' \<mapsto> pg_root env start], 0))"
  shows "pg_Get p w = (case m p of Some md \<Rightarrow> Inr md | None \<Rightarrow> Inl ErrNotFound, w) \<and>
    fst (pg_Delete p w) = (if m p = None then Inl ErrNotFound else Inr ()) \<and>
    (pg_md_ok md \<longrightarrow> fst (pg_Update env now md w) = (if m (md_Path md) = None then Inl ErrNotFound else Inr md)) \<and>
    is_ok (fst (pg_Create env now md w)) = (pg_md_ok md \<and> varchar 255 (md_Name md) \<and> md_Type md \<in> {''file'', ''directory''} \<and>
      \<not> (n = 0 \<and> m ''/'' \<noteq> None) \<and> m (md_Path md) = None)"
proof -
  have ok: "pg_ok w" and "(pg_view w, db_inode_seq w) = (m, n)"
    using pg_run_table [OF migrated_ok(1) assms(1), of env env start] by (simp_all add: w_def m_def n_def migrated_ok)
  then have mn: "pg_view w = m" "db_inode_seq w = n" by simp_all
  show ?thesis
    using pg_Create_table(3) [OF ok assms(2), of env now] pg_Update_table(3) [OF ok, of md env now] pg_Delete_table(3) [OF ok, of p]
      pg_Get_view [of w p] ok
    by (simp add: mn pg_ok_def)
qed

definition pg_demo_env :: pg_env where
  "pg_demo_env = \<lparr>pg_round = (\<lambda>t. (t + 500) div 1000 * 1000), pg_inet = (\<lambda>s. Some s), pg_key = (\<lambda>s. s)\<rparr>"

definition pg_demo_md :: Metadata where
  "pg_demo_md = zero_Metadata\<lparr>md_Path := ''/a'', md_Name := ''a'', md_Type := ''file'', md_Mode := ''0644'', md_BackendType := ''localfs''\<rparr>"

lemma pg_demo_md_ok: "pg_md_ok pg_demo_md" "varchar 255 (md_Name pg_demo_md)" "md_Type pg_demo_md = ''file''" "md_ParentID pg_demo_md = None"
  "md_Path pg_demo_md = ''/a''"
  by (simp_all add: pg_md_ok_def pg_demo_md_def zero_Metadata_def varchar_def int4_def runes_ascii_string)

theorem pg_store_is_table_witness:
  "is_ok (fst (pg_Create pg_demo_env 9 pg_demo_md (fold (pg_step pg_demo_env) [MkMeta 5 pg_demo_md] (migrated_db pg_demo_env 1))))"
proof -
  have "no_parents [MkMeta 5 pg_demo_md]" using pg_demo_md_ok by (simp add: no_parents_def)
  from pg_store_is_table [OF this pg_demo_md_ok(4), where env = pg_demo_env and start = 1 and now = 9] show ?thesis
    by (simp add: pg_demo_md_ok)
qed

text \<open>
  On a database that has just been migrated the first create of a file or directory is refused as
  already existing, whatever its path: the migration stores the root with identifier 1 and leaves the
  sequence at its start, so the first row gets the same identifier. Nothing is stored, and the same call
  succeeds when it is repeated.
\<close>

lemma pg_first_create_refused:
  assumes "pg_md_ok md" "varchar 255 (md_Name md)" "md_Type md \<in> {''file'', ''directory''}" "md_ParentID md = None" "md_Path md \<noteq> ''/''"
  shows "\<exists>w1. pg_Create env now md (migrated_db env start) = (Inl ErrAlreadyExists, w1) \<and>
    fst (pg_Get (md_Path md) w1) = Inl ErrNotFound \<and> is_ok (fst (pg_Create env now' md w1))"
proof -
  let ?w = "migrated_db env start" and ?w1 = "snd (pg_Create env now md (migrated_db env start))"
  have res: "fst (pg_Create env now md ?w) = Inl ErrAlreadyExists"
    using pg_Create_table(3) [OF migrated_ok(1) assms(4), of env now env start] assms by (simp add: migrated_ok)
  have ok: "pg_ok ?w1" by (rule pg_Create_table(1) [OF migrated_ok(1) assms(4)])
  have view: "(pg_view ?w1, db_inode_seq ?w1) = ([''/'' \<mapsto> pg_root env start], 1)"
    using pg_Create_table(2) [OF migrated_ok(1) assms(4), of env now env start] by (simp add: migrated_ok)
  have "fst (pg_Get (md_Path md) ?w1) = Inl ErrNotFound" using pg_Get_view [of ?w1 "md_Path md"] ok view assms(5) by (simp add: pg_ok_def)
  moreover have "is_ok (fst (pg_Create env now' md ?w1))"
    using pg_Create_table(3) [OF ok assms(4), of env now'] view assms by simp
  ultimately show ?thesis using res by (metis prod.collapse)
qed


subsection \<open>Listing a directory\<close>

lemma pg_escape_Cons:
  "pg_escapeLikePattern [] = []"
  "pg_escapeLikePattern (c # p) = (if wildcard c then [CHR 92, c] else [c]) @ pg_escapeLikePattern p"
  by (auto simp: pg_escapeLikePattern_def ReplaceChar_def wildcard_def)

lemma pg_like_escaped:
  "CHR 92 \<notin> set p \<Longrightarrow> pg_like (pg_escapeLikePattern p @ q) s \<longleftrightarrow> (\<exists>u. s = p @ u \<and> pg_like q u)"
proof (induction p arbitrary: s)
  case (Cons c p)
  have "pg_like (pg_escapeLikePattern (c # p) @ q) s \<longleftrightarrow> s \<noteq> [] \<and> c = hd s \<and> pg_like (pg_escapeLikePattern p @ q) (tl s)"
    using Cons.prems by (cases "wildcard c") (simp_all add: pg_escape_Cons)
  then show ?case using Cons by (cases s) auto
qed (simp add: pg_escape_Cons)

lemma pg_children_iff:
  assumes "CHR 92 \<notin> set p"
  shows "pg_children p r \<longleftrightarrow> (\<exists>u. in_path r = (if p = ''/'' then '''' else p) @ ''/'' @ u \<and> CHR ''/'' \<notin> set u \<and> (p = ''/'' \<longrightarrow> u \<noteq> ''''))"
proof -
  have slash: "pg_like ''%/%'' u \<longleftrightarrow> CHR ''/'' \<in> set u" for u by (rule like_slash) simp_all
  show ?thesis
  proof (cases "p = ''/''")
    case True
    then show ?thesis by (cases "in_path r") (auto simp: pg_children_def slash)
  next
    case False
    have "pg_like (pg_escapeLikePattern p @ ''/'' @ pat) s \<longleftrightarrow> (\<exists>u. s = p @ ''/'' @ u \<and> pg_like pat u)" for pat s
      unfolding pg_like_escaped [OF assms] by (auto simp: neq_Nil_conv)
    from this [of "''%''"] this [of "''%/%''"] False show ?thesis
      by (auto simp: pg_children_def slash)
  qed
qed

text \<open>
  After any run on a migrated database, a listing on the PostgreSQL store of a directory whose path
  contains no backslash is exactly the entries directly below it; the escaping makes \<^verbatim>\<open>%\<close> and \<^verbatim>\<open>_\<close> in the path
  harmless. A backslash is not escaped: the listing of \<^verbatim>\<open>/a\b\<close> asks for the entries below \<^verbatim>\<open>/ab\<close>.
\<close>

lemma pg_listing:
  fixes env :: pg_env and evs :: "meta_event list" and start :: gotime
  assumes "no_parents evs" "CHR 92 \<notin> set p"
  defines "w \<equiv> fold (pg_step env) evs (migrated_db env start)"
    and "m \<equiv> fst (fold (pg_table_step env) evs ([''/'' \<mapsto> pg_root env start], 0))"
  shows "(\<exists>cs. pg_ListChildren env p w = (Inr cs, w) \<and>
      set cs = {md. \<exists>u. m ((if p = ''/'' then '''' else p) @ ''/'' @ u) = Some md \<and> CHR ''/'' \<notin> set u \<and> (p = ''/'' \<longrightarrow> u \<noteq> '''')}) \<and>
    pg_children ([CHR ''/'', CHR ''a'', CHR 92, CHR ''b'']) r = pg_children ''/ab'' r"
proof -
  have ok: "pg_ok w" and "(pg_view w, db_inode_seq w) = fold (pg_table_step env) evs ([''/'' \<mapsto> pg_root env start], 0)"
    using pg_run_table [OF migrated_ok(1) assms(1), of env env start] by (simp_all add: w_def migrated_ok)
  then have m: "pg_view w = m" by (metis fst_conv m_def)
  have dist: "distinct (map in_path (db_inodes w))" and faults: "db_faults w = []" using ok by (simp_all add: pg_ok_def)
  have at: "row_at w q = Some r \<longleftrightarrow> r \<in> set (db_inodes w) \<and> in_path r = q" for q r
    unfolding row_at_def by (rule find_key_iff [OF dist])
  have "(\<exists>u. m (b @ ''/'' @ u) = Some md \<and> P u) \<longleftrightarrow> (\<exists>r \<in> set (db_inodes w). md = pg_scan r \<and> (\<exists>u. in_path r = b @ ''/'' @ u \<and> P u))" for b md P
    by (auto simp: pg_view_def at simp flip: m)
  then have "pg_scan ` set (filter (pg_children p) (db_inodes w)) =
      {md. \<exists>u. m ((if p = ''/'' then '''' else p) @ ''/'' @ u) = Some md \<and> CHR ''/'' \<notin> set u \<and> (p = ''/'' \<longrightarrow> u \<noteq> '''')}"
    by (auto simp: pg_children_iff [OF assms(2)])
  moreover have "pg_children ([CHR ''/'', CHR ''a'', CHR 92, CHR ''b'']) r = pg_children ''/ab'' r"
    by (simp add: pg_children_def pg_escapeLikePattern_def ReplaceChar_def wildcard_def)
  ultimately show ?thesis
    by (simp add: pg_ListChildren_def sql_statements faults no_op_def)
qed

definition pg_demo_run :: "meta_event list" where
  "pg_demo_run = [MkMeta 5 pg_demo_md, MkMeta 6 pg_demo_md]"


end
