(* ===== verification/SqlStores.thy ===== *)
theory SqlStores
  imports SqliteStore PostgresStore Links
begin

section \<open>Links and erasure records on the SQL stores\<close>

text \<open>
  What the SQLite and the PostgreSQL store have in common: both implement the contract \<open>link_cas\<close> even when
  statements fail, and both write the erasure record of a file in one transaction.
\<close>

subsection \<open>What a call leaves in the tables of links\<close>

definition tokens_ok :: "'t sqldb \<Rightarrow> bool" where
  "tokens_ok w = distinct (map lr_token (db_links w))"

lemma link_at_token: "link_at w t = Some r \<Longrightarrow> lr_token r = t"
  by (auto simp: link_at_def find_Some_iff)

lemma tokens_ok_faults [simp]: "tokens_ok (w\<lparr>db_faults := fs\<rparr>) = tokens_ok w" "link_at (w\<lparr>db_faults := fs\<rparr>) = link_at w"
  by (simp_all add: tokens_ok_def link_at_def fun_eq_iff)

lemma filter_active_Nil:
  assumes "tokens_ok w"
  shows "filter (\<lambda>r. lr_token r = t \<and> lr_status r = ''active'') (db_links w) = [] \<longleftrightarrow> (\<forall>r. link_at w t = Some r \<longrightarrow> lr_status r \<noteq> ''active'')"
  using find_key_iff [of lr_token "db_links w" t] assms
  by (auto simp: filter_empty_conv link_at_def tokens_ok_def)

lemma update_links_cas:
  assumes ok: "tokens_ok w" and touch: "\<And>r. lr_token (touch r) = lr_token r"
    and upd: "update_links (\<lambda>r. lr_token r = t \<and> lr_status r = ''active'') touch w = (n, w')"
  shows "tokens_ok w'"
    and "(\<exists>r. link_at w t = Some r \<and> lr_status r = ''active'' \<and> link_at w' = (link_at w)(t \<mapsto> touch r)) \<or>
      (n = Inr 0 \<and> link_at w' = link_at w)"
proof -
  let ?P = "\<lambda>r. lr_token r = t \<and> lr_status r = ''active''"
  have w': "w' = w\<lparr>db_links := map (\<lambda>r. if ?P r then touch r else r) (db_links w)\<rparr>" "n = Inr (length (filter ?P (db_links w)))"
    using upd by (auto simp: update_links_def)
  show "tokens_ok w'" using ok by (simp add: tokens_ok_def w' map_if_same touch)
  have at: "link_at w' x = map_option (\<lambda>r. if ?P r then touch r else r) (link_at w x)" for x
    by (simp add: link_at_def w' find_map_if touch)
  show "(\<exists>r. link_at w t = Some r \<and> lr_status r = ''active'' \<and> link_at w' = (link_at w)(t \<mapsto> touch r)) \<or>
      (n = Inr 0 \<and> link_at w' = link_at w)"
  proof (cases "\<exists>r. link_at w t = Some r \<and> lr_status r = ''active''")
    case True
    then obtain r where r: "link_at w t = Some r" "lr_status r = ''active''" by blast
    have "link_at w' x = ((link_at w)(t \<mapsto> touch r)) x" for x
    proof (cases "x = t")
      case False
      then show ?thesis using link_at_token [of w x] by (cases "link_at w x") (simp_all add: at)
    qed (simp add: at r link_at_token [OF r(1)])
    then show ?thesis using r by (auto simp: fun_eq_iff)
  next
    case False
    then have "link_at w' x = link_at w x" for x
      using link_at_token [of w x] by (cases "link_at w x") (auto simp: at)
    moreover have "n = Inr 0" using filter_active_Nil [OF ok, of t] False by (simp add: w')
    ultimately show ?thesis by (auto simp: fun_eq_iff)
  qed
qed

lemma delete_links_only_removes:
  assumes "tokens_ok w" "sql_call (delete_links P) w = (n, w')"
  shows "tokens_ok w' \<and> link_at w' \<subseteq>\<^sub>m link_at w"
proof -
  have del: "tokens_ok (snd (delete_links P v)) \<and> link_at (snd (delete_links P v)) \<subseteq>\<^sub>m link_at v" if "tokens_ok v" for v
    using that find_filter_key [of lr_token "db_links v" _ "\<lambda>r. \<not> P r"]
    by (auto simp: tokens_ok_def delete_links_def distinct_map_filter map_le_def link_at_def split: option.splits if_splits)
  from assms(2) show ?thesis
  proof (cases rule: sql_call_cases)
    case (skipped err fs)
    then show ?thesis using assms(1) by simp
  next
    case (ran fs)
    then show ?thesis using del [of "w\<lparr>db_faults := fs\<rparr>"] assms(1) by simp
  next
    case (lost err fs x)
    then show ?thesis using del [of "w\<lparr>db_faults := fs\<rparr>"] assms(1) by simp
  qed
qed

text \<open>The conditional update, whatever becomes of its answer.\<close>

definition changed_once :: "'t sqldb \<Rightarrow> string \<Rightarrow> ('t link_row \<Rightarrow> 't link_row) \<Rightarrow> 't sqldb \<Rightarrow> bool" where
  "changed_once w t touch w' \<longleftrightarrow> (\<exists>r. link_at w t = Some r \<and> lr_status r = ''active'' \<and> link_at w' = (link_at w)(t \<mapsto> touch r))"

lemma sql_call_cas:
  assumes ok: "tokens_ok w" and touch: "\<And>r. lr_token (touch r) = lr_token r"
    and stmt: "\<And>v. f v = update_links (\<lambda>r. lr_token r = t \<and> lr_status r = ''active'') touch v \<or> (\<exists>e. f v = (Inl e, v))"
    and call: "sql_call f w = (n, w')"
  shows "tokens_ok w' \<and> (changed_once w t touch w' \<or> ((\<forall>k. n = Inr k \<longrightarrow> k = 0) \<and> link_at w' = link_at w))"
proof -
  have run: "tokens_ok w' \<and> (changed_once w t touch w' \<or> ((\<forall>k. x = Inr k \<longrightarrow> k = 0) \<and> link_at w' = link_at w))"
    if "f (w\<lparr>db_faults := fs\<rparr>) = (x, w')" for fs x
  proof -
    have v: "tokens_ok (w\<lparr>db_faults := fs\<rparr>)" using ok by simp
    show ?thesis
      using stmt [of "w\<lparr>db_faults := fs\<rparr>"] that update_links_cas [OF v touch, of t x w'] ok
      by (auto simp: changed_once_def)
  qed
  from call show ?thesis
  proof (cases rule: sql_call_cases)
    case (skipped err fs)
    then show ?thesis using ok by simp
  next
    case (ran fs)
    then show ?thesis by (rule run)
  next
    case (lost err fs x)
    then show ?thesis using run [of fs x] by auto
  qed
qed

subsection \<open>The two stores as implementations of the interface\<close>

text \<open>A read through the interface leaves the list of faults as it is.\<close>

definition sqlite_ops :: "sqlite store_ops" where
  "sqlite_ops =
     \<lparr>st_Get = (\<lambda>p w. fst (sqlite_Get p w)), st_Create = sqlite_Create, st_Update = sqlite_Update, st_Delete = sqlite_Delete,
      st_ListChildren = (\<lambda>p w. fst (sqlite_ListChildren p w)), st_GetSingleUseLink = (\<lambda>t w. fst (sqlite_GetSingleUseLink t w)),
      st_CreateSingleUseLink = sqlite_CreateSingleUseLink, st_UpdateSingleUseLink = sqlite_UpdateSingleUseLink,
      st_CleanupExpiredLinks = sqlite_CleanupExpiredLinks, st_CleanupUsedLinks = sqlite_CleanupUsedLinks\<rparr>"

definition pg_ops :: "pg_env \<Rightarrow> pg store_ops" where
  "pg_ops env =
     \<lparr>st_Get = (\<lambda>p w. fst (pg_Get p w)), st_Create = pg_Create env, st_Update = pg_Update env, st_Delete = pg_Delete,
      st_ListChildren = (\<lambda>p w. fst (pg_ListChildren env p w)), st_GetSingleUseLink = (\<lambda>t w. fst (pg_GetSingleUseLink t w)),
      st_CreateSingleUseLink = pg_CreateSingleUseLink env, st_UpdateSingleUseLink = pg_UpdateSingleUseLink env,
      st_CleanupExpiredLinks = pg_CleanupExpiredLinks env, st_CleanupUsedLinks = pg_CleanupUsedLinks env\<rparr>"

definition sqlite_link_view :: "sqlite \<Rightarrow> string \<Rightarrow> SingleUseLink option" where
  "sqlite_link_view w t = map_option scan_link (link_at w t)"

definition pg_link_view :: "pg \<Rightarrow> string \<Rightarrow> SingleUseLink option" where
  "pg_link_view w t = map_option pg_scan_link (link_at w t)"

lemma sqlite_update_cas:
  assumes "tokens_ok w" "sqlite_UpdateSingleUseLink now t st ua ip w = (u, w')"
  shows "tokens_ok w' \<and> (changed_once w t (sqlite_touch_link now st ua ip) w' \<or> (u \<noteq> Inr () \<and> link_at w' = link_at w))"
proof -
  let ?f = "update_links (\<lambda>r. lr_token r = t \<and> lr_status r = ''active'') (sqlite_touch_link now st ua ip)"
  obtain n w1 where call: "sql_call ?f w = (n, w1)" by fastforce
  have "lr_token (sqlite_touch_link now st ua ip r) = lr_token r" for r by (simp add: sqlite_touch_link_def)
  note cas = sql_call_cas [OF assms(1) this _ call]
  show ?thesis
    using cas assms(2) unfolding sqlite_UpdateSingleUseLink_def call by (auto split: sum.splits if_splits)
qed

lemma pg_update_cas:
  assumes "tokens_ok w" "pg_UpdateSingleUseLink env now t st ua ip w = (u, w')"
  shows "tokens_ok w' \<and> ((\<exists>touch. (\<forall>r. lr_status (touch r) = st) \<and> changed_once w t touch w') \<or> (u \<noteq> Inr () \<and> link_at w' = link_at w))"
proof -
  let ?P = "\<lambda>r. lr_token r = t \<and> lr_status r = ''active''"
  obtain touch where tok: "\<And>r. lr_token (touch r) = lr_token r" "\<And>r. lr_status (touch r) = st"
    and stmt: "\<And>v. SQL_UPDATE_SINGLE_USE_LINK env now t st ua ip v = update_links ?P touch v \<or>
      (\<exists>e. SQL_UPDATE_SINGLE_USE_LINK env now t st ua ip v = (Inl e, v))"
  proof (cases "case ip of None \<Rightarrow> Some None | Some i \<Rightarrow> map_option Some (pg_inet env i)")
    case None
    then show ?thesis
      using that [of "\<lambda>r. r\<lparr>lr_status := st\<rparr>"] by (simp add: SQL_UPDATE_SINGLE_USE_LINK_def Let_def)
  next
    case (Some ip')
    then show ?thesis
      using that [of "\<lambda>r. r\<lparr>lr_status := st, lr_used_at := map_option (pg_round env) ua, lr_used_by_ip := ip', lr_updated_at := pg_round env now\<rparr>"]
      by (auto simp: SQL_UPDATE_SINGLE_USE_LINK_def Let_def)
  qed
  obtain n w1 where call: "sql_call (SQL_UPDATE_SINGLE_USE_LINK env now t st ua ip) w = (n, w1)" by fastforce
  note cas = sql_call_cas [OF assms(1) tok(1) stmt call]
  show ?thesis
    using cas tok(2) assms(2) unfolding pg_UpdateSingleUseLink_def call by (auto split: sum.splits if_splits)
qed

text \<open>From rows to the links that the methods return.\<close>

lemma cas_view:
  assumes cas: "(\<exists>touch. (\<forall>r. lr_status (touch r) = st) \<and> changed_once w t touch w') \<or> (u \<noteq> Inr () \<and> link_at w' = link_at w)"
    and f: "\<And>r. lk_Status (f r) = lr_status r" and V: "\<And>v. V v = (\<lambda>x. map_option f (link_at v x))"
  shows "(u \<noteq> Inr () \<and> V w' = V w) \<or>
    (\<exists>l l'. V w t = Some l \<and> lk_Status l = ''active'' \<and> V w' = (V w)(t \<mapsto> l') \<and> lk_Status l' = st)"
  using cas
proof (elim disjE exE conjE)
  fix touch assume "\<forall>r. lr_status (touch r) = st" "changed_once w t touch w'"
  then obtain r where r: "link_at w t = Some r" "lr_status r = ''active''" "link_at w' = (link_at w)(t \<mapsto> touch r)" "lr_status (touch r) = st"
    by (auto simp: changed_once_def)
  then have "V w t = Some (f r) \<and> lk_Status (f r) = ''active'' \<and> V w' = (V w)(t \<mapsto> f (touch r)) \<and> lk_Status (f (touch r)) = st"
    by (auto simp: V f)
  then show ?thesis by blast
qed (simp add: V)

lemma cleanup_view:
  assumes "tokens_ok w" "apfst g (sql_call (delete_links P) w) = (n, w')" and V: "\<And>v. V v = (\<lambda>x. map_option f (link_at v x))"
  shows "tokens_ok w' \<and> V w' \<subseteq>\<^sub>m V w"
proof -
  obtain k where "sql_call (delete_links P) w = (k, w')" using assms(2) by (cases "sql_call (delete_links P) w") auto
  from delete_links_only_removes [OF assms(1) this] show ?thesis by (auto simp: V map_le_def dom_def)
qed

lemma link_views: "sqlite_link_view v = (\<lambda>x. map_option scan_link (link_at v x))" "pg_link_view v' = (\<lambda>x. map_option pg_scan_link (link_at v' x))"
  "lk_Status (scan_link r) = lr_status r" "lk_Status (pg_scan_link r') = lr_status r'"
  by (simp_all add: sqlite_link_view_def [abs_def] pg_link_view_def [abs_def] scan_link_def pg_scan_link_def)

interpretation sqlite_cas: link_cas sqlite_ops sqlite_link_view tokens_ok
proof
  fix w now t st ua ip u w'
  assume ok: "tokens_ok w" and "st_UpdateSingleUseLink sqlite_ops now t st ua ip w = (u, w')"
  then have "sqlite_UpdateSingleUseLink now t st ua ip w = (u, w')" by (simp add: sqlite_ops_def)
  moreover have "\<forall>r. lr_status (sqlite_touch_link now st ua ip r) = st" by (simp add: sqlite_touch_link_def)
  ultimately have "tokens_ok w'"
    "(\<exists>touch. (\<forall>r. lr_status (touch r) = st) \<and> changed_once w t touch w') \<or> (u \<noteq> Inr () \<and> link_at w' = link_at w)"
    using sqlite_update_cas [OF ok] by blast+
  from this(1) cas_view [OF this(2) link_views(3,1)]
  show "tokens_ok w' \<and> ((u \<noteq> Inr () \<and> sqlite_link_view w' = sqlite_link_view w) \<or>
      (\<exists>l l'. sqlite_link_view w t = Some l \<and> lk_Status l = ''active'' \<and> sqlite_link_view w' = (sqlite_link_view w)(t \<mapsto> l') \<and> lk_Status l' = st))"
    by blast
qed (auto simp: sqlite_ops_def sqlite_CleanupExpiredLinks_def sqlite_CleanupUsedLinks_def dest: cleanup_view [OF _ _ link_views(1)])

interpretation pg_cas: link_cas "pg_ops env" pg_link_view tokens_ok for env
proof
  fix w now t st ua ip u w'
  assume ok: "tokens_ok w" and "st_UpdateSingleUseLink (pg_ops env) now t st ua ip w = (u, w')"
  then have "pg_UpdateSingleUseLink env now t st ua ip w = (u, w')" by (simp add: pg_ops_def)
  from pg_update_cas [OF ok this] cas_view [OF _ link_views(4,2)]
  show "tokens_ok w' \<and> ((u \<noteq> Inr () \<and> pg_link_view w' = pg_link_view w) \<or>
      (\<exists>l l'. pg_link_view w t = Some l \<and> lk_Status l = ''active'' \<and> pg_link_view w' = (pg_link_view w)(t \<mapsto> l') \<and> lk_Status l' = st))"
    by blast
qed (auto simp: pg_ops_def pg_CleanupExpiredLinks_def pg_CleanupUsedLinks_def dest: cleanup_view [OF _ _ link_views(2)])

text \<open>
  C25: (safety) On both SQL stores no token is answered with its path twice, however the checks and consumptions of
  concurrent downloads and the ticks of the clean-up worker interleave, and whichever statements fail,
  with their effect or without it; only tokens of links that were active at the start are answered at all.
\<close>

theorem sql_links_redeem_once:
  assumes "tokens_ok w" "tokens_ok v"
    and "link_run \<lparr>lm_metadataStore = sqlite_ops, lm_mac = mac\<rparr> evs (w, pd) = (out, s')"
    and "link_run \<lparr>lm_metadataStore = pg_ops env, lm_mac = mac\<rparr> evs' (v, pd') = (out', s'')"
  shows "distinct (map fst out) \<and> (\<forall>(t, p) \<in> set out. \<exists>l. sqlite_link_view w t = Some l \<and> lk_Status l = ''active'') \<and>
    distinct (map fst out') \<and> (\<forall>(t, p) \<in> set out'. \<exists>l. pg_link_view v t = Some l \<and> lk_Status l = ''active'')"
proof -
  obtain w1 q1 w2 q2 where s: "s' = (w1, q1)" "s'' = (w2, q2)" by (metis prod.exhaust)
  show ?thesis
    using sqlite_cas.link_run_once [OF assms(1) _ assms(3) [unfolded s]] pg_cas.link_run_once [OF assms(2) _ assms(4) [unfolded s]]
    by (force simp: sqlite_cas.usable_def pg_cas.usable_def)
qed

definition sql_demo_row :: "'t \<Rightarrow> 't link_row" where
  "sql_demo_row e = \<lparr>lr_id = 1, lr_token = ''id.sig'', lr_file_path = ''/f'', lr_status = ''active'', lr_expires_at = e, lr_used_at = None,
     lr_used_by_ip = None, lr_hmac_signature = ''sig'', lr_created_at = e, lr_updated_at = e\<rparr>"

definition sql_demo_db :: "'t \<Rightarrow> 't sqldb" where
  "sql_demo_db e = empty_db\<lparr>db_links := [sql_demo_row e], db_link_seq := 1\<rparr>"

definition sql_demo_events :: "link_event list" where
  "sql_demo_events = [CheckLink 1 11 ''id.sig'', CheckLink 2 11 ''id.sig'', ConsumeLink 2 12 ''10.0.0.1'', ConsumeLink 1 12 ''10.0.0.2'']"

lemma sql_demo_runs:
  "fst (link_run \<lparr>lm_metadataStore = sqlite_ops, lm_mac = (\<lambda>_. ''sig'')\<rparr> sql_demo_events (sql_demo_db (0, ''.0000009Z''), Map.empty)) = [(''id.sig'', ''/f'')]"
  "fst (link_run \<lparr>lm_metadataStore = pg_ops pg_demo_env, lm_mac = (\<lambda>_. ''sig'')\<rparr> sql_demo_events (sql_demo_db 1000, Map.empty)) = [(''id.sig'', ''/f'')]"
  by code_simp+

theorem sql_links_redeem_once_witness:
  "\<exists>out out'. fst (link_run \<lparr>lm_metadataStore = sqlite_ops, lm_mac = (\<lambda>_. ''sig'')\<rparr> sql_demo_events (sql_demo_db (0, ''.0000009Z''), Map.empty)) = out \<and>
    fst (link_run \<lparr>lm_metadataStore = pg_ops pg_demo_env, lm_mac = (\<lambda>_. ''sig'')\<rparr> sql_demo_events (sql_demo_db 1000, Map.empty)) = out' \<and>
    out = [(''id.sig'', ''/f'')] \<and> out' = [(''id.sig'', ''/f'')] \<and> distinct (map fst out) \<and> distinct (map fst out')"
proof -
  obtain o1 s1 o2 s2 where
    runs: "link_run \<lparr>lm_metadataStore = sqlite_ops, lm_mac = (\<lambda>_. ''sig'')\<rparr> sql_demo_events (sql_demo_db (0, ''.0000009Z''), Map.empty) = (o1, s1)"
      "link_run \<lparr>lm_metadataStore = pg_ops pg_demo_env, lm_mac = (\<lambda>_. ''sig'')\<rparr> sql_demo_events (sql_demo_db 1000, Map.empty) = (o2, s2)"
    by (metis prod.exhaust)
  have "tokens_ok (sql_demo_db e)" for e :: 'a by (simp add: tokens_ok_def sql_demo_db_def sql_demo_row_def)
  from sql_links_redeem_once [OF this this runs] sql_demo_runs runs show ?thesis by simp
qed

subsection \<open>Erasure records are written as a whole\<close>

lemma sql_call_Inr: "sql_call f w = (Inr x, w') \<Longrightarrow> \<exists>fs. f (w\<lparr>db_faults := fs\<rparr>) = (Inr x, w')"
  by (elim sql_call_cases) auto

lemma insert_shards_ok:
  "insert_shards ge sfits p shards w = (Inr u, w') \<Longrightarrow> \<exists>fs. w' = w\<lparr>db_faults := fs, db_shards := db_shards w @ map (shard_of p) shards\<rparr>"
proof (induction shards arbitrary: w)
  case Nil
  then show ?case by (intro exI [of _ "db_faults w"]) simp
next
  case (Cons s shards)
  obtain r w1 where call: "sql_call (insert_shard sfits (shard_of p s)) w = (r, w1)" by fastforce
  with Cons.prems have "r = Inr ()" "insert_shards ge sfits p shards w1 = (Inr u, w')" by (auto split: sum.splits)
  moreover obtain fs where "w1 = w\<lparr>db_faults := fs, db_shards := db_shards w @ [shard_of p s]\<rparr>"
    using sql_call_Inr [of "insert_shard sfits (shard_of p s)" w "()" w1] call calculation(1) by (auto simp: insert_shard_def split: if_splits)
  ultimately show ?case using Cons.IH [of w1] by auto
qed

text \<open>A transaction whose body has the effect \<open>g\<close> when it succeeds leaves its effect or nothing.\<close>

lemma sql_tx_atomic:
  assumes body: "\<And>v x v'. body v = (Inr x, v') \<Longrightarrow> \<exists>fs. v' = g (v\<lparr>db_faults := fs\<rparr>)"
    and g: "\<And>v fs. g (v\<lparr>db_faults := fs\<rparr>) = (g v)\<lparr>db_faults := fs\<rparr>"
    and tx: "sql_tx b c body w = (r, w')"
  shows "\<exists>fs. w' = (g w)\<lparr>db_faults := fs\<rparr> \<or> (\<not> is_ok r \<and> w' = w\<lparr>db_faults := fs\<rparr>)"
proof -
  obtain r1 w1 where 1: "sql_call no_op w = (r1, w1)" by fastforce
  obtain fs1 where w1: "w1 = w\<lparr>db_faults := fs1\<rparr>" using 1 by (elim sql_call_cases) (auto simp: no_op_def)
  obtain r2 w2 where 2: "body w1 = (r2, w2)" by fastforce
  show ?thesis
  proof (cases "\<exists>x. r1 = Inr () \<and> r2 = Inr x")
    case False
    then show ?thesis using tx 1 2 by (auto simp: sql_tx_def w1 split: sum.splits)
  next
    case True
    then obtain x where x: "r1 = Inr ()" "r2 = Inr x" by blast
    then obtain fs2 where w2: "w2 = (g w)\<lparr>db_faults := fs2\<rparr>" using body [of w1 x w2] 2 g by (auto simp: w1)
    obtain r3 w3 where 3: "sql_call (\<lambda>w. (Inr (), w2\<lparr>db_faults := db_faults w\<rparr>)) (w1\<lparr>db_faults := db_faults w2\<rparr>) = (r3, w3)" by fastforce
    then have "\<exists>fs. w3 = (g w)\<lparr>db_faults := fs\<rparr> \<or> (r3 \<noteq> Inr () \<and> w3 = w\<lparr>db_faults := fs\<rparr>)"
      by (elim sql_call_cases) (auto simp: w1 w2)
    then show ?thesis using tx 1 2 3 x by (auto simp: sql_tx_def split: sum.splits)
  qed
qed

definition with_erasure :: "string \<Rightarrow> ErasureFileInfo \<Rightarrow> 't sqldb \<Rightarrow> 't sqldb" where
  "with_erasure p info w =
     w\<lparr>db_profiles := db_profiles w @ [profile_of p info], db_shards := db_shards w @ map (shard_of p) (ei_Shards info)\<rparr>"

definition without_erasure :: "string \<Rightarrow> 't sqldb \<Rightarrow> 't sqldb" where
  "without_erasure p w =
     w\<lparr>db_profiles := filter (\<lambda>r. pr_file_path r \<noteq> p) (db_profiles w), db_shards := filter (\<lambda>r. sr_file_path r \<noteq> p) (db_shards w)\<rparr>"

lemma create_erasure_atomic:
  assumes "sql_CreateErasureInfo ge pfits sfits p info w = (r, w')"
  shows "\<exists>fs. w' = (with_erasure p info w)\<lparr>db_faults := fs\<rparr> \<or> (\<not> is_ok r \<and> w' = w\<lparr>db_faults := fs\<rparr>)"
  using assms unfolding sql_CreateErasureInfo_def
proof (rule sql_tx_atomic [rotated 2])
  fix v x v'
  assume body: "(case sql_call (insert_profile pfits (profile_of p info)) v of
      (Inl e, w1) \<Rightarrow> (Inl (Wrapf ''failed to insert erasure profile'' (ge e)), w1)
    | (Inr _, w1) \<Rightarrow> insert_shards ge sfits p (ei_Shards info) w1) = (Inr x, v')"
  then obtain v1 where v1: "sql_call (insert_profile pfits (profile_of p info)) v = (Inr (), v1)"
    "insert_shards ge sfits p (ei_Shards info) v1 = (Inr x, v')"
    by (auto split: prod.splits sum.splits)
  then show "\<exists>fs. v' = with_erasure p info (v\<lparr>db_faults := fs\<rparr>)"
    using sql_call_Inr [OF v1(1)] insert_shards_ok [OF v1(2)]
    by (intro exI [of _ "db_faults v'"]) (auto simp: insert_profile_def with_erasure_def split: if_splits)
qed (simp add: with_erasure_def)

lemma delete_erasure_atomic:
  assumes "sql_DeleteErasureInfo ge p w = (r, w')"
  shows "\<exists>fs. w' = (without_erasure p w)\<lparr>db_faults := fs\<rparr> \<or> (\<not> is_ok r \<and> w' = w\<lparr>db_faults := fs\<rparr>)"
  using assms unfolding sql_DeleteErasureInfo_def
proof (rule sql_tx_atomic [rotated 2])
  let ?s = "\<lambda>w. (Inr (), w\<lparr>db_shards := filter (\<lambda>r. sr_file_path r \<noteq> p) (db_shards w)\<rparr>)"
  let ?p = "\<lambda>w. (Inr (), w\<lparr>db_profiles := filter (\<lambda>r. pr_file_path r \<noteq> p) (db_profiles w)\<rparr>)"
  fix v x v'
  assume "(case sql_call ?s v of
      (Inl e, w1) \<Rightarrow> (Inl (Wrapf ''failed to delete erasure shards'' (ge e)), w1)
    | (Inr _, w1) \<Rightarrow> apfst (wrap_error ge ''failed to delete erasure profile'') (sql_call ?p w1)) = (Inr x, v')"
  then obtain v1 where v1: "sql_call ?s v = (Inr (), v1)" "sql_call ?p v1 = (Inr (), v')"
    by (cases "sql_call ?p (snd (sql_call ?s v))") (auto simp: wrap_error_def split: prod.splits sum.splits)
  show "\<exists>fs. v' = without_erasure p (v\<lparr>db_faults := fs\<rparr>)"
    using sql_call_Inr [OF v1(1)] sql_call_Inr [OF v1(2)]
    by (intro exI [of _ "db_faults v'"]) (auto simp: without_erasure_def)
qed (simp add: without_erasure_def)

definition all_or_nothing :: "('t sqldb \<Rightarrow> 'a result \<times> 't sqldb) \<Rightarrow> ('t sqldb \<Rightarrow> 't sqldb) \<Rightarrow> 't sqldb \<Rightarrow> bool" where
  "all_or_nothing f g w \<longleftrightarrow>
     (\<exists>fs. snd (f w) = (g w)\<lparr>db_faults := fs\<rparr> \<or> (\<not> is_ok (fst (f w)) \<and> snd (f w) = w\<lparr>db_faults := fs\<rparr>))"

text \<open>
  C26: (safety) Whichever statements of the transaction fail, both SQL stores write the erasure record of a file
  as a whole, profile and all shards, or not at all, and likewise delete it; they report success only when it is done,
  and touch no other table.
\<close>

theorem sql_erasure_atomic:
  "all_or_nothing (sqlite_CreateErasureInfo p info) (with_erasure p info) w \<and>
   all_or_nothing (pg_CreateErasureInfo p info) (with_erasure p info) v \<and>
   all_or_nothing (sqlite_DeleteErasureInfo p) (without_erasure p) w \<and>
   all_or_nothing (pg_DeleteErasureInfo p) (without_erasure p) v"
  using create_erasure_atomic [of sqlite_error "\<lambda>_. True" "\<lambda>_. True" p info w] create_erasure_atomic [of pq_error pg_profile_ok pg_shard_ok p info v]
    delete_erasure_atomic [of sqlite_error p w] delete_erasure_atomic [of pq_error p v]
  by (simp add: all_or_nothing_def sqlite_CreateErasureInfo_def pg_CreateErasureInfo_def sqlite_DeleteErasureInfo_def pg_DeleteErasureInfo_def)

text \<open>What is created is read back, with the shards in the order of their indices.\<close>

definition no_record :: "string \<Rightarrow> 't sqldb \<Rightarrow> bool" where
  "no_record p w \<longleftrightarrow> db_faults w = [] \<and> (\<forall>r \<in> set (db_profiles w). pr_file_path r \<noteq> p) \<and> (\<forall>r \<in> set (db_shards w). sr_file_path r \<noteq> p)"

lemma insert_shards_fresh:
  assumes "db_faults w = []" "distinct (map sh_Index shards)" "\<forall>s \<in> set shards. sfits (shard_of p s)"
    "\<forall>r \<in> set (db_shards w). sr_file_path r = p \<longrightarrow> sr_shard_index r \<notin> sh_Index ` set shards"
  shows "insert_shards ge sfits p shards w = (Inr (), w\<lparr>db_shards := db_shards w @ map (shard_of p) shards\<rparr>)"
  using assms
proof (induction shards arbitrary: w)
  case (Cons s shards)
  have "insert_shard sfits (shard_of p s) w = (Inr (), w\<lparr>db_shards := db_shards w @ [shard_of p s]\<rparr>)"
    using Cons.prems by (auto simp: insert_shard_def shard_of_def)
  moreover have "\<forall>r \<in> set (db_shards w @ [shard_of p s]). sr_file_path r = p \<longrightarrow> sr_shard_index r \<notin> sh_Index ` set shards"
    using Cons.prems by (auto simp: shard_of_def)
  ultimately show ?case using Cons by simp
qed simp

lemma scan_shard_of [simp]: "scan_shard (shard_of p s) = s" "sr_shard_index (shard_of p s) = sh_Index s" "sr_file_path (shard_of p s) = p"
  by (simp_all add: scan_shard_def shard_of_def)

lemma sort_key_map: "sort_key k (map h xs) = map h (sort_key (\<lambda>x. k (h x)) xs)"
proof -
  have ins: "insort_key k (h x) (map h ys) = map h (insort_key (\<lambda>x. k (h x)) x ys)" for x ys by (induction ys) auto
  show ?thesis by (induction xs) (simp_all add: ins)
qed

lemma erasure_create_get:
  assumes "no_record p w" "distinct (map sh_Index (ei_Shards info))" "pfits (profile_of p info)" "\<forall>s \<in> set (ei_Shards info). sfits (shard_of p s)"
  shows "sql_CreateErasureInfo ge pfits sfits p info w = (Inr (), with_erasure p info w)"
    and "fst (sql_GetErasureInfo ge p (with_erasure p info w)) = Inr (info\<lparr>ei_FilePath := p, ei_Shards := sort_key sh_Index (ei_Shards info)\<rparr>)"
proof -
  have faults: "db_faults w = []" using assms(1) by (simp add: no_record_def)
  have "insert_profile pfits (profile_of p info) w = (Inr (), w\<lparr>db_profiles := db_profiles w @ [profile_of p info]\<rparr>)"
    using assms(1,3) by (auto simp: insert_profile_def no_record_def profile_of_def)
  moreover have "insert_shards ge sfits p (ei_Shards info) (w\<lparr>db_profiles := db_profiles w @ [profile_of p info]\<rparr>) = (Inr (), with_erasure p info w)"
    using assms by (subst insert_shards_fresh) (auto simp: no_record_def with_erasure_def)
  ultimately show "sql_CreateErasureInfo ge pfits sfits p info w = (Inr (), with_erasure p info w)"
    using faults by (simp add: sql_CreateErasureInfo_def sql_tx_def no_op_def with_erasure_def)
  have "filter (\<lambda>r. pr_file_path r = p) (db_profiles w) = []" "filter (\<lambda>r. sr_file_path r = p) (db_shards w) = []"
    using assms(1) by (auto simp: no_record_def filter_empty_conv)
  moreover have "filter (\<lambda>r. sr_file_path r = p) (map (shard_of p) ss) = map (shard_of p) ss" for ss by (simp add: filter_id_conv)
  ultimately show "fst (sql_GetErasureInfo ge p (with_erasure p info w)) = Inr (info\<lparr>ei_FilePath := p, ei_Shards := sort_key sh_Index (ei_Shards info)\<rparr>)"
    using faults
    by (cases info) (simp add: sql_GetErasureInfo_def with_erasure_def no_op_def profile_of_def sort_key_map map_idI)
qed

end
