(* ===== verification/Spec2Isabelle.thy ===== *)
theory Spec2Isabelle
  imports Router ErasureNode RedisLocks RedisStore SqlStores
begin

text \<open>
  \<^bold>\<open>A verified model of CallFS\<close>

  CallFS is a file system served over HTTP. A request passes a middleware that authenticates its key,
  a handler that parses its path and asks the authoriser, and the core engine, which keeps the metadata
  of files and directories in a metadata store, their bytes in a storage backend, a cache of metadata in
  memory, and a lock per path while it changes something. Files can be erasure-coded over several
  instances, and single-use links give access to one file without a key.

  \<^bold>\<open>Theories and the code they model\<close> (paths under \<^verbatim>\<open>src/\<close>)

  \<^item> \<^verbatim>\<open>Prelude\<close>, \<^verbatim>\<open>GoStrings\<close>, \<^verbatim>\<open>GoPath\<close>: Go maps as association lists, time, results with an error, and the
    parts of \<^verbatim>\<open>strings\<close>, \<^verbatim>\<open>strconv\<close>, \<^verbatim>\<open>utf8\<close> and \<^verbatim>\<open>path/filepath\<close> the program calls.
  \<^item> \<^verbatim>\<open>Metadata\<close>, \<^verbatim>\<open>StoreSpec\<close>: the records and interfaces of \<^verbatim>\<open>metadata/store.go\<close>; the contracts of a metadata store
    and of a link store as the locales \<open>metadata_store\<close> and \<open>link_store\<close>.
  \<^item> \<^verbatim>\<open>PathUtil\<close>: \<^verbatim>\<open>internal/pathutil/sanitize.go\<close> and \<^verbatim>\<open>ParseFilePath\<close>. Confinement of \<^verbatim>\<open>SafeJoin\<close>, what \<^verbatim>\<open>Clean\<close> accepts.
  \<^item> \<^verbatim>\<open>Auth\<close>: \<^verbatim>\<open>auth/\<close>. The decision of the authenticator and of the Unix-style authoriser.
  \<^item> \<^verbatim>\<open>Locks\<close>: \<^verbatim>\<open>locks/local_manager.go\<close>, with the locale \<open>lock_manager\<close>. Mutual exclusion while a lease lasts.
  \<^item> \<^verbatim>\<open>Cache\<close>: \<^verbatim>\<open>core/cache.go\<close>, with the locale \<open>lossy_cache\<close>. Size bound and coherence.
  \<^item> \<^verbatim>\<open>RaftStore\<close>: \<^verbatim>\<open>metadata/raft\<close>: the replicated state machine, snapshots, the leader and the followers that forward
    to it. It interprets both store contracts.
  \<^item> \<^verbatim>\<open>Backends\<close>: \<^verbatim>\<open>backends/localfs\<close> over a model of the file system calls it makes, \<^verbatim>\<open>backends/noop\<close>, and the locale
    \<open>file_backend\<close>. Atomic writes and the round trip of a file.
  \<^item> \<^verbatim>\<open>Engine\<close>, \<^verbatim>\<open>EngineLaws\<close>, \<^verbatim>\<open>EngineFrames\<close>: \<^verbatim>\<open>core/\<close>. The operations of the engine, and what they do to metadata,
    cache and bytes, in the locales \<open>engine_env\<close>, \<open>engine_rel\<close> and \<open>engine_files\<close> over the contracts above.
  \<^item> \<^verbatim>\<open>S3\<close>: \<^verbatim>\<open>backends/s3\<close> over the calls of the AWS SDK; the service as the locale \<open>s3_api\<close>, which gives \<open>file_backend\<close>, and a
    server in memory that fulfils it. Listings end and are complete.
  \<^item> \<^verbatim>\<open>Node\<close>: the engine on a Raft leader, the local disk, an S3 bucket and the local lock manager. All engine locales are
    interpreted here, and the properties of the engine are stated for a node after any run of calls, for files on the
    disk and in the bucket.
  \<^item> \<^verbatim>\<open>Http\<close>, \<^verbatim>\<open>Handlers\<close>, \<^verbatim>\<open>Server\<close>: \<^verbatim>\<open>server/handlers\<close>, \<^verbatim>\<open>server/middleware/auth.go\<close> and the file routes of
    \<^verbatim>\<open>server/router.go\<close>. Unauthorised requests, and upload followed by download, on the routes of a node.
  \<^item> \<^verbatim>\<open>WebSocket\<close>: \<^verbatim>\<open>server/handlers/websocket_transfer.go\<close>. What is uploaded is what is downloaded, and only complete
    uploads change anything.
  \<^item> \<^verbatim>\<open>InternalProxy\<close>: \<^verbatim>\<open>backends/internalproxy/adapter.go\<close>, with the paths of \<^verbatim>\<open>net/url\<close> on both sides of the connection. What
    another instance reads of a file and of its entry.
  \<^item> \<^verbatim>\<open>Links\<close>: \<^verbatim>\<open>links/\<close> and its two handlers. A link is redeemed at most once, also by concurrent downloads whose two
    store calls interleave in any way.
  \<^item> \<^verbatim>\<open>Erasure\<close>, \<^verbatim>\<open>ErasureNode\<close>: \<^verbatim>\<open>erasure/\<close> and the shard handlers. Recovery after the loss of shards, the protocol of
    remote shards, placement.
  \<^item> \<^verbatim>\<open>Config\<close>: \<^verbatim>\<open>config/\<close>. What validation accepts and fills in.
  \<^item> \<^verbatim>\<open>RateLimit\<close>: \<^verbatim>\<open>server/middleware/ratelimit.go\<close>. A bounded table and one bucket per client.
  \<^item> \<^verbatim>\<open>Cluster\<close>: the start of a Raft store, \<^verbatim>\<open>AddVoter\<close>, the leader's endpoint for joining nodes and the command
    \<^verbatim>\<open>callfs cluster join\<close> (\<^verbatim>\<open>metadata/raft/store.go\<close>, \<^verbatim>\<open>cmd/main.go\<close>). A join adds one voter and touches no other member.
  \<^item> \<^verbatim>\<open>Router\<close>: \<^verbatim>\<open>server/router.go\<close>, the remaining middlewares and the multiplexers of \<^verbatim>\<open>runServer\<close>: every endpoint of the process
    behind its middlewares. Requests without credentials see and change nothing.

  \<^item> \<^verbatim>\<open>Redis\<close>, \<^verbatim>\<open>RedisLocks\<close>, \<^verbatim>\<open>RedisStore\<close>: a Redis server as a table of keys with expiry whose round trips may fail,
    and its two clients \<^verbatim>\<open>locks/redis_manager.go\<close> and \<^verbatim>\<open>metadata/redis\<close>. Exclusion with owner-checked release in the
    locale \<open>lease_manager\<close>, refinement of a table of records, and why no link is ever redeemed there.

  \<^item> \<^verbatim>\<open>Sql\<close>, \<^verbatim>\<open>SqliteStore\<close>, \<^verbatim>\<open>PostgresStore\<close>, \<^verbatim>\<open>SqlStores\<close>: SQL tables whose statements may fail, with their effect or without
    it, the meaning of the statements and of \<^verbatim>\<open>LIKE\<close>, and the stores \<^verbatim>\<open>metadata/sqlite\<close> and \<^verbatim>\<open>metadata/postgres\<close> with the
    migrations of \<^verbatim>\<open>metadata/schema\<close>. Refinement of tables of records, what listings contain, single use of links
    (the contract \<open>link_cas\<close>, interpreted for both) and transactions that take effect as a whole.

  \<^bold>\<open>How the model is built\<close>

  A struct is a record, an interface a record of operations on a world, an error a value of \<open>goerr\<close>, and
  a call returns its result with the new world. Time is an argument of the operation that reads it. The
  order in which Go visits a map, and the order in which the goroutines of one operation take effect,
  are arguments, so the theorems hold for every order. Mutexes make a method one step. Loops are
  structural recursions; \<^verbatim>\<open>ensureParentDirectories\<close>, which calls itself through \<^verbatim>\<open>CreateDirectory\<close>, terminates
  because the path gets shorter, and the recursive listing is bounded by the depth the code bounds it by, so
  no fuel is needed anywhere; only the loop over the pages of an S3 listing depends on the service and is a partial
  function, shown to end for a service that behaves as documented. Integers are unbounded where the program only counts; the mode bits are 64-bit words
  and the sums of Go's \<^verbatim>\<open>int\<close> that can wrap are written with \<open>int64\<close>.

  Libraries are parameters: Reed-Solomon coding (\<open>rs_lib\<close>, with its documented laws \<open>rs_laws\<close>), SHA-256 and
  HMAC, \<^verbatim>\<open>filepath.EvalSymlinks\<close>, the HTTP client, the Raft library's commit, the token bucket, \<^verbatim>\<open>koanf\<close>.

  \<^bold>\<open>Not modelled\<close>

  The transport settings of the HTTP and S3 clients are values for their libraries. The code of \<^verbatim>\<open>cmd/main.go\<close> that
  constructs the components, listens and shuts down is not modelled: each part is modelled as constructed (\<^verbatim>\<open>Router\<close> has
  them together), and what a part gets is an argument. Panic recovery, metrics, log lines with their sanitising and the generated API
  document have no effect on the behaviour described here.
\<close>

end
